(* ===== verification/Prelude.thy ===== *)
theory Prelude
  imports Main "HOL-Library.Word"
begin

text \<open>
  Shared vocabulary of the development.

  Machine integers are words of their Rust width. The threads this library models are built in
  release mode (\<^verbatim>\<open>--release\<close> in \<^verbatim>\<open>src/Makefile\<close>), so \<open>+\<close>, \<open>-\<close> and \<open>*\<close>
  on them wrap around, as \<open>+\<close>, \<open>-\<close> and \<open>*\<close> on words do.

  A Rust function with effects is a state transformer \<open>('s, 'a) M\<close>: it returns a value, panics,
  spins forever on a lock that the same thread holds, or has used up the fuel of a loop that need
  not end. The state is kept in every case, so that a theorem can speak of what was already done
  when a call panicked. \<open>wp\<close> is the weakest precondition of such a transformer, an equational
  calculus whose rules are collected in \<open>wp_simps\<close>.
\<close>

unbundle bit_operations_syntax

named_theorems wp_simps \<open>equations that evaluate weakest preconditions\<close>
named_theorems pwp_intros \<open>rules that break up partial correctness goals\<close>
named_theorems run_simps \<open>equations that run a transformer on a state\<close>

type_synonym u8 = "8 word"
type_synonym u16 = "16 word"
type_synonym u32 = "32 word"
type_synonym u64 = "64 word"
type_synonym i32 = "32 word"
type_synonym usize = "64 word"

text \<open>Rust's \<open>Result\<close>: \<open>Inl\<close> is \<open>Err\<close>, \<open>Inr\<close> is \<open>Ok\<close>.\<close>

abbreviation Err :: "'e \<Rightarrow> 'e + 'a" where "Err \<equiv> Inl"
abbreviation Okay :: "'a \<Rightarrow> 'e + 'a" where "Okay \<equiv> Inr"

section \<open>Outcomes and transformers\<close>

datatype panic =
    Unwrap_none
  | Unwrap_err
  | Index_out_of_bounds
  | Assert_failed
  | Message string

datatype 'a res = Ret 'a | Panic panic | Deadlock | Out_of_fuel

type_synonym ('s, 'a) M = "'s \<Rightarrow> 'a res \<times> 's"

definition ret :: "'a \<Rightarrow> ('s, 'a) M" where
  "ret x = (\<lambda>s. (Ret x, s))"

definition stop :: "panic \<Rightarrow> ('s, 'a) M" where
  "stop p = (\<lambda>s. (Panic p, s))"

definition deadlock :: "('s, 'a) M" where
  "deadlock = (\<lambda>s. (Deadlock, s))"

definition no_fuel :: "('s, 'a) M" where
  "no_fuel = (\<lambda>s. (Out_of_fuel, s))"

definition bnd :: "('s, 'a) M \<Rightarrow> ('a \<Rightarrow> ('s, 'b) M) \<Rightarrow> ('s, 'b) M" where
  "bnd m f = (\<lambda>s. case m s of
       (Ret x, t) \<Rightarrow> f x t
     | (Panic p, t) \<Rightarrow> (Panic p, t)
     | (Deadlock, t) \<Rightarrow> (Deadlock, t)
     | (Out_of_fuel, t) \<Rightarrow> (Out_of_fuel, t))"

abbreviation seq :: "('s, unit) M \<Rightarrow> ('s, 'b) M \<Rightarrow> ('s, 'b) M" where
  "seq m n \<equiv> bnd m (\<lambda>_. n)"

definition gets :: "('s \<Rightarrow> 'a) \<Rightarrow> ('s, 'a) M" where
  "gets f = (\<lambda>s. (Ret (f s), s))"

definition modify :: "('s \<Rightarrow> 's) \<Rightarrow> ('s, unit) M" where
  "modify f = (\<lambda>s. (Ret (), f s))"

text \<open>\<open>Option::unwrap\<close>, \<open>Result::unwrap\<close>, \<open>assert!\<close> and the \<open>?\<close> operator.\<close>

definition unwrap_opt :: "'a option \<Rightarrow> ('s, 'a) M" where
  "unwrap_opt x = (case x of None \<Rightarrow> stop Unwrap_none | Some v \<Rightarrow> ret v)"

definition unwrap_res :: "'e + 'a \<Rightarrow> ('s, 'a) M" where
  "unwrap_res x = (case x of Inl e \<Rightarrow> stop Unwrap_err | Inr v \<Rightarrow> ret v)"

definition expect_res :: "string \<Rightarrow> 'e + 'a \<Rightarrow> ('s, 'a) M" where
  "expect_res msg x = (case x of Inl e \<Rightarrow> stop (Message msg) | Inr v \<Rightarrow> ret v)"

definition expect_opt :: "string \<Rightarrow> 'a option \<Rightarrow> ('s, 'a) M" where
  "expect_opt msg x = (case x of None \<Rightarrow> stop (Message msg) | Some v \<Rightarrow> ret v)"

definition assert_that :: "bool \<Rightarrow> ('s, unit) M" where
  "assert_that b = (if b then ret () else stop Assert_failed)"

definition try_bnd :: "('s, 'e + 'a) M \<Rightarrow> ('a \<Rightarrow> ('s, 'e + 'b) M) \<Rightarrow> ('s, 'e + 'b) M" where
  "try_bnd m f = bnd m (\<lambda>r. case r of Inl e \<Rightarrow> ret (Inl e) | Inr x \<Rightarrow> f x)"

text \<open>\<open>for x in xs\<close> and the collection of results by \<open>map(..).collect()\<close>.\<close>

primrec for_each :: "('x \<Rightarrow> ('s, unit) M) \<Rightarrow> 'x list \<Rightarrow> ('s, unit) M" where
  "for_each f [] = ret ()"
| "for_each f (x # xs) = bnd (f x) (\<lambda>_. for_each f xs)"

primrec map_each :: "('x \<Rightarrow> ('s, 'y) M) \<Rightarrow> 'x list \<Rightarrow> ('s, 'y list) M" where
  "map_each f [] = ret []"
| "map_each f (x # xs) = bnd (f x) (\<lambda>y. bnd (map_each f xs) (\<lambda>ys. ret (y # ys)))"

section \<open>Running\<close>

lemma run_ret [run_simps]: "ret x s = (Ret x, s)"
  and run_stop [run_simps]: "stop p s = (Panic p, s)"
  and run_deadlock [run_simps]: "deadlock s = (Deadlock, s)"
  and run_no_fuel [run_simps]: "no_fuel s = (Out_of_fuel, s)"
  and run_gets [run_simps]: "gets f s = (Ret (f s), s)"
  and run_modify [run_simps]: "modify g s = (Ret (), g s)"
  by (simp_all add: ret_def stop_def deadlock_def no_fuel_def gets_def modify_def)

lemma run_bnd [run_simps]:
  "bnd m f s = (case m s of
       (Ret x, t) \<Rightarrow> f x t
     | (Panic p, t) \<Rightarrow> (Panic p, t)
     | (Deadlock, t) \<Rightarrow> (Deadlock, t)
     | (Out_of_fuel, t) \<Rightarrow> (Out_of_fuel, t))"
  by (simp add: bnd_def)

lemma bnd_Ret_iff:
  "bnd m f s = (Ret y, u) \<longleftrightarrow> (\<exists>x t. m s = (Ret x, t) \<and> f x t = (Ret y, u))"
  by (auto simp: bnd_def split: prod.splits res.splits)

lemma bnd_assoc: "bnd (bnd m f) g = bnd m (\<lambda>x. bnd (f x) g)"
  by (auto simp: bnd_def fun_eq_iff split: prod.split res.split)

lemma bnd_ret: "bnd (ret x) f = f x"
  by (simp add: bnd_def ret_def)

lemma bnd_eqI:
  "m s = m' s \<Longrightarrow> (\<And>x t. m' s = (Ret x, t) \<Longrightarrow> f x t = f' x t) \<Longrightarrow> bnd m f s = bnd m' f' s"
  by (auto simp: bnd_def split: prod.split res.split)

lemmas run_ops [run_simps] =
  unwrap_opt_def unwrap_res_def expect_res_def expect_opt_def assert_that_def try_bnd_def

section \<open>Weakest preconditions\<close>

text \<open>
  \<open>wp m Q E s\<close>: from \<open>s\<close>, a normal return of \<open>m\<close> ends in \<open>Q\<close> and every other
  outcome leaves a state in \<open>E\<close>.
\<close>

definition wp :: "('s, 'a) M \<Rightarrow> ('a \<Rightarrow> 's \<Rightarrow> bool) \<Rightarrow> ('s \<Rightarrow> bool) \<Rightarrow> 's \<Rightarrow> bool" where
  "wp m Q E s = (case m s of (r, t) \<Rightarrow> (case r of Ret x \<Rightarrow> Q x t | _ \<Rightarrow> E t))"

lemma wp_ret [wp_simps]: "wp (ret x) Q E = Q x"
  and wp_stop [wp_simps]: "wp (stop p) Q E = E"
  and wp_deadlock [wp_simps]: "wp deadlock Q E = E"
  and wp_no_fuel [wp_simps]: "wp no_fuel Q E = E"
  and wp_gets [wp_simps]: "wp (gets f) R E = (\<lambda>s. R (f s) s)"
  and wp_modify [wp_simps]: "wp (modify g) U E = (\<lambda>s. U () (g s))"
  by (simp_all add: wp_def run_simps fun_eq_iff)

lemma wp_bnd [wp_simps]: "wp (bnd m f) Q E = wp m (\<lambda>x. wp (f x) Q E) E"
  by (auto simp: wp_def bnd_def fun_eq_iff split: prod.splits res.splits)

lemma wp_if [wp_simps]:
  "wp (if b then m else n) Q E = (\<lambda>s. if b then wp m Q E s else wp n Q E s)"
  by (simp add: fun_eq_iff)

lemma wp_case_option [wp_simps]:
  "wp (case x of None \<Rightarrow> m | Some v \<Rightarrow> f v) Q E =
     (\<lambda>s. case x of None \<Rightarrow> wp m Q E s | Some v \<Rightarrow> wp (f v) Q E s)"
  by (simp add: fun_eq_iff split: option.split)

lemma wp_case_sum [wp_simps]:
  "wp (case x of Inl e \<Rightarrow> f e | Inr v \<Rightarrow> g v) Q E =
     (\<lambda>s. case x of Inl e \<Rightarrow> wp (f e) Q E s | Inr v \<Rightarrow> wp (g v) Q E s)"
  by (simp add: fun_eq_iff split: sum.split)

lemma wp_case_prod [wp_simps]:
  "wp (case p of (x, y) \<Rightarrow> f x y) Q E = (\<lambda>s. case p of (x, y) \<Rightarrow> wp (f x y) Q E s)"
  by (simp add: fun_eq_iff split: prod.split)

lemma wp_assert [wp_simps]:
  "wp (assert_that b) Q E = (\<lambda>s. if b then Q () s else E s)"
  by (simp add: assert_that_def wp_simps)

lemma wp_unwrap_opt [wp_simps]:
  "wp (unwrap_opt x) Q E = (\<lambda>s. case x of None \<Rightarrow> E s | Some v \<Rightarrow> Q v s)"
  by (simp add: unwrap_opt_def wp_simps cong: option.case_cong)

lemma wp_unwrap_res [wp_simps]:
  "wp (unwrap_res x) Q E = (\<lambda>s. case x of Inl e \<Rightarrow> E s | Inr v \<Rightarrow> Q v s)"
  by (simp add: unwrap_res_def wp_simps cong: sum.case_cong)

lemma wp_expect_res [wp_simps]:
  "wp (expect_res msg x) Q E = (\<lambda>s. case x of Inl e \<Rightarrow> E s | Inr v \<Rightarrow> Q v s)"
  by (simp add: expect_res_def wp_simps cong: sum.case_cong)

lemma wp_expect_opt [wp_simps]:
  "wp (expect_opt msg x) Q E = (\<lambda>s. case x of None \<Rightarrow> E s | Some v \<Rightarrow> Q v s)"
  by (simp add: expect_opt_def wp_simps cong: option.case_cong)

lemma wp_try_bnd [wp_simps]:
  "wp (try_bnd m f) Q E =
     wp m (\<lambda>r t. case r of Inl e \<Rightarrow> Q (Inl e) t | Inr x \<Rightarrow> wp (f x) Q E t) E"
  by (simp add: try_bnd_def wp_simps cong: sum.case_cong)

lemma wp_weaken:
  assumes "wp m Q E s" and "\<And>x t. Q x t \<Longrightarrow> Q' x t" and "\<And>t. E t \<Longrightarrow> E' t"
  shows "wp m Q' E' s"
  using assms by (auto simp: wp_def split: prod.splits res.splits)

lemma wp_conj:
  "wp m Q E s \<Longrightarrow> wp m Q' E' s \<Longrightarrow> wp m (\<lambda>x t. Q x t \<and> Q' x t) (\<lambda>t. E t \<and> E' t) s"
  by (auto simp: wp_def split: prod.splits res.splits)

lemma wp_Ret: "wp m Q E s \<Longrightarrow> m s = (Ret x, t) \<Longrightarrow> Q x t"
  by (simp add: wp_def)

lemma wp_returns: "wp m Q (\<lambda>_. False) s \<longleftrightarrow> (\<exists>x t. m s = (Ret x, t) \<and> Q x t)"
  by (auto simp: wp_def split: prod.splits res.splits)

lemma wp_final: "wp m (\<lambda>_. I) I s \<Longrightarrow> I (snd (m s))"
  by (auto simp: wp_def split: prod.splits res.splits)

lemma wpI: "(\<And>x t. m s = (Ret x, t) \<Longrightarrow> Q x t) \<Longrightarrow>
   (\<And>r t. m s = (r, t) \<Longrightarrow> (\<forall>x. r \<noteq> Ret x) \<Longrightarrow> E t) \<Longrightarrow> wp m Q E s"
  by (auto simp: wp_def split: prod.splits res.splits)

text \<open>Loops: an invariant that every round keeps holds at the end.\<close>

lemma wp_for_each:
  assumes "\<And>x s. x \<in> set xs \<Longrightarrow> I s \<Longrightarrow> wp (f x) (\<lambda>_. I) E s" and "I s"
  shows "wp (for_each f xs) (\<lambda>_. I) E s"
  using assms
proof (induction xs arbitrary: s)
  case Nil
  then show ?case by (simp add: wp_simps)
next
  case (Cons x xs)
  have "wp (f x) (\<lambda>_. I) E s" using Cons.prems by simp
  moreover have "wp (for_each f xs) (\<lambda>_. I) E t" if "I t" for t
    using Cons.IH Cons.prems(1) that by simp
  ultimately show ?case
    by (auto simp: wp_simps elim: wp_weaken)
qed

lemma wp_map_each:
  assumes "\<And>x s. x \<in> set xs \<Longrightarrow> I s \<Longrightarrow> wp (f x) (\<lambda>_. I) E s" and "I s"
  shows "wp (map_each f xs) (\<lambda>_. I) E s"
  using assms
proof (induction xs arbitrary: s)
  case Nil
  then show ?case by (simp add: wp_simps)
next
  case (Cons x xs)
  have "wp (f x) (\<lambda>_. I) E s" using Cons.prems by simp
  moreover have "wp (map_each f xs) (\<lambda>_. I) E t" if "I t" for t
    using Cons.IH Cons.prems(1) that by simp
  ultimately show ?case
    by (auto simp: wp_simps elim: wp_weaken)
qed

section \<open>Partial correctness\<close>

text \<open>
  \<open>pwp m Q s\<close>: if \<open>m\<close> returns, then in \<open>Q\<close>. A thread that panics is gone, so the
  invariants of a thread only speak of what it returns to.
\<close>

abbreviation pwp :: "('s, 'a) M \<Rightarrow> ('a \<Rightarrow> 's \<Rightarrow> bool) \<Rightarrow> 's \<Rightarrow> bool" where
  "pwp m Q s \<equiv> wp m Q (\<lambda>_. True) s"

lemma pwp_bnd [pwp_intros]: "pwp m (\<lambda>x. pwp (f x) Q) s \<Longrightarrow> pwp (bnd m f) Q s"
  by (simp add: wp_simps)

lemma pwp_try_bnd [pwp_intros]:
  "pwp m (\<lambda>r t. case r of Inl e \<Rightarrow> Q (Inl e) t | Inr x \<Rightarrow> pwp (f x) Q t) s \<Longrightarrow> pwp (try_bnd m f) Q s"
  by (simp add: wp_simps)

lemma pwp_ret [pwp_intros]: "Q x s \<Longrightarrow> pwp (ret x) Q s"
  and pwp_stop [pwp_intros]: "pwp (stop p) Q s"
  and pwp_deadlock [pwp_intros]: "pwp deadlock Q s"
  and pwp_no_fuel [pwp_intros]: "pwp no_fuel Q s"
  and pwp_gets [pwp_intros]: "R (f s) s \<Longrightarrow> pwp (gets f) R s"
  and pwp_modify [pwp_intros]: "U () (g s) \<Longrightarrow> pwp (modify g) U s"
  by (simp_all add: wp_simps)

lemma pwp_if [pwp_intros]: "(b \<Longrightarrow> pwp m Q s) \<Longrightarrow> (\<not> b \<Longrightarrow> pwp n Q s) \<Longrightarrow> pwp (if b then m else n) Q s"
  by simp

lemma pwp_case_option [pwp_intros]:
  "(x = None \<Longrightarrow> pwp m Q s) \<Longrightarrow> (\<And>v. x = Some v \<Longrightarrow> pwp (f v) Q s) \<Longrightarrow>
     pwp (case x of None \<Rightarrow> m | Some v \<Rightarrow> f v) Q s"
  by (cases x) simp_all

lemma pwp_case_sum [pwp_intros]:
  "(\<And>e. x = Inl e \<Longrightarrow> pwp (f e) Q s) \<Longrightarrow> (\<And>v. x = Inr v \<Longrightarrow> pwp (g v) Q s) \<Longrightarrow>
     pwp (case x of Inl e \<Rightarrow> f e | Inr v \<Rightarrow> g v) Q s"
  by (cases x) simp_all

lemma pwp_case_prod [pwp_intros]:
  "(\<And>x y. p = (x, y) \<Longrightarrow> pwp (f x y) Q s) \<Longrightarrow> pwp (case p of (x, y) \<Rightarrow> f x y) Q s"
  by (cases p) simp

lemma pwp_case_list [pwp_intros]:
  "(xs = [] \<Longrightarrow> pwp m Q s) \<Longrightarrow> (\<And>y ys. xs = y # ys \<Longrightarrow> pwp (f y ys) Q s) \<Longrightarrow>
     pwp (case xs of [] \<Rightarrow> m | y # ys \<Rightarrow> f y ys) Q s"
  by (cases xs) simp_all

lemma pwp_unwrap_opt [pwp_intros]: "(\<And>v. x = Some v \<Longrightarrow> Q v s) \<Longrightarrow> pwp (unwrap_opt x) Q s"
  and pwp_expect_opt [pwp_intros]: "(\<And>v. x = Some v \<Longrightarrow> Q v s) \<Longrightarrow> pwp (expect_opt msg x) Q s"
  by (simp_all add: wp_simps split: option.split)

lemma pwp_unwrap_res [pwp_intros]: "(\<And>v. x = Inr v \<Longrightarrow> Q v s) \<Longrightarrow> pwp (unwrap_res x) Q s"
  and pwp_expect_res [pwp_intros]: "(\<And>v. x = Inr v \<Longrightarrow> Q v s) \<Longrightarrow> pwp (expect_res msg x) Q s"
  by (simp_all add: wp_simps split: sum.split)

lemma pwp_assert [pwp_intros]: "(b \<Longrightarrow> Q () s) \<Longrightarrow> pwp (assert_that b) Q s"
  by (simp add: wp_simps)

lemma pwp_use: "pwp m Q s \<Longrightarrow> (\<And>x t. Q x t \<Longrightarrow> Q' x t) \<Longrightarrow> pwp m Q' s"
  by (rule wp_weaken)

lemma pwp_map_each_same:
  "(\<And>x. x \<in> set xs \<Longrightarrow> pwp (f x) (\<lambda>y t. y = x \<and> t = s) s) \<Longrightarrow>
     pwp (map_each f xs) (\<lambda>ys t. ys = xs \<and> t = s) s"
proof (induction xs)
  case Nil
  then show ?case by (simp add: wp_simps)
next
  case (Cons a xs)
  have a: "pwp (f a) (\<lambda>y t. y = a \<and> t = s) s" and xs: "pwp (map_each f xs) (\<lambda>ys t. ys = xs \<and> t = s) s"
    using Cons by simp_all
  show ?case
    unfolding map_each.simps
    by (rule pwp_bnd, rule pwp_use [OF a], rule pwp_bnd, simp, rule pwp_use [OF xs]) (simp add: wp_simps)
qed

lemma pwp_Ret: "pwp m Q s \<Longrightarrow> m s = (Ret x, t) \<Longrightarrow> Q x t"
  by (rule wp_Ret)

section \<open>Total correctness\<close>

text \<open>\<open>twp m Q s\<close>: \<open>m\<close> returns, and in \<open>Q\<close>.\<close>

abbreviation twp :: "('s, 'a) M \<Rightarrow> ('a \<Rightarrow> 's \<Rightarrow> bool) \<Rightarrow> 's \<Rightarrow> bool" where
  "twp m Q s \<equiv> wp m Q (\<lambda>_. False) s"

lemma twp_bnd: "twp m (\<lambda>x. twp (f x) Q) s \<Longrightarrow> twp (bnd m f) Q s"
  by (simp add: wp_simps)

lemma twp_use: "twp m Q s \<Longrightarrow> (\<And>x t. Q x t \<Longrightarrow> Q' x t) \<Longrightarrow> twp m Q' s"
  by (rule wp_weaken)

lemma twp_map_each:
  "(\<And>x t. x \<in> set xs \<Longrightarrow> I t \<Longrightarrow> twp (f x) (\<lambda>_. I) t) \<Longrightarrow> I s \<Longrightarrow>
     twp (map_each f xs) (\<lambda>ys t. length ys = length xs \<and> I t) s"
proof (induction xs arbitrary: s)
  case Nil
  then show ?case by (simp add: wp_simps)
next
  case (Cons a xs)
  have a: "twp (f a) (\<lambda>_. I) s" using Cons.prems by simp
  show ?case
    unfolding map_each.simps
    by (rule twp_bnd, rule twp_use [OF a], rule twp_bnd, rule twp_use [OF Cons.IH])
      (simp_all add: wp_simps Cons.prems)
qed

section \<open>Words\<close>

lemma take_bit_small: "unat w < 2 ^ n \<Longrightarrow> take_bit n w = w" for w :: "'a::len word"
  by (rule word_unat_eq_iff [THEN iffD2]) (simp add: unsigned_take_bit_eq take_bit_nat_eq_self)

lemma unat_of_nat_small: "n < 2 ^ 64 \<Longrightarrow> unat (of_nat n :: usize) = n"
  by (simp add: unsigned_of_nat take_bit_nat_eq_self)

lemma unat_add_small:
  fixes a b :: usize
  assumes "unat a + unat b < 2 ^ 64"
  shows "unat (a + b) = unat a + unat b"
proof -
  have "unat (of_nat (unat a + unat b) :: usize) = unat a + unat b"
    using assms by (rule unat_of_nat_small)
  then show ?thesis by simp
qed

lemma unat_bound: "unat a < 2 ^ 64" for a :: usize
  by (rule order.strict_trans2 [OF unsigned_less]) simp

lemma upt_0_2: "[0 ..< 2] = [0, Suc 0]"
  by (simp add: upt_rec)

end
