(* ===== verification/Ordered_Map.thy ===== *)
theory Ordered_Map
  imports Prelude
begin

text \<open>
  Rust's \<open>BTreeMap\<close>, as far as the threads use it: \<open>get\<close>, \<open>insert\<close>,
  \<open>remove\<close> and iteration in ascending key order. A map is the association list that
  iteration yields, with strictly ascending keys. The locale \<open>ordered_map\<close> is the contract
  that the tasks' page tables and the task table rely on; it is interpreted on these definitions.
\<close>

type_synonym ('k, 'v) btree = "('k \<times> 'v) list"

fun bt_insert :: "'k::linorder \<Rightarrow> 'v \<Rightarrow> ('k, 'v) btree \<Rightarrow> ('k, 'v) btree" where
  "bt_insert k v [] = [(k, v)]"
| "bt_insert k v (p # m) =
     (if fst p < k then p # bt_insert k v m
      else if fst p = k then (k, v) # m
      else (k, v) # p # m)"

definition bt_remove :: "'k \<Rightarrow> ('k, 'v) btree \<Rightarrow> ('k, 'v) btree" where
  "bt_remove k m = filter (\<lambda>p. fst p \<noteq> k) m"

definition bt_get :: "('k, 'v) btree \<Rightarrow> 'k \<Rightarrow> 'v option" where
  "bt_get m k = map_of m k"

definition bt_iter :: "('k, 'v) btree \<Rightarrow> ('k \<times> 'v) list" where
  "bt_iter m = m"

definition bt_ok :: "('k::linorder, 'v) btree \<Rightarrow> bool" where
  "bt_ok m \<longleftrightarrow> sorted_wrt (<) (map fst m)"

section \<open>The contract\<close>

locale ordered_map =
  fixes get :: "'m \<Rightarrow> 'k::linorder \<Rightarrow> 'v option"
    and ins :: "'k \<Rightarrow> 'v \<Rightarrow> 'm \<Rightarrow> 'm"
    and del :: "'k \<Rightarrow> 'm \<Rightarrow> 'm"
    and iter :: "'m \<Rightarrow> ('k \<times> 'v) list"
    and ok :: "'m \<Rightarrow> bool"
  assumes get_iter: "get m k = map_of (iter m) k"
    and iter_sorted: "ok m \<Longrightarrow> sorted_wrt (<) (map fst (iter m))"
    and get_ins: "ok m \<Longrightarrow> get (ins k v m) = (get m)(k \<mapsto> v)"
    and get_del: "ok m \<Longrightarrow> get (del k m) = (get m)(k := None)"
    and ok_ins: "ok m \<Longrightarrow> ok (ins k v m)"
    and ok_del: "ok m \<Longrightarrow> ok (del k m)"
begin

lemma keys_distinct: "ok m \<Longrightarrow> distinct (map fst (iter m))"
  using iter_sorted strict_sorted_iff by blast

lemma mem_iter_iff: "ok m \<Longrightarrow> (k, v) \<in> set (iter m) \<longleftrightarrow> get m k = Some v"
  using keys_distinct by (auto simp: get_iter)

lemma mem_ins_iff:
  "ok m \<Longrightarrow> (k', v') \<in> set (iter (ins k v m)) \<longleftrightarrow>
     (k' = k \<and> v' = v \<or> k' \<noteq> k \<and> (k', v') \<in> set (iter m))"
  by (auto simp: mem_iter_iff ok_ins get_ins)

lemma mem_del_iff:
  "ok m \<Longrightarrow> (k', v') \<in> set (iter (del k m)) \<longleftrightarrow> k' \<noteq> k \<and> (k', v') \<in> set (iter m)"
  by (auto simp: mem_iter_iff ok_del get_del)

lemma dom_get: "ok m \<Longrightarrow> dom (get m) = fst ` set (iter m)"
  by (simp add: get_iter [abs_def] dom_map_of_conv_image_fst)

end

section \<open>The model meets it\<close>

lemma bt_ok_Cons: "bt_ok (p # m) \<longleftrightarrow> (\<forall>q \<in> set m. fst p < fst q) \<and> bt_ok m"
  by (auto simp: bt_ok_def)

lemma bt_ok_Nil [simp]: "bt_ok []"
  by (simp add: bt_ok_def)

lemma set_bt_insert: "fst ` set (bt_insert k v m) = insert k (fst ` set m)"
  by (induction m) auto

lemma bt_insert_mem: "q \<in> set (bt_insert k v m) \<Longrightarrow> q = (k, v) \<or> q \<in> set m"
  by (induction m) (auto split: if_splits)

lemma bt_ok_insert: "bt_ok m \<Longrightarrow> bt_ok (bt_insert k v m)"
  by (induction m) (auto simp: bt_ok_Cons dest!: bt_insert_mem)

lemma bt_ok_remove: "bt_ok m \<Longrightarrow> bt_ok (bt_remove k m)"
  by (induction m) (auto simp: bt_ok_Cons bt_remove_def)

lemma map_of_None_if_less: "(\<forall>q \<in> set m. k < fst q) \<Longrightarrow> map_of m k = None"
  for k :: "'k::linorder"
  by (induction m) auto

lemma bt_get_insert: "bt_ok m \<Longrightarrow> bt_get (bt_insert k v m) = (bt_get m)(k \<mapsto> v)"
  by (induction m) (auto simp: bt_get_def bt_ok_Cons fun_eq_iff)

lemma bt_get_remove: "bt_get (bt_remove k m) = (bt_get m)(k := None)"
  by (induction m) (auto simp: bt_get_def bt_remove_def fun_eq_iff)

interpretation bt: ordered_map bt_get bt_insert bt_remove bt_iter bt_ok
proof unfold_locales
  show "bt_get m k = map_of (bt_iter m) k" for m :: "('a, 'b) btree" and k
    by (simp add: bt_get_def bt_iter_def)
  show "sorted_wrt (<) (map fst (bt_iter m))" if "bt_ok m" for m :: "('a, 'b) btree"
    using that by (simp add: bt_ok_def bt_iter_def)
qed (simp_all add: bt_get_insert bt_get_remove bt_ok_insert bt_ok_remove)

lemmas bt_facts = bt.get_ins bt.get_del bt.ok_ins bt.ok_del

lemma bt_get_Nil [simp]: "bt_get [] k = None"
  by (simp add: bt_get_def)

lemma bt_get_mem: "bt_get m k = Some v \<Longrightarrow> (k, v) \<in> set m"
  by (simp add: bt_get_def map_of_SomeD)

lemma bt_mem_get: "bt_ok m \<Longrightarrow> (k, v) \<in> set m \<longleftrightarrow> bt_get m k = Some v"
  using bt.mem_iter_iff [of m k v] by (simp add: bt_iter_def)

lemma bt_all_insert:
  "(\<forall>p \<in> set m. P p) \<Longrightarrow> P (k, v) \<Longrightarrow> \<forall>p \<in> set (bt_insert k v m). P p"
  by (auto dest!: bt_insert_mem)

lemma bt_all_remove: "(\<forall>p \<in> set m. P p) \<Longrightarrow> \<forall>p \<in> set (bt_remove k m). P p"
  by (auto simp: bt_remove_def)

section \<open>Injective maps\<close>

definition map_inj :: "('a \<rightharpoonup> 'b) \<Rightarrow> bool" where
  "map_inj f \<longleftrightarrow> (\<forall>x y c. f x = Some c \<longrightarrow> f y = Some c \<longrightarrow> x = y)"

lemma map_injD: "map_inj f \<Longrightarrow> f x = Some c \<Longrightarrow> f y = Some c \<Longrightarrow> x = y"
  unfolding map_inj_def by blast

lemma map_inj_empty [simp]: "map_inj (\<lambda>_. None)"
  by (simp add: map_inj_def)

lemma map_inj_upd: "map_inj f \<Longrightarrow> \<forall>x. f x = Some c \<longrightarrow> x = a \<Longrightarrow> map_inj (f(a \<mapsto> c))"
  unfolding map_inj_def by (metis fun_upd_apply option.inject)

lemma map_inj_del: "map_inj f \<Longrightarrow> map_inj (f(a := None))"
  unfolding map_inj_def by (metis fun_upd_apply option.distinct(1))

end
