(* ===== verification/Sel4_Api.thy ===== *)
theory Sel4_Api
  imports Ordered_Map
begin

text \<open>
  What the threads use of the \<^verbatim>\<open>sel4\<close> crate and of the machine. Neither is part of the
  repository, so their operations are the fields of records that every definition takes as its
  argument; nothing is assumed of them here. What a theorem relies on is a hypothesis of that
  theorem.

  Data that only passes through (capability pointers, object blueprints, slot addresses, rights,
  register files) is represented by its components: a capability \<open>Cap<T>\<close> by its \<open>CPtr\<close>
  bits, which for a capability of the initial thread's CSpace is its slot index; an
  \<open>AbsoluteCPtr\<close> by the expression that makes it.

  \<open>sys\<close> is the state every thread has: the kernel and the machine (\<open>kern\<close>, opaque) and
  the thread's IPC buffer. The state records of the threads extend it.

  The constants are those of \<^verbatim>\<open>src/crates/crate-consts/src/lib.rs\<close>.
\<close>

section \<open>Constants of crate-consts\<close>

definition DEFAULT_THREAD_NOTIFICATION :: u64 where "DEFAULT_THREAD_NOTIFICATION = 17"
definition DEFAULT_THREAD_FAULT_EP :: u64 where "DEFAULT_THREAD_FAULT_EP = 18"
definition DEFAULT_THREAD_IRQ_EP :: u64 where "DEFAULT_THREAD_IRQ_EP = 20"
definition DEFAULT_CUSTOM_SLOT :: u64 where "DEFAULT_CUSTOM_SLOT = 26"
definition DEFAULT_EMPTY_SLOT_INDEX :: usize where "DEFAULT_EMPTY_SLOT_INDEX = 32"
definition KERNEL_THREAD_SLOT_NUMS :: usize where "KERNEL_THREAD_SLOT_NUMS = push_bit 10 1"
definition DEFAULT_THREAD_RECV_SLOT :: u64 where
  "DEFAULT_THREAD_RECV_SLOT = KERNEL_THREAD_SLOT_NUMS - 1"
definition CNODE_RADIX_BITS :: usize where "CNODE_RADIX_BITS = 12"
definition PAGE_SIZE_BITS :: nat where "PAGE_SIZE_BITS = 12"
definition PAGE_SIZE :: usize where "PAGE_SIZE = push_bit PAGE_SIZE_BITS 1"
definition STACK_ALIGN_SIZE :: usize where "STACK_ALIGN_SIZE = 16"
definition SERIAL_DEVICE_IRQ :: usize where "SERIAL_DEVICE_IRQ = 33"
definition VIRTIO_NET_IRQ :: usize where "VIRTIO_NET_IRQ = 0x2f + 0x20"
definition DMA_ADDR_START :: usize where "DMA_ADDR_START = 0x100003000"

lemma PAGE_SIZE_eq [simp]: "PAGE_SIZE = 4096"
  by (simp add: PAGE_SIZE_def PAGE_SIZE_BITS_def push_bit_eq_mult)

lemma KERNEL_THREAD_SLOT_NUMS_eq: "KERNEL_THREAD_SLOT_NUMS = 1024"
  by (simp add: KERNEL_THREAD_SLOT_NUMS_def push_bit_eq_mult)

lemmas const_defs = DEFAULT_THREAD_NOTIFICATION_def DEFAULT_THREAD_FAULT_EP_def
  DEFAULT_THREAD_IRQ_EP_def DEFAULT_CUSTOM_SLOT_def DEFAULT_EMPTY_SLOT_INDEX_def
  KERNEL_THREAD_SLOT_NUMS_eq DEFAULT_THREAD_RECV_SLOT_def CNODE_RADIX_BITS_def
  STACK_ALIGN_SIZE_def SERIAL_DEVICE_IRQ_def VIRTIO_NET_IRQ_def DMA_ADDR_START_def

section \<open>Data that passes through\<close>

type_synonym cptr = u64
type_synonym message_info = u64
type_synonym badge = u64
type_synonym regs = "nat \<Rightarrow> u64"

datatype sel4_error = FailedLookup | Other_error nat

datatype abs_cptr =
    Relative cptr cptr
  | Relative_bits cptr u64 usize
  | Relative_self cptr

datatype blueprint =
    BP_CNode usize | BP_Endpoint | BP_Notification | BP_Tcb | BP_VSpace | BP_PT
  | BP_Granule | BP_LargePage | BP_Table nat

record cap_rights =
  cr_read :: bool
  cr_write :: bool
  cr_grant :: bool
  cr_grant_reply :: bool

definition rights_all :: cap_rights where
  "rights_all = \<lparr>cr_read = True, cr_write = True, cr_grant = True, cr_grant_reply = True\<rparr>"

record user_context =
  uc_pc :: u64
  uc_sp :: u64
  uc_gpr :: "nat \<Rightarrow> u64"
  uc_tpidr_el0 :: u64

definition user_context_default :: user_context where
  "user_context_default = \<lparr>uc_pc = 0, uc_sp = 0, uc_gpr = (\<lambda>_. 0), uc_tpidr_el0 = 0\<rparr>"

record ipc_buffer =
  msg_regs :: regs
  caps_or_badges :: regs
  recv_slot :: "abs_cptr option"

section \<open>The operations\<close>

type_synonym ('k, 'r) kop = "'k \<Rightarrow> (sel4_error + 'r) \<times> 'k"

record msg_api =
  mi_new :: "u64 \<Rightarrow> usize \<Rightarrow> usize \<Rightarrow> usize \<Rightarrow> message_info"
  mi_label :: "message_info \<Rightarrow> u64"
  mi_length :: "message_info \<Rightarrow> usize"

record 'k sel4 = msg_api +
  slot_NULL :: cptr
  slot_TCB :: cptr
  slot_CNODE :: cptr
  slot_VSPACE :: cptr
  slot_IRQ_CONTROL :: cptr
  slot_ASID_CONTROL :: cptr
  slot_ASID_POOL :: cptr
  NUM_LEVELS :: nat
  GRANULE_SIZE :: usize
  span_bits :: "nat \<Rightarrow> nat"
  table_from_level :: "nat \<Rightarrow> bool"
  untyped_retype :: "cptr \<Rightarrow> blueprint \<Rightarrow> abs_cptr \<Rightarrow> usize \<Rightarrow> usize \<Rightarrow> ('k, unit) kop"
  cnode_copy :: "abs_cptr \<Rightarrow> abs_cptr \<Rightarrow> cap_rights \<Rightarrow> ('k, unit) kop"
  cnode_mint :: "abs_cptr \<Rightarrow> abs_cptr \<Rightarrow> cap_rights \<Rightarrow> u64 \<Rightarrow> ('k, unit) kop"
  cnode_mutate :: "abs_cptr \<Rightarrow> abs_cptr \<Rightarrow> u64 \<Rightarrow> ('k, unit) kop"
  cnode_revoke :: "abs_cptr \<Rightarrow> ('k, unit) kop"
  cnode_delete :: "abs_cptr \<Rightarrow> ('k, unit) kop"
  asid_pool_assign :: "cptr \<Rightarrow> cptr \<Rightarrow> ('k, unit) kop"
  frame_map :: "cptr \<Rightarrow> cptr \<Rightarrow> usize \<Rightarrow> cap_rights \<Rightarrow> ('k, unit) kop"
  frame_unmap :: "cptr \<Rightarrow> ('k, unit) kop"
  frame_get_address :: "cptr \<Rightarrow> ('k, usize) kop"
  pt_map :: "cptr \<Rightarrow> cptr \<Rightarrow> usize \<Rightarrow> ('k, unit) kop"
  table_map :: "cptr \<Rightarrow> nat \<Rightarrow> cptr \<Rightarrow> usize \<Rightarrow> ('k, unit) kop"
  cnode_cap_data :: "u64 \<Rightarrow> usize \<Rightarrow> u64"
  tcb_configure :: "cptr \<Rightarrow> cptr \<Rightarrow> cptr \<Rightarrow> u64 \<Rightarrow> cptr \<Rightarrow> usize \<Rightarrow> cptr \<Rightarrow> ('k, unit) kop"
  tcb_set_sched_params :: "cptr \<Rightarrow> cptr \<Rightarrow> u64 \<Rightarrow> u64 \<Rightarrow> ('k, unit) kop"
  tcb_write_all_registers :: "cptr \<Rightarrow> bool \<Rightarrow> user_context \<Rightarrow> ('k, unit) kop"
  tcb_read_all_registers :: "cptr \<Rightarrow> bool \<Rightarrow> ('k, user_context) kop"
  tcb_resume :: "cptr \<Rightarrow> ('k, unit) kop"
  tcb_suspend :: "cptr \<Rightarrow> ('k, unit) kop"
  ep_call :: "cptr \<Rightarrow> message_info \<Rightarrow> ipc_buffer \<Rightarrow> 'k \<Rightarrow> (message_info \<times> ipc_buffer) \<times> 'k"
  ipc_reply :: "ipc_buffer \<Rightarrow> message_info \<Rightarrow> 'k \<Rightarrow> 'k"
  sel4_yield :: "'k \<Rightarrow> 'k"
  debug_put_char :: "u8 \<Rightarrow> 'k \<Rightarrow> 'k"
  ptr_read :: "usize \<Rightarrow> nat \<Rightarrow> 'k \<Rightarrow> u8 list"
  ptr_write :: "usize \<Rightarrow> u8 list \<Rightarrow> 'k \<Rightarrow> 'k"
  WORD_SIZE :: usize
  cap_data_skip :: "usize \<Rightarrow> u64"
  cap_data_skip_high_bits :: "usize \<Rightarrow> u64"
  tcb_set_space :: "cptr \<Rightarrow> cptr \<Rightarrow> cptr \<Rightarrow> u64 \<Rightarrow> cptr \<Rightarrow> ('k, unit) kop"
  ep_recv :: "cptr \<Rightarrow> ipc_buffer \<Rightarrow> 'k \<Rightarrow> ((message_info \<times> badge) \<times> ipc_buffer) \<times> 'k"
  irq_control_get :: "cptr \<Rightarrow> u64 \<Rightarrow> abs_cptr \<Rightarrow> ('k, unit) kop"
  irq_handler_set_notification :: "cptr \<Rightarrow> cptr \<Rightarrow> ('k, unit) kop"
  irq_handler_ack :: "cptr \<Rightarrow> ('k, unit) kop"
  ntfn_wait :: "cptr \<Rightarrow> 'k \<Rightarrow> 'k"

section \<open>Calling them\<close>

record 'k sys =
  kern :: 'k
  ipcbuf :: ipc_buffer

definition kcall :: "('k \<Rightarrow> 'r \<times> 'k) \<Rightarrow> (('k, 'z) sys_scheme, 'r) M" where
  "kcall f = (\<lambda>s. case f (kern s) of (r, k) \<Rightarrow> (Ret r, s\<lparr>kern := k\<rparr>))"

definition kdo :: "('k \<Rightarrow> 'k) \<Rightarrow> (('k, 'z) sys_scheme, unit) M" where
  "kdo f = modify (\<lambda>s. s\<lparr>kern := f (kern s)\<rparr>)"

text \<open>\<open>op(..).unwrap()\<close>\<close>

definition kcall_unwrap :: "('k, 'r) kop \<Rightarrow> (('k, 'z) sys_scheme, 'r) M" where
  "kcall_unwrap f = bnd (kcall f) unwrap_res"

lemma run_kcall [run_simps]:
  "kcall f s = (Ret (fst (f (kern s))), s\<lparr>kern := snd (f (kern s))\<rparr>)"
  by (simp add: kcall_def split: prod.split)

lemmas run_kops [run_simps] = kdo_def kcall_unwrap_def

lemma wp_kcall [wp_simps]:
  "wp (kcall f) Q E = (\<lambda>s. Q (fst (f (kern s))) (s\<lparr>kern := snd (f (kern s))\<rparr>))"
  by (simp add: fun_eq_iff wp_def run_kcall)

lemma wp_kdo [wp_simps]: "wp (kdo f) Q E = (\<lambda>s. Q () (s\<lparr>kern := f (kern s)\<rparr>))"
  by (simp add: kdo_def wp_simps)

lemma wp_kcall_unwrap [wp_simps]:
  "wp (kcall_unwrap f) Q E =
     (\<lambda>s. case fst (f (kern s)) of
        Inl e \<Rightarrow> E (s\<lparr>kern := snd (f (kern s))\<rparr>)
      | Inr r \<Rightarrow> Q r (s\<lparr>kern := snd (f (kern s))\<rparr>))"
  by (simp add: kcall_unwrap_def wp_simps)

lemma pwp_kcall [pwp_intros]:
  "(\<And>r k. f (kern s) = (r, k) \<Longrightarrow> Q r (s\<lparr>kern := k\<rparr>)) \<Longrightarrow> pwp (kcall f) Q s"
  by (simp add: wp_simps)

lemma pwp_kcall_unwrap [pwp_intros]:
  "(\<And>r k. f (kern s) = (Inr r, k) \<Longrightarrow> Q r (s\<lparr>kern := k\<rparr>)) \<Longrightarrow> pwp (kcall_unwrap f) Q s"
  by (simp add: wp_simps prod_eq_iff split: sum.split)

lemma pwp_kdo [pwp_intros]: "(\<And>k. Q () (s\<lparr>kern := k\<rparr>)) \<Longrightarrow> pwp (kdo f) Q s"
  by (simp add: wp_simps)

section \<open>IPC\<close>

text \<open>\<open>Endpoint::call\<close>, \<open>Endpoint::recv\<close> and \<open>reply\<close>, on the thread's own IPC buffer.\<close>

definition call_ep ::
  "('k, 'e) sel4_scheme \<Rightarrow> cptr \<Rightarrow> message_info \<Rightarrow> (('k, 'z) sys_scheme, message_info) M" where
  "call_ep S ep info = (\<lambda>s. case ep_call S ep info (ipcbuf s) (kern s) of
     ((m, b), k) \<Rightarrow> (Ret m, s\<lparr>kern := k, ipcbuf := b\<rparr>))"

definition recv_ep ::
  "('k, 'e) sel4_scheme \<Rightarrow> cptr \<Rightarrow> (('k, 'z) sys_scheme, message_info \<times> badge) M" where
  "recv_ep S ep = (\<lambda>s. case ep_recv S ep (ipcbuf s) (kern s) of
     ((r, b), k) \<Rightarrow> (Ret r, s\<lparr>kern := k, ipcbuf := b\<rparr>))"

definition reply_ipc :: "('k, 'e) sel4_scheme \<Rightarrow> message_info \<Rightarrow> (('k, 'z) sys_scheme, unit) M" where
  "reply_ipc S info = modify (\<lambda>s. s\<lparr>kern := ipc_reply S (ipcbuf s) info (kern s)\<rparr>)"

definition get_regs :: "(('k, 'z) sys_scheme, regs) M" where
  "get_regs = gets (\<lambda>s. msg_regs (ipcbuf s))"

definition upd_regs :: "(regs \<Rightarrow> regs) \<Rightarrow> (('k, 'z) sys_scheme, unit) M" where
  "upd_regs f = modify (\<lambda>s. s\<lparr>ipcbuf := (ipcbuf s)\<lparr>msg_regs := f (msg_regs (ipcbuf s))\<rparr>\<rparr>)"

definition set_cap_reg :: "nat \<Rightarrow> cptr \<Rightarrow> (('k, 'z) sys_scheme, unit) M" where
  "set_cap_reg i c = modify (\<lambda>s. s\<lparr>ipcbuf := (ipcbuf s)\<lparr>caps_or_badges := (caps_or_badges (ipcbuf s))(i := c)\<rparr>\<rparr>)"

definition set_recv_slot :: "abs_cptr \<Rightarrow> (('k, 'z) sys_scheme, unit) M" where
  "set_recv_slot c = modify (\<lambda>s. s\<lparr>ipcbuf := (ipcbuf s)\<lparr>recv_slot := Some c\<rparr>\<rparr>)"

lemma run_call_ep [run_simps]:
  "call_ep S ep info s = (let r = ep_call S ep info (ipcbuf s) (kern s)
     in (Ret (fst (fst r)), s\<lparr>kern := snd r, ipcbuf := snd (fst r)\<rparr>))"
  by (simp add: call_ep_def Let_def split: prod.split)

lemma run_recv_ep [run_simps]:
  "recv_ep S ep s = (let r = ep_recv S ep (ipcbuf s) (kern s)
     in (Ret (fst (fst r)), s\<lparr>kern := snd r, ipcbuf := snd (fst r)\<rparr>))"
  by (simp add: recv_ep_def Let_def split: prod.split)

lemmas run_ipc [run_simps] = reply_ipc_def get_regs_def upd_regs_def set_cap_reg_def set_recv_slot_def

lemma pwp_call_ep [pwp_intros]:
  "(\<And>m b k. Q m (s\<lparr>kern := k, ipcbuf := b\<rparr>)) \<Longrightarrow> pwp (call_ep S ep info) Q s"
  by (simp add: wp_def run_call_ep Let_def)

lemma pwp_recv_ep [pwp_intros]:
  "(\<And>m b k. Q m (s\<lparr>kern := k, ipcbuf := b\<rparr>)) \<Longrightarrow> pwp (recv_ep S ep) Q s"
  by (simp add: wp_def run_recv_ep Let_def)

lemma pwp_reply_ipc [pwp_intros]: "(\<And>k. Q () (s\<lparr>kern := k\<rparr>)) \<Longrightarrow> pwp (reply_ipc S info) Q s"
  by (simp add: reply_ipc_def wp_simps)

lemma pwp_get_regs [pwp_intros]: "(\<And>r. r = msg_regs (ipcbuf s) \<Longrightarrow> Q r s) \<Longrightarrow> pwp get_regs Q s"
  by (simp add: get_regs_def wp_simps)

lemma pwp_upd_regs [pwp_intros]: "(\<And>b. Q () (s\<lparr>ipcbuf := b\<rparr>)) \<Longrightarrow> pwp (upd_regs f) Q s"
  and pwp_set_cap_reg [pwp_intros]: "(\<And>b. Q () (s\<lparr>ipcbuf := b\<rparr>)) \<Longrightarrow> pwp (set_cap_reg i c) Q s"
  and pwp_set_recv_slot [pwp_intros]: "(\<And>b. Q () (s\<lparr>ipcbuf := b\<rparr>)) \<Longrightarrow> pwp (set_recv_slot d) Q s"
  by (simp_all add: upd_regs_def set_cap_reg_def set_recv_slot_def wp_simps)

section \<open>Framing\<close>

text \<open>Nothing but kernel calls happened.\<close>

definition kern_only :: "('k, 'z) sys_scheme \<Rightarrow> ('k, 'z) sys_scheme \<Rightarrow> bool" where
  "kern_only s t \<longleftrightarrow> (\<exists>k. t = s\<lparr>kern := k\<rparr>)"

lemma kern_only_refl [simp]: "kern_only s s"
  unfolding kern_only_def by (rule exI [of _ "kern s"]) simp

lemma kern_only_trans: "kern_only s t \<Longrightarrow> kern_only t u \<Longrightarrow> kern_only s u"
  by (auto simp: kern_only_def)

lemma kern_only_upd [simp]: "kern_only s (t\<lparr>kern := k\<rparr>) \<longleftrightarrow> kern_only s t"
proof
  assume "kern_only s (t\<lparr>kern := k\<rparr>)"
  then obtain l where "t\<lparr>kern := k\<rparr> = s\<lparr>kern := l\<rparr>" by (auto simp: kern_only_def)
  then have "t\<lparr>kern := k\<rparr>\<lparr>kern := kern t\<rparr> = s\<lparr>kern := kern t\<rparr>" by simp
  then show "kern_only s t" unfolding kern_only_def by auto
qed (auto simp: kern_only_def)

lemma kern_only_upd_left [simp]: "kern_only (s\<lparr>kern := k\<rparr>) t \<longleftrightarrow> kern_only s t"
  by (simp add: kern_only_def)

end
