(* ===== verification/Ref_Kernel.thy ===== *)
theory Ref_Kernel
  imports Sel4_Api
begin

text \<open>
  What the theorems assume of seL4, as predicates, and a small kernel that satisfies them.

  The predicates state documented behaviour of the \<^verbatim>\<open>sel4\<close> crate. \<open>ref_kernel\<close> is a
  concrete instance of the record of operations: message infos are packed as on AArch64, an
  address space needs its missing page tables before a frame can be mapped, a mapped window shows
  the bytes of the frame, and everything else succeeds. No theorem about the threads is about this
  instance: it shows that the hypotheses can hold together, and runs the threads on concrete inputs.
\<close>

section \<open>Message infos\<close>

text \<open>A label of at most 52 bits is kept by \<open>MessageInfo::new\<close>.\<close>

definition label_kept :: "('e) msg_api_scheme \<Rightarrow> bool" where
  "label_kept K \<longleftrightarrow> (\<forall>l c e n. l < 0x10000000000000 \<longrightarrow> mi_label K (mi_new K l c e n) = l)"

text \<open>A length of at most 7 bits is kept by \<open>MessageInfo::new\<close>.\<close>

definition length_kept :: "('e) msg_api_scheme \<Rightarrow> bool" where
  "length_kept K \<longleftrightarrow> (\<forall>l c e n. n < 0x80 \<longrightarrow> mi_length K (mi_new K l c e n) = n)"

definition ref_mi_new :: "u64 \<Rightarrow> usize \<Rightarrow> usize \<Rightarrow> usize \<Rightarrow> message_info" where
  "ref_mi_new l c e n =
     push_bit 12 l OR push_bit 9 (take_bit 3 c) OR push_bit 7 (take_bit 2 e) OR take_bit 7 n"

definition ref_mi_label :: "message_info \<Rightarrow> u64" where
  "ref_mi_label m = drop_bit 12 m"

definition ref_mi_length :: "message_info \<Rightarrow> usize" where
  "ref_mi_length m = take_bit 7 m"

lemma ref_label_kept: "l < 0x10000000000000 \<Longrightarrow> ref_mi_label (ref_mi_new l c e n) = l"
proof -
  assume "l < 0x10000000000000"
  then have "take_bit 52 l = l"
    by (intro take_bit_small) (simp add: word_less_nat_alt)
  then have high: "bit l i \<Longrightarrow> i < 52" for i
    by (metis bit_take_bit_iff)
  show ?thesis
    unfolding ref_mi_label_def ref_mi_new_def
    by (rule bit_word_eqI) (auto simp: bit_simps dest: high)
qed

lemma ref_length_kept: "n < 0x80 \<Longrightarrow> ref_mi_length (ref_mi_new l c e n) = n"
proof -
  assume "n < 0x80"
  then have "take_bit 7 n = n"
    by (intro take_bit_small) (simp add: word_less_nat_alt)
  then have high: "bit n i \<Longrightarrow> i < 7" for i
    by (metis bit_take_bit_iff)
  show ?thesis
    unfolding ref_mi_length_def ref_mi_new_def
    by (rule bit_word_eqI) (auto simp: bit_simps dest: high)
qed

definition ref_msg_api :: msg_api where
  "ref_msg_api = \<lparr>mi_new = ref_mi_new, mi_label = ref_mi_label, mi_length = ref_mi_length\<rparr>"

lemma ref_msg_api_laws: "label_kept ref_msg_api" "length_kept ref_msg_api"
  by (simp_all add: label_kept_def length_kept_def ref_msg_api_def ref_label_kept ref_length_kept)

section \<open>The kernel\<close>

text \<open>
  Slots hold objects, an object has a page of bytes, and a page of the running thread's own
  address space is a window on the object that was mapped there last.
\<close>

record ref_state =
  obj_of :: "cptr \<Rightarrow> nat"
  next_obj :: nat
  obj_bytes :: "nat \<Rightarrow> nat \<Rightarrow> u8"
  window :: "usize \<Rightarrow> nat"
  missing_tables :: nat
  console :: "u8 list"
  inbox :: "((message_info \<times> badge) \<times> regs) list"
  replies :: "u64 list"

fun slot_of_abs :: "abs_cptr \<Rightarrow> cptr" where
  "slot_of_abs (Relative c x) = x"
| "slot_of_abs (Relative_bits c x d) = x"
| "slot_of_abs (Relative_self c) = 0"

definition ref_retype :: "cptr \<Rightarrow> blueprint \<Rightarrow> abs_cptr \<Rightarrow> usize \<Rightarrow> usize \<Rightarrow> (ref_state, unit) kop" where
  "ref_retype u bp d i n k =
     (Inr (), k\<lparr>obj_of := (obj_of k)(slot_of_abs d * 4096 + i := next_obj k), next_obj := Suc (next_obj k)\<rparr>)"

definition ref_copy :: "abs_cptr \<Rightarrow> abs_cptr \<Rightarrow> cap_rights \<Rightarrow> (ref_state, unit) kop" where
  "ref_copy d x r k = (Inr (), k\<lparr>obj_of := (obj_of k)(slot_of_abs d := obj_of k (slot_of_abs x))\<rparr>)"

definition ref_frame_map :: "cptr \<Rightarrow> cptr \<Rightarrow> usize \<Rightarrow> cap_rights \<Rightarrow> (ref_state, unit) kop" where
  "ref_frame_map c vspace va r k =
     (if 0 < missing_tables k then (Inl FailedLookup, k)
      else (Inr (), if vspace = 3 then k\<lparr>window := (window k)(va := obj_of k c)\<rparr> else k))"

definition ref_pt_map :: "cptr \<Rightarrow> cptr \<Rightarrow> usize \<Rightarrow> (ref_state, unit) kop" where
  "ref_pt_map c vspace va k = (Inr (), k\<lparr>missing_tables := missing_tables k - 1\<rparr>)"

definition ref_read :: "usize \<Rightarrow> nat \<Rightarrow> ref_state \<Rightarrow> u8 list" where
  "ref_read a n k = map (\<lambda>i. obj_bytes k (window k (a - a mod 4096)) ((unat a + i) mod 4096)) [0 ..< n]"

definition ref_write :: "usize \<Rightarrow> u8 list \<Rightarrow> ref_state \<Rightarrow> ref_state" where
  "ref_write a bs k = k\<lparr>obj_bytes := (obj_bytes k)(window k (a - a mod 4096) := (\<lambda>i.
     if unat a mod 4096 \<le> i \<and> i < unat a mod 4096 + length bs then bs ! (i - unat a mod 4096)
     else obj_bytes k (window k (a - a mod 4096)) i))\<rparr>"

text \<open>A message waits for every \<open>recv\<close>, until there is none left.\<close>

definition ref_recv :: "cptr \<Rightarrow> ipc_buffer \<Rightarrow> ref_state \<Rightarrow> ((message_info \<times> badge) \<times> ipc_buffer) \<times> ref_state" where
  "ref_recv ep b k = (case inbox k of
       [] \<Rightarrow> (((0, 0), b), k)
     | (m, regs) # ms \<Rightarrow> ((m, b\<lparr>msg_regs := regs\<rparr>), k\<lparr>inbox := ms\<rparr>))"

definition ref_reply :: "ipc_buffer \<Rightarrow> message_info \<Rightarrow> ref_state \<Rightarrow> ref_state" where
  "ref_reply b m k = k\<lparr>replies := replies k @ [msg_regs b 0]\<rparr>"

definition ref_kernel :: "ref_state sel4" where
  "ref_kernel = \<lparr>mi_new = ref_mi_new, mi_label = ref_mi_label, mi_length = ref_mi_length,
     slot_NULL = 0, slot_TCB = 1, slot_CNODE = 2, slot_VSPACE = 3, slot_IRQ_CONTROL = 4,
     slot_ASID_CONTROL = 5, slot_ASID_POOL = 6, NUM_LEVELS = 4,
     GRANULE_SIZE = 4096, span_bits = (\<lambda>l. 12 + 9 * (4 - l)), table_from_level = (\<lambda>l. l < 4),
     untyped_retype = ref_retype,
     cnode_copy = ref_copy,
     cnode_mint = (\<lambda>d x r b k. ref_copy d x r k),
     cnode_mutate = (\<lambda>d x b k. ref_copy d x rights_all k),
     cnode_revoke = (\<lambda>_ k. (Inr (), k)),
     cnode_delete = (\<lambda>_ k. (Inr (), k)),
     asid_pool_assign = (\<lambda>_ _ k. (Inr (), k)),
     frame_map = ref_frame_map,
     frame_unmap = (\<lambda>_ k. (Inr (), k)),
     frame_get_address = (\<lambda>c k. (Inr (of_nat (obj_of k c) * 4096), k)),
     pt_map = ref_pt_map,
     table_map = (\<lambda>c l v a. ref_pt_map c v a),
     cnode_cap_data = (\<lambda>_ _. 0),
     tcb_configure = (\<lambda>_ _ _ _ _ _ _ k. (Inr (), k)),
     tcb_set_sched_params = (\<lambda>_ _ _ _ k. (Inr (), k)),
     tcb_write_all_registers = (\<lambda>_ _ _ k. (Inr (), k)),
     tcb_read_all_registers = (\<lambda>_ _ k. (Inr user_context_default, k)),
     tcb_resume = (\<lambda>_ k. (Inr (), k)),
     tcb_suspend = (\<lambda>_ k. (Inr (), k)),
     ep_call = (\<lambda>_ m b k. ((m, b), k)),
     ipc_reply = ref_reply,
     sel4_yield = (\<lambda>k. k),
     debug_put_char = (\<lambda>c k. k\<lparr>console := console k @ [c]\<rparr>),
     ptr_read = ref_read,
     ptr_write = ref_write,
     WORD_SIZE = 64,
     cap_data_skip = (\<lambda>_. 0),
     cap_data_skip_high_bits = (\<lambda>_. 0),
     tcb_set_space = (\<lambda>_ _ _ _ _ k. (Inr (), k)),
     ep_recv = ref_recv,
     irq_control_get = (\<lambda>_ _ _ k. (Inr (), k)),
     irq_handler_set_notification = (\<lambda>_ _ k. (Inr (), k)),
     irq_handler_ack = (\<lambda>_ k. (Inr (), k)),
     ntfn_wait = (\<lambda>_ k. k)\<rparr>"

definition ref_init :: ref_state where
  "ref_init = \<lparr>obj_of = (\<lambda>_. 0), next_obj = 1, obj_bytes = (\<lambda>_ _. 0), window = (\<lambda>_. 0),
     missing_tables = 2, console = [], inbox = [], replies = []\<rparr>"

text \<open>What the theorems assume of the kernel's allocation: untyped memory is not exhausted.\<close>

definition retype_succeeds :: "('k, 'e) sel4_scheme \<Rightarrow> bool" where
  "retype_succeeds S \<longleftrightarrow> (\<forall>u bp d i n k. \<exists>k'. untyped_retype S u bp d i n k = (Inr (), k'))"

text \<open>Mapping and unmapping a frame succeeds: its page tables are there and the address is free.\<close>

definition frames_succeed :: "('k, 'e) sel4_scheme \<Rightarrow> bool" where
  "frames_succeed S \<longleftrightarrow>
     (\<forall>c v a r k. fst (frame_map S c v a r k) = Inr ()) \<and> (\<forall>c k. fst (frame_unmap S c k) = Inr ())"

lemma retype_succeedsD: "retype_succeeds S \<Longrightarrow> fst (untyped_retype S u bp d i n k) = Inr ()"
  by (metis fst_conv retype_succeeds_def)

lemma ref_kernel_laws: "label_kept ref_kernel" "length_kept ref_kernel" "retype_succeeds ref_kernel"
  by (simp_all add: label_kept_def length_kept_def retype_succeeds_def ref_kernel_def ref_label_kept
      ref_length_kept ref_retype_def)

lemma ref_kernel_fields [simp]:
  "mi_new ref_kernel = ref_mi_new"
  "mi_label ref_kernel = ref_mi_label"
  "mi_length ref_kernel = ref_mi_length"
  "slot_NULL ref_kernel = 0"
  "slot_TCB ref_kernel = 1"
  "slot_CNODE ref_kernel = 2"
  "slot_VSPACE ref_kernel = 3"
  "slot_IRQ_CONTROL ref_kernel = 4"
  "slot_ASID_CONTROL ref_kernel = 5"
  "slot_ASID_POOL ref_kernel = 6"
  "NUM_LEVELS ref_kernel = 4"
  "GRANULE_SIZE ref_kernel = 4096"
  "span_bits ref_kernel = (\<lambda>l. 12 + 9 * (4 - l))"
  "table_from_level ref_kernel = (\<lambda>l. l < 4)"
  "untyped_retype ref_kernel = ref_retype"
  "cnode_copy ref_kernel = ref_copy"
  "cnode_mint ref_kernel = (\<lambda>d x r b k. ref_copy d x r k)"
  "cnode_mutate ref_kernel = (\<lambda>d x b k. ref_copy d x rights_all k)"
  "cnode_revoke ref_kernel = (\<lambda>_ k. (Inr (), k))"
  "cnode_delete ref_kernel = (\<lambda>_ k. (Inr (), k))"
  "asid_pool_assign ref_kernel = (\<lambda>_ _ k. (Inr (), k))"
  "frame_map ref_kernel = ref_frame_map"
  "frame_unmap ref_kernel = (\<lambda>_ k. (Inr (), k))"
  "frame_get_address ref_kernel = (\<lambda>c k. (Inr (of_nat (obj_of k c) * 4096), k))"
  "pt_map ref_kernel = ref_pt_map"
  "table_map ref_kernel = (\<lambda>c l v a. ref_pt_map c v a)"
  "cnode_cap_data ref_kernel = (\<lambda>_ _. 0)"
  "tcb_configure ref_kernel = (\<lambda>_ _ _ _ _ _ _ k. (Inr (), k))"
  "tcb_set_sched_params ref_kernel = (\<lambda>_ _ _ _ k. (Inr (), k))"
  "tcb_write_all_registers ref_kernel = (\<lambda>_ _ _ k. (Inr (), k))"
  "tcb_read_all_registers ref_kernel = (\<lambda>_ _ k. (Inr user_context_default, k))"
  "tcb_resume ref_kernel = (\<lambda>_ k. (Inr (), k))"
  "tcb_suspend ref_kernel = (\<lambda>_ k. (Inr (), k))"
  "ep_call ref_kernel = (\<lambda>_ m b k. ((m, b), k))"
  "ipc_reply ref_kernel = ref_reply"
  "sel4_yield ref_kernel = (\<lambda>k. k)"
  "debug_put_char ref_kernel = (\<lambda>c k. k\<lparr>console := console k @ [c]\<rparr>)"
  "ptr_read ref_kernel = ref_read"
  "ptr_write ref_kernel = ref_write"
  "WORD_SIZE ref_kernel = 64"
  "cap_data_skip ref_kernel = (\<lambda>_. 0)"
  "cap_data_skip_high_bits ref_kernel = (\<lambda>_. 0)"
  "tcb_set_space ref_kernel = (\<lambda>_ _ _ _ _ k. (Inr (), k))"
  "ep_recv ref_kernel = ref_recv"
  "irq_control_get ref_kernel = (\<lambda>_ _ _ k. (Inr (), k))"
  "irq_handler_set_notification ref_kernel = (\<lambda>_ _ k. (Inr (), k))"
  "irq_handler_ack ref_kernel = (\<lambda>_ k. (Inr (), k))"
  "ntfn_wait ref_kernel = (\<lambda>_ k. k)"
  by (simp_all add: ref_kernel_def)

lemmas ref_defs = ref_retype_def ref_copy_def ref_frame_map_def ref_pt_map_def
  ref_read_def ref_write_def ref_init_def ref_recv_def ref_reply_def

text \<open>The same kernel in an address space that has all its page tables.\<close>

definition ref_kernel_mapped :: "ref_state sel4" where
  "ref_kernel_mapped = ref_kernel\<lparr>frame_map := \<lambda>c v a r k. (Inr (), k)\<rparr>"

lemma ref_kernel_mapped_laws:
  "retype_succeeds ref_kernel_mapped" "frames_succeed ref_kernel_mapped" "GRANULE_SIZE ref_kernel_mapped = 4096"
  using ref_kernel_laws(3)
  by (simp_all add: ref_kernel_mapped_def retype_succeeds_def frames_succeed_def)

end
