(* ===== verification/Allocator.thy ===== *)
theory Allocator
  imports Ref_Kernel
begin

text \<open>
  \<^verbatim>\<open>src/crates/common/src/obj_allocator.rs\<close>: the object allocator of the root task and of the
  kernel thread. It hands out the slots of a range one after the other and retypes one object of
  its untyped memory into each. After the CSpace has been rebuilt with two levels of
  \<open>2 ^ 12\<close> slots, slot \<open>raw\<close> is slot \<open>raw & 0xfff\<close> of the second-level CNode
  \<open>raw >> 12\<close>, and the first slot of such a CNode creates it.

  The locale \<open>slot_source\<close> is what the clients rely on: a slot is never handed out twice.
\<close>

record object_allocator =
  slots_start :: usize
  slots_end :: usize
  ut :: cptr

record 'k alloc_sys = "'k sys" +
  obj_allocator :: object_allocator

section \<open>Operations\<close>

definition allocator_empty :: object_allocator where
  "allocator_empty = \<lparr>slots_start = 0, slots_end = 0, ut = 0\<rparr>"

definition allocator_init :: "usize \<Rightarrow> usize \<Rightarrow> cptr \<Rightarrow> (('k, 'z) alloc_sys_scheme, unit) M" where
  "allocator_init range_start range_end untyped =
     modify (\<lambda>s. s\<lparr>obj_allocator := \<lparr>slots_start = range_start, slots_end = range_end, ut = untyped\<rparr>\<rparr>)"

text \<open>\<open>Range::next\<close> followed by \<open>unwrap\<close>.\<close>

definition next_slot :: "(('k, 'z) alloc_sys_scheme, usize) M" where
  "next_slot =
     bnd (gets obj_allocator) (\<lambda>a.
     if slots_start a < slots_end a
     then bnd (modify (\<lambda>s. s\<lparr>obj_allocator := a\<lparr>slots_start := slots_start a + 1\<rparr>\<rparr>))
            (\<lambda>_. ret (slots_start a))
     else stop Unwrap_none)"

definition allocate_normal_cap :: "(('k, 'z) alloc_sys_scheme, cptr) M" where
  "allocate_normal_cap = next_slot"

definition allocate_variable_sized_origin ::
  "('k, 'e) sel4_scheme \<Rightarrow> blueprint \<Rightarrow> (('k, 'z) alloc_sys_scheme, cptr) M" where
  "allocate_variable_sized_origin S bp =
     bnd next_slot (\<lambda>slot_index.
     bnd (gets (\<lambda>s. ut (obj_allocator s))) (\<lambda>u.
     bnd (kcall_unwrap (untyped_retype S u bp (Relative_self (slot_CNODE S)) slot_index 1)) (\<lambda>_.
     ret slot_index)))"

definition slot_index_of :: "usize \<Rightarrow> usize" where
  "slot_index_of raw = raw AND 0xfff"

definition cnode_index_of :: "usize \<Rightarrow> usize" where
  "cnode_index_of raw = drop_bit 12 raw"

definition allocate_slot ::
  "('k, 'e) sel4_scheme \<Rightarrow> (('k, 'z) alloc_sys_scheme, usize \<times> usize \<times> usize) M" where
  "allocate_slot S =
     bnd next_slot (\<lambda>raw_slot_index.
     let slot_index = slot_index_of raw_slot_index;
         cnode_index = cnode_index_of raw_slot_index in
     bnd (if slot_index = 0
          then bnd (gets (\<lambda>s. ut (obj_allocator s))) (\<lambda>u.
               bnd (kcall (untyped_retype S u (BP_CNode 12) (Relative_self (slot_CNODE S)) cnode_index 1))
                 (expect_res ''can't allocate notification''))
          else ret ()) (\<lambda>_.
     ret (slot_index, cnode_index, raw_slot_index)))"

definition allocate_and_retype ::
  "('k, 'e) sel4_scheme \<Rightarrow> blueprint \<Rightarrow> (('k, 'z) alloc_sys_scheme, cptr) M" where
  "allocate_and_retype S bp =
     bnd (allocate_slot S) (\<lambda>(slot_index, cnode_index, raw_index).
     bnd (gets (\<lambda>s. ut (obj_allocator s))) (\<lambda>u.
     bnd (kcall_unwrap (untyped_retype S u bp
            (Relative_bits (slot_CNODE S) cnode_index 52) slot_index 1)) (\<lambda>_.
     ret raw_index)))"

text \<open>
  \<open>allocate_and_retyped_fixed_sized::<T>()\<close> and \<open>allocate_and_retyped_variable_sized::<T>(n)\<close>
  are \<open>allocate_and_retype\<close> at the blueprint of \<open>T\<close>.
\<close>

definition allocate_fixed ::
  "('k, 'e) sel4_scheme \<Rightarrow> blueprint \<Rightarrow> (('k, 'z) alloc_sys_scheme, cptr) M" where
  "allocate_fixed S bp = allocate_and_retype S bp"

definition allocate_cnode ::
  "('k, 'e) sel4_scheme \<Rightarrow> usize \<Rightarrow> (('k, 'z) alloc_sys_scheme, cptr) M" where
  "allocate_cnode S size_bits = allocate_and_retype S (BP_CNode size_bits)"

section \<open>Two-level slot addresses\<close>

lemma slot_index_of_eq: "slot_index_of raw = raw mod 4096"
proof -
  have "raw AND mask 12 = take_bit 12 raw" by (simp add: take_bit_eq_mask)
  then show ?thesis by (simp add: slot_index_of_def mask_eq_exp_minus_1 take_bit_eq_mod)
qed

lemma cnode_index_of_eq: "cnode_index_of raw = raw div 4096"
  by (simp add: cnode_index_of_def drop_bit_eq_div)

lemma slot_address_split: "cnode_index_of raw * 4096 + slot_index_of raw = raw"
  by (simp add: slot_index_of_eq cnode_index_of_eq div_mult_mod_eq)

section \<open>Slots are handed out once\<close>

definition avail :: "('k, 'z) alloc_sys_scheme \<Rightarrow> usize set" where
  "avail s = {slots_start (obj_allocator s) ..< slots_end (obj_allocator s)}"

locale slot_source =
  fixes alloc :: "'x \<Rightarrow> ('s, 'v) M"
    and slot_of :: "'v \<Rightarrow> usize"
    and free :: "'s \<Rightarrow> usize set"
  assumes alloc_takes: "alloc x s = (Ret v, t) \<Longrightarrow> slot_of v \<in> free s \<and> free t = free s - {slot_of v}"
begin

lemma alloc_each_fresh:
  "map_each alloc xs s = (Ret cs, t) \<Longrightarrow>
     length cs = length xs \<and> distinct (map slot_of cs) \<and> slot_of ` set cs \<subseteq> free s
     \<and> free t = free s - slot_of ` set cs"
proof (induction xs arbitrary: s cs)
  case Nil
  then show ?case by (simp add: run_simps)
next
  case (Cons x xs)
  then obtain c u cs' where a: "alloc x s = (Ret c, u)"
    and r: "map_each alloc xs u = (Ret cs', t)" and cs: "cs = c # cs'"
    by (auto simp: bnd_Ret_iff run_ret)
  from Cons.IH [OF r] alloc_takes [OF a] show ?case
    by (auto simp: cs)
qed

end

lemma next_slot_Ret:
  "next_slot s = (Ret c, t) \<longleftrightarrow>
     slots_start (obj_allocator s) < slots_end (obj_allocator s)
     \<and> c = slots_start (obj_allocator s)
     \<and> t = s\<lparr>obj_allocator := (obj_allocator s)\<lparr>slots_start := c + 1\<rparr>\<rparr>"
  by (auto simp: next_slot_def run_simps)

lemma word_less_Suc_le: "a < b \<Longrightarrow> a + 1 \<le> x \<longleftrightarrow> a < x" for a b x :: "'a::len word"
  by unat_arith

lemma atLeastLessThan_step: "a < b \<Longrightarrow> {a + 1 ..< b} = {a ..< b} - {a}" for a b :: "'a::len word"
  by (auto simp: word_less_Suc_le)

interpretation next_slot: slot_source "\<lambda>_ :: unit. next_slot" "\<lambda>c. c" avail
  by unfold_locales (auto simp: next_slot_Ret avail_def atLeastLessThan_step)

section \<open>What an allocation changes\<close>

text \<open>The state after one slot has been taken, with whatever the kernel did meanwhile.\<close>

definition took_slot :: "'k \<Rightarrow> ('k, 'z) alloc_sys_scheme \<Rightarrow> ('k, 'z) alloc_sys_scheme" where
  "took_slot k s = s\<lparr>kern := k,
     obj_allocator := (obj_allocator s)\<lparr>slots_start := slots_start (obj_allocator s) + 1\<rparr>\<rparr>"

definition has_slot :: "('k, 'z) alloc_sys_scheme \<Rightarrow> bool" where
  "has_slot s \<longleftrightarrow> slots_start (obj_allocator s) < slots_end (obj_allocator s)"

lemma wp_next_slot [wp_simps]:
  "wp next_slot Q E = (\<lambda>s. if has_slot s
     then Q (slots_start (obj_allocator s)) (took_slot (kern s) s) else E s)"
  by (rule ext) (simp add: next_slot_def wp_simps has_slot_def took_slot_def)

lemma took_slot_kern [simp]: "(took_slot k s)\<lparr>kern := k'\<rparr> = took_slot k' s"
  by (simp add: took_slot_def)

lemma wp_allocate_slot:
  assumes "\<And>k. has_slot s \<Longrightarrow>
      Q (slot_index_of (slots_start (obj_allocator s)),
         cnode_index_of (slots_start (obj_allocator s)),
         slots_start (obj_allocator s)) (took_slot k s)"
    and "E s" and "\<And>k. has_slot s \<Longrightarrow> E (took_slot k s)"
  shows "wp (allocate_slot S) Q E s"
proof (cases "slot_index_of (slots_start (obj_allocator s)) = 0")
  case True
  show ?thesis
    using assms(2,3) assms(1) [unfolded True]
    by (simp add: allocate_slot_def Let_def wp_simps True split: sum.split)
next
  case False
  then show ?thesis
    using assms by (simp add: allocate_slot_def Let_def wp_simps)
qed

lemma wp_allocate_and_retype:
  assumes "\<And>k. has_slot s \<Longrightarrow> Q (slots_start (obj_allocator s)) (took_slot k s)"
    and "E s" and "\<And>k. has_slot s \<Longrightarrow> E (took_slot k s)"
  shows "wp (allocate_and_retype S bp) Q E s"
  unfolding allocate_and_retype_def wp_simps
  by (rule wp_allocate_slot) (use assms in \<open>auto simp: wp_simps split: sum.split\<close>)

lemma allocate_slot_Ret:
  "allocate_slot S s = (Ret (i, j, c), t) \<Longrightarrow>
     has_slot s \<and> c = slots_start (obj_allocator s) \<and> i = slot_index_of c \<and> j = cnode_index_of c
     \<and> (\<exists>k. t = took_slot k s)"
  by (rule wp_Ret [where Q = "\<lambda>v t. case v of (i, j, c) \<Rightarrow> has_slot s \<and> c = slots_start (obj_allocator s)
          \<and> i = slot_index_of c \<and> j = cnode_index_of c \<and> (\<exists>k. t = took_slot k s)"
        and E = "\<lambda>_. True" and m = "allocate_slot S" and x = "(i, j, c)", simplified])
    (auto intro!: wp_allocate_slot)

lemma allocate_and_retype_Ret:
  "allocate_and_retype S bp s = (Ret c, t) \<Longrightarrow>
     has_slot s \<and> c = slots_start (obj_allocator s) \<and> (\<exists>k. t = took_slot k s)"
  by (rule wp_Ret [where Q = "\<lambda>c t. has_slot s \<and> c = slots_start (obj_allocator s)
          \<and> (\<exists>k. t = took_slot k s)" and E = "\<lambda>_. True" and m = "allocate_and_retype S bp"])
    (auto intro!: wp_allocate_and_retype)

lemma avail_took_slot:
  "has_slot s \<Longrightarrow> slots_start (obj_allocator s) \<in> avail s
     \<and> avail (took_slot k s) = avail s - {slots_start (obj_allocator s)}"
  by (auto simp: has_slot_def avail_def took_slot_def word_less_Suc_le)

interpretation alloc_slot: slot_source "\<lambda>_ :: unit. allocate_slot S" "\<lambda>(i, j, c). c" avail for S
  by unfold_locales (auto dest!: allocate_slot_Ret simp: avail_took_slot)

interpretation alloc_obj: slot_source "allocate_and_retype S" "\<lambda>c. c" avail for S
  by unfold_locales (auto dest!: allocate_and_retype_Ret simp: avail_took_slot)

text \<open>How many slots are left.\<close>

definition capacity :: "('k, 'z) alloc_sys_scheme \<Rightarrow> nat" where
  "capacity s = unat (slots_end (obj_allocator s)) - unat (slots_start (obj_allocator s))"

lemma has_slot_iff_capacity: "has_slot s \<longleftrightarrow> 0 < capacity s"
  by (auto simp: has_slot_def capacity_def word_less_nat_alt)

lemma capacity_took_slot: "has_slot s \<Longrightarrow> capacity (took_slot k s) = capacity s - 1"
  by (simp add: has_slot_def capacity_def took_slot_def) unat_arith

section \<open>Allocation as an order on states\<close>

text \<open>
  \<open>grown s t\<close>: from \<open>s\<close> to \<open>t\<close> nothing happened but kernel calls and the taking of
  slots. The operations on tasks below only do that to the state; what they do to the task is
  in their result.
\<close>

definition took :: "nat \<Rightarrow> 'k \<Rightarrow> ('k, 'z) alloc_sys_scheme \<Rightarrow> ('k, 'z) alloc_sys_scheme" where
  "took n k s = s\<lparr>kern := k,
     obj_allocator := (obj_allocator s)\<lparr>slots_start := slots_start (obj_allocator s) + of_nat n\<rparr>\<rparr>"

definition grown :: "('k, 'z) alloc_sys_scheme \<Rightarrow> ('k, 'z) alloc_sys_scheme \<Rightarrow> bool" where
  "grown s t \<longleftrightarrow> (\<exists>n k. n \<le> capacity s \<and> t = took n k s)"

abbreviation first_free :: "('k, 'z) alloc_sys_scheme \<Rightarrow> usize" where
  "first_free s \<equiv> slots_start (obj_allocator s)"

text \<open>The slots that were taken between two states.\<close>

definition taken :: "('k, 'z) alloc_sys_scheme \<Rightarrow> ('k, 'z) alloc_sys_scheme \<Rightarrow> usize set" where
  "taken s t = {first_free s ..< first_free t}"

lemma unat_start_plus:
  "n \<le> capacity s \<Longrightarrow> unat (first_free s + of_nat n) = unat (first_free s) + n"
proof -
  assume n: "n \<le> capacity s"
  have "unat (first_free s) + n < 2 ^ 64"
  proof (cases "n = 0")
    case True
    then show ?thesis using unsigned_less [of "first_free s"] by (simp only: add_0_right len_bit0 len_num1) simp
  next
    case False
    then have "unat (first_free s) + n \<le> unat (slots_end (obj_allocator s))"
      using n by (simp add: capacity_def)
    then show ?thesis
      by (rule order.strict_trans1) (rule order.strict_trans2 [OF unsigned_less], simp)
  qed
  then have "unat (of_nat (unat (first_free s) + n) :: usize) = unat (first_free s) + n"
    by (rule unat_of_nat_small)
  then show ?thesis by simp
qed

lemma grown_refl [simp]: "grown s s"
  unfolding grown_def took_def by (intro exI [of _ 0] exI [of _ "kern s"]) simp

lemma grown_trans: "grown s t \<Longrightarrow> grown t u \<Longrightarrow> grown s u"
proof -
  assume "grown s t" and "grown t u"
  then obtain n k m l where n: "n \<le> capacity s" "t = took n k s" and m: "m \<le> capacity t" "u = took m l t"
    by (auto simp: grown_def)
  have "capacity t = capacity s - n"
    using unat_start_plus [OF n(1)] by (simp add: n(2) capacity_def took_def)
  then have "n + m \<le> capacity s" using n(1) m(1) by simp
  moreover have "u = took (n + m) l s" by (simp add: n(2) m(2) took_def add.assoc)
  ultimately show ?thesis by (auto simp: grown_def)
qed

lemma took_kern [simp]: "(took n k s)\<lparr>kern := l\<rparr> = took n l s"
  by (simp add: took_def)

lemma grown_kern: "grown s t \<Longrightarrow> grown s (t\<lparr>kern := k\<rparr>)"
  unfolding grown_def using took_kern by metis

lemma grown_upd [simp]: "grown s (t\<lparr>kern := k\<rparr>) \<longleftrightarrow> grown s t"
proof
  assume "grown s (t\<lparr>kern := k\<rparr>)"
  from grown_kern [OF this, of "kern t"] show "grown s t" by simp
qed (rule grown_kern)

lemma grown_upd_left [simp]: "grown (s\<lparr>kern := k\<rparr>) t \<longleftrightarrow> grown s t"
  by (simp add: grown_def took_def capacity_def)

lemma grown_kern_only: "grown s t \<Longrightarrow> kern_only t u \<Longrightarrow> grown s u"
  by (auto simp: kern_only_def grown_kern)

lemma grown_took_slot: "has_slot s \<Longrightarrow> grown s (took_slot k s)"
  unfolding grown_def
  by (intro exI [of _ 1] exI [of _ k]) (auto simp: has_slot_iff_capacity took_def took_slot_def)

lemma grown_le: "grown s t \<Longrightarrow> first_free s \<le> first_free t"
  using unat_start_plus by (fastforce simp: grown_def took_def word_le_nat_alt)

lemma grown_end: "grown s t \<Longrightarrow> slots_end (obj_allocator t) = slots_end (obj_allocator s)"
  by (auto simp: grown_def took_def)

lemma taken_took_slot: "has_slot s \<Longrightarrow> first_free s \<in> taken s (took_slot k s)"
  by (simp add: taken_def took_slot_def has_slot_def) (rule word_less_Suc_le [THEN iffD1], assumption, simp)

lemma taken_mono: "grown s t \<Longrightarrow> grown t u \<Longrightarrow> taken s t \<subseteq> taken s u \<and> taken t u \<subseteq> taken s u"
  using grown_le [of s t] grown_le [of t u] by (auto simp: taken_def)

lemma taken_upd [simp]: "taken s (t\<lparr>kern := k\<rparr>) = taken s t" "taken (s\<lparr>kern := k\<rparr>) t = taken s t"
  by (simp_all add: taken_def)

lemma taken_kern_only: "kern_only t u \<Longrightarrow> taken s u = taken s t \<and> taken u s = taken t s"
  by (auto simp: kern_only_def taken_def)

lemma taken_disjoint: "taken s t \<inter> taken t u = {}"
  by (auto simp: taken_def)

lemma took_slot_first_free: "first_free (took_slot k s) = first_free s + 1"
  by (simp add: took_slot_def)

lemma pwp_allocate [pwp_intros]:
  "(\<And>t. grown s t \<Longrightarrow> first_free s \<in> taken s t \<Longrightarrow> first_free t = first_free s + 1 \<Longrightarrow>
      Q (first_free s) t) \<Longrightarrow>
     pwp (allocate_and_retype S bp) Q s"
  by (rule wp_allocate_and_retype) (simp_all add: grown_took_slot taken_took_slot took_slot_first_free)

lemmas pwp_allocate_fixed [pwp_intros] = pwp_allocate [folded allocate_fixed_def]
  and pwp_allocate_cnode [pwp_intros] =
    pwp_allocate [where bp = "BP_CNode n" for n, folded allocate_cnode_def]

lemma pwp_allocate_slot [pwp_intros]:
  "(\<And>t. grown s t \<Longrightarrow> first_free s \<in> taken s t \<Longrightarrow>
      Q (slot_index_of (first_free s), cnode_index_of (first_free s), first_free s) t) \<Longrightarrow>
     pwp (allocate_slot S) Q s"
  by (rule wp_allocate_slot) (simp_all add: grown_took_slot taken_took_slot)

text \<open>\<open>n\<close> slots from \<open>a\<close> on.\<close>

definition slots_from :: "usize \<Rightarrow> nat \<Rightarrow> usize list" where
  "slots_from a n = map (\<lambda>i. a + of_nat i) [0 ..< n]"

lemma slots_from_Suc: "slots_from a (Suc n) = a # slots_from (a + 1) n"
  by (simp add: slots_from_def upt_conv_Cons map_Suc_upt [symmetric] algebra_simps del: upt_Suc)

lemma pwp_allocate_each:
  "pwp (map_each (\<lambda>_. bnd (allocate_fixed S bp) (\<lambda>c. ret (f c))) xs)
     (\<lambda>ps t. grown s t \<and> ps = map f (slots_from (first_free s) (length xs))
        \<and> set (slots_from (first_free s) (length xs)) \<subseteq> taken s t
        \<and> distinct (slots_from (first_free s) (length xs))) s"
proof (induction xs arbitrary: s)
  case Nil
  then show ?case by (simp add: wp_simps slots_from_def)
next
  case (Cons x xs)
  show ?case
    unfolding map_each.simps
  proof (intro pwp_intros, rule pwp_use [OF Cons])
    fix t ys u
    assume t: "grown s t" "first_free s \<in> taken s t" "first_free t = first_free s + 1"
      and u: "grown t u \<and> ys = map f (slots_from (first_free t) (length xs))
        \<and> set (slots_from (first_free t) (length xs)) \<subseteq> taken t u
        \<and> distinct (slots_from (first_free t) (length xs))"
    have "first_free s \<notin> taken t u" using taken_disjoint [of s t u] t(2) by auto
    then show "pwp (ret (f (first_free s) # ys))
       (\<lambda>ps v. grown s v \<and> ps = map f (slots_from (first_free s) (length (x # xs)))
          \<and> set (slots_from (first_free s) (length (x # xs))) \<subseteq> taken s v
          \<and> distinct (slots_from (first_free s) (length (x # xs)))) u"
      using t u taken_mono [of s t u]
      by (auto simp: wp_simps slots_from_Suc intro: grown_trans)
  qed
qed

section \<open>Properties\<close>

text \<open>A state with the reference kernel and an allocator over a range of slots.\<close>

definition ref_alloc_sys :: "usize \<Rightarrow> usize \<Rightarrow> ref_state alloc_sys" where
  "ref_alloc_sys range_start range_end = \<lparr>kern = ref_init,
     ipcbuf = \<lparr>msg_regs = (\<lambda>_. 0), caps_or_badges = (\<lambda>_. 0), recv_slot = None\<rparr>,
     obj_allocator = \<lparr>slots_start = range_start, slots_end = range_end, ut = DEFAULT_CUSTOM_SLOT\<rparr>\<rparr>"

lemma consecutive_slots:
  "map_each (allocate_and_retype S) bps s = (Ret cs, t) \<Longrightarrow>
     cs = slots_from (first_free s) (length bps)
     \<and> slots_end (obj_allocator t) = slots_end (obj_allocator s)
     \<and> ut (obj_allocator t) = ut (obj_allocator s)"
proof (induction bps arbitrary: s cs)
  case Nil
  then show ?case by (simp add: run_simps slots_from_def)
next
  case (Cons bp bps)
  then obtain c u cs' where a: "allocate_and_retype S bp s = (Ret c, u)"
    and r: "map_each (allocate_and_retype S) bps u = (Ret cs', t)" and cs: "cs = c # cs'"
    by (auto simp: bnd_Ret_iff run_ret)
  from allocate_and_retype_Ret [OF a] Cons.IH [OF r] show ?case
    by (auto simp: cs took_slot_def slots_from_Suc)
qed

text \<open>
  C5. Objects never share a slot. However many objects of whatever types are allocated one after
  the other, the capabilities are consecutive slots that start at the first free one; they are
  distinct, lie in the range that was free before, and are no longer free afterwards.
\<close>

theorem allocated_slots_fresh:
  assumes "map_each (allocate_and_retype S) bps s = (Ret cs, t)"
  shows "cs = slots_from (first_free s) (length bps)
    \<and> distinct cs \<and> set cs \<subseteq> avail s \<and> avail t = avail s - set cs"
  using consecutive_slots [OF assms] alloc_obj.alloc_each_fresh [OF assms] by simp

theorem allocated_slots_fresh_witness:
  "\<exists>t. map_each (allocate_and_retype ref_kernel) [BP_Granule, BP_PT, BP_Tcb] (ref_alloc_sys 4095 4100)
       = (Ret [4095, 4096, 4097], t) \<and> avail t = avail (ref_alloc_sys 4095 4100) - {4095, 4096, 4097}"
proof -
  have "fst (map_each (allocate_and_retype ref_kernel) [BP_Granule, BP_PT, BP_Tcb]
      (ref_alloc_sys 4095 4100)) = Ret [4095, 4096, 4097]"
    by (simp add: run_simps allocate_and_retype_def allocate_slot_def next_slot_def ref_alloc_sys_def
        ref_kernel_def ref_retype_def Let_def slot_index_of_def cnode_index_of_def)
  then obtain t where "map_each (allocate_and_retype ref_kernel) [BP_Granule, BP_PT, BP_Tcb]
      (ref_alloc_sys 4095 4100) = (Ret [4095, 4096, 4097], t)"
    by (metis prod.collapse)
  with allocated_slots_fresh [OF this] show ?thesis by auto
qed

lemma wp_allocate_succeeds:
  assumes "retype_succeeds S" and "has_slot s"
    and "\<And>k. Q (slots_start (obj_allocator s)) (took_slot k s)"
  shows "wp (allocate_and_retype S bp) Q E s"
  using assms by (simp add: allocate_and_retype_def allocate_slot_def wp_simps Let_def retype_succeedsD)

lemma twp_allocate_each:
  assumes "retype_succeeds S"
  shows "length xs \<le> capacity s \<Longrightarrow>
     twp (map_each (\<lambda>_. bnd (allocate_fixed S bp) (\<lambda>c. ret (f c))) xs) (\<lambda>ps t. length ps = length xs) s"
proof (induction xs arbitrary: s)
  case Nil
  then show ?case by (simp add: wp_simps)
next
  case (Cons x xs)
  then have "has_slot s" and "\<And>k. length xs \<le> capacity (took_slot k s)"
    by (simp_all add: has_slot_iff_capacity capacity_took_slot)
  then show ?case
    unfolding map_each.simps allocate_fixed_def
    by (auto simp: wp_simps intro!: wp_allocate_succeeds [OF assms] twp_use [OF Cons.IH [unfolded allocate_fixed_def]])
qed

lemma allocate_exhausted: "\<not> has_slot s \<Longrightarrow> allocate_and_retype S bp s = (Panic Unwrap_none, s)"
  by (simp add: allocate_and_retype_def allocate_slot_def next_slot_def run_simps has_slot_def)

text \<open>
  C6. The allocator serves exactly as many requests as its range has slots. While untyped memory
  lasts, a sequence of allocations succeeds if it is no longer than the range, and the first one
  beyond it panics on \<open>next().unwrap()\<close>; nothing is ever handed out twice to avoid that.
\<close>

theorem allocations_bounded_by_range:
  assumes "retype_succeeds S"
  shows "if length bps \<le> capacity s
    then \<exists>cs t. map_each (allocate_and_retype S) bps s = (Ret cs, t) \<and> capacity t = capacity s - length bps
    else \<exists>t. map_each (allocate_and_retype S) bps s = (Panic Unwrap_none, t) \<and> capacity t = 0"
proof (induction bps arbitrary: s)
  case Nil
  then show ?case by (simp add: run_simps)
next
  case (Cons bp bps)
  show ?case
  proof (cases "has_slot s")
    case True
    then have "wp (allocate_and_retype S bp) (\<lambda>c t. capacity t = capacity s - 1) (\<lambda>_. False) s"
      by (intro wp_allocate_succeeds assms) (simp_all add: capacity_took_slot)
    then obtain c t where "allocate_and_retype S bp s = (Ret c, t)" "capacity t = capacity s - 1"
      by (auto simp: wp_returns)
    with Cons.IH [of t] True show ?thesis
      by (auto simp: run_simps has_slot_iff_capacity split: if_splits)
  next
    case False
    then show ?thesis
      by (simp add: run_simps allocate_exhausted has_slot_iff_capacity)
  qed
qed

theorem allocations_bounded_by_range_witness:
  "\<exists>t. map_each (allocate_and_retype ref_kernel) (replicate 993 BP_Granule)
       (ref_alloc_sys DEFAULT_EMPTY_SLOT_INDEX KERNEL_THREAD_SLOT_NUMS) = (Panic Unwrap_none, t)
     \<and> capacity t = 0"
  using allocations_bounded_by_range [OF ref_kernel_laws(3), of "replicate 993 BP_Granule"
      "ref_alloc_sys DEFAULT_EMPTY_SLOT_INDEX KERNEL_THREAD_SLOT_NUMS"]
  by (simp add: capacity_def ref_alloc_sys_def const_defs)

lemmas alloc_runs = allocate_fixed_def [THEN fun_cong] allocate_cnode_def [THEN fun_cong]
  allocate_and_retype_def [THEN fun_cong] allocate_slot_def [THEN fun_cong]
  next_slot_def [THEN fun_cong] slot_index_of_def cnode_index_of_def ref_alloc_sys_def

end
