(* ===== verification/Uspace.thy ===== *)
theory Uspace
  imports Ref_Kernel
begin

text \<open>
  \<^verbatim>\<open>src/crates/common/src/uspace.rs\<close>: the layout of a user address space, the socket
  addresses that user programs pass (\<open>struct sockaddr\<close>) and the arguments of \<open>clone\<close>.
  \<open>SocketAddr\<close> and \<open>IpAddr\<close> are those of \<open>core::net\<close>; a \<open>V6\<close> address is the list
  of its 16 octets.
\<close>

definition USPACE_HEAP_BASE :: usize where "USPACE_HEAP_BASE = 0x100000000"
definition USPACE_HEAP_SIZE :: usize where "USPACE_HEAP_SIZE = 0x100000"
definition USPACE_STACK_TOP :: usize where "USPACE_STACK_TOP = 0x200000000"
definition USPACE_STACK_SIZE :: usize where "USPACE_STACK_SIZE = 0x10000"
definition STDIN_FD :: i32 where "STDIN_FD = 0"
definition STDOUT_FD :: i32 where "STDOUT_FD = 1"
definition STDERR_FD :: i32 where "STDERR_FD = 2"
definition USPACE_BASE :: usize where "USPACE_BASE = 0x1000"

lemmas uspace_defs = USPACE_HEAP_BASE_def USPACE_HEAP_SIZE_def USPACE_STACK_TOP_def
  USPACE_STACK_SIZE_def STDIN_FD_def STDOUT_FD_def STDERR_FD_def USPACE_BASE_def

section \<open>Socket addresses\<close>

datatype ip_addr = V4 u8 u8 u8 u8 | V6 "u8 list"

record socket_addr =
  sock_ip :: ip_addr
  sock_port :: u16

record libc_socket_addr =
  sa_family :: u16
  sa_data :: "u8 list"

definition libc_default :: libc_socket_addr where
  "libc_default = \<lparr>sa_family = 0, sa_data = replicate 14 0\<rparr>"

fun octets :: "ip_addr \<Rightarrow> u8 list" where
  "octets (V4 a b c d) = [a, b, c, d]"
| "octets (V6 bs) = bs"

text \<open>\<open>for i in 0..n { addr.sa_data[i + 2] = ip[i]; }\<close>\<close>

definition copy_octets :: "nat \<Rightarrow> u8 list \<Rightarrow> u8 list \<Rightarrow> u8 list" where
  "copy_octets n ip dat = fold (\<lambda>i d. d[i + 2 := ip ! i]) [0 ..< n] dat"

definition libc_from :: "socket_addr \<Rightarrow> libc_socket_addr" where
  "libc_from value =
     (let addr = libc_default\<lparr>sa_family := 2\<rparr>;
          addr = (case sock_ip value of
                    V4 a b c d \<Rightarrow> addr\<lparr>sa_data := copy_octets 4 (octets (V4 a b c d)) (sa_data addr)\<rparr>
                  | V6 bs \<Rightarrow> addr\<lparr>sa_data := copy_octets 12 (octets (V6 bs)) (sa_data addr)\<rparr>);
          addr = addr\<lparr>sa_data := (sa_data addr)[0 := ucast (drop_bit 8 (sock_port value))]\<rparr>
      in addr\<lparr>sa_data := (sa_data addr)[1 := ucast (sock_port value AND 0xff)]\<rparr>)"

definition u16_from_be_bytes :: "u8 \<Rightarrow> u8 \<Rightarrow> u16" where
  "u16_from_be_bytes hi lo = push_bit 8 (ucast hi) OR ucast lo"

definition libc_into :: "libc_socket_addr \<Rightarrow> socket_addr" where
  "libc_into addr =
     (let data = sa_data addr; port = u16_from_be_bytes (data ! 0) (data ! 1)
      in \<lparr>sock_ip = V4 (data ! 2) (data ! 3) (data ! 4) (data ! 5), sock_port = port\<rparr>)"

section \<open>Arguments of clone\<close>

text \<open>\<open>CloneFlags\<close> is a \<open>bitflags\<close> type over \<open>i32\<close>; its value is the word of its bits.\<close>

definition CLONE_NEWTIME :: i32 where "CLONE_NEWTIME = push_bit 7 1"
definition CLONE_VM :: i32 where "CLONE_VM = push_bit 8 1"
definition CLONE_FS :: i32 where "CLONE_FS = push_bit 9 1"
definition CLONE_FILES :: i32 where "CLONE_FILES = push_bit 10 1"
definition CLONE_SIGHAND :: i32 where "CLONE_SIGHAND = push_bit 11 1"
definition CLONE_PIDFD :: i32 where "CLONE_PIDFD = push_bit 12 1"
definition CLONE_PTRACE :: i32 where "CLONE_PTRACE = push_bit 13 1"
definition CLONE_VFORK :: i32 where "CLONE_VFORK = push_bit 14 1"
definition CLONE_PARENT :: i32 where "CLONE_PARENT = push_bit 15 1"
definition CLONE_THREAD :: i32 where "CLONE_THREAD = push_bit 16 1"
definition CLONE_NEWNS :: i32 where "CLONE_NEWNS = push_bit 17 1"
definition CLONE_SYSVSEM :: i32 where "CLONE_SYSVSEM = push_bit 18 1"
definition CLONE_SETTLS :: i32 where "CLONE_SETTLS = push_bit 19 1"
definition CLONE_PARENT_SETTID :: i32 where "CLONE_PARENT_SETTID = push_bit 20 1"
definition CLONE_CHILD_CLEARTID :: i32 where "CLONE_CHILD_CLEARTID = push_bit 21 1"
definition CLONE_DETACHED :: i32 where "CLONE_DETACHED = push_bit 22 1"
definition CLONE_UNTRACED :: i32 where "CLONE_UNTRACED = push_bit 23 1"
definition CLONE_CHILD_SETTID :: i32 where "CLONE_CHILD_SETTID = push_bit 24 1"
definition CLONE_NEWPID :: i32 where "CLONE_NEWPID = push_bit 29 1"

definition clone_flags_all :: "i32 list" where
  "clone_flags_all = [CLONE_NEWTIME, CLONE_VM, CLONE_FS, CLONE_FILES, CLONE_SIGHAND, CLONE_PIDFD,
     CLONE_PTRACE, CLONE_VFORK, CLONE_PARENT, CLONE_THREAD, CLONE_NEWNS, CLONE_SYSVSEM,
     CLONE_SETTLS, CLONE_PARENT_SETTID, CLONE_CHILD_CLEARTID, CLONE_DETACHED, CLONE_UNTRACED,
     CLONE_CHILD_SETTID, CLONE_NEWPID]"

record clone_args =
  ca_stack :: usize
  ca_flags :: i32
  ca_parent_tid :: usize
  ca_child_tid :: usize
  ca_tls :: usize
  ca_init_fn :: usize
  ca_init_argv :: usize

definition clone_args_default :: clone_args where
  "clone_args_default = \<lparr>ca_stack = 0, ca_flags = 0, ca_parent_tid = 0, ca_child_tid = 0,
     ca_tls = 0, ca_init_fn = 0, ca_init_argv = 0\<rparr>"

section \<open>Round trips of socket addresses\<close>

lemma be_bytes_of_port:
  "u16_from_be_bytes (ucast (drop_bit 8 p)) (ucast (p AND 0xff)) = p"
proof (rule bit_word_eqI)
  have m: "(0xff :: u16) = mask 8" by (simp add: mask_eq_exp_minus_1)
  fix n assume "n < LENGTH(16)"
  then show "bit (u16_from_be_bytes (ucast (drop_bit 8 p)) (ucast (p AND 0xff))) n = bit p n"
    unfolding u16_from_be_bytes_def m by (auto simp: bit_simps)
qed

lemma port_of_be_bytes:
  "ucast (drop_bit 8 (u16_from_be_bytes hi lo)) = hi"
  "ucast (u16_from_be_bytes hi lo AND 0xff) = lo"
proof -
  have m: "(0xff :: u16) = mask 8" by (simp add: mask_eq_exp_minus_1)
  show "ucast (drop_bit 8 (u16_from_be_bytes hi lo)) = hi"
    by (rule bit_word_eqI) (auto simp: u16_from_be_bytes_def bit_simps dest: bit_imp_le_length)
  show "ucast (u16_from_be_bytes hi lo AND 0xff) = lo"
    unfolding m by (rule bit_word_eqI) (auto simp: u16_from_be_bytes_def bit_simps)
qed

lemma copy_octets_4:
  "copy_octets 4 [a, b, c, d] (replicate 14 0) = [0, 0, a, b, c, d, 0, 0, 0, 0, 0, 0, 0, 0]"
  by (simp add: copy_octets_def upt_rec numeral_eq_Suc)

lemma libc_from_V4:
  "libc_from \<lparr>sock_ip = V4 a b c d, sock_port = p\<rparr> = \<lparr>sa_family = 2, sa_data =
     [ucast (drop_bit 8 p), ucast (p AND 0xff), a, b, c, d, 0, 0, 0, 0, 0, 0, 0, 0]\<rparr>"
  by (simp add: libc_from_def libc_default_def copy_octets_4)

lemma copy_octets_12:
  "copy_octets 12 bs (replicate 14 0) = [0, 0] @ map ((!) bs) [0 ..< 12]"
  by (simp add: copy_octets_def upt_rec numeral_eq_Suc)

lemma length_6_cases: "length xs = 6 \<Longrightarrow> \<exists>a b c d e f. xs = [a, b, c, d, e, f]"
  by (auto simp: numeral_eq_Suc length_Suc_conv)

text \<open>
  C11. An IPv4 socket address survives the conversion to the \<open>sockaddr\<close> of user programs and
  back; and an \<open>AF_INET\<close> \<open>sockaddr\<close> whose padding is zero survives the conversion to a
  \<open>SocketAddr\<close> and back.
\<close>

theorem sockaddr_roundtrip:
  "libc_into (libc_from \<lparr>sock_ip = V4 a b c d, sock_port = p\<rparr>) = \<lparr>sock_ip = V4 a b c d, sock_port = p\<rparr>
   \<and> (\<forall>x. sa_family x = 2 \<and> length (sa_data x) = 14 \<and> drop 6 (sa_data x) = replicate 8 0
        \<longrightarrow> libc_from (libc_into x) = (x :: libc_socket_addr))"
proof (intro conjI allI impI)
  show "libc_into (libc_from \<lparr>sock_ip = V4 a b c d, sock_port = p\<rparr>) = \<lparr>sock_ip = V4 a b c d, sock_port = p\<rparr>"
    by (simp add: libc_from_V4 libc_into_def be_bytes_of_port)
next
  fix x :: libc_socket_addr
  assume x: "sa_family x = 2 \<and> length (sa_data x) = 14 \<and> drop 6 (sa_data x) = replicate 8 0"
  then have "length (take 6 (sa_data x)) = 6" by simp
  then obtain h l a b c d where "take 6 (sa_data x) = [h, l, a, b, c, d]"
    using length_6_cases by blast
  then have "sa_data x = [h, l, a, b, c, d] @ replicate 8 0"
    using x by (metis append_take_drop_id)
  also have "\<dots> = [h, l, a, b, c, d, 0, 0, 0, 0, 0, 0, 0, 0]"
    by (simp add: numeral_eq_Suc)
  finally have "sa_data x = [h, l, a, b, c, d, 0, 0, 0, 0, 0, 0, 0, 0]" .
  with x show "libc_from (libc_into x) = x"
    by (cases x) (simp add: libc_into_def libc_from_V4 port_of_be_bytes)
qed

theorem sockaddr_roundtrip_witness:
  "libc_from (libc_into \<lparr>sa_family = 2, sa_data = [0x18, 0xeb, 10, 0, 2, 15, 0, 0, 0, 0, 0, 0, 0, 0]\<rparr>)
     = \<lparr>sa_family = 2, sa_data = [0x18, 0xeb, 10, 0, 2, 15, 0, 0, 0, 0, 0, 0, 0, 0]\<rparr>"
  using sockaddr_roundtrip [of 0 0 0 0 0]
  by (simp add: numeral_eq_Suc)

lemma libc_from_V6:
  "libc_from \<lparr>sock_ip = V6 bs, sock_port = p\<rparr> = \<lparr>sa_family = 2, sa_data =
     ucast (drop_bit 8 p) # ucast (p AND 0xff) # map ((!) bs) [0 ..< 12]\<rparr>"
  by (simp add: libc_from_def libc_default_def copy_octets_12)

lemma take_eq_map_nth:
  assumes "take n xs = take n ys"
  shows "map ((!) xs) [0 ..< n] = map ((!) ys) [0 ..< n]"
proof (rule map_cong)
  fix i assume "i \<in> set [0 ..< n]"
  then have "i < n" by simp
  then show "xs ! i = ys ! i" using assms by (metis nth_take)
qed simp

text \<open>
  C12. An IPv6 socket address does not survive it: only twelve of its sixteen octets are stored and
  the family says \<open>AF_INET\<close>, so what comes back is the IPv4 address of its first four octets.
\<close>

theorem sockaddr_loses_ipv6:
  "length bs = 16 \<Longrightarrow>
     libc_into (libc_from \<lparr>sock_ip = V6 bs, sock_port = p\<rparr>)
       = \<lparr>sock_ip = V4 (bs ! 0) (bs ! 1) (bs ! 2) (bs ! 3), sock_port = p\<rparr>
   \<and> (\<forall>cs. length cs = 16 \<and> take 12 cs = take 12 bs \<longrightarrow>
        libc_from \<lparr>sock_ip = V6 cs, sock_port = p\<rparr> = libc_from \<lparr>sock_ip = V6 bs, sock_port = p\<rparr>)"
proof (intro conjI allI impI)
  show "libc_into (libc_from \<lparr>sock_ip = V6 bs, sock_port = p\<rparr>)
      = \<lparr>sock_ip = V4 (bs ! 0) (bs ! 1) (bs ! 2) (bs ! 3), sock_port = p\<rparr>"
    by (simp add: libc_from_V6 libc_into_def be_bytes_of_port numeral_2_eq_2)
  fix cs assume "length cs = 16 \<and> take 12 cs = take 12 bs"
  then have "map ((!) cs) [0 ..< 12] = map ((!) bs) [0 ..< 12]"
    by (intro take_eq_map_nth) simp
  then show "libc_from \<lparr>sock_ip = V6 cs, sock_port = p\<rparr> = libc_from \<lparr>sock_ip = V6 bs, sock_port = p\<rparr>"
    unfolding libc_from_V6 by (simp only:)
qed

theorem sockaddr_loses_ipv6_witness:
  "libc_into (libc_from \<lparr>sock_ip = V6 (replicate 15 0 @ [1]), sock_port = 80\<rparr>)
     = \<lparr>sock_ip = V4 0 0 0 0, sock_port = 80\<rparr>"
  using sockaddr_loses_ipv6 [THEN conjunct1, of "replicate 15 0 @ [1]" 80] by (simp add: nth_append)

end
