(* ===== verification/Pages.thy ===== *)
theory Pages
  imports Prelude
begin

text \<open>
  Page arithmetic on 64-bit addresses, shared by the theories that map memory:
  \<open>align_bits\<close> of \<^verbatim>\<open>src/crates/kernel-thread/src/utils.rs\<close>, the addresses that
  \<open>(start..end).step_by(PAGE_SIZE)\<close> goes through, and their sizes as natural numbers.
\<close>

definition align_bits :: "usize \<Rightarrow> nat \<Rightarrow> usize" where
  "align_bits a b = a AND NOT (push_bit b 1 - 1)"

definition page_list :: "usize \<Rightarrow> usize \<Rightarrow> usize list" where
  "page_list a b = map (\<lambda>i. a + of_nat i * 4096) [0 ..< (unat b - unat a + 4095) div 4096]"

abbreviation page_aligned :: "usize \<Rightarrow> bool" where
  "page_aligned a \<equiv> a mod 4096 = 0"

section \<open>Alignment\<close>

lemma align_bits_eq: "align_bits a b = push_bit b (drop_bit b a)"
proof (rule bit_word_eqI)
  have m: "push_bit b 1 - 1 = (mask b :: usize)" by (simp add: mask_eq_exp_minus_1 push_bit_eq_mult)
  fix n assume "n < LENGTH(64)"
  then show "bit (align_bits a b) n = bit (push_bit b (drop_bit b a)) n"
    unfolding align_bits_def m by (auto simp: bit_simps)
qed

lemma unat_mod_4096: "unat (a mod 4096) = unat a mod 4096" for a :: usize
  by (simp add: unat_mod)

lemma page_aligned_unat: "page_aligned a \<longleftrightarrow> unat a mod 4096 = 0"
  by (metis unat_mod_4096 unat_eq_zero)

lemma align_bits_12: "align_bits a 12 = a - a mod 4096"
proof -
  have "push_bit 12 (drop_bit 12 a) + take_bit 12 a = a" by (rule bits_ident)
  then show ?thesis by (simp add: align_bits_eq take_bit_eq_mod algebra_simps)
qed

lemma unat_align: "unat (a - a mod 4096) = unat a div 4096 * 4096" for a :: usize
proof -
  have "a mod 4096 \<le> a" by (simp add: word_le_nat_alt unat_mod)
  then have "unat (a - a mod 4096) = unat a - unat a mod 4096"
    by (simp add: unat_sub unat_mod)
  then show ?thesis by (simp add: minus_mod_eq_div_mult)
qed

lemma aligned_align [simp]: "page_aligned (a - a mod 4096)"
  by (simp add: page_aligned_unat unat_align)

lemma aligned_align_bits [simp]: "page_aligned (align_bits a 12)"
  by (simp add: align_bits_12)

lemma align_page: "page_aligned a \<Longrightarrow> align_bits a 12 = a"
  by (simp add: align_bits_12)

lemma page_aligned_add: "page_aligned a \<Longrightarrow> page_aligned (a + n * 4096)"
proof -
  assume a: "page_aligned a"
  have "unat (a + n * 4096) = (unat a + unat n * 4096) mod 2 ^ 64"
    by (simp add: unat_word_ariths mod_simps)
  then have "unat (a + n * 4096) mod 4096 = (unat a + unat n * 4096) mod 4096"
    by (simp only:) (rule mod_mod_cancel, simp)
  then show ?thesis using a unfolding page_aligned_unat by (simp only: mod_mult_self1)
qed
section \<open>Pages of a range\<close>

lemma page_at:
  fixes a b :: usize
  assumes "i < (unat b - unat a + 4095) div 4096"
  shows "unat (a + of_nat i * 4096) = unat a + i * 4096" and "unat a + i * 4096 < unat b"
proof -
  have "Suc i \<le> (unat b - unat a + 4095) div 4096" using assms by (rule Suc_leI)
  then have "Suc i * 4096 \<le> unat b - unat a + 4095"
    by (simp only: less_eq_div_iff_mult_less_eq zero_less_numeral)
  then show lt: "unat a + i * 4096 < unat b" by (simp only: mult_Suc)
  have "unat b < 2 ^ 64" by (rule order.strict_trans2 [OF unsigned_less]) simp
  then have "unat a + i * 4096 < 2 ^ 64" using lt by (rule order.strict_trans [rotated])
  then have "unat (of_nat (unat a + i * 4096) :: usize) = unat a + i * 4096"
    by (rule unat_of_nat_small)
  then show "unat (a + of_nat i * 4096) = unat a + i * 4096" by simp
qed

lemma page_list_mem:
  assumes "x \<in> set (page_list a b)"
  shows "a \<le> x" and "x < b" and "page_aligned a \<Longrightarrow> page_aligned x"
proof -
  obtain i where i: "i < (unat b - unat a + 4095) div 4096" "x = a + of_nat i * 4096"
    using assms unfolding page_list_def by (auto simp only: set_map set_upt atLeastLessThan_iff)
  note at = page_at [OF i(1)]
  show "a \<le> x" "x < b" using at by (simp_all add: i(2) word_le_nat_alt word_less_nat_alt)
  show "page_aligned x" if "page_aligned a" using that at(1) by (simp add: i(2) page_aligned_unat)
qed

lemma page_list_distinct: "distinct (page_list a b)"
proof -
  have "inj_on (\<lambda>i. a + of_nat i * 4096) (set [0 ..< (unat b - unat a + 4095) div 4096])"
  proof (rule inj_onI)
    fix i j assume "i \<in> set [0 ..< (unat b - unat a + 4095) div 4096]"
      and "j \<in> set [0 ..< (unat b - unat a + 4095) div 4096]"
      and eq: "a + of_nat i * 4096 = a + of_nat j * 4096"
    then have "i < (unat b - unat a + 4095) div 4096" "j < (unat b - unat a + 4095) div 4096"
      by (simp_all only: set_upt atLeastLessThan_iff)
    then have "unat a + i * 4096 = unat a + j * 4096" using page_at(1) eq by metis
    then show "i = j" by simp
  qed
  then show ?thesis by (simp add: page_list_def distinct_map)
qed

lemma page_list_covers:
  assumes "page_aligned a" and "a \<le> v" and "v < b"
  shows "v - v mod 4096 \<in> set (page_list a b)"
proof -
  define i where "i = unat v div 4096 - unat a div 4096"
  have a: "unat a = unat a div 4096 * 4096"
    using assms(1) by (metis page_aligned_unat mod_eq_0_iff_dvd dvd_div_mult_self)
  have le: "unat a \<le> unat v" and lt: "unat v < unat b"
    using assms(2,3) by (simp_all add: word_le_nat_alt word_less_nat_alt)
  have i: "i < (unat b - unat a + 4095) div 4096"
    using a le lt unfolding i_def by (simp add: less_eq_div_iff_mult_less_eq Suc_le_eq [symmetric])
  have "unat (v - v mod 4096) = unat a + i * 4096"
    using a div_le_mono [OF le, of 4096] unfolding unat_align i_def by (simp add: diff_mult_distrib)
  then have "v - v mod 4096 = a + of_nat i * 4096"
    using page_at(1) [OF i] by (simp add: word_unat_eq_iff)
  then show ?thesis using i by (auto simp: page_list_def)
qed

lemma ceil_4096: "(n + 4095) div 4096 = n div 4096 + (if n mod 4096 = 0 then 0 else 1)" for n :: nat
proof -
  have "(n + 4095) div 4096 = n div 4096 + (n mod 4096 + 4095) div 4096"
    by (subst div_add1_eq) simp
  moreover have "(n mod 4096 + 4095) div 4096 = 1" if "n mod 4096 \<noteq> 0"
  proof (rule div_nat_eqI)
    show "4096 * 1 \<le> n mod 4096 + 4095" using that by linarith
    have "n mod 4096 < 4096" by simp
    then show "n mod 4096 + 4095 < 4096 * Suc 1" by simp
  qed
  ultimately show ?thesis by simp
qed

lemma ceil_mult_4096:
  "(n + 4095) div 4096 * 4096 = (if n mod 4096 = 0 then n else n + (4096 - n mod 4096))" for n :: nat
proof (cases "n mod 4096 = 0")
  case True
  then show ?thesis using div_mult_mod_eq [of n 4096] unfolding ceil_4096 by simp
next
  case False
  have "n mod 4096 \<le> n" "n mod 4096 < 4096" by simp_all
  then have "n + (4096 - n mod 4096) = (n - n mod 4096) + 4096" by linarith
  then show ?thesis using False unfolding ceil_4096 minus_mod_eq_div_mult by simp
qed

lemma page_list_Nil: "b \<le> a \<Longrightarrow> page_list a b = []"
  by (simp add: page_list_def word_le_nat_alt)

end
