(* ===== verification/Linux_Api.thy ===== *)
theory Linux_Api
  imports Uspace Pages
begin

text \<open>
  The rest of what the kernel thread uses of other crates: \<open>syscalls\<close> (numbers and error
  codes), \<open>axerrno\<close>, \<open>bitflags\<close>, \<open>memory_addr\<close>, the ELF parsers \<open>xmas_elf\<close>
  and \<open>object\<close>, and the values that only the linker and the compiler know (the addresses of
  the window pages, the embedded ELF images, the layout of Rust structs that are not
  \<open>repr(C)\<close>). They are fields of \<open>kenv\<close>, which extends the record of seL4 operations;
  the named predicates state what \<open>memory_addr\<close> and \<open>bitflags\<close> document.

  \<open>fuel\<close> bounds the loops whose end depends on the user's data or on these crates.
\<close>

section \<open>Codes\<close>

datatype errno = EINVAL | EFAULT | ENOMEM | ENOSYS

datatype sysno =
    Sys_write | Sys_brk | Sys_mmap | Sys_munmap | Sys_exit | Sys_exit_group | Sys_getpid
  | Sys_execve | Sys_clone | Sys_gettid | Sys_sched_yield | Sys_getppid | Sys_set_tid_address
  | Sys_getuid | Sys_geteuid | Sys_socket | Sys_accept | Sys_bind | Sys_connect | Sys_listen
  | Sys_sendto | Sys_recvfrom | Sys_shutdown | Sys_other nat

datatype ax_error =
    AddrInUse | AlreadyExists | BadState | ConnectionRefused | ConnectionReset | InvalidInput
  | NotConnected | Timeout | WouldBlock | Other_ax nat

section \<open>ELF images\<close>

record program_header =
  ph_is_load :: bool
  ph_is_tls :: bool
  ph_offset :: u64
  ph_virtual_addr :: u64
  ph_file_size :: u64
  ph_mem_size :: u64

record elf_file =
  elf_entry_point :: u64
  elf_program_headers :: "program_header list"
  elf_sections :: "(u64 \<times> u64) list"
  elf_tbss :: "u64 option"

record segment =
  seg_address :: u64
  seg_size :: u64
  seg_data :: "u8 list option"
  seg_p_flags :: "u32 option"

section \<open>The environment of the kernel thread\<close>

record 'k kenv = "'k sel4" +
  fuel :: nat
  page_seat_vaddr :: usize
  ext_page_seat :: usize
  align_offset_4k :: "usize \<Rightarrow> usize"
  align_down_4k :: "usize \<Rightarrow> usize"
  align_up_4k :: "usize \<Rightarrow> usize"
  page_iter_4k :: "usize \<Rightarrow> usize \<Rightarrow> usize list option"
  sysno_new :: "usize \<Rightarrow> sysno option"
  errno_into_raw :: "errno \<Rightarrow> i32"
  flags_from_bits :: "i32 list \<Rightarrow> i32 \<Rightarrow> i32 option"
  flags_contains :: "i32 \<Rightarrow> i32 \<Rightarrow> bool"
  ax_try_from :: "i32 \<Rightarrow> ax_error option"
  clone_args_of_bytes :: "u8 list \<Rightarrow> clone_args"
  socket_addr_bytes :: "socket_addr \<Rightarrow> u8 list"
  bytes_beyond :: "nat \<Rightarrow> 'k \<Rightarrow> u8 list"
  local_ptr :: u64
  elf_parse :: "u8 list \<Rightarrow> elf_file option"
  object_parse :: "u8 list \<Rightarrow> segment list option"
  TEST_ELF :: "u8 list"
  SHIM_ELF :: "u8 list"
  fault_vm_addr :: "message_info \<Rightarrow> regs \<Rightarrow> u64 option"
  va_add :: "usize \<Rightarrow> usize \<Rightarrow> usize option"
  va_sub :: "usize \<Rightarrow> usize \<Rightarrow> usize option"
  size_of_CloneArgs :: usize
  size_of_SocketAddr :: usize

section \<open>What is assumed of them\<close>

text \<open>\<open>memory_addr\<close>: alignment to 4 KiB pages, the iterator over the pages of a range, and the
  sum and difference of addresses, of which nothing is said when they overflow.\<close>

definition memory_addr_laws :: "'k kenv \<Rightarrow> bool" where
  "memory_addr_laws E \<longleftrightarrow>
     (\<forall>a. align_offset_4k E a = a mod 4096)
     \<and> (\<forall>a. align_down_4k E a = a - a mod 4096)
     \<and> (\<forall>a. align_up_4k E a = (a + 4095) - (a + 4095) mod 4096)
     \<and> (\<forall>a b. page_iter_4k E a b =
            (if a mod 4096 = 0 \<and> b mod 4096 = 0 then Some (page_list a b) else None))
     \<and> (\<forall>a b. unat a + unat b < 2 ^ 64 \<longrightarrow> va_add E a b = Some (a + b))
     \<and> (\<forall>a b. b \<le> a \<longrightarrow> va_sub E a b = Some (a - b))"

text \<open>\<open>bitflags\<close>: \<open>from_bits\<close> refuses unknown bits, \<open>contains\<close> tests all bits.\<close>

definition bitflags_laws :: "'k kenv \<Rightarrow> bool" where
  "bitflags_laws E \<longleftrightarrow>
     (\<forall>known x. flags_from_bits E known x = (if x AND NOT (foldr (OR) known 0) = 0 then Some x else None))
     \<and> (\<forall>x f. flags_contains E x f \<longleftrightarrow> x AND f = f)"

end
