(* ===== verification/Elf_Image.thy ===== *)
theory Elf_Image
  imports Allocator Linux_Api
begin

text \<open>
  \<^verbatim>\<open>src/crates/common/src/utils.rs\<close>: mapping an ELF image into an address space. The image
  is what the \<open>object\<close> crate makes of the file, a list of segments. \<open>map_image\<close> allocates
  the frames of the footprint, fills them through a window in the caller's address space and maps
  them into the target, recording them in the page map of the task.
\<close>

section \<open>Footprints\<close>

definition round_down :: "usize \<Rightarrow> usize \<Rightarrow> usize" where
  "round_down n b = n - n mod b"

definition next_multiple_of :: "usize \<Rightarrow> usize \<Rightarrow> usize" where
  "next_multiple_of n b = (if n mod b = 0 then n else n + (b - n mod b))"

definition coarsen_footprint :: "usize \<times> usize \<Rightarrow> usize \<Rightarrow> usize \<times> usize" where
  "coarsen_footprint fp granularity =
     (round_down (fst fp) granularity, next_multiple_of (snd fp) granularity)"

text \<open>\<open>Range<usize>::len\<close>\<close>

definition range_len :: "usize \<times> usize \<Rightarrow> usize" where
  "range_len fp = (if fst fp < snd fp then snd fp - fst fp else 0)"

fun list_min :: "u64 list \<Rightarrow> u64 option" where
  "list_min [] = None"
| "list_min (x # xs) = (case list_min xs of None \<Rightarrow> Some x | Some y \<Rightarrow> Some (min x y))"

fun list_max :: "u64 list \<Rightarrow> u64 option" where
  "list_max [] = None"
| "list_max (x # xs) = (case list_max xs of None \<Rightarrow> Some x | Some y \<Rightarrow> Some (max x y))"

definition footprint :: "('k, 'e) sel4_scheme \<Rightarrow> segment list \<Rightarrow> ('s, usize \<times> usize) M" where
  "footprint S segs =
     bnd (unwrap_opt (list_min (map seg_address segs))) (\<lambda>lo.
     bnd (unwrap_opt (list_max (map (\<lambda>seg. seg_address seg + seg_size seg) segs))) (\<lambda>hi.
     ret (coarsen_footprint (lo, hi) (GRANULE_SIZE S))))"

section \<open>Page tables for a footprint\<close>

definition map_tables_at_level ::
  "('k, 'e) sel4_scheme \<Rightarrow> cptr \<Rightarrow> usize \<times> usize \<Rightarrow> nat \<Rightarrow> (('k, 'z) alloc_sys_scheme, unit) M" where
  "map_tables_at_level S vspace fp level =
     (let span_bytes = push_bit (span_bits S level) 1;
          footprint_at_level = coarsen_footprint fp span_bytes in
      for_each (\<lambda>i.
        bnd (unwrap_opt (if table_from_level S level then Some level else None)) (\<lambda>ty.
        let addr = fst footprint_at_level + of_nat i * span_bytes in
        bnd (allocate_and_retype S (BP_Table ty)) (\<lambda>cap.
        kcall_unwrap (table_map S cap ty vspace addr))))
      [0 ..< unat (range_len footprint_at_level div span_bytes)])"

definition map_intermediate_translation_tables ::
  "('k, 'e) sel4_scheme \<Rightarrow> cptr \<Rightarrow> usize \<times> usize \<Rightarrow> (('k, 'z) alloc_sys_scheme, unit) M" where
  "map_intermediate_translation_tables S vspace fp =
     for_each (map_tables_at_level S vspace fp) [1 ..< NUM_LEVELS S]"

section \<open>Mapping an image\<close>

definition PF_X :: u32 where "PF_X = 1"
definition PF_W :: u32 where "PF_W = 2"
definition PF_R :: u32 where "PF_R = 4"

definition add_rights :: "cap_rights \<Rightarrow> u32 option \<Rightarrow> ('s, cap_rights) M" where
  "add_rights rights flags =
     (case flags of
        Some p_flags \<Rightarrow>
          (let r1 = (if p_flags AND PF_R \<noteq> 0 then rights\<lparr>cr_read := True\<rparr> else rights);
               r2 = (if p_flags AND PF_W \<noteq> 0 then r1\<lparr>cr_write := True\<rparr> else r1);
               r3 = (if p_flags AND PF_X \<noteq> 0 then r2\<lparr>cr_grant := True\<rparr> else r2)
           in ret r3)
      | None \<Rightarrow> stop (Message ''not implemented''))"

text \<open>\<open>pages[offset..][..n]\<close>\<close>

definition sub_slice :: "'a list \<Rightarrow> usize \<Rightarrow> usize \<Rightarrow> ('s, 'a list) M" where
  "sub_slice xs off n =
     (if length xs < unat off \<or> length (drop (unat off) xs) < unat n then stop Index_out_of_bounds
      else ret (take (unat n) (drop (unat off) xs)))"

primrec copy_segment_data ::
  "('k, 'e) sel4_scheme \<Rightarrow> cptr \<Rightarrow> usize \<Rightarrow> (cptr \<times> cap_rights) list \<Rightarrow> u8 list \<Rightarrow> usize \<Rightarrow>
     (('k, 'z) sys_scheme, unit) M" where
  "copy_segment_data S caller_vspace free_page_addr [] data offset_into_page = ret ()"
| "copy_segment_data S caller_vspace free_page_addr (p # ps) data offset_into_page =
     (let data_len = min (unat (GRANULE_SIZE S - offset_into_page)) (length data) in
      bnd (kcall_unwrap (frame_map S (fst p) caller_vspace free_page_addr rights_all)) (\<lambda>_.
      bnd (kdo (ptr_write S (free_page_addr + offset_into_page) (take data_len data))) (\<lambda>_.
      bnd (kcall_unwrap (frame_unmap S (fst p))) (\<lambda>_.
      copy_segment_data S caller_vspace free_page_addr ps (drop data_len data) 0))))"

definition map_segment ::
  "('k, 'e) sel4_scheme \<Rightarrow> usize \<times> usize \<Rightarrow> cptr \<Rightarrow> usize \<Rightarrow> segment \<Rightarrow> (cptr \<times> cap_rights) list \<Rightarrow>
     (('k, 'z) sys_scheme, (cptr \<times> cap_rights) list) M" where
  "map_segment S fp caller_vspace free_page_addr seg pages =
     (let segment_addr = seg_address seg;
          segment_size = seg_size seg;
          segment_footprint = coarsen_footprint (segment_addr, segment_addr + segment_size) (GRANULE_SIZE S);
          num_pages_spanned_by_segment = range_len segment_footprint div GRANULE_SIZE S in
      bnd (unwrap_opt (seg_data seg)) (\<lambda>data.
      let segment_data_size = of_nat (length data);
          segment_data_footprint =
            coarsen_footprint (segment_addr, segment_addr + segment_data_size) (GRANULE_SIZE S);
          num_pages_spanned_by_segment_data = range_len segment_data_footprint div GRANULE_SIZE S;
          segment_page_index_offset = (fst segment_footprint - fst fp) div GRANULE_SIZE S in
      bnd (sub_slice pages segment_page_index_offset num_pages_spanned_by_segment) (\<lambda>spanned.
      bnd (map_each (\<lambda>p. bnd (add_rights (snd p) (seg_p_flags seg)) (\<lambda>r. ret (fst p, r))) spanned) (\<lambda>spanned'.
      let pages' = take (unat segment_page_index_offset) pages @ spanned'
            @ drop (unat segment_page_index_offset + unat num_pages_spanned_by_segment) pages in
      bnd (sub_slice pages' segment_page_index_offset num_pages_spanned_by_segment_data) (\<lambda>data_pages.
      bnd (copy_segment_data S caller_vspace free_page_addr data_pages data (segment_addr mod GRANULE_SIZE S))
        (\<lambda>_. ret pages'))))))"

primrec map_segments ::
  "('k, 'e) sel4_scheme \<Rightarrow> usize \<times> usize \<Rightarrow> cptr \<Rightarrow> usize \<Rightarrow> segment list \<Rightarrow> (cptr \<times> cap_rights) list \<Rightarrow>
     (('k, 'z) sys_scheme, (cptr \<times> cap_rights) list) M" where
  "map_segments S fp caller_vspace free_page_addr [] pages = ret pages"
| "map_segments S fp caller_vspace free_page_addr (seg # segs) pages =
     bnd (map_segment S fp caller_vspace free_page_addr seg pages) (\<lambda>pages'.
     map_segments S fp caller_vspace free_page_addr segs pages')"

primrec map_pages_into ::
  "('k, 'e) sel4_scheme \<Rightarrow> cptr \<Rightarrow> usize \<Rightarrow> nat \<Rightarrow> (cptr \<times> cap_rights) list \<Rightarrow> (usize, cptr) btree \<Rightarrow>
     (('k, 'z) sys_scheme, (usize, cptr) btree) M" where
  "map_pages_into S vspace start i [] mapped_page = ret mapped_page"
| "map_pages_into S vspace start i (p # ps) mapped_page =
     (let addr = start + of_nat i * GRANULE_SIZE S in
      bnd (kcall_unwrap (frame_map S (fst p) vspace addr (snd p))) (\<lambda>_.
      map_pages_into S vspace start (Suc i) ps (bt_insert addr (fst p) mapped_page)))"

definition map_image ::
  "('k, 'e) sel4_scheme \<Rightarrow> (usize, cptr) btree \<Rightarrow> cptr \<Rightarrow> usize \<times> usize \<Rightarrow> segment list \<Rightarrow> cptr \<Rightarrow> usize \<Rightarrow>
     (('k, 'z) alloc_sys_scheme, (usize, cptr) btree) M" where
  "map_image S mapped_page vspace fp segs caller_vspace free_page_addr =
     (let num_pages = unat (range_len fp div GRANULE_SIZE S) in
      bnd (map_each (\<lambda>_. bnd (allocate_fixed S BP_Granule) (\<lambda>c. ret (c, rights_all))) [0 ..< num_pages]) (\<lambda>pages.
      bnd (map_segments S fp caller_vspace free_page_addr segs pages) (\<lambda>pages'.
      map_pages_into S vspace (fst fp) 0 pages' mapped_page)))"

section \<open>What mapping an image does\<close>

lemma pwp_copy_segment_data:
  "pwp (copy_segment_data S cv fa ps data off) (\<lambda>_ t. kern_only s t) s"
proof (induction ps arbitrary: data off s)
  case Nil
  then show ?case by (simp add: wp_simps)
next
  case (Cons p ps)
  show ?case
    unfolding copy_segment_data.simps Let_def
    by (intro pwp_intros pwp_use [OF Cons]) (drule kern_only_trans [rotated], simp_all)
qed

text \<open>
  The rights that are collected for the pages start from \<open>CapRightsBuilder::all()\<close>, to which
  the flags of a segment can only add.
\<close>

lemma add_rights_all:
  "r = rights_all \<Longrightarrow> pwp (add_rights r flags) (\<lambda>r' t. r' = rights_all \<and> t = s) s"
  by (auto simp: add_rights_def rights_all_def Let_def intro!: pwp_intros)

lemma take_take_drop: "take i xs @ take n (drop i xs) @ drop (i + n) xs = xs"
  by (metis append_take_drop_id drop_drop add.commute)

lemma pwp_map_segment:
  assumes "\<forall>p \<in> set pages. snd p = rights_all"
  shows "pwp (map_segment S fp cv fa seg pages) (\<lambda>ps t. ps = pages \<and> kern_only s t) s"
proof -
  have same: "pwp (map_each (\<lambda>p. bnd (add_rights (snd p) (seg_p_flags seg)) (\<lambda>r. ret (fst p, r)))
        (take n (drop i pages))) (\<lambda>ys t. ys = take n (drop i pages) \<and> t = u) u" for n i u
  proof (rule pwp_map_each_same)
    fix p assume "p \<in> set (take n (drop i pages))"
    then have "snd p = rights_all" using assms by (meson in_set_dropD in_set_takeD)
    then show "pwp (bnd (add_rights (snd p) (seg_p_flags seg)) (\<lambda>r. ret (fst p, r))) (\<lambda>y t. y = p \<and> t = u) u"
      by (intro pwp_bnd pwp_use [OF add_rights_all]) (auto simp: wp_simps prod_eq_iff)
  qed
  show ?thesis
    unfolding map_segment_def Let_def sub_slice_def
    apply (intro pwp_intros)
    apply (rule pwp_use [OF same])
    apply (elim conjE, hypsubst)
    apply (intro pwp_intros)
    apply (rule pwp_use [OF pwp_copy_segment_data])
    apply (intro pwp_intros)
    apply (simp add: take_take_drop)
    done
qed

lemma pwp_map_segments:
  assumes "\<forall>p \<in> set pages. snd p = rights_all"
  shows "pwp (map_segments S fp cv fa segs pages) (\<lambda>ps t. ps = pages \<and> kern_only s t) s"
proof (induction segs arbitrary: s)
  case Nil
  then show ?case by (simp add: wp_simps)
next
  case (Cons seg segs)
  show ?case
    unfolding map_segments.simps
    by (intro pwp_bnd pwp_use [OF pwp_map_segment [OF assms]]; clarify; intro pwp_use [OF Cons])
      (auto intro: kern_only_trans)
qed

text \<open>The page map after \<open>caps\<close> have been entered one page after the other from \<open>start\<close>.\<close>

definition with_pages :: "usize \<Rightarrow> usize \<Rightarrow> nat \<Rightarrow> cptr list \<Rightarrow> (usize, cptr) btree \<Rightarrow> (usize, cptr) btree" where
  "with_pages g start i caps m =
     fold (\<lambda>(j, c). bt_insert (start + of_nat j * g) c) (enumerate i caps) m"

lemma pwp_map_pages_into:
  "pwp (map_pages_into S v start i ps m)
     (\<lambda>m' t. m' = with_pages (GRANULE_SIZE S) start i (map fst ps) m \<and> kern_only s t) s"
proof (induction ps arbitrary: i m s)
  case Nil
  then show ?case by (simp add: wp_simps with_pages_def)
next
  case (Cons p ps)
  show ?case
    unfolding map_pages_into.simps Let_def
    by (intro pwp_intros pwp_use [OF Cons]) (auto simp: with_pages_def intro: kern_only_trans)
qed

lemma bt_ok_with_pages: "bt_ok m \<Longrightarrow> bt_ok (with_pages g start i caps m)"
  by (induction caps arbitrary: i m) (auto simp: with_pages_def bt_facts)

lemma with_pages_mem:
  "p \<in> set (with_pages g start i caps m) \<Longrightarrow>
     p \<in> set m \<or> p \<in> set (zip (map (\<lambda>j. start + of_nat j * g) [i ..< i + length caps]) caps)"
proof (induction caps arbitrary: i m)
  case Nil
  then show ?case by (simp add: with_pages_def)
next
  case (Cons c caps)
  then have "p \<in> set (with_pages g start (Suc i) caps (bt_insert (start + of_nat i * g) c m))"
    by (simp add: with_pages_def)
  from Cons.IH [OF this] show ?case
    by (auto simp: upt_conv_Cons simp del: upt_Suc dest!: bt_insert_mem)
qed

lemma map_add_zip_fresh:
  "k \<notin> set ks \<Longrightarrow> m(k \<mapsto> c) ++ map_of (zip ks cs) = m ++ (map_of (zip ks cs))(k \<mapsto> c)"
  by (auto simp: map_add_def fun_eq_iff split: option.splits dest!: map_of_SomeD set_zip_leftD)

lemma bt_get_with_pages:
  "bt_ok m \<Longrightarrow> distinct (map (\<lambda>j. start + of_nat j * g) [i ..< i + length caps]) \<Longrightarrow>
     bt_get (with_pages g start i caps m)
       = bt_get m ++ map_of (zip (map (\<lambda>j. start + of_nat j * g) [i ..< i + length caps]) caps)"
proof (induction caps arbitrary: i m)
  case Nil
  then show ?case by (simp add: with_pages_def)
next
  case (Cons c caps)
  let ?k = "\<lambda>j. start + of_nat j * g"
  have keys: "map ?k [i ..< i + length (c # caps)] = ?k i # map ?k [Suc i ..< Suc i + length caps]"
    by (simp add: upt_conv_Cons del: upt_Suc)
  then have d: "?k i \<notin> set (map ?k [Suc i ..< Suc i + length caps])"
    "distinct (map ?k [Suc i ..< Suc i + length caps])"
    using Cons.prems(2) by (simp_all del: upt_Suc)
  have "bt_get (with_pages g start i (c # caps) m)
      = bt_get (with_pages g start (Suc i) caps (bt_insert (?k i) c m))"
    by (simp add: with_pages_def)
  also have "\<dots> = (bt_get m)(?k i \<mapsto> c) ++ map_of (zip (map ?k [Suc i ..< Suc i + length caps]) caps)"
    using Cons.IH [OF bt.ok_ins [OF Cons.prems(1)] d(2), of "?k i" c]
    unfolding bt.get_ins [OF Cons.prems(1)] .
  also have "\<dots> = bt_get m ++ map_of (zip (map ?k [i ..< i + length (c # caps)]) (c # caps))"
    unfolding keys zip_Cons_Cons map_of.simps fst_conv snd_conv by (rule map_add_zip_fresh [OF d(1)])
  finally show ?case .
qed

lemma pwp_map_image:
  "pwp (map_image S m v fp segs cv fa)
     (\<lambda>m' t. \<exists>caps. caps = slots_from (first_free s) (unat (range_len fp div GRANULE_SIZE S))
        \<and> m' = with_pages (GRANULE_SIZE S) (fst fp) 0 caps m
        \<and> grown s t \<and> set caps \<subseteq> taken s t \<and> distinct caps) s"
proof -
  let ?n = "unat (range_len fp div GRANULE_SIZE S)"
  have pages: "\<forall>p \<in> set (map (\<lambda>c. (c, rights_all)) cs). snd p = rights_all" for cs by auto
  show ?thesis
    unfolding map_image_def Let_def
    apply (intro pwp_bnd)
    apply (rule pwp_use [OF pwp_allocate_each])
    apply (elim conjE, hypsubst)
    apply (rule pwp_bnd)
    apply (rule pwp_use [OF pwp_map_segments [OF pages]])
    apply (elim conjE, hypsubst)
    apply (rule pwp_use [OF pwp_map_pages_into])
    apply (auto simp: comp_def taken_kern_only intro: grown_kern_only)
    done
qed

section \<open>Footprint arithmetic\<close>

lemma unat_next_multiple_of:
  assumes "unat x \<le> 2 ^ 64 - 4096"
  shows "unat (next_multiple_of x 4096) = (unat x + 4095) div 4096 * 4096"
proof (cases "x mod 4096 = 0")
  case True
  then show ?thesis by (simp add: next_multiple_of_def ceil_mult_4096 page_aligned_unat)
next
  case False
  then have m: "unat x mod 4096 \<noteq> 0" by (simp add: page_aligned_unat)
  have "of_nat (unat x mod 4096) = x mod 4096" by (simp flip: unat_mod_4096)
  then have d: "of_nat (4096 - unat x mod 4096) = 4096 - x mod 4096"
    by (subst of_nat_diff) simp_all
  have "x + (4096 - x mod 4096) = of_nat (unat x + (4096 - unat x mod 4096))"
    unfolding of_nat_add d by simp
  moreover have "unat x + (4096 - unat x mod 4096) < 2 ^ 64" using assms m by linarith
  ultimately show ?thesis
    using False m unfolding next_multiple_of_def ceil_mult_4096 by (simp only: if_False unat_of_nat_small)
qed

lemma unat_round_down: "unat (round_down x 4096) = unat x div 4096 * 4096"
  by (simp add: round_down_def unat_align)

lemma unat_range_len_div:
  "unat (range_len fp div 4096) = (unat (snd fp) - unat (fst fp)) div 4096"
  by (auto simp: range_len_def unat_div unat_sub word_less_nat_alt less_imp_le not_less)





section \<open>Mapping a well-formed image returns\<close>





text \<open>A small image: one segment over two pages.\<close>

definition ref_segment :: segment where
  "ref_segment = \<lparr>seg_address = 0x1ffe, seg_size = 0x10, seg_data = Some [1, 2, 3], seg_p_flags = Some 5\<rparr>"

definition ref_mapped_sys :: "ref_state alloc_sys" where
  "ref_mapped_sys = (ref_alloc_sys 32 1024)\<lparr>kern := ref_init\<lparr>missing_tables := 0\<rparr>\<rparr>"

section \<open>Properties\<close>






lemma list_min_max_None [simp]: "list_min xs = None \<longleftrightarrow> xs = []" "list_max xs = None \<longleftrightarrow> xs = []"
  by (cases xs; simp split: option.split)+

lemma list_min_Some: "list_min xs = Some m \<Longrightarrow> m \<in> set xs \<and> (\<forall>x \<in> set xs. m \<le> x)"
  by (induction xs arbitrary: m) (auto simp: min_def split: option.splits if_splits)

lemma list_max_Some: "list_max xs = Some m \<Longrightarrow> m \<in> set xs \<and> (\<forall>x \<in> set xs. x \<le> m)"
  by (induction xs arbitrary: m) (auto simp: max_def split: option.splits if_splits)

lemma floor_4096: "n div 4096 * 4096 \<le> n" "n < n div 4096 * 4096 + 4096" for n :: nat
  using div_mult_mod_eq [of n 4096] mod_less_divisor [of 4096 n] by simp_all

lemma ceil_bounds_4096: "n \<le> (n + 4095) div 4096 * 4096 \<and> (n + 4095) div 4096 * 4096 < n + 4096" for n :: nat
proof -
  have "r < 4096 \<Longrightarrow> n \<le> (if r = 0 then n else n + (4096 - r)) \<and> (if r = 0 then n else n + (4096 - r)) < n + 4096"
    for r by auto
  then show ?thesis unfolding ceil_mult_4096 by simp
qed

text \<open>
  C9. The footprint of an image is page aligned and covers every segment, and neither of its ends
  is a page further out than a segment needs.
\<close>

theorem footprint_covers:
  assumes "GRANULE_SIZE S = 4096" and "footprint S segs s = (Ret (a, b), t)"
    and "\<forall>seg \<in> set segs. unat (seg_address seg) + unat (seg_size seg) \<le> 2 ^ 64 - 4096"
  shows "page_aligned a \<and> page_aligned b
    \<and> (\<forall>seg \<in> set segs. a \<le> seg_address seg
          \<and> unat (seg_address seg) + unat (seg_size seg) \<le> unat b)
    \<and> (\<exists>seg \<in> set segs. unat (seg_address seg) < unat a + 4096)
    \<and> (\<exists>seg \<in> set segs. unat b < unat (seg_address seg) + unat (seg_size seg) + 4096)"
proof -
  obtain lo hi where lo: "list_min (map seg_address segs) = Some lo"
    and hi: "list_max (map (\<lambda>seg. seg_address seg + seg_size seg) segs) = Some hi"
    and ab: "a = round_down lo 4096" "b = next_multiple_of hi 4096"
    using assms(1,2)
    by (auto simp: footprint_def bnd_Ret_iff coarsen_footprint_def run_simps split: option.splits)
  have sum: "unat (seg_address seg + seg_size seg) = unat (seg_address seg) + unat (seg_size seg)"
    if "seg \<in> set segs" for seg
    using bspec [OF assms(3) that] by (intro unat_add_small) simp
  note lo' = list_min_Some [OF lo] and hi' = list_max_Some [OF hi]
  obtain x y where x: "x \<in> set segs" "lo = seg_address x"
    and y: "y \<in> set segs" "hi = seg_address y + seg_size y"
    using lo' hi' by auto
  have b: "unat b = (unat hi + 4095) div 4096 * 4096"
    unfolding ab using bspec [OF assms(3) y(1)] sum [OF y(1)] by (intro unat_next_multiple_of) (simp add: y(2))
  have a: "unat a = unat lo div 4096 * 4096" by (simp add: ab unat_round_down)
  have "a \<le> seg_address seg \<and> unat (seg_address seg) + unat (seg_size seg) \<le> unat b" if "seg \<in> set segs" for seg
  proof -
    have "lo \<le> seg_address seg" and "seg_address seg + seg_size seg \<le> hi"
      using lo' hi' that by auto
    then have "unat lo \<le> unat (seg_address seg)" and "unat (seg_address seg) + unat (seg_size seg) \<le> unat hi"
      using sum [OF that] by (simp_all add: word_le_nat_alt)
    then show ?thesis
      using floor_4096(1) [of "unat lo"] ceil_bounds_4096 [of "unat hi"]
      unfolding word_le_nat_alt a b by linarith
  qed
  then show ?thesis
    using floor_4096 [of "unat lo"] ceil_bounds_4096 [of "unat hi"] x y sum [OF y(1)]
    by (auto simp: page_aligned_unat a b)
qed

theorem footprint_covers_witness:
  "footprint ref_kernel [ref_segment] () = (Ret (0x1000, 0x3000), ())
   \<and> (\<exists>seg \<in> set [ref_segment]. unat (0x3000 :: usize) < unat (seg_address seg) + unat (seg_size seg) + 4096)"
proof -
  have run: "footprint ref_kernel [ref_segment] () = (Ret (0x1000, 0x3000), ())"
    by (simp add: footprint_def run_simps ref_segment_def coarsen_footprint_def round_down_def next_multiple_of_def)
  have "\<forall>seg \<in> set [ref_segment]. unat (seg_address seg) + unat (seg_size seg) \<le> 2 ^ 64 - 4096"
    by (simp add: ref_segment_def)
  from footprint_covers [OF _ run this] run show ?thesis by simp
qed

lemma page_list_aligned_length:
  "page_aligned a \<Longrightarrow> page_aligned b \<Longrightarrow> length (page_list a b) = (unat b - unat a) div 4096"
  by (auto simp: page_list_def page_aligned_unat mod_eq_0_iff_dvd ceil_4096 elim!: dvdE
      simp flip: diff_mult_distrib2)

text \<open>
  C3. After \<open>map_image\<close> the page map of the task has exactly the old entries and one entry per
  page of the footprint, and the frames are the next free slots in the order of the pages.
\<close>

theorem map_image_maps_footprint:
  assumes "GRANULE_SIZE S = 4096" and "page_aligned a" and "page_aligned b" and "bt_ok m"
    and "map_image S m v (a, b) segs cv fa s = (Ret m', t)"
    and "caps = slots_from (first_free s) (length (page_list a b))"
  shows "bt_get m' = bt_get m ++ map_of (zip (page_list a b) caps) \<and> bt_ok m'
    \<and> distinct caps \<and> set caps \<subseteq> taken s t \<and> grown s t"
proof -
  let ?n = "(unat b - unat a) div 4096"
  have n: "unat (range_len (a, b) div 4096) = ?n" "length (page_list a b) = ?n"
    by (simp_all add: assms(2,3) unat_range_len_div page_list_aligned_length)
  have r: "m' = with_pages 4096 a 0 caps m" "grown s t" "set caps \<subseteq> taken s t" "distinct caps"
    using pwp_Ret [OF pwp_map_image assms(5)] by (simp_all add: n assms(1,6))
  have "page_list a b = map (\<lambda>j. a + of_nat j * 4096) [0 ..< 0 + length caps]"
    using n(2) by (simp add: page_list_def assms(6) slots_from_def)
  with r show ?thesis
    using bt_get_with_pages [OF assms(4), of a 4096 0 caps] page_list_distinct [of a b]
      bt_ok_with_pages [OF assms(4)] by simp
qed

lemma ref_image_run:
  "fst (map_image ref_kernel [] 7 (0x1000, 0x3000) [ref_segment] 3 0x5000 ref_mapped_sys)
     = Ret [(0x1000, 32), (0x2000, 33)]"
  by (simp add: map_image_def [THEN fun_cong] map_segment_def [THEN fun_cong]
      sub_slice_def [THEN fun_cong] add_rights_def [THEN fun_cong] coarsen_footprint_def
      round_down_def next_multiple_of_def range_len_def ref_segment_def ref_mapped_sys_def PF_R_def
      PF_W_def PF_X_def rights_all_def ref_defs alloc_runs run_simps Let_def upt_0_2)

theorem map_image_maps_footprint_witness:
  "\<exists>t. map_image ref_kernel [] 7 (0x1000, 0x3000) [ref_segment] 3 0x5000 ref_mapped_sys
       = (Ret [(0x1000, 32), (0x2000, 33)], t)
     \<and> set (slots_from (first_free ref_mapped_sys) (length (page_list 0x1000 0x3000))) \<subseteq> taken ref_mapped_sys t"
proof -
  obtain t where run: "map_image ref_kernel [] 7 (0x1000, 0x3000) [ref_segment] 3 0x5000 ref_mapped_sys
      = (Ret [(0x1000, 32), (0x2000, 33)], t)"
    using ref_image_run by (metis prod.collapse)
  from map_image_maps_footprint [OF _ _ _ _ run refl] run show ?thesis by simp
qed

end
