(* ===== verification/Kernel_Task.thy ===== *)
theory Kernel_Task
  imports Elf_Image
begin

text \<open>
  \<^verbatim>\<open>src/crates/kernel-thread/src/task.rs\<close>: the tasks of the kernel thread. A \<open>Sel4Task\<close>
  is a record; a method with \<open>&mut self\<close> takes the task and returns the new one, next to its
  effect on the allocator and the kernel. The kernel thread's own state adds the task table
  (\<open>TASK_MAP\<close>) and the identifier counter to the state of an allocating thread.

  \<open>usize\<close> values that the source writes to the stack of a new task are stored as the eight
  little-endian bytes of AArch64.
\<close>

section \<open>State\<close>

record sel4_task =
  pid :: usize
  tid :: usize
  tcb :: cptr
  cnode :: cptr
  vspace :: cptr
  mapped_pt :: "cptr list"
  mapped_page :: "(usize, cptr) btree"
  heap :: usize
  exit_code :: "i32 option"
  clear_child_tid :: "usize option"

record 'k kthread = "'k alloc_sys" +
  task_map :: "(u64, sel4_task) btree"
  id_counter :: u64

datatype auxv =
    AT_NULL | AT_IGNORE | AT_EXECFD | AT_PHDR | AT_PHENT | AT_PHNUM | AT_PAGESZ | AT_BASE | AT_FLAGS
  | AT_ENTRY | AT_NOTELF | AT_UID | AT_EUID | AT_GID | AT_EGID | AT_PLATFORM | AT_HWCAP | AT_CLKTCK
  | AT_DCACHEBSIZE | AT_SECURE | AT_BASE_PLATFORM | AT_RANDOM | AT_HWCAP2 | AT_EXECFN

fun auxv_num :: "auxv \<Rightarrow> usize" where
  "auxv_num AT_NULL = 0"
| "auxv_num AT_IGNORE = 1"
| "auxv_num AT_EXECFD = 2"
| "auxv_num AT_PHDR = 3"
| "auxv_num AT_PHENT = 4"
| "auxv_num AT_PHNUM = 5"
| "auxv_num AT_PAGESZ = 6"
| "auxv_num AT_BASE = 7"
| "auxv_num AT_FLAGS = 8"
| "auxv_num AT_ENTRY = 9"
| "auxv_num AT_NOTELF = 10"
| "auxv_num AT_UID = 11"
| "auxv_num AT_EUID = 12"
| "auxv_num AT_GID = 13"
| "auxv_num AT_EGID = 14"
| "auxv_num AT_PLATFORM = 15"
| "auxv_num AT_HWCAP = 16"
| "auxv_num AT_CLKTCK = 17"
| "auxv_num AT_DCACHEBSIZE = 19"
| "auxv_num AT_SECURE = 23"
| "auxv_num AT_BASE_PLATFORM = 24"
| "auxv_num AT_RANDOM = 25"
| "auxv_num AT_HWCAP2 = 26"
| "auxv_num AT_EXECFN = 31"

lemma auxv_num_inj: "auxv_num a = auxv_num b \<Longrightarrow> a = b"
  by (cases a; cases b) simp_all

text \<open>\<open>derive(PartialOrd, Ord)\<close>: the order of the declaration, which is that of the numbers.\<close>

instantiation auxv :: linorder
begin

definition less_eq_auxv :: "auxv \<Rightarrow> auxv \<Rightarrow> bool" where
  "less_eq_auxv a b \<longleftrightarrow> auxv_num a \<le> auxv_num b"

definition less_auxv :: "auxv \<Rightarrow> auxv \<Rightarrow> bool" where
  "less_auxv a b \<longleftrightarrow> auxv_num a < auxv_num b"

instance
  by standard (auto simp: less_eq_auxv_def less_auxv_def dest: auxv_num_inj)

end

section \<open>Creation and destruction\<close>

definition new_task :: "'k kenv \<Rightarrow> ('k kthread, sel4_task) M" where
  "new_task E =
     bnd (allocate_fixed E BP_VSpace) (\<lambda>vs.
     bnd (kcall_unwrap (asid_pool_assign E (slot_ASID_POOL E) vs)) (\<lambda>_.
     bnd (allocate_fixed E BP_Tcb) (\<lambda>tc.
     bnd (allocate_cnode E CNODE_RADIX_BITS) (\<lambda>cn.
     bnd (gets id_counter) (\<lambda>i.
     bnd (modify (\<lambda>s. s\<lparr>id_counter := i + 1\<rparr>)) (\<lambda>_.
     ret \<lparr>pid = 0, tid = i, tcb = tc, cnode = cn, vspace = vs, mapped_pt = [], mapped_page = [],
          heap = 0x200000000, exit_code = None, clear_child_tid = None\<rparr>))))))"

definition revoke_and_delete :: "'k kenv \<Rightarrow> cptr \<Rightarrow> (('k, 'z) sys_scheme, unit) M" where
  "revoke_and_delete E c =
     bnd (kcall_unwrap (cnode_revoke E (Relative (slot_CNODE E) c))) (\<lambda>_.
     kcall_unwrap (cnode_delete E (Relative (slot_CNODE E) c)))"

definition drop_task :: "'k kenv \<Rightarrow> sel4_task \<Rightarrow> (('k, 'z) sys_scheme, unit) M" where
  "drop_task E t =
     bnd (revoke_and_delete E (tcb t)) (\<lambda>_.
     bnd (revoke_and_delete E (cnode t)) (\<lambda>_.
     bnd (revoke_and_delete E (vspace t)) (\<lambda>_.
     bnd (for_each (revoke_and_delete E) (mapped_pt t)) (\<lambda>_.
     for_each (\<lambda>p. revoke_and_delete E (snd p)) (bt_iter (mapped_page t))))))"

section \<open>Address space\<close>

fun free_area_loop :: "usize \<Rightarrow> usize \<Rightarrow> (usize \<times> cptr) list \<Rightarrow> usize" where
  "free_area_loop last_addr sz [] = last_addr"
| "free_area_loop last_addr sz ((vaddr, _) # pages) =
     (if last_addr + sz \<le> vaddr then last_addr else free_area_loop (vaddr + PAGE_SIZE) sz pages)"

definition find_free_area :: "sel4_task \<Rightarrow> usize \<Rightarrow> usize \<Rightarrow> usize option" where
  "find_free_area t start sz =
     Some (free_area_loop (max USPACE_BASE start) sz (bt_iter (mapped_page t)))"

primrec map_page_loop ::
  "'k kenv \<Rightarrow> nat \<Rightarrow> sel4_task \<Rightarrow> usize \<Rightarrow> cptr \<Rightarrow> (('k, 'z) alloc_sys_scheme, sel4_task) M" where
  "map_page_loop E 0 t vaddr page = ret t"
| "map_page_loop E (Suc n) t vaddr page =
     bnd (kcall (frame_map E page (vspace t) vaddr rights_all)) (\<lambda>res.
     case res of
       Inr _ \<Rightarrow> ret (t\<lparr>mapped_page := bt_insert vaddr page (mapped_page t)\<rparr>)
     | Inl e \<Rightarrow>
         (if e = FailedLookup then
            bnd (allocate_fixed E BP_PT) (\<lambda>pt_cap.
            bnd (kcall_unwrap (pt_map E pt_cap (vspace t) vaddr)) (\<lambda>_.
            map_page_loop E n (t\<lparr>mapped_pt := mapped_pt t @ [pt_cap]\<rparr>) vaddr page))
          else stop Unwrap_err))"

definition map_page ::
  "'k kenv \<Rightarrow> sel4_task \<Rightarrow> usize \<Rightarrow> cptr \<Rightarrow> (('k, 'z) alloc_sys_scheme, sel4_task) M" where
  "map_page E t vaddr page =
     bnd (assert_that (vaddr mod PAGE_SIZE = 0)) (\<lambda>_.
     map_page_loop E (NUM_LEVELS E) t vaddr page)"

definition unmap_page ::
  "'k kenv \<Rightarrow> sel4_task \<Rightarrow> usize \<Rightarrow> cptr \<Rightarrow> (('k, 'z) sys_scheme, sel4_task) M" where
  "unmap_page E t vaddr page =
     bnd (assert_that (vaddr mod PAGE_SIZE = 0)) (\<lambda>_.
     bnd (kcall (frame_unmap E page)) (\<lambda>res.
     case res of
       Inr _ \<Rightarrow> ret (t\<lparr>mapped_page := bt_remove vaddr (mapped_page t)\<rparr>)
     | Inl _ \<Rightarrow> stop Unwrap_err))"

text \<open>One new frame per page of a range, as in \<open>brk\<close>.\<close>

primrec map_new_pages ::
  "'k kenv \<Rightarrow> usize list \<Rightarrow> sel4_task \<Rightarrow> (('k, 'z) alloc_sys_scheme, sel4_task) M" where
  "map_new_pages E [] t = ret t"
| "map_new_pages E (vaddr # vaddrs) t =
     bnd (allocate_fixed E BP_Granule) (\<lambda>page_cap.
     bnd (map_page E t vaddr page_cap) (\<lambda>t'. map_new_pages E vaddrs t'))"

definition brk ::
  "'k kenv \<Rightarrow> sel4_task \<Rightarrow> usize \<Rightarrow> (('k, 'z) alloc_sys_scheme, usize \<times> sel4_task) M" where
  "brk E t value =
     (if value = 0 then ret (heap t, t)
      else bnd (map_new_pages E (page_list (heap t) value) t) (\<lambda>t'. ret (value, t')))"

section \<open>The initial stack\<close>

definition usize_bytes :: "usize \<Rightarrow> u8 list" where
  "usize_bytes n = map (\<lambda>i. ucast (drop_bit (8 * i) n)) [0 ..< 8]"

definition window_addr :: "'k kenv \<Rightarrow> usize \<Rightarrow> usize" where
  "window_addr E stack_ptr = page_seat_vaddr E + stack_ptr mod PAGE_SIZE"

primrec push_args ::
  "'k kenv \<Rightarrow> u8 list list \<Rightarrow> usize \<Rightarrow> (('k, 'z) sys_scheme, usize list \<times> usize) M" where
  "push_args E [] stack_ptr = ret ([], stack_ptr)"
| "push_args E (arg # args) stack_ptr =
     (let sp = (stack_ptr - of_nat (length arg) - 1) div STACK_ALIGN_SIZE * STACK_ALIGN_SIZE in
      bnd (kdo (ptr_write E (window_addr E sp) arg)) (\<lambda>_.
      bnd (push_args E args sp) (\<lambda>r. ret (sp # fst r, snd r))))"

definition push_num :: "'k kenv \<Rightarrow> usize \<Rightarrow> usize \<Rightarrow> (('k, 'z) sys_scheme, usize) M" where
  "push_num E num stack_ptr =
     (let sp = stack_ptr - 8 in
      bnd (kdo (ptr_write E (window_addr E sp) (usize_bytes num))) (\<lambda>_. ret sp))"

primrec push_nums :: "'k kenv \<Rightarrow> usize list \<Rightarrow> usize \<Rightarrow> (('k, 'z) sys_scheme, usize) M" where
  "push_nums E [] stack_ptr = ret stack_ptr"
| "push_nums E (n # ns) stack_ptr = bnd (push_num E n stack_ptr) (push_nums E ns)"

definition stack_auxv :: "usize \<Rightarrow> usize \<Rightarrow> (auxv, usize) btree" where
  "stack_auxv execfn entry_point =
     (let m = bt_insert AT_EXECFN execfn [];
          m = bt_insert AT_PAGESZ PAGE_SIZE m;
          m = bt_insert AT_ENTRY entry_point m;
          m = bt_insert AT_GID 0 m;
          m = bt_insert AT_EGID 0 m;
          m = bt_insert AT_UID 0 m;
          m = bt_insert AT_EUID 0 m
      in bt_insert AT_NULL 0 m)"

text \<open>What is pushed, in this order: the auxiliary vector, the ends of the environment and of the
  argument vector, the argument pointers from the last to the first, and their number.\<close>

definition stack_words :: "usize \<Rightarrow> usize list \<Rightarrow> usize \<Rightarrow> usize list" where
  "stack_words execfn args_ptr entry_point =
     concat (map (\<lambda>(key, v). [v, auxv_num key]) (bt_iter (stack_auxv execfn entry_point)))
     @ [0] @ [0] @ rev args_ptr @ [of_nat (length args_ptr)]"

definition init_stack_page ::
  "'k kenv \<Rightarrow> cptr \<Rightarrow> usize \<Rightarrow> u8 list list \<Rightarrow> usize \<Rightarrow> (('k, 'z) sys_scheme, usize) M" where
  "init_stack_page E page_cap entry_point args stack_ptr =
     bnd (kcall_unwrap (frame_map E page_cap (slot_VSPACE E) (page_seat_vaddr E) rights_all)) (\<lambda>_.
     bnd (push_args E args stack_ptr) (\<lambda>(args_ptr, sp).
     bnd (case args_ptr of [] \<Rightarrow> stop Index_out_of_bounds | p # _ \<Rightarrow> ret p) (\<lambda>execfn.
     bnd (push_nums E (stack_words execfn args_ptr entry_point) sp) (\<lambda>sp'.
     bnd (kcall_unwrap (frame_unmap E page_cap)) (\<lambda>_.
     ret sp')))))"

primrec map_stack_pages ::
  "'k kenv \<Rightarrow> usize \<Rightarrow> usize \<Rightarrow> u8 list list \<Rightarrow> usize list \<Rightarrow> usize \<Rightarrow> sel4_task \<Rightarrow>
     (('k, 'z) alloc_sys_scheme, usize \<times> sel4_task) M" where
  "map_stack_pages E entry_point stack_end args [] stack_ptr t = ret (stack_ptr, t)"
| "map_stack_pages E entry_point stack_end args (vaddr # vaddrs) stack_ptr t =
     bnd (allocate_fixed E BP_Granule) (\<lambda>page_cap.
     bnd (if vaddr = stack_end - PAGE_SIZE
          then init_stack_page E page_cap entry_point args stack_ptr
          else ret stack_ptr) (\<lambda>sp.
     bnd (map_page E t vaddr page_cap) (\<lambda>t'.
     map_stack_pages E entry_point stack_end args vaddrs sp t')))"

definition map_stack ::
  "'k kenv \<Rightarrow> sel4_task \<Rightarrow> usize \<Rightarrow> usize \<Rightarrow> usize \<Rightarrow> u8 list list \<Rightarrow>
     (('k, 'z) alloc_sys_scheme, usize \<times> sel4_task) M" where
  "map_stack E t entry_point start stack_end args =
     bnd (assert_that (stack_end mod 0x1000 = 0)) (\<lambda>_.
     bnd (assert_that (start mod 0x1000 = 0)) (\<lambda>_.
     map_stack_pages E entry_point stack_end args (page_list start stack_end) stack_end t))"

section \<open>Loading an ELF file\<close>

primrec load_segment_loop ::
  "'k kenv \<Rightarrow> u8 list \<Rightarrow> usize \<Rightarrow> usize \<Rightarrow> nat \<Rightarrow> usize \<Rightarrow> usize \<Rightarrow> (usize, cptr) btree \<Rightarrow> sel4_task \<Rightarrow>
     (('k, 'z) alloc_sys_scheme, (usize, cptr) btree \<times> sel4_task) M" where
  "load_segment_loop E elf_data end_offset vaddr_end 0 offset vaddr mapped t = no_fuel"
| "load_segment_loop E elf_data end_offset vaddr_end (Suc n) offset vaddr mapped t =
     (if vaddr < vaddr_end then
        let key = vaddr div PAGE_SIZE * PAGE_SIZE in
        bnd (case bt_get mapped key of
               Some page_cap \<Rightarrow> bnd (kcall_unwrap (frame_unmap E page_cap)) (\<lambda>_. ret page_cap)
             | None \<Rightarrow> allocate_fixed E BP_Granule) (\<lambda>page_cap.
        bnd (if offset < end_offset then
               let rsize = min (PAGE_SIZE - vaddr mod PAGE_SIZE) (end_offset - offset) in
               bnd (kcall_unwrap (frame_map E page_cap (slot_VSPACE E) (page_seat_vaddr E) rights_all)) (\<lambda>_.
               bnd (kdo (ptr_write E (page_seat_vaddr E + offset mod PAGE_SIZE)
                       (take (unat rsize) (drop (unat offset) elf_data)))) (\<lambda>_.
               bnd (kcall_unwrap (frame_unmap E page_cap)) (\<lambda>_.
               ret (offset + rsize))))
             else ret offset) (\<lambda>offset'.
        bnd (map_page E t key page_cap) (\<lambda>t'.
        load_segment_loop E elf_data end_offset vaddr_end n offset'
          (vaddr + (PAGE_SIZE - vaddr mod PAGE_SIZE)) (bt_insert key page_cap (bt_remove key mapped)) t')))
      else ret (mapped, t))"

definition load_segment ::
  "'k kenv \<Rightarrow> u8 list \<Rightarrow> program_header \<Rightarrow> (usize, cptr) btree \<Rightarrow> sel4_task \<Rightarrow>
     (('k, 'z) alloc_sys_scheme, (usize, cptr) btree \<times> sel4_task) M" where
  "load_segment E elf_data ph mapped t =
     load_segment_loop E elf_data (ph_offset ph + ph_file_size ph)
       (ph_virtual_addr ph + ph_mem_size ph) (fuel E) (ph_offset ph) (ph_virtual_addr ph) mapped t"

primrec load_segments ::
  "'k kenv \<Rightarrow> u8 list \<Rightarrow> program_header list \<Rightarrow> (usize, cptr) btree \<Rightarrow> sel4_task \<Rightarrow>
     (('k, 'z) alloc_sys_scheme, sel4_task) M" where
  "load_segments E elf_data [] mapped t = ret t"
| "load_segments E elf_data (ph # phs) mapped t =
     bnd (load_segment E elf_data ph mapped t) (\<lambda>(mapped', t'). load_segments E elf_data phs mapped' t')"

definition load_elf ::
  "'k kenv \<Rightarrow> sel4_task \<Rightarrow> u8 list \<Rightarrow> (('k, 'z) alloc_sys_scheme, sel4_task) M" where
  "load_elf E t elf_data =
     bnd (expect_opt ''This is not a valid elf file'' (elf_parse E elf_data)) (\<lambda>file.
     load_segments E elf_data (filter ph_is_load (elf_program_headers file)) [] t)"

section \<open>The task table\<close>

text \<open>
  \<open>TASK_MAP.lock().get_mut(&badge).unwrap()\<close> and the write back of what was done to the task.
  A handler of the kernel thread holds this lock while it runs and no handler takes it twice, so
  the lock itself is not part of the state. \<open>insert\<close> drops the task it replaces.
\<close>

definition get_task :: "u64 \<Rightarrow> ('k kthread, sel4_task) M" where
  "get_task badge = bnd (gets task_map) (\<lambda>m. unwrap_opt (bt_get m badge))"

definition put_task :: "u64 \<Rightarrow> sel4_task \<Rightarrow> ('k kthread, unit) M" where
  "put_task badge t = modify (\<lambda>s. s\<lparr>task_map := bt_insert badge t (task_map s)\<rparr>)"

definition insert_task :: "'k kenv \<Rightarrow> u64 \<Rightarrow> sel4_task \<Rightarrow> ('k kthread, unit) M" where
  "insert_task E badge t =
     bnd (gets (\<lambda>s. bt_get (task_map s) badge)) (\<lambda>old.
     bnd (put_task badge t) (\<lambda>_.
     case old of None \<Rightarrow> ret () | Some t' \<Rightarrow> drop_task E t'))"

end
