(* ===== verification/Task_Facts.thy ===== *)
theory Task_Facts
  imports Kernel_Task
begin

text \<open>
  What the operations of \<open>Sel4Task\<close> do to a task. \<open>task_ok n t\<close> is the well-formedness of a
  task whose frames lie below slot \<open>n\<close>: its page map is ordered, its keys are page addresses and
  no frame is entered at two addresses. \<open>task_step s t u t'\<close> relates a task before and after an
  operation: only kernel calls and allocations happened to the state, the task kept its identity,
  its new frames are newly allocated ones, and it is still well formed. Every operation makes such a
  step, and steps compose.
\<close>

section \<open>Well-formed tasks\<close>

definition page_caps :: "sel4_task \<Rightarrow> cptr set" where
  "page_caps t = ran (bt_get (mapped_page t))"

definition task_ok :: "usize \<Rightarrow> sel4_task \<Rightarrow> bool" where
  "task_ok n t \<longleftrightarrow> bt_ok (mapped_page t)
     \<and> (\<forall>a c. bt_get (mapped_page t) a = Some c \<longrightarrow> page_aligned a \<and> c < n)
     \<and> map_inj (bt_get (mapped_page t))"

definition same_task :: "sel4_task \<Rightarrow> sel4_task \<Rightarrow> bool" where
  "same_task t t' \<longleftrightarrow> pid t' = pid t \<and> tid t' = tid t \<and> tcb t' = tcb t \<and> cnode t' = cnode t
     \<and> vspace t' = vspace t \<and> heap t' = heap t \<and> exit_code t' = exit_code t
     \<and> clear_child_tid t' = clear_child_tid t"

definition task_step ::
  "('k, 'z) alloc_sys_scheme \<Rightarrow> sel4_task \<Rightarrow> ('k, 'z) alloc_sys_scheme \<Rightarrow> sel4_task \<Rightarrow> bool" where
  "task_step s t u t' \<longleftrightarrow> grown s u \<and> same_task t t' \<and> page_caps t' \<subseteq> page_caps t \<union> taken s u
     \<and> (task_ok (first_free s) t \<longrightarrow> task_ok (first_free u) t')"

lemma same_task_refl [simp]: "same_task t t"
  by (simp add: same_task_def)

lemma same_task_trans: "same_task t t' \<Longrightarrow> same_task t' t'' \<Longrightarrow> same_task t t''"
  by (simp add: same_task_def)

lemma same_task_updates [simp]:
  "same_task t (t\<lparr>mapped_pt := x\<rparr>)" "same_task t (t\<lparr>mapped_page := y\<rparr>)"
  "same_task t (t\<lparr>mapped_pt := x, mapped_page := y\<rparr>)"
  by (simp_all add: same_task_def)

lemma task_ok_mono: "task_ok n t \<Longrightarrow> n \<le> m \<Longrightarrow> task_ok m t"
  unfolding task_ok_def by (blast intro: order.strict_trans2)

lemma task_ok_pt [simp]: "task_ok n (t\<lparr>mapped_pt := x\<rparr>) = task_ok n t"
  by (simp add: task_ok_def)

lemma page_caps_pt [simp]: "page_caps (t\<lparr>mapped_pt := x\<rparr>) = page_caps t"
  by (simp add: page_caps_def)

lemma task_step_grown: "grown s u \<Longrightarrow> task_step s t u t"
  by (auto simp: task_step_def intro: task_ok_mono grown_le)

lemma task_step_refl [simp]: "task_step s t s t"
  by (simp add: task_step_grown)

lemma task_step_trans: "task_step s t u t' \<Longrightarrow> task_step u t' v t'' \<Longrightarrow> task_step s t v t''"
  unfolding task_step_def
  using taken_mono [of s u v] by (auto intro: grown_trans same_task_trans)

lemma task_step_kern_only: "task_step s t u t' \<Longrightarrow> kern_only u v \<Longrightarrow> task_step s t v t'"
  by (blast intro: task_step_trans task_step_grown grown_kern_only [OF grown_refl])

lemma task_ok_insert:
  assumes "task_ok n t" and "page_aligned a" and "c < n"
    and "\<forall>x. bt_get (mapped_page t) x = Some c \<longrightarrow> x = a"
  shows "task_ok n (t\<lparr>mapped_page := bt_insert a c (mapped_page t)\<rparr>)"
  using assms unfolding task_ok_def
  by (simp add: bt_facts map_inj_upd)

lemma page_caps_insert:
  "bt_ok m \<Longrightarrow> page_caps (t\<lparr>mapped_page := bt_insert a c m\<rparr>) \<subseteq> insert c (ran (bt_get m))"
  by (auto simp: page_caps_def bt_facts ran_def)

section \<open>Mapping a page\<close>

text \<open>The task after \<open>map_page\<close>: more page tables, and the page if the kernel took it.\<close>

definition page_added :: "usize \<Rightarrow> cptr \<Rightarrow> sel4_task \<Rightarrow> sel4_task \<Rightarrow> bool" where
  "page_added vaddr page t t' \<longleftrightarrow> (\<exists>pts. t' = t\<lparr>mapped_pt := pts\<rparr>
     \<or> t' = t\<lparr>mapped_pt := pts, mapped_page := bt_insert vaddr page (mapped_page t)\<rparr>)"

lemma page_added_none: "page_added vaddr page t t"
  unfolding page_added_def by (rule exI [of _ "mapped_pt t"]) simp

lemma page_added_now: "page_added vaddr page t (t\<lparr>mapped_page := bt_insert vaddr page (mapped_page t)\<rparr>)"
  unfolding page_added_def by (rule exI [of _ "mapped_pt t"]) simp

lemma page_added_pt: "page_added vaddr page (t\<lparr>mapped_pt := x\<rparr>) t' \<Longrightarrow> page_added vaddr page t t'"
  by (auto simp: page_added_def)

lemma pwp_map_page_loop:
  "pwp (map_page_loop E n t vaddr page) (\<lambda>t' u. grown s u \<and> page_added vaddr page t t') s"
proof (induction n arbitrary: t s)
  case 0
  then show ?case by (simp add: wp_simps page_added_none)
next
  case (Suc n)
  show ?case
    unfolding map_page_loop.simps
    by (intro pwp_intros pwp_use [OF Suc])
      (auto simp: page_added_now intro: grown_trans page_added_pt)
qed

lemma pwp_map_page:
  "pwp (map_page E t vaddr page)
     (\<lambda>t' u. grown s u \<and> page_aligned vaddr \<and> page_added vaddr page t t') s"
  unfolding map_page_def
  by (intro pwp_intros pwp_use [OF pwp_map_page_loop]) simp

lemma page_added_step:
  assumes "task_step s0 t0 s t" and "task_ok (first_free s0) t0" and "c \<in> taken s0 s"
    and "\<forall>x. bt_get (mapped_page t) x = Some c \<longrightarrow> x = vaddr"
    and "grown s u" and "page_aligned vaddr" and "page_added vaddr c t t'"
  shows "task_step s0 t0 u t'"
proof -
  have t: "task_ok (first_free u) t"
    using assms(1,2,5) by (auto simp: task_step_def intro: task_ok_mono grown_le)
  have "c < first_free u"
    using assms(3) grown_le [OF assms(5)] by (auto simp: taken_def)
  then have ins: "task_ok (first_free u) (t\<lparr>mapped_page := bt_insert vaddr c (mapped_page t)\<rparr>)"
    by (intro task_ok_insert t assms(4,6))
  have "task_ok (first_free u) t'"
    using assms(7) t ins unfolding page_added_def by (auto simp: task_ok_def)
  moreover have "page_caps t' \<subseteq> page_caps t \<union> {c}"
    using assms(7) t unfolding page_added_def by (auto simp: page_caps_def task_ok_def bt_facts ran_def split: if_splits)
  moreover have "same_task t t'"
    using assms(7) unfolding page_added_def by auto
  ultimately show ?thesis
    using assms(1,3,5) taken_mono [of s0 s u]
    by (auto simp: task_step_def intro: grown_trans same_task_trans)
qed

lemma map_page_step:
  assumes "task_step s0 t0 s t" and "task_ok (first_free s0) t0" and "c \<in> taken s0 s"
    and "\<forall>x. bt_get (mapped_page t) x = Some c \<longrightarrow> x = vaddr"
  shows "pwp (map_page E t vaddr c) (\<lambda>t' u. task_step s0 t0 u t' \<and> page_added vaddr c t t') s"
  by (rule pwp_use [OF pwp_map_page]) (use page_added_step [OF assms] in auto)

text \<open>A frame that has just been allocated is not in the page map yet.\<close>

lemma fresh_cap:
  assumes "task_step s0 t0 s t" and "task_ok (first_free s0) t0" and "c \<in> taken s u"
  shows "bt_get (mapped_page t) x \<noteq> Some c"
proof
  assume x: "bt_get (mapped_page t) x = Some c"
  have "task_ok (first_free s) t" using assms(1,2) by (simp add: task_step_def)
  with x have "c < first_free s" by (simp add: task_ok_def)
  with assms(3) show False by (auto simp: taken_def)
qed

lemma new_page_step:
  assumes "task_step s0 t0 s t" and "task_ok (first_free s0) t0"
    and "c \<in> taken s v" and "grown s v"
  shows "pwp (map_page E t vaddr c) (\<lambda>t' u. task_step s0 t0 u t' \<and> page_added vaddr c t t') v"
proof -
  have "grown s0 s" using assms(1) by (simp add: task_step_def)
  then have "c \<in> taken s0 v" using taken_mono [OF _ assms(4)] assms(3) by blast
  then show ?thesis
    using fresh_cap [OF assms(1-3)]
    by (intro map_page_step task_step_trans [OF assms(1) task_step_grown [OF assms(4)]] assms(2)) simp_all
qed

lemma pwp_map_new_pages:
  "task_step s0 t0 s t \<Longrightarrow> task_ok (first_free s0) t0 \<Longrightarrow>
     pwp (map_new_pages E vaddrs t) (\<lambda>t' u. task_step s0 t0 u t') s"
proof (induction vaddrs arbitrary: s t)
  case Nil
  then show ?case by (simp add: wp_simps)
next
  case (Cons vaddr vaddrs)
  show ?case
    unfolding map_new_pages.simps
    by (intro pwp_intros pwp_use [OF new_page_step [OF Cons.prems]] Cons.IH Cons.prems(2)) auto
qed

lemma pwp_brk:
  "task_step s0 t0 s t \<Longrightarrow> task_ok (first_free s0) t0 \<Longrightarrow>
     pwp (brk E t value) (\<lambda>r u. task_step s0 t0 u (snd r)) s"
  unfolding brk_def by (intro pwp_intros pwp_use [OF pwp_map_new_pages]) simp_all

section \<open>The stack\<close>

lemma pwp_push_args: "pwp (push_args E args sp) (\<lambda>_ t. kern_only s t) s"
proof (induction args arbitrary: sp s)
  case (Cons a args)
  show ?case
    unfolding push_args.simps Let_def by (intro pwp_intros pwp_use [OF Cons]) simp
qed (simp add: wp_simps)

lemma pwp_push_nums: "pwp (push_nums E ns sp) (\<lambda>_ t. kern_only s t) s"
proof (induction ns arbitrary: sp s)
  case (Cons n ns)
  show ?case
    unfolding push_nums.simps push_num_def Let_def by (intro pwp_intros pwp_use [OF Cons]) simp
qed (simp add: wp_simps)

lemma pwp_init_stack_page: "pwp (init_stack_page E c entry args sp) (\<lambda>_ t. kern_only s t) s"
  unfolding init_stack_page_def
  by (intro pwp_intros pwp_use [OF pwp_push_args] pwp_use [OF pwp_push_nums])
    (auto intro: kern_only_trans)

lemma pwp_map_stack_pages:
  "task_step s0 t0 s t \<Longrightarrow> task_ok (first_free s0) t0 \<Longrightarrow>
     pwp (map_stack_pages E entry stack_end args vaddrs sp t) (\<lambda>r u. task_step s0 t0 u (snd r)) s"
proof (induction vaddrs arbitrary: s t sp)
  case Nil
  then show ?case by (simp add: wp_simps)
next
  case (Cons vaddr vaddrs)
  show ?case
    unfolding map_stack_pages.simps
    apply (intro pwp_intros pwp_use [OF pwp_init_stack_page] pwp_use [OF new_page_step [OF Cons.prems]]
        Cons.IH Cons.prems(2))
    apply (auto simp: taken_kern_only intro: grown_kern_only)
    done
qed

lemma pwp_map_stack:
  "task_step s0 t0 s t \<Longrightarrow> task_ok (first_free s0) t0 \<Longrightarrow>
     pwp (map_stack E t entry start stack_end args) (\<lambda>r u. task_step s0 t0 u (snd r)) s"
  unfolding map_stack_def by (intro pwp_intros pwp_map_stack_pages)

section \<open>Loading an ELF file\<close>

text \<open>
  The pages that \<open>load_elf\<close> keeps in its own map were allocated since it began, are entered at
  most at their own address in the task's map, and are all different.
\<close>

definition load_inv ::
  "('k, 'z) alloc_sys_scheme \<Rightarrow> sel4_task \<Rightarrow> ('k, 'z) alloc_sys_scheme \<Rightarrow> sel4_task \<Rightarrow> (usize, cptr) btree \<Rightarrow> bool" where
  "load_inv s0 t0 s t L \<longleftrightarrow> task_step s0 t0 s t \<and> bt_ok L
     \<and> (\<forall>k c. bt_get L k = Some c \<longrightarrow>
          c \<in> taken s0 s \<and> (\<forall>x. bt_get (mapped_page t) x = Some c \<longrightarrow> x = k))
     \<and> map_inj (bt_get L)"

lemma page_added_other:
  "page_added a c t t' \<Longrightarrow> bt_ok (mapped_page t) \<Longrightarrow> bt_get (mapped_page t') x = Some d \<Longrightarrow>
     bt_get (mapped_page t) x = Some d \<or> (x = a \<and> d = c)"
  by (auto simp: page_added_def bt_facts split: if_splits)

lemma load_inv_page:
  assumes inv: "load_inv s0 t0 s t L" and ok: "task_ok (first_free s0) t0" and v: "grown s v"
    and c: "c \<in> taken s0 v" "\<forall>x. bt_get (mapped_page t) x = Some c \<longrightarrow> x = a" "\<forall>k. bt_get L k = Some c \<longrightarrow> k = a"
    and u: "task_step s0 t0 u t'" "grown v u" "page_added a c t t'"
  shows "load_inv s0 t0 u t' (bt_insert a c (bt_remove a L))"
proof -
  have L: "bt_ok L" and step: "task_step s0 t0 s t" using inv by (simp_all add: load_inv_def)
  have get: "bt_get (bt_insert a c (bt_remove a L)) = (bt_get L)(a \<mapsto> c)"
    using L by (simp add: bt_facts)
  have m: "bt_ok (mapped_page t)" using step ok by (simp add: task_step_def task_ok_def)
  have g: "grown s0 s" using step by (simp add: task_step_def)
  have sub: "taken s0 v \<subseteq> taken s0 u" "taken s0 s \<subseteq> taken s0 u"
    using taken_mono [OF g v] taken_mono [OF grown_trans [OF g v] u(2)] by auto
  have entry: "d \<in> taken s0 s \<and> (\<forall>x. bt_get (mapped_page t) x = Some d \<longrightarrow> x = k)"
    if "bt_get L k = Some d" for k d
    using inv that unfolding load_inv_def by blast
  show ?thesis
    unfolding load_inv_def get
  proof (intro conjI allI impI)
    show "task_step s0 t0 u t'" by (rule u(1))
    show "bt_ok (bt_insert a c (bt_remove a L))" using L by (simp add: bt_facts)
  next
    fix k d assume k: "((bt_get L)(a \<mapsto> c)) k = Some d"
    show "d \<in> taken s0 u"
      using k c(1) sub entry [of k d] by (cases "k = a") auto
    fix x assume "bt_get (mapped_page t') x = Some d"
    then have "bt_get (mapped_page t) x = Some d \<or> x = a \<and> d = c" by (rule page_added_other [OF u(3) m])
    then show "x = k"
      using k c(2,3) entry [of k d] by (cases "k = a") auto
  next
    show "map_inj ((bt_get L)(a \<mapsto> c))"
      using inv c(3) unfolding load_inv_def by (blast intro: map_inj_upd)
  qed
qed

text \<open>The frame for a page is the one of an earlier segment or a new one.\<close>

definition page_ready ::
  "('k, 'z) alloc_sys_scheme \<Rightarrow> ('k, 'z) alloc_sys_scheme \<Rightarrow> sel4_task \<Rightarrow> (usize, cptr) btree \<Rightarrow> usize \<Rightarrow>
     cptr \<Rightarrow> ('k, 'z) alloc_sys_scheme \<Rightarrow> bool" where
  "page_ready s0 s t L a c v \<longleftrightarrow> grown s v \<and> c \<in> taken s0 v
     \<and> (\<forall>x. bt_get (mapped_page t) x = Some c \<longrightarrow> x = a) \<and> (\<forall>k. bt_get L k = Some c \<longrightarrow> k = a)"

lemma page_ready_upd [simp]: "page_ready s0 s t L a c (v\<lparr>kern := k\<rparr>) = page_ready s0 s t L a c v"
  by (simp add: page_ready_def)

lemma page_ready_old:
  assumes "load_inv s0 t0 s t L" and "bt_get L a = Some c"
  shows "page_ready s0 s t L a c s"
  using assms map_injD [of "bt_get L"] unfolding load_inv_def page_ready_def by (meson grown_refl)

lemma page_ready_new:
  assumes inv: "load_inv s0 t0 s t L" and ok: "task_ok (first_free s0) t0"
    and "grown s v" and "c \<in> taken s v"
  shows "page_ready s0 s t L a c v"
proof -
  have step: "task_step s0 t0 s t" using inv by (simp add: load_inv_def)
  have "bt_get L k \<noteq> Some c" for k
    using inv assms(4) taken_disjoint [of s0 s v] unfolding load_inv_def by blast
  moreover have "c \<in> taken s0 v"
    using taken_mono [of s0 s v] step assms(3,4) by (auto simp: task_step_def)
  ultimately show ?thesis
    using assms(3) fresh_cap [OF step ok assms(4)] by (simp add: page_ready_def)
qed

lemma page_ready_map:
  assumes inv: "load_inv s0 t0 s t L" and ok: "task_ok (first_free s0) t0"
    and r: "page_ready s0 s t L a c v"
  shows "pwp (map_page E t a c) (\<lambda>t' u. load_inv s0 t0 u t' (bt_insert a c (bt_remove a L))) v"
proof -
  have v: "grown s v" and c: "c \<in> taken s0 v" "\<forall>x. bt_get (mapped_page t) x = Some c \<longrightarrow> x = a"
    "\<forall>k. bt_get L k = Some c \<longrightarrow> k = a"
    using r by (simp_all add: page_ready_def)
  have step: "task_step s0 t0 v t"
    using inv task_step_trans task_step_grown [OF v] unfolding load_inv_def by blast
  show ?thesis
    by (rule pwp_use [OF pwp_map_page])
      (elim conjE, intro load_inv_page [OF inv ok v c] page_added_step [OF step ok c(1,2)]; assumption)
qed

lemma pwp_load_segment_loop:
  assumes ok: "task_ok (first_free s0) t0"
  shows "load_inv s0 t0 s t L \<Longrightarrow>
    pwp (load_segment_loop E d eo ve n off va L t) (\<lambda>r u. load_inv s0 t0 u (snd r) (fst r)) s"
proof (induction n arbitrary: off va L t s)
  case 0
  then show ?case by (simp add: wp_simps)
next
  case (Suc n)
  let ?a = "va div PAGE_SIZE * PAGE_SIZE"
  show ?case
    unfolding load_segment_loop.simps Let_def
    apply (rule pwp_if; (intro pwp_bnd)?)
     apply (rule pwp_use [where Q = "\<lambda>c v. page_ready s0 s t L ?a c v"])
      apply (intro pwp_intros; simp add: page_ready_old [OF Suc.prems] page_ready_new [OF Suc.prems ok])
     apply (rule pwp_bnd, rule pwp_use [where Q = "\<lambda>_ v. page_ready s0 s t L ?a c v" for c])
      apply (intro pwp_intros; simp)
     apply (rule pwp_bnd, rule pwp_use [OF page_ready_map [OF Suc.prems ok]], assumption)
     apply (erule Suc.IH)
    apply (simp add: wp_simps Suc.prems)
    done
qed

lemma pwp_load_segments:
  assumes ok: "task_ok (first_free s0) t0"
  shows "load_inv s0 t0 s t L \<Longrightarrow> pwp (load_segments E d phs L t) (\<lambda>t' u. task_step s0 t0 u t') s"
proof (induction phs arbitrary: s t L)
  case Nil
  then show ?case by (simp add: wp_simps load_inv_def)
next
  case (Cons ph phs)
  show ?case
    unfolding load_segments.simps load_segment_def
    by (intro pwp_intros pwp_use [OF pwp_load_segment_loop [OF ok Cons.prems]]) (auto intro: Cons.IH)
qed

lemma pwp_load_elf:
  assumes "task_ok (first_free s) t"
  shows "pwp (load_elf E t d) (\<lambda>t' u. task_step s t u t') s"
  unfolding load_elf_def
  by (intro pwp_intros pwp_load_segments [OF assms]) (simp add: load_inv_def bt_get_def [abs_def])

end
