(* ===== verification/User_Memory.thy ===== *)
theory User_Memory
  imports Task_Facts
begin

text \<open>
  \<^verbatim>\<open>src/crates/kernel-thread/src/utils.rs\<close>: how the kernel thread reads and writes the memory of
  a user task. It goes through the pages of the range; for each it copies the frame's capability
  to slot 0, maps it at the window page, lets a closure do the copying, and takes the copy away again.

  A closure \<open>FnMut\<close> takes the variables it captures mutably as an extra argument and returns
  them. The type parameter \<open>T\<close> is represented by its size and, where a value is read, by the
  decoding of its bytes. A \<open>&mut [T]\<close> that is only used as a raw pointer is the list of the
  bytes from that pointer on.

  The loop ends when the range is used up; \<open>fuel\<close> bounds its rounds.
\<close>

definition PAGE_SIZE_4K :: usize where "PAGE_SIZE_4K = 0x1000"

definition vaddr_add :: "'k kenv \<Rightarrow> usize \<Rightarrow> usize \<Rightarrow> ('s, usize) M" where
  "vaddr_add E a n = expect_opt ''address overflow'' (va_add E a n)"

definition vaddr_sub :: "'k kenv \<Rightarrow> usize \<Rightarrow> usize \<Rightarrow> ('s, usize) M" where
  "vaddr_sub E a b = expect_opt ''address overflow'' (va_sub E a b)"

section \<open>The window\<close>

definition in_window ::
  "'k kenv \<Rightarrow> cptr \<Rightarrow> (('k, 'z) sys_scheme, 'r) M \<Rightarrow> (('k, 'z) sys_scheme, 'r) M" where
  "in_window E page_cap body =
     bnd (kcall_unwrap (cnode_copy E (Relative (slot_CNODE E) 0) (Relative (slot_CNODE E) page_cap) rights_all)) (\<lambda>_.
     bnd (kcall_unwrap (frame_map E 0 (slot_VSPACE E) (page_seat_vaddr E) rights_all)) (\<lambda>_.
     bnd body (\<lambda>r.
     bnd (kcall_unwrap (frame_unmap E 0)) (\<lambda>_.
     bnd (kcall_unwrap (cnode_delete E (Relative (slot_CNODE E) 0))) (\<lambda>_.
     ret r)))))"

type_synonym ('k, 'z, 'c) copier =
  "usize \<Rightarrow> usize \<Rightarrow> usize \<Rightarrow> 'c \<Rightarrow> (('k, 'z) sys_scheme, 'c) M"

definition process_page ::
  "'k kenv \<Rightarrow> usize \<Rightarrow> ('k, 'z, 'c) copier \<Rightarrow> usize \<Rightarrow> usize \<Rightarrow> 'c \<Rightarrow>
     (('k, 'z) sys_scheme, usize \<times> usize \<times> 'c) M" where
  "process_page E addr f buf_addr len c =
     (let copy_len = min (PAGE_SIZE_4K - align_offset_4k E buf_addr) len in
      bnd (vaddr_sub E buf_addr addr) (\<lambda>offset.
      bnd (f (page_seat_vaddr E + align_offset_4k E buf_addr) offset copy_len c) (\<lambda>c'.
      bnd (vaddr_add E buf_addr copy_len) (\<lambda>buf_addr'.
      ret (buf_addr', len - copy_len, c')))))"

primrec process_loop ::
  "'k kenv \<Rightarrow> sel4_task \<Rightarrow> usize \<Rightarrow> ('k, 'z, 'c) copier \<Rightarrow> nat \<Rightarrow> usize \<Rightarrow> usize \<Rightarrow> 'c \<Rightarrow>
     (('k, 'z) sys_scheme, (errno + usize) \<times> 'c) M" where
  "process_loop E t addr f 0 buf_addr len c = no_fuel"
| "process_loop E t addr f (Suc n) buf_addr len c =
     (if len > 0 then
        (case bt_get (mapped_page t) (align_bits buf_addr 12) of
           Some page_cap \<Rightarrow>
             bnd (in_window E page_cap (process_page E addr f buf_addr len c)) (\<lambda>(buf_addr', len', c').
             process_loop E t addr f n buf_addr' len' c')
         | None \<Rightarrow> ret (Err EFAULT, c))
      else bnd (vaddr_sub E buf_addr addr) (\<lambda>done. ret (Okay done, c)))"

definition process_item_list ::
  "'k kenv \<Rightarrow> usize \<Rightarrow> sel4_task \<Rightarrow> usize \<Rightarrow> usize option \<Rightarrow> ('k, 'z, 'c) copier \<Rightarrow> 'c \<Rightarrow>
     (('k, 'z) sys_scheme, (errno + usize) \<times> 'c) M" where
  "process_item_list E size_T t addr number f c =
     (if number = None \<and> size_T + align_offset_4k E addr > PAGE_SIZE_4K then ret (Err EINVAL, c)
      else process_loop E t addr f (fuel E) addr (size_T * (case number of None \<Rightarrow> 1 | Some n \<Rightarrow> n)) c)"

section \<open>Reading and writing\<close>

definition read_ptr :: "'k kenv \<Rightarrow> usize \<Rightarrow> nat \<Rightarrow> (('k, 'z) sys_scheme, u8 list) M" where
  "read_ptr E a n = gets (\<lambda>s. ptr_read E a n (kern s))"

definition read_item ::
  "'k kenv \<Rightarrow> usize \<Rightarrow> (u8 list \<Rightarrow> 't) \<Rightarrow> sel4_task \<Rightarrow> usize \<Rightarrow> (('k, 'z) sys_scheme, errno + 't) M" where
  "read_item E size_T decode t addr =
     bnd (process_item_list E size_T t addr None
            (\<lambda>src _ _ _. bnd (read_ptr E src (unat size_T)) (\<lambda>bs. ret (decode bs)))
            (decode (replicate (unat size_T) 0))) (\<lambda>(r, item).
     ret (case r of Inl e \<Rightarrow> Err e | Inr _ \<Rightarrow> Okay item))"

text \<open>\<open>copy_nonoverlapping(item, dst, copy_len)\<close> copies \<open>copy_len\<close> values of type \<open>T\<close>: the
  item and what lies behind it in the memory of the kernel thread.\<close>

definition write_item ::
  "'k kenv \<Rightarrow> usize \<Rightarrow> sel4_task \<Rightarrow> usize \<Rightarrow> u8 list \<Rightarrow> (('k, 'z) sys_scheme, errno + usize) M" where
  "write_item E size_T t addr item =
     bnd (process_item_list E size_T t addr None
            (\<lambda>dst _ copy_len _.
               kdo (\<lambda>k. ptr_write E dst (take (unat copy_len * unat size_T)
                      (item @ bytes_beyond E (unat copy_len * unat size_T) k)) k))
            ()) (\<lambda>(r, _).
     ret r)"

definition overwrite :: "'a list \<Rightarrow> nat \<Rightarrow> 'a list \<Rightarrow> 'a list" where
  "overwrite buf i bs = take i buf @ bs @ drop (i + length bs) buf"

definition read_item_list ::
  "'k kenv \<Rightarrow> usize \<Rightarrow> sel4_task \<Rightarrow> usize \<Rightarrow> usize option \<Rightarrow> u8 list \<Rightarrow>
     (('k, 'z) sys_scheme, (errno + usize) \<times> u8 list) M" where
  "read_item_list E size_T t addr num buf =
     process_item_list E size_T t addr num
       (\<lambda>src offset copy_len buf'.
          bnd (read_ptr E src (unat copy_len * unat size_T)) (\<lambda>bs.
          ret (overwrite buf' (unat offset * unat size_T) bs)))
       buf"

definition write_item_list ::
  "'k kenv \<Rightarrow> usize \<Rightarrow> sel4_task \<Rightarrow> usize \<Rightarrow> usize option \<Rightarrow> u8 list \<Rightarrow>
     (('k, 'z) sys_scheme, errno + usize) M" where
  "write_item_list E size_T t addr num buf =
     bnd (process_item_list E 1 t addr num
            (\<lambda>dst offset copy_len _.
               kdo (ptr_write E dst (take (unat copy_len * unat size_T) (drop (unat offset * unat size_T) buf))))
            ()) (\<lambda>(r, _).
     ret r)"

end
