(* ===== verification/Sys_Mm.thy ===== *)
theory Sys_Mm
  imports User_Memory
begin

text \<open>
  \<^verbatim>\<open>src/crates/kernel-thread/src/syscall/mm\<close>: \<open>brk\<close>, \<open>mmap\<close> and \<open>munmap\<close>. Their
  result is a \<open>SysResult\<close>, \<open>errno + usize\<close>.
\<close>

section \<open>brk\<close>

definition sys_brk :: "'k kenv \<Rightarrow> u64 \<Rightarrow> usize \<Rightarrow> ('k kthread, errno + usize) M" where
  "sys_brk E badge addr =
     bnd (get_task badge) (\<lambda>t.
     if addr < USPACE_HEAP_BASE \<or> addr > USPACE_HEAP_BASE + USPACE_HEAP_SIZE then ret (Err ENOMEM)
     else
       bnd (if addr > heap t then bnd (brk E t addr) (\<lambda>(_, t'). ret t') else ret t) (\<lambda>t'.
       bnd (put_task badge (t'\<lparr>heap := addr\<rparr>)) (\<lambda>_.
       ret (Okay 0))))"

section \<open>mmap and munmap\<close>

definition PROT_READ :: i32 where "PROT_READ = push_bit 0 1"
definition PROT_WRITE :: i32 where "PROT_WRITE = push_bit 1 1"
definition PROT_EXEC :: i32 where "PROT_EXEC = push_bit 2 1"

definition mmap_prot_all :: "i32 list" where
  "mmap_prot_all = [PROT_READ, PROT_WRITE, PROT_EXEC]"

definition MAP_SHARED :: i32 where "MAP_SHARED = push_bit 0 1"
definition MAP_PRIVATE :: i32 where "MAP_PRIVATE = push_bit 1 1"
definition MAP_FIXED :: i32 where "MAP_FIXED = push_bit 4 1"
definition MAP_ANONYMOUS :: i32 where "MAP_ANONYMOUS = push_bit 5 1"
definition MAP_NORESERVE :: i32 where "MAP_NORESERVE = push_bit 14 1"
definition MAP_STACK :: i32 where "MAP_STACK = 0x20000"

definition mmap_flags_all :: "i32 list" where
  "mmap_flags_all = [MAP_SHARED, MAP_PRIVATE, MAP_FIXED, MAP_ANONYMOUS, MAP_NORESERVE, MAP_STACK]"

definition mmap_prot_into_rights :: "'k kenv \<Rightarrow> i32 \<Rightarrow> cap_rights" where
  "mmap_prot_into_rights E value =
     (let cap_builder = rights_all;
          cap_builder = (if \<not> flags_contains E value PROT_READ then cap_builder\<lparr>cr_read := False\<rparr> else cap_builder)
      in if \<not> flags_contains E value PROT_WRITE then cap_builder\<lparr>cr_write := False\<rparr> else cap_builder)"

primrec mmap_pages ::
  "'k kenv \<Rightarrow> usize list \<Rightarrow> sel4_task \<Rightarrow> (('k, 'z) alloc_sys_scheme, sel4_task) M" where
  "mmap_pages E [] t = ret t"
| "mmap_pages E (vaddr # vaddrs) t =
     (if bt_get (mapped_page t) vaddr \<noteq> None then mmap_pages E vaddrs t
      else
        bnd (allocate_fixed E BP_Granule) (\<lambda>page_cap.
        bnd (map_page E t vaddr page_cap) (\<lambda>t'.
        mmap_pages E vaddrs t')))"

text \<open>\<open>PageIter4K::new(start.align_down_4k(), end.align_up_4k())\<close> with \<open>end = start + length\<close>.\<close>

definition page_range :: "'k kenv \<Rightarrow> usize \<Rightarrow> usize \<Rightarrow> ('s, usize list) M" where
  "page_range E start_addr len =
     bnd (vaddr_add E start_addr len) (\<lambda>end_addr.
     expect_opt ''Failed to create page iterator''
       (page_iter_4k E (align_down_4k E start_addr) (align_up_4k E end_addr)))"

definition sys_mmap ::
  "'k kenv \<Rightarrow> u64 \<Rightarrow> usize \<Rightarrow> usize \<Rightarrow> i32 \<Rightarrow> i32 \<Rightarrow> i32 \<Rightarrow> usize \<Rightarrow> ('k kthread, errno + usize) M" where
  "sys_mmap E badge addr len prot flags fd offset =
     bnd (get_task badge) (\<lambda>t.
     case flags_from_bits E mmap_flags_all flags of
       None \<Rightarrow> ret (Err EINVAL)
     | Some map_flags \<Rightarrow>
         (case flags_from_bits E mmap_prot_all prot of
            None \<Rightarrow> ret (Err EINVAL)
          | Some _ \<Rightarrow>
              bnd (if flags_contains E map_flags MAP_FIXED then ret addr
                   else unwrap_opt (find_free_area t addr len)) (\<lambda>start_addr.
              bnd (page_range E start_addr len) (\<lambda>vaddrs.
              bnd (mmap_pages E vaddrs t) (\<lambda>t'.
              bnd (put_task badge t') (\<lambda>_.
              ret (Okay start_addr)))))))"

primrec unmap_pages :: "'k kenv \<Rightarrow> usize list \<Rightarrow> sel4_task \<Rightarrow> (('k, 'z) sys_scheme, sel4_task) M" where
  "unmap_pages E [] t = ret t"
| "unmap_pages E (vaddr # vaddrs) t =
     (case bt_get (mapped_page t) vaddr of
        Some page \<Rightarrow> bnd (unmap_page E t vaddr page) (\<lambda>t'. unmap_pages E vaddrs t')
      | None \<Rightarrow> unmap_pages E vaddrs t)"

definition sys_unmap :: "'k kenv \<Rightarrow> u64 \<Rightarrow> usize \<Rightarrow> usize \<Rightarrow> ('k kthread, errno + usize) M" where
  "sys_unmap E badge addr len =
     bnd (get_task badge) (\<lambda>t.
     bnd (page_range E addr len) (\<lambda>vaddrs.
     bnd (unmap_pages E vaddrs t) (\<lambda>t'.
     bnd (put_task badge t') (\<lambda>_.
     ret (Okay 0)))))"

end
