(* ===== verification/Sys_Fs.thy ===== *)
theory Sys_Fs
  imports User_Memory
begin

text \<open>
  \<^verbatim>\<open>src/crates/kernel-thread/src/syscall/fs/io.rs\<close>: \<open>write\<close> to the standard streams. The loop
  does not advance when the page of the buffer is not mapped, so it need not end; \<open>fuel\<close> bounds
  its rounds.
\<close>

definition write_page ::
  "'k kenv \<Rightarrow> usize \<Rightarrow> usize \<Rightarrow> usize \<Rightarrow> (('k, 'z) sys_scheme, usize \<times> usize \<times> usize) M" where
  "write_page E buf_addr count payload_length =
     (let offset = align_offset_4k E buf_addr;
          copy_len = min (PAGE_SIZE_4K - offset) count in
      bnd (read_ptr E (page_seat_vaddr E) (unat (copy_len + offset))) (\<lambda>bytes.
      bnd (for_each (\<lambda>c. kdo (debug_put_char E c)) (take (unat copy_len) (drop (unat offset) bytes))) (\<lambda>_.
      bnd (vaddr_add E buf_addr copy_len) (\<lambda>buf_addr'.
      ret (buf_addr', count - copy_len, payload_length + copy_len)))))"

primrec write_loop ::
  "'k kenv \<Rightarrow> sel4_task \<Rightarrow> nat \<Rightarrow> usize \<Rightarrow> usize \<Rightarrow> usize \<Rightarrow> (('k, 'z) sys_scheme, usize) M" where
  "write_loop E t 0 buf_addr count payload_length = no_fuel"
| "write_loop E t (Suc n) buf_addr count payload_length =
     (if count > 0 then
        (case bt_get (mapped_page t) (align_bits buf_addr 12) of
           Some page_cap \<Rightarrow>
             bnd (in_window E page_cap (write_page E buf_addr count payload_length))
               (\<lambda>(buf_addr', count', payload_length'). write_loop E t n buf_addr' count' payload_length')
         | None \<Rightarrow> write_loop E t n buf_addr count payload_length)
      else ret payload_length)"

definition sys_write :: "'k kenv \<Rightarrow> u64 \<Rightarrow> i32 \<Rightarrow> usize \<Rightarrow> usize \<Rightarrow> ('k kthread, errno + usize) M" where
  "sys_write E badge fd buf count =
     bnd (get_task badge) (\<lambda>t.
     if fd \<noteq> STDOUT_FD \<and> fd \<noteq> STDERR_FD then ret (Err ENOSYS)
     else bnd (write_loop E t (fuel E) buf count 0) (\<lambda>payload_length. ret (Okay payload_length)))"

end
