(* ===== verification/Sys_Thread.thy ===== *)
theory Sys_Thread
  imports User_Memory
begin

text \<open>
  \<^verbatim>\<open>src/crates/kernel-thread/src/syscall/thread\<close>: the identifiers of a task, \<open>exit\<close>,
  \<open>sched_yield\<close>, \<open>execve\<close> and \<open>clone\<close>.

  A handler that returns an error after it has created a task drops that task.
\<close>

section \<open>schedule.rs\<close>

definition sys_exit :: "'k kenv \<Rightarrow> u64 \<Rightarrow> i32 \<Rightarrow> ('k kthread, errno + usize) M" where
  "sys_exit E badge code =
     bnd (get_task badge) (\<lambda>t.
     bnd (put_task badge (t\<lparr>exit_code := Some code\<rparr>)) (\<lambda>_.
     bnd (kcall_unwrap (tcb_suspend E (tcb t))) (\<lambda>_.
     ret (Okay 0))))"

definition sys_exit_group :: "'k kenv \<Rightarrow> u64 \<Rightarrow> i32 \<Rightarrow> ('k kthread, errno + usize) M" where
  "sys_exit_group E badge code =
     bnd (get_task badge) (\<lambda>t.
     bnd (put_task badge (t\<lparr>exit_code := Some code\<rparr>)) (\<lambda>_.
     bnd (kcall_unwrap (tcb_suspend E (tcb t))) (\<lambda>_.
     ret (Okay 0))))"

definition sys_sched_yield :: "'k kenv \<Rightarrow> ('k kthread, errno + usize) M" where
  "sys_sched_yield E = bnd (kdo (sel4_yield E)) (\<lambda>_. ret (Okay 0))"

section \<open>Identifiers\<close>

definition sys_getpid :: "u64 \<Rightarrow> ('k kthread, errno + usize) M" where
  "sys_getpid badge = bnd (get_task badge) (\<lambda>t. ret (Okay (pid t)))"

definition sys_getppid :: "u64 \<Rightarrow> ('k kthread, errno + usize) M" where
  "sys_getppid badge = bnd (get_task badge) (\<lambda>t. ret (Okay (pid t)))"

definition sys_getuid :: "u64 \<Rightarrow> ('k kthread, errno + usize) M" where
  "sys_getuid badge = bnd (get_task badge) (\<lambda>t. ret (Okay (tid t)))"

definition sys_geteuid :: "u64 \<Rightarrow> ('k kthread, errno + usize) M" where
  "sys_geteuid badge = bnd (get_task badge) (\<lambda>t. ret (Okay (tid t)))"

definition sys_gettid :: "usize \<Rightarrow> ('k kthread, errno + usize) M" where
  "sys_gettid badge = ret (Okay badge)"

definition sys_set_tid_address :: "u64 \<Rightarrow> usize \<Rightarrow> ('k kthread, errno + usize) M" where
  "sys_set_tid_address badge tidptr =
     bnd (get_task badge) (\<lambda>t.
     bnd (put_task badge (t\<lparr>clear_child_tid := Some tidptr\<rparr>)) (\<lambda>_.
     ret (Okay badge)))"

section \<open>execve\<close>

definition str_bytes :: "string \<Rightarrow> u8 list" where
  "str_bytes cs = map of_char cs"

text \<open>The page behind the last section of the image: the address of the IPC buffer.\<close>

definition ipc_buffer_addr_of :: "elf_file \<Rightarrow> u64" where
  "ipc_buffer_addr_of file =
     (fold (\<lambda>(address, sz) acc. max acc (address + sz)) (elf_sections file) 0 + 4096 - 1) div 4096 * 4096"

definition exec_context :: "elf_file \<Rightarrow> usize \<Rightarrow> u64 \<Rightarrow> user_context" where
  "exec_context file sp_ptr ipc_buffer_addr =
     user_context_default\<lparr>uc_pc := elf_entry_point file, uc_sp := sp_ptr,
       uc_gpr := (uc_gpr user_context_default)(1 := ipc_buffer_addr),
       uc_tpidr_el0 := (case elf_tbss file of None \<Rightarrow> 0 | Some a \<Rightarrow> a)\<rparr>"

definition sys_exec :: "'k kenv \<Rightarrow> u64 \<Rightarrow> cptr \<Rightarrow> ('k kthread, errno + usize) M" where
  "sys_exec E badge fault_ep =
     bnd (get_task badge) (\<lambda>task.
     let task = task\<lparr>mapped_page := [], mapped_pt := []\<rparr> in
     bnd (unwrap_opt (object_parse E (SHIM_ELF E))) (\<lambda>child_image.
     bnd (footprint E child_image) (\<lambda>fp.
     bnd (map_image E (mapped_page task) (vspace task) fp child_image (slot_VSPACE E) (page_seat_vaddr E)) (\<lambda>pages.
     bnd (map_stack E (task\<lparr>mapped_page := pages\<rparr>) 0 (USPACE_STACK_TOP - USPACE_STACK_SIZE) USPACE_STACK_TOP
            [str_bytes ''busybox'', str_bytes ''--help'']) (\<lambda>(sp_ptr, task).
     bnd (expect_opt ''can't load elf file'' (elf_parse E (SHIM_ELF E))) (\<lambda>file.
     bnd (allocate_fixed E BP_Granule) (\<lambda>ipc_buffer_cap.
     let ipc_buffer_addr = ipc_buffer_addr_of file in
     bnd (map_page E task ipc_buffer_addr ipc_buffer_cap) (\<lambda>task.
     bnd (kcall_unwrap (tcb_configure E (tcb task) fault_ep (cnode task) (cnode_cap_data E 0 (WORD_SIZE E - 12))
            (vspace task) ipc_buffer_addr ipc_buffer_cap)) (\<lambda>_.
     bnd (kcall_unwrap (tcb_set_sched_params E (tcb task) (slot_TCB E) 0 255)) (\<lambda>_.
     bnd (kcall_unwrap (tcb_write_all_registers E (tcb task) False
            (exec_context file sp_ptr ipc_buffer_addr))) (\<lambda>_.
     bnd (put_task badge (task\<lparr>exit_code := Some 0\<rparr>)) (\<lambda>_.
     bnd (kcall_unwrap (tcb_resume E (tcb task))) (\<lambda>_.
     ret (Okay 0))))))))))))))"

section \<open>clone\<close>

definition copy_page ::
  "'k kenv \<Rightarrow> cptr \<Rightarrow> cptr \<Rightarrow> (('k, 'z) sys_scheme, unit) M" where
  "copy_page E new_page_cap page_cap =
     bnd (kcall_unwrap (frame_map E new_page_cap (slot_VSPACE E) (ext_page_seat E) rights_all)) (\<lambda>_.
     bnd (in_window E page_cap
            (bnd (read_ptr E (page_seat_vaddr E) (unat (GRANULE_SIZE E))) (\<lambda>bs.
             kdo (ptr_write E (ext_page_seat E) bs)))) (\<lambda>_.
     kcall_unwrap (frame_unmap E new_page_cap)))"

primrec clone_pages ::
  "'k kenv \<Rightarrow> (usize \<times> cptr) list \<Rightarrow> sel4_task \<Rightarrow> (('k, 'z) alloc_sys_scheme, sel4_task) M" where
  "clone_pages E [] dst = ret dst"
| "clone_pages E (p # ps) dst =
     bnd (allocate_fixed E BP_Granule) (\<lambda>new_page_cap.
     bnd (copy_page E new_page_cap (snd p)) (\<lambda>_.
     bnd (map_page E dst (fst p) new_page_cap) (\<lambda>dst'.
     clone_pages E ps dst')))"

definition clone_vspace ::
  "'k kenv \<Rightarrow> sel4_task \<Rightarrow> sel4_task \<Rightarrow> (('k, 'z) alloc_sys_scheme, sel4_task) M" where
  "clone_vspace E dst src = clone_pages E (bt_iter (mapped_page src)) dst"

text \<open>The second capability to the parent's address space that \<open>CLONE_VM\<close> gives the child.\<close>

definition share_vspace ::
  "'k kenv \<Rightarrow> sel4_task \<Rightarrow> sel4_task \<Rightarrow> (('k, 'z) alloc_sys_scheme, sel4_task) M" where
  "share_vspace E child task =
     bnd (allocate_slot E) (\<lambda>(_, _, new_vspace).
     bnd (kcall_unwrap (cnode_copy E (Relative (slot_CNODE E) new_vspace)
            (Relative (slot_CNODE E) (vspace task)) rights_all)) (\<lambda>_.
     ret (child\<lparr>vspace := new_vspace\<rparr>)))"

definition clone_context :: "clone_args \<Rightarrow> user_context \<Rightarrow> user_context" where
  "clone_context args regs =
     (let regs = (if ca_init_fn args = 0 then regs\<lparr>uc_pc := uc_pc regs + 4\<rparr>
                  else regs\<lparr>uc_pc := ca_init_fn args, uc_gpr := (uc_gpr regs)(0 := ca_init_argv args)\<rparr>)
      in if ca_stack args \<noteq> 0 then regs\<lparr>uc_sp := ca_stack args\<rparr> else regs)"

text \<open>\<open>.map_err(|_| Errno::ENOMEM)?\<close> while the new task is owned by the handler.\<close>

definition or_drop ::
  "'k kenv \<Rightarrow> sel4_task \<Rightarrow> ('k, unit) kop \<Rightarrow> ('k kthread, errno + usize) M \<Rightarrow> ('k kthread, errno + usize) M" where
  "or_drop E child op rest =
     bnd (kcall op) (\<lambda>res.
     case res of
       Inl _ \<Rightarrow> bnd (drop_task E child) (\<lambda>_. ret (Err ENOMEM))
     | Inr _ \<Rightarrow> rest)"

definition clone_ipc_buffer_addr :: u64 where "clone_ipc_buffer_addr = 0x40000"

definition start_clone ::
  "'k kenv \<Rightarrow> cptr \<Rightarrow> clone_args \<Rightarrow> sel4_task \<Rightarrow> u64 \<Rightarrow> sel4_task \<Rightarrow> ('k kthread, errno + usize) M" where
  "start_clone E fault_ep args task badge child =
     bnd (allocate_fixed E BP_Granule) (\<lambda>ipc_buffer_cap.
     bnd (map_page E child clone_ipc_buffer_addr ipc_buffer_cap) (\<lambda>child.
     or_drop E child
       (tcb_configure E (tcb child) fault_ep (cnode child) (cnode_cap_data E 0 (WORD_SIZE E - CNODE_RADIX_BITS))
          (vspace child) clone_ipc_buffer_addr ipc_buffer_cap) (
     or_drop E child (tcb_set_sched_params E (tcb child) (slot_TCB E) 0 255) (
     bnd (kcall_unwrap (tcb_read_all_registers E (tcb task) False)) (\<lambda>regs.
     bnd (kcall_unwrap (tcb_write_all_registers E (tcb child) False (clone_context args regs))) (\<lambda>_.
     bnd (kcall_unwrap (tcb_resume E (tcb child))) (\<lambda>_.
     bnd (insert_task E badge child) (\<lambda>_.
     ret (Okay badge)))))))))"

definition sys_clone :: "'k kenv \<Rightarrow> u64 \<Rightarrow> cptr \<Rightarrow> usize \<Rightarrow> ('k kthread, errno + usize) M" where
  "sys_clone E badge fault_ep clone_args_ptr =
     bnd (get_task badge) (\<lambda>task.
     if clone_args_ptr = 0 then ret (Err EINVAL)
     else
       try_bnd (read_item E (size_of_CloneArgs E) (clone_args_of_bytes E) task clone_args_ptr) (\<lambda>args.
       case flags_from_bits E clone_flags_all (ca_flags args) of
         None \<Rightarrow> ret (Err EINVAL)
       | Some clone_flags \<Rightarrow>
           bnd (new_task E) (\<lambda>child.
           bnd (kcall_unwrap (cnode_copy E (Relative_bits (cnode child) 1 CNODE_RADIX_BITS)
                  (Relative (slot_CNODE E) (tcb task)) rights_all)) (\<lambda>_.
           or_drop E child
             (cnode_mint E (Relative_bits (cnode child) DEFAULT_THREAD_FAULT_EP CNODE_RADIX_BITS)
                (Relative (slot_CNODE E) fault_ep) rights_all (tid child)) (
           bnd (if \<not> flags_contains E clone_flags CLONE_VM then clone_vspace E child task
                else share_vspace E child task) (\<lambda>child'.
           start_clone E fault_ep args task (tid child) child'))))))"

end
