(* ===== verification/Messages.thy ===== *)
theory Messages
  imports Ref_Kernel
begin

text \<open>
  The message labels of \<^verbatim>\<open>src/crates/common/src/lib.rs\<close>: how the threads name their requests
  to each other. Every protocol has a block of labels that starts at its \<open>LABEL_START\<close>;
  \<open>to_label\<close> and \<open>build\<close> encode a request into a label and the message registers, and
  \<open>try_from\<close> decodes them.

  \<open>try_from\<close> reads its message only through \<open>message.label()\<close>; the definitions named
  \<open>.._decode\<close> are its body on that value. The locale \<open>label_codec\<close> is the contract a
  protocol has to meet when the kernel transfers no more than the announced number of message
  registers, and it is interpreted on all four protocols.
\<close>

section \<open>The example of the generating macro\<close>

datatype TestMessageLabel = MessageLabel | Test1 | Test2 u8 u8

text \<open>\<open>impl_message_label!\<close> generates a \<open>try_from\<close> whose known labels are \<open>todo!()\<close>.\<close>

definition test_try_from :: "usize \<Rightarrow> ('s, TestMessageLabel option) M" where
  "test_try_from raw_label =
     (let label = raw_label - 100 in
      if label = 0 then stop (Message ''not yet implemented'')
      else if label = 1 then stop (Message ''not yet implemented'')
      else if label = 2 then stop (Message ''not yet implemented'')
      else ret None)"

lemma test_try_from_decodes_nothing: "test_try_from raw_label s \<noteq> (Ret (Some l), t)"
  by (simp add: test_try_from_def run_simps Let_def)

section \<open>Custom messages: user tasks to the kernel thread\<close>

datatype CustomMessageLabel = TestCustomMessage | SysCall | Exit

definition Custom_LABEL_START :: u64 where "Custom_LABEL_START = 0x100"

fun custom_discriminant :: "CustomMessageLabel \<Rightarrow> u64" where
  "custom_discriminant TestCustomMessage = 0"
| "custom_discriminant SysCall = 1"
| "custom_discriminant Exit = 2"

definition custom_decode :: "u64 \<Rightarrow> CustomMessageLabel option" where
  "custom_decode raw =
     (if raw \<ge> Custom_LABEL_START then
        let label = raw - Custom_LABEL_START in
        if label = 0 then Some TestCustomMessage
        else if label = 1 then Some SysCall
        else if label = 2 then Some Exit
        else None
      else None)"

definition custom_try_from :: "('e) msg_api_scheme \<Rightarrow> message_info \<Rightarrow> CustomMessageLabel option" where
  "custom_try_from K message = custom_decode (mi_label K message)"

definition custom_to_label :: "CustomMessageLabel \<Rightarrow> u64" where
  "custom_to_label x = custom_discriminant x + Custom_LABEL_START"

section \<open>Root messages: system threads to the root task\<close>

datatype RootMessageLabel =
    RegisterIRQ cptr u64
  | TranslateAddr usize
  | RegisterIRQWithCap u64

definition Root_LABEL_START :: u64 where "Root_LABEL_START = 0x200"

definition root_decode :: "u64 \<Rightarrow> regs \<Rightarrow> RootMessageLabel option" where
  "root_decode raw regs =
     (if raw \<ge> Root_LABEL_START then
        let label = raw - Root_LABEL_START in
        if label = 0 then Some (RegisterIRQ (regs 0) (regs 1))
        else if label = 1 then Some (TranslateAddr (regs 0))
        else if label = 2 then Some (RegisterIRQWithCap (regs 0))
        else None
      else None)"

definition root_try_from :: "('e) msg_api_scheme \<Rightarrow> message_info \<Rightarrow> regs \<Rightarrow> RootMessageLabel option" where
  "root_try_from K message regs = root_decode (mi_label K message) regs"

definition root_to_label :: "RootMessageLabel \<Rightarrow> u64" where
  "root_to_label x = Root_LABEL_START +
     (case x of RegisterIRQ _ _ \<Rightarrow> 0 | TranslateAddr _ \<Rightarrow> 1 | RegisterIRQWithCap _ \<Rightarrow> 2)"

fun root_store :: "RootMessageLabel \<Rightarrow> regs \<Rightarrow> regs" where
  "root_store (RegisterIRQ irq_handler irq_num) regs = regs(0 := irq_handler, 1 := irq_num)"
| "root_store (TranslateAddr addr) regs = regs(0 := addr)"
| "root_store (RegisterIRQWithCap irq_num) regs = regs(0 := irq_num)"

fun root_msg_size :: "RootMessageLabel \<Rightarrow> usize" where
  "root_msg_size (RegisterIRQ _ _) = 2"
| "root_msg_size (TranslateAddr _) = 1"
| "root_msg_size (RegisterIRQWithCap _) = 1"

definition root_build :: "('e) msg_api_scheme \<Rightarrow> RootMessageLabel \<Rightarrow> regs \<Rightarrow> message_info \<times> regs" where
  "root_build K x regs = (mi_new K (root_to_label x) 0 0 (root_msg_size x), root_store x regs)"

section \<open>Block messages\<close>

datatype BlkMessageLabel = Ping | ReadBlock u64 u64 | WriteBlock u64 u64 | NumBlock

definition Blk_LABEL_START :: u64 where "Blk_LABEL_START = 0x300"

definition blk_decode :: "u64 \<Rightarrow> regs \<Rightarrow> BlkMessageLabel option" where
  "blk_decode raw regs =
     (if raw \<ge> Blk_LABEL_START then
        let label = raw - Blk_LABEL_START in
        if label = 0 then Some Ping
        else if label = 1 then Some (ReadBlock (regs 0) (regs 1))
        else if label = 2 then Some (WriteBlock (regs 0) (regs 1))
        else if label = 3 then Some NumBlock
        else None
      else None)"

definition blk_try_from :: "('e) msg_api_scheme \<Rightarrow> message_info \<Rightarrow> regs \<Rightarrow> BlkMessageLabel option" where
  "blk_try_from K message regs = blk_decode (mi_label K message) regs"

definition blk_to_label :: "BlkMessageLabel \<Rightarrow> u64" where
  "blk_to_label x = Blk_LABEL_START +
     (case x of Ping \<Rightarrow> 0 | ReadBlock _ _ \<Rightarrow> 1 | WriteBlock _ _ \<Rightarrow> 2 | NumBlock \<Rightarrow> 3)"

fun blk_store :: "BlkMessageLabel \<Rightarrow> regs \<Rightarrow> regs" where
  "blk_store Ping regs = regs"
| "blk_store (ReadBlock idx num) regs = regs(0 := idx, 1 := num)"
| "blk_store (WriteBlock idx num) regs = regs(0 := idx, 1 := num)"
| "blk_store NumBlock regs = regs"

fun blk_msg_size :: "BlkMessageLabel \<Rightarrow> usize" where
  "blk_msg_size Ping = 0"
| "blk_msg_size (ReadBlock _ _) = 2"
| "blk_msg_size (WriteBlock _ _) = 2"
| "blk_msg_size NumBlock = 0"

definition blk_build :: "('e) msg_api_scheme \<Rightarrow> BlkMessageLabel \<Rightarrow> regs \<Rightarrow> message_info \<times> regs" where
  "blk_build K x regs = (mi_new K (blk_to_label x) 0 0 (blk_msg_size x), blk_store x regs)"

section \<open>Network messages: kernel thread to the network thread\<close>

datatype NetRequsetabel =
    New
  | IsNonBlocking u64
  | SetNonBlocking u64 u64
  | Bind u64 u64
  | Send u64 u64 u64
  | Recv u64 u64 u64
  | RecvTimeout u64 u64 u64 u64
  | Connect u64 u64
  | Listen u64
  | Accept u64
  | Shutdown u64
  | Close u64

definition Net_LABEL_START :: u64 where "Net_LABEL_START = 0x400"

definition net_decode :: "u64 \<Rightarrow> regs \<Rightarrow> NetRequsetabel option" where
  "net_decode raw regs =
     (if raw \<ge> Net_LABEL_START then
        let label = raw - Net_LABEL_START in
        if label = 0x0 then Some New
        else if label = 0x1 then Some (IsNonBlocking (regs 0))
        else if label = 0x2 then Some (SetNonBlocking (regs 0) (regs 1))
        else if label = 0x3 then Some (Bind (regs 0) (regs 1))
        else if label = 0x4 then Some (Send (regs 0) (regs 1) (regs 2))
        else if label = 0x5 then Some (Recv (regs 0) (regs 1) (regs 2))
        else if label = 0x6 then Some (RecvTimeout (regs 0) (regs 1) (regs 2) (regs 3))
        else if label = 0x7 then Some (Connect (regs 0) (regs 1))
        else if label = 0x8 then Some (Listen (regs 0))
        else if label = 0x9 then Some (Accept (regs 0))
        else if label = 0xa then Some (Shutdown (regs 0))
        else if label = 0xb then Some (Close (regs 0))
        else None
      else None)"

definition net_try_from :: "('e) msg_api_scheme \<Rightarrow> message_info \<Rightarrow> regs \<Rightarrow> NetRequsetabel option" where
  "net_try_from K message regs = net_decode (mi_label K message) regs"

definition net_to_label :: "NetRequsetabel \<Rightarrow> u64" where
  "net_to_label x = Net_LABEL_START +
     (case x of
        New \<Rightarrow> 0 | IsNonBlocking _ \<Rightarrow> 1 | SetNonBlocking _ _ \<Rightarrow> 2 | Bind _ _ \<Rightarrow> 3
      | Send _ _ _ \<Rightarrow> 4 | Recv _ _ _ \<Rightarrow> 5 | RecvTimeout _ _ _ _ \<Rightarrow> 6 | Connect _ _ \<Rightarrow> 7
      | Listen _ \<Rightarrow> 8 | Accept _ \<Rightarrow> 9 | Shutdown _ \<Rightarrow> 10 | Close _ \<Rightarrow> 11)"

fun net_store :: "NetRequsetabel \<Rightarrow> regs \<Rightarrow> regs" where
  "net_store New regs = regs"
| "net_store (IsNonBlocking sid) regs = regs(0 := sid)"
| "net_store (SetNonBlocking sid non_blocking) regs = regs(0 := sid, 1 := non_blocking)"
| "net_store (Bind sid local_addr) regs = regs(0 := sid, 1 := local_addr)"
| "net_store (Send sid buf buf_len) regs = regs(0 := sid, 1 := buf, 2 := buf_len)"
| "net_store (Recv sid buf buf_len) regs = regs(0 := sid, 1 := buf, 2 := buf_len)"
| "net_store (RecvTimeout sid buf buf_len deadline_tick) regs =
     regs(0 := sid, 1 := buf, 2 := buf_len, 3 := deadline_tick)"
| "net_store (Connect sid remote_addr) regs = regs(0 := sid, 1 := remote_addr)"
| "net_store (Listen sid) regs = regs(0 := sid)"
| "net_store (Accept sid) regs = regs(0 := sid)"
| "net_store (Shutdown sid) regs = regs(0 := sid)"
| "net_store (Close sid) regs = regs(0 := sid)"

fun net_msg_size :: "NetRequsetabel \<Rightarrow> usize" where
  "net_msg_size New = 0"
| "net_msg_size (IsNonBlocking _) = 1"
| "net_msg_size (SetNonBlocking _ _) = 2"
| "net_msg_size (Bind _ _) = 2"
| "net_msg_size (Send _ _ _) = 3"
| "net_msg_size (Recv _ _ _) = 3"
| "net_msg_size (RecvTimeout _ _ _ _) = 4"
| "net_msg_size (Connect _ _) = 2"
| "net_msg_size (Listen _) = 1"
| "net_msg_size (Accept _) = 1"
| "net_msg_size (Shutdown _) = 1"
| "net_msg_size (Close _) = 1"

fun net_extra_caps :: "NetRequsetabel \<Rightarrow> usize" where
  "net_extra_caps (Bind _ _) = 1"
| "net_extra_caps (Send _ _ _) = 1"
| "net_extra_caps (Recv _ _ _) = 1"
| "net_extra_caps (RecvTimeout _ _ _ _) = 1"
| "net_extra_caps (Connect _ _) = 1"
| "net_extra_caps _ = 0"

definition net_build :: "('e) msg_api_scheme \<Rightarrow> NetRequsetabel \<Rightarrow> regs \<Rightarrow> message_info \<times> regs" where
  "net_build K x regs =
     (mi_new K (net_to_label x) 0 (net_extra_caps x) (net_msg_size x), net_store x regs)"

section \<open>The contract of a protocol\<close>

text \<open>
  \<open>decode_transfer\<close> is what the receiver needs: whatever its own registers hold, if the
  kernel has copied the first \<open>msg_size\<close> registers of the sender, the request is decoded.
\<close>

locale label_codec =
  fixes start :: u64
    and to_label :: "'l \<Rightarrow> u64"
    and store :: "'l \<Rightarrow> regs \<Rightarrow> regs"
    and msg_size :: "'l \<Rightarrow> usize"
    and decode :: "u64 \<Rightarrow> regs \<Rightarrow> 'l option"
  assumes label_block: "start \<le> to_label x \<and> to_label x < start + 0x100"
    and decode_label: "decode raw regs = Some x \<Longrightarrow> to_label x = raw"
    and decode_transfer:
      "(\<And>i. i < unat (msg_size x) \<Longrightarrow> regs' i = store x regs i) \<Longrightarrow>
       decode (to_label x) regs' = Some x"
begin

lemma decode_store: "decode (to_label x) (store x regs) = Some x"
  by (rule decode_transfer) simp

lemma encode_inj: "to_label x = to_label y \<Longrightarrow> store x regs = store y regs \<Longrightarrow> x = y"
  using decode_store by (metis option.inject)

lemma decode_outside: "\<not> (start \<le> raw \<and> raw < start + 0x100) \<Longrightarrow> decode raw regs = None"
  using decode_label label_block by (metis not_Some_eq)

lemma decode_block: "decode raw regs = Some x \<Longrightarrow> start \<le> raw \<and> raw < start + 0x100"
  using decode_label label_block by metis

end

lemmas label_starts = Custom_LABEL_START_def Root_LABEL_START_def Blk_LABEL_START_def
  Net_LABEL_START_def

lemmas label_defs = custom_decode_def custom_to_label_def Custom_LABEL_START_def
  root_decode_def root_to_label_def Root_LABEL_START_def
  blk_decode_def blk_to_label_def Blk_LABEL_START_def
  net_decode_def net_to_label_def Net_LABEL_START_def

interpretation custom_codec: label_codec Custom_LABEL_START custom_to_label "\<lambda>_ regs. regs" "\<lambda>_. 0"
  "\<lambda>raw _. custom_decode raw"
proof unfold_locales
  fix x show "Custom_LABEL_START \<le> custom_to_label x \<and> custom_to_label x < Custom_LABEL_START + 0x100"
    by (cases x) (simp_all add: label_defs)
next
  fix raw x assume "custom_decode raw = Some x"
  then show "custom_to_label x = raw"
    by (auto simp: label_defs Let_def algebra_simps split: if_splits)
next
  fix x :: CustomMessageLabel and regs' regs :: regs
  show "custom_decode (custom_to_label x) = Some x"
    by (cases x) (simp_all add: label_defs)
qed

interpretation root_codec: label_codec Root_LABEL_START root_to_label root_store root_msg_size
  root_decode
proof unfold_locales
  fix x show "Root_LABEL_START \<le> root_to_label x \<and> root_to_label x < Root_LABEL_START + 0x100"
    by (cases x) (simp_all add: label_defs)
next
  fix raw regs x assume "root_decode raw regs = Some x"
  then show "root_to_label x = raw"
    by (auto simp: label_defs Let_def algebra_simps split: if_splits)
next
  fix x and regs' regs :: regs
  assume "\<And>i. i < unat (root_msg_size x) \<Longrightarrow> regs' i = root_store x regs i"
  then show "root_decode (root_to_label x) regs' = Some x"
    by (cases x) (simp_all add: label_defs)
qed

interpretation blk_codec: label_codec Blk_LABEL_START blk_to_label blk_store blk_msg_size blk_decode
proof unfold_locales
  fix x show "Blk_LABEL_START \<le> blk_to_label x \<and> blk_to_label x < Blk_LABEL_START + 0x100"
    by (cases x) (simp_all add: label_defs)
next
  fix raw regs x assume "blk_decode raw regs = Some x"
  then show "blk_to_label x = raw"
    by (auto simp: label_defs Let_def algebra_simps split: if_splits)
next
  fix x and regs' regs :: regs
  assume "\<And>i. i < unat (blk_msg_size x) \<Longrightarrow> regs' i = blk_store x regs i"
  then show "blk_decode (blk_to_label x) regs' = Some x"
    by (cases x) (simp_all add: label_defs)
qed

interpretation net_codec: label_codec Net_LABEL_START net_to_label net_store net_msg_size net_decode
proof unfold_locales
  fix x show "Net_LABEL_START \<le> net_to_label x \<and> net_to_label x < Net_LABEL_START + 0x100"
    by (cases x) (simp_all add: label_defs)
next
  fix raw regs x assume "net_decode raw regs = Some x"
  then show "net_to_label x = raw"
    by (auto simp: label_defs Let_def algebra_simps split: if_splits)
next
  fix x and regs' regs :: regs
  assume "\<And>i. i < unat (net_msg_size x) \<Longrightarrow> regs' i = net_store x regs i"
  then show "net_decode (net_to_label x) regs' = Some x"
    by (cases x) (simp_all add: label_defs)
qed

section \<open>Properties\<close>

lemma word_less_between: "(a::u64) \<le> x \<and> x < b \<Longrightarrow> b \<le> c \<or> d \<le> a \<Longrightarrow> \<not> (c \<le> x \<and> x < d)"
  by auto

lemma label_bound:
  "root_to_label b < 0x10000000000000" "blk_to_label c < 0x10000000000000"
  "net_to_label d < 0x10000000000000"
  by (rule order.strict_trans2 [OF root_codec.label_block [THEN conjunct2]]
        order.strict_trans2 [OF blk_codec.label_block [THEN conjunct2]]
        order.strict_trans2 [OF net_codec.label_block [THEN conjunct2]]; simp add: label_starts)+

lemma only_custom: "custom_decode raw = Some a \<Longrightarrow>
    custom_to_label a = raw \<and> root_decode raw q = None \<and> blk_decode raw q = None \<and> net_decode raw q = None"
  by (intro conjI;
      (rule custom_codec.decode_label
         root_codec.decode_outside [OF word_less_between [OF custom_codec.decode_block]]
         blk_codec.decode_outside [OF word_less_between [OF custom_codec.decode_block]]
         net_codec.decode_outside [OF word_less_between [OF custom_codec.decode_block]]);
      (assumption | simp add: label_starts))

lemma only_root: "root_decode raw r = Some b \<Longrightarrow>
    root_to_label b = raw \<and> custom_decode raw = None \<and> blk_decode raw q = None \<and> net_decode raw q = None"
  by (intro conjI;
      (rule root_codec.decode_label
         custom_codec.decode_outside [OF word_less_between [OF root_codec.decode_block]]
         blk_codec.decode_outside [OF word_less_between [OF root_codec.decode_block]]
         net_codec.decode_outside [OF word_less_between [OF root_codec.decode_block]]);
      (assumption | simp add: label_starts))

lemma only_blk: "blk_decode raw r = Some c \<Longrightarrow>
    blk_to_label c = raw \<and> custom_decode raw = None \<and> root_decode raw q = None \<and> net_decode raw q = None"
  by (intro conjI;
      (rule blk_codec.decode_label
         custom_codec.decode_outside [OF word_less_between [OF blk_codec.decode_block]]
         root_codec.decode_outside [OF word_less_between [OF blk_codec.decode_block]]
         net_codec.decode_outside [OF word_less_between [OF blk_codec.decode_block]]);
      (assumption | simp add: label_starts))

lemma only_net: "net_decode raw r = Some d \<Longrightarrow>
    net_to_label d = raw \<and> custom_decode raw = None \<and> root_decode raw q = None \<and> blk_decode raw q = None"
  by (intro conjI;
      (rule net_codec.decode_label
         custom_codec.decode_outside [OF word_less_between [OF net_codec.decode_block]]
         root_codec.decode_outside [OF word_less_between [OF net_codec.decode_block]]
         blk_codec.decode_outside [OF word_less_between [OF net_codec.decode_block]]);
      (assumption | simp add: label_starts))

lemmas try_from_defs = custom_try_from_def root_try_from_def blk_try_from_def net_try_from_def

text \<open>
  C4. A request of the network protocol survives the IPC. When the receiver's message registers
  agree with the sender's on the first \<open>msg_size\<close> registers, which is what the kernel copies
  for the message info that \<open>build\<close> makes, \<open>NetRequsetabel::try_from\<close> returns the request
  that was built, whatever the receiver's other registers hold; and no other protocol takes the
  message for one of its own.
\<close>

theorem net_request_delivered:
  assumes "label_kept K"
    and "\<And>i. i < unat (net_msg_size x) \<Longrightarrow> regs' i = snd (net_build K x regs) i"
  shows "net_try_from K (fst (net_build K x regs)) regs' = Some x
    \<and> custom_try_from K (fst (net_build K x regs)) = None
    \<and> root_try_from K (fst (net_build K x regs)) regs' = None
    \<and> blk_try_from K (fst (net_build K x regs)) regs' = None"
proof -
  have "mi_label K (fst (net_build K x regs)) = net_to_label x"
    using assms(1) label_bound(3) by (simp add: net_build_def label_kept_def)
  moreover have "net_decode (net_to_label x) regs' = Some x"
    using assms(2) by (intro net_codec.decode_transfer [where regs = regs]) (simp add: net_build_def)
  ultimately show ?thesis
    using only_net [of "net_to_label x" regs' x] by (simp add: try_from_defs)
qed

theorem net_request_delivered_witness:
  "net_try_from ref_msg_api (fst (net_build ref_msg_api (RecvTimeout 3 0x1000 64 9) (\<lambda>_. 0)))
       (\<lambda>i. if i = 0 then 3 else if i = 1 then 0x1000 else if i = 2 then 64 else if i = 3 then 9 else 77)
     = Some (RecvTimeout 3 0x1000 64 9)"
proof -
  have "\<And>i. i < unat (net_msg_size (RecvTimeout 3 0x1000 64 9)) \<Longrightarrow>
    (if i = 0 then 3 else if i = 1 then 0x1000 else if i = 2 then 64 else if i = 3 then 9 else 77)
      = snd (net_build ref_msg_api (RecvTimeout 3 0x1000 64 9) (\<lambda>_. 0)) i"
    by (auto simp: net_build_def)
  from net_request_delivered [OF ref_msg_api_laws(1) this] show ?thesis by simp
qed

text \<open>
  C8. The requests to the root task and to the block driver survive the IPC in the same way.
\<close>

theorem root_and_blk_requests_delivered:
  assumes "label_kept K"
    and "\<And>i. i < unat (root_msg_size x) \<Longrightarrow> regs' i = snd (root_build K x regs) i"
    and "\<And>i. i < unat (blk_msg_size y) \<Longrightarrow> bregs' i = snd (blk_build K y bregs) i"
  shows "root_try_from K (fst (root_build K x regs)) regs' = Some x
    \<and> blk_try_from K (fst (blk_build K y bregs)) bregs' = Some y"
proof -
  have "mi_label K (fst (root_build K x regs)) = root_to_label x"
    and "mi_label K (fst (blk_build K y bregs)) = blk_to_label y"
    using assms(1) label_bound(1,2) by (simp_all add: root_build_def blk_build_def label_kept_def)
  moreover have "root_decode (root_to_label x) regs' = Some x"
    using assms(2) by (intro root_codec.decode_transfer [where regs = regs]) (simp add: root_build_def)
  moreover have "blk_decode (blk_to_label y) bregs' = Some y"
    using assms(3) by (intro blk_codec.decode_transfer [where regs = bregs]) (simp add: blk_build_def)
  ultimately show ?thesis
    by (simp add: try_from_defs)
qed

theorem root_and_blk_requests_delivered_witness:
  "root_try_from ref_msg_api (fst (root_build ref_msg_api (RegisterIRQ 26 79) (\<lambda>_. 0)))
       (\<lambda>i. if i = 0 then 26 else 79) = Some (RegisterIRQ 26 79)
   \<and> blk_try_from ref_msg_api (fst (blk_build ref_msg_api (ReadBlock 5 2) (\<lambda>_. 0)))
       (\<lambda>i. if i = 0 then 5 else 2) = Some (ReadBlock 5 2)"
proof -
  have "\<And>i. i < unat (root_msg_size (RegisterIRQ 26 79)) \<Longrightarrow>
      (if i = 0 then 26 else 79) = snd (root_build ref_msg_api (RegisterIRQ 26 79) (\<lambda>_. 0)) i"
    and "\<And>i. i < unat (blk_msg_size (ReadBlock 5 2)) \<Longrightarrow>
      (if i = 0 then 5 else 2) = snd (blk_build ref_msg_api (ReadBlock 5 2) (\<lambda>_. 0)) i"
    by (auto simp: root_build_def blk_build_def)
  from root_and_blk_requests_delivered [OF ref_msg_api_laws(1) this] show ?thesis by simp
qed

text \<open>
  C7. No message is taken for a request of two protocols: whatever label and registers a message
  has, at most one of the four \<open>try_from\<close> functions accepts it, and the one that does accepts
  exactly the label that \<open>to_label\<close> gives to what it returns.
\<close>

theorem protocols_exclusive:
  "(\<forall>a. custom_try_from K m = Some a \<longrightarrow>
       mi_label K m = custom_to_label a \<and> root_try_from K m regs = None
       \<and> blk_try_from K m regs = None \<and> net_try_from K m regs = None)
   \<and> (\<forall>b. root_try_from K m regs = Some b \<longrightarrow>
       mi_label K m = root_to_label b \<and> custom_try_from K m = None
       \<and> blk_try_from K m regs = None \<and> net_try_from K m regs = None)
   \<and> (\<forall>c. blk_try_from K m regs = Some c \<longrightarrow>
       mi_label K m = blk_to_label c \<and> custom_try_from K m = None
       \<and> root_try_from K m regs = None \<and> net_try_from K m regs = None)
   \<and> (\<forall>d. net_try_from K m regs = Some d \<longrightarrow>
       mi_label K m = net_to_label d \<and> custom_try_from K m = None
       \<and> root_try_from K m regs = None \<and> blk_try_from K m regs = None)"
  unfolding try_from_defs
  by (intro conjI allI impI; drule only_custom only_root only_blk only_net; elim conjE; simp)

theorem protocols_exclusive_witness:
  "net_try_from ref_msg_api (ref_mi_new 0x401 0 0 1) (\<lambda>_. 3) = Some (IsNonBlocking 3)
   \<and> custom_try_from ref_msg_api (ref_mi_new 0x401 0 0 1) = None
   \<and> root_try_from ref_msg_api (ref_mi_new 0x401 0 0 1) (\<lambda>_. 3) = None
   \<and> blk_try_from ref_msg_api (ref_mi_new 0x401 0 0 1) (\<lambda>_. 3) = None"
proof -
  have "net_try_from ref_msg_api (ref_mi_new 0x401 0 0 1) (\<lambda>_. 3) = Some (IsNonBlocking 3)"
    by (simp add: net_try_from_def ref_msg_api_def ref_label_kept label_defs)
  with protocols_exclusive [of ref_msg_api "ref_mi_new 0x401 0 0 1" "\<lambda>_. 3"] show ?thesis
    by blast
qed

end
