(* ===== verification/Sys_Net.thy ===== *)
theory Sys_Net
  imports User_Memory Messages
begin

text \<open>
  \<^verbatim>\<open>src/crates/kernel-thread/src/syscall/net\<close>: the socket system calls. Each is a request to
  the network thread by IPC; data goes in a new page that is mapped at the window, filled, and
  transferred as the capability of the message.

  A \<open>Vec::with_capacity(n)\<close> has \<open>n\<close> bytes of memory and length 0: its slice is empty, the
  memory behind its pointer is a list of \<open>n\<close> bytes whose contents are not initialised (here 0).
\<close>

section \<open>Requests: ipc.rs\<close>

definition send_net_ipc :: "'k kenv \<Rightarrow> NetRequsetabel \<Rightarrow> cptr option \<Rightarrow> ('k kthread, unit) M" where
  "send_net_ipc E label cap =
     bnd (case cap of Some c \<Rightarrow> set_cap_reg 0 c | None \<Rightarrow> ret ()) (\<lambda>_.
     bnd get_regs (\<lambda>regs.
     bnd (upd_regs (\<lambda>_. snd (net_build E label regs))) (\<lambda>_.
     bnd (call_ep E (DEFAULT_CUSTOM_SLOT + 2) (fst (net_build E label regs))) (\<lambda>_.
     ret ()))))"

text \<open>\<open>copy_nonoverlapping\<close> counts values, and is given \<open>size_of::<T>() * copy_num\<close>.\<close>

definition gen_cap :: "'k kenv \<Rightarrow> usize \<Rightarrow> u8 list \<Rightarrow> usize option \<Rightarrow> ('k kthread, cptr) M" where
  "gen_cap E size_T item num =
     bnd (allocate_fixed E BP_Granule) (\<lambda>new_cap.
     bnd (kcall_unwrap (frame_map E new_cap (slot_VSPACE E) (page_seat_vaddr E) rights_all)) (\<lambda>_.
     let copy_num = (case num of None \<Rightarrow> 1 | Some n \<Rightarrow> n) in
     if size_T * copy_num > PAGE_SIZE_4K then stop (Message ''Item size is too large'')
     else
       let bytes = unat (size_T * copy_num) * unat size_T in
       bnd (kdo (\<lambda>k. ptr_write E (page_seat_vaddr E) (take bytes (item @ bytes_beyond E bytes k)) k)) (\<lambda>_.
       ret new_cap)))"

definition handle_axresult :: "'k kenv \<Rightarrow> u64 \<Rightarrow> ('s, ax_error + usize) M" where
  "handle_axresult E val =
     (let val_i32 = (ucast val :: i32) in
      if val_i32 = 0 then ret (Okay val)
      else bnd (unwrap_opt (ax_try_from E val_i32)) (\<lambda>e. ret (Err e)))"

definition get_reg :: "nat \<Rightarrow> (('k, 'z) sys_scheme, u64) M" where
  "get_reg i = bnd get_regs (\<lambda>regs. ret (regs i))"

definition drop_value :: "('s, ax_error + 'a) M \<Rightarrow> ('s, ax_error + unit) M" where
  "drop_value m = bnd m (\<lambda>r. ret (case r of Inl e \<Rightarrow> Err e | Inr _ \<Rightarrow> Okay ()))"

definition tcp_new :: "'k kenv \<Rightarrow> ('k kthread, u64) M" where
  "tcp_new E = bnd (send_net_ipc E New None) (\<lambda>_. get_reg 0)"

definition tcp_is_non_blocking :: "'k kenv \<Rightarrow> u64 \<Rightarrow> ('k kthread, bool) M" where
  "tcp_is_non_blocking E socket_id =
     bnd (send_net_ipc E (IsNonBlocking socket_id) None) (\<lambda>_.
     bnd (get_reg 0) (\<lambda>v. ret (v \<noteq> 0)))"

definition tcp_set_nonblocking :: "'k kenv \<Rightarrow> u64 \<Rightarrow> bool \<Rightarrow> ('k kthread, unit) M" where
  "tcp_set_nonblocking E socket_id is_nonblocking =
     send_net_ipc E (SetNonBlocking socket_id (if is_nonblocking then 1 else 0)) None"

definition tcp_bind :: "'k kenv \<Rightarrow> u64 \<Rightarrow> socket_addr \<Rightarrow> ('k kthread, ax_error + unit) M" where
  "tcp_bind E socket_id local_addr =
     bnd (gen_cap E (size_of_SocketAddr E) (socket_addr_bytes E local_addr) None) (\<lambda>cap.
     bnd (send_net_ipc E (Bind socket_id (local_ptr E)) (Some cap)) (\<lambda>_.
     drop_value (bnd (get_reg 0) (handle_axresult E))))"

definition tcp_send :: "'k kenv \<Rightarrow> u64 \<Rightarrow> u8 list \<Rightarrow> ('k kthread, ax_error + usize) M" where
  "tcp_send E socket_id buf =
     (if length buf > unat PAGE_SIZE_4K then stop (Message ''The buffer is not contained in a page.'')
      else
        bnd (gen_cap E 1 buf (Some (of_nat (length buf)))) (\<lambda>cap.
        bnd (kdo (ptr_write E (page_seat_vaddr E) buf)) (\<lambda>_.
        bnd (send_net_ipc E (Send socket_id (local_ptr E) (of_nat (length buf))) (Some cap)) (\<lambda>_.
        bnd (get_reg 0) (handle_axresult E)))))"

text \<open>The receive functions get the memory at the buffer's pointer and the length of the slice.\<close>

definition receive_into :: "'k kenv \<Rightarrow> u8 list \<Rightarrow> ('k kthread, (ax_error + usize) \<times> u8 list) M" where
  "receive_into E mem =
     bnd (get_reg 0) (\<lambda>len.
     bnd (read_ptr E (page_seat_vaddr E) (unat len)) (\<lambda>bs.
     bnd (handle_axresult E len) (\<lambda>r.
     ret (r, overwrite mem 0 bs))))"

definition tcp_recv ::
  "'k kenv \<Rightarrow> u64 \<Rightarrow> u8 list \<Rightarrow> nat \<Rightarrow> ('k kthread, (ax_error + usize) \<times> u8 list) M" where
  "tcp_recv E socket_id mem len =
     (if len > unat PAGE_SIZE_4K then stop (Message ''The buffer is not contained in a page.'')
      else
        bnd (gen_cap E 1 (take len mem) (Some (of_nat len))) (\<lambda>cap.
        bnd (send_net_ipc E (Recv socket_id (local_ptr E) (of_nat len)) (Some cap)) (\<lambda>_.
        receive_into E mem)))"

definition tcp_recv_timeout ::
  "'k kenv \<Rightarrow> u64 \<Rightarrow> u8 list \<Rightarrow> nat \<Rightarrow> u64 \<Rightarrow> ('k kthread, (ax_error + usize) \<times> u8 list) M" where
  "tcp_recv_timeout E socket_id mem len timeout =
     (if len > unat PAGE_SIZE_4K then stop (Message ''The buffer is not contained in a page.'')
      else
        bnd (gen_cap E 1 (take len mem) (Some (of_nat len))) (\<lambda>cap.
        bnd (send_net_ipc E (RecvTimeout socket_id (local_ptr E) (of_nat len) timeout) (Some cap)) (\<lambda>_.
        receive_into E mem)))"

definition tcp_listen :: "'k kenv \<Rightarrow> u64 \<Rightarrow> ('k kthread, ax_error + unit) M" where
  "tcp_listen E socket_id =
     bnd (send_net_ipc E (Listen socket_id) None) (\<lambda>_.
     drop_value (bnd (get_reg 0) (handle_axresult E)))"

definition tcp_connect :: "'k kenv \<Rightarrow> u64 \<Rightarrow> socket_addr \<Rightarrow> ('k kthread, ax_error + unit) M" where
  "tcp_connect E socket_id remote_addr =
     bnd (gen_cap E (size_of_SocketAddr E) (socket_addr_bytes E remote_addr) None) (\<lambda>cap.
     bnd (send_net_ipc E (Connect socket_id 0) (Some cap)) (\<lambda>_.
     drop_value (bnd (get_reg 0) (handle_axresult E))))"

definition i32_abs :: "i32 \<Rightarrow> i32" where
  "i32_abs x = (if sint x < 0 then - x else x)"

definition accept_result :: "'k kenv \<Rightarrow> regs \<Rightarrow> ('s, ax_error + u64 list) M" where
  "accept_result E regs =
     (if sint (regs 0) < 0 then
        bnd (unwrap_opt (ax_try_from E (i32_abs (ucast (regs 0))))) (\<lambda>e. ret (Err e))
      else ret (Okay [regs 0, regs 1, regs 2, regs 3, regs 4]))"

definition tcp_accept :: "'k kenv \<Rightarrow> u64 \<Rightarrow> ('k kthread, ax_error + u64 list) M" where
  "tcp_accept E socket_id =
     bnd (send_net_ipc E (Accept socket_id) None) (\<lambda>_.
     bnd get_regs (accept_result E))"

definition tcp_close :: "'k kenv \<Rightarrow> u64 \<Rightarrow> ('k kthread, ax_error + unit) M" where
  "tcp_close E socket_id =
     bnd (send_net_ipc E (Close socket_id) None) (\<lambda>_.
     drop_value (bnd (get_reg 0) (handle_axresult E)))"

definition tcp_shutdown :: "'k kenv \<Rightarrow> u64 \<Rightarrow> ('k kthread, ax_error + unit) M" where
  "tcp_shutdown E socket_id =
     bnd (send_net_ipc E (Shutdown socket_id) None) (\<lambda>_.
     drop_value (bnd (get_reg 0) (handle_axresult E)))"

section \<open>System calls: net_impl.rs\<close>

text \<open>\<open>LibcSocketAddr\<close> is \<open>repr(C)\<close>: two bytes of family, little endian, and the data.\<close>

definition libc_of_bytes :: "u8 list \<Rightarrow> libc_socket_addr" where
  "libc_of_bytes bs = \<lparr>sa_family = u16_from_be_bytes (bs ! 1) (bs ! 0), sa_data = drop 2 bs\<rparr>"

definition libc_bytes :: "libc_socket_addr \<Rightarrow> u8 list" where
  "libc_bytes a = [ucast (sa_family a), ucast (drop_bit 8 (sa_family a))] @ sa_data a"

definition size_of_LibcSocketAddr :: usize where "size_of_LibcSocketAddr = 16"

text \<open>\<open>match tcp::op(..)\<close> with \<open>Err(e)\<close> for the errors \<open>e\<close> of a list, and a panic for the rest.\<close>

definition finish :: "ax_error list \<Rightarrow> ax_error + 'a \<Rightarrow> ('a \<Rightarrow> ('s, errno + usize) M) \<Rightarrow> ('s, errno + usize) M" where
  "finish known r ok =
     (case r of
        Inr x \<Rightarrow> ok x
      | Inl e \<Rightarrow> if e \<in> set known then ret (Err EINVAL) else stop (Message ''Unknown Error!''))"

definition sys_socket :: "'k kenv \<Rightarrow> ('k kthread, errno + usize) M" where
  "sys_socket E = bnd (tcp_new E) (\<lambda>i. ret (Okay i))"

definition sys_bind :: "'k kenv \<Rightarrow> u64 \<Rightarrow> i32 \<Rightarrow> usize \<Rightarrow> ('k kthread, errno + usize) M" where
  "sys_bind E badge socket_fd addr =
     bnd (get_task badge) (\<lambda>t.
     try_bnd (read_item E size_of_LibcSocketAddr libc_of_bytes t addr) (\<lambda>a.
     bnd (tcp_bind E (scast socket_fd) (libc_into a)) (\<lambda>r.
     finish [InvalidInput] r (\<lambda>_. ret (Okay 0)))))"

definition sys_connect :: "'k kenv \<Rightarrow> u64 \<Rightarrow> i32 \<Rightarrow> usize \<Rightarrow> ('k kthread, errno + usize) M" where
  "sys_connect E badge socket_fd addr =
     bnd (get_task badge) (\<lambda>t.
     try_bnd (read_item E size_of_LibcSocketAddr libc_of_bytes t addr) (\<lambda>a.
     bnd (tcp_connect E (scast socket_fd) (libc_into a)) (\<lambda>r.
     finish [InvalidInput, AddrInUse] r (\<lambda>_. ret (Okay 0)))))"

definition sys_listen :: "'k kenv \<Rightarrow> i32 \<Rightarrow> ('k kthread, errno + usize) M" where
  "sys_listen E socket_fd =
     bnd (tcp_listen E (scast socket_fd)) (\<lambda>r.
     finish [InvalidInput, AddrInUse] r (\<lambda>_. ret (Okay 0)))"

definition be_bytes :: "nat \<Rightarrow> 'a::len word \<Rightarrow> u8 list" where
  "be_bytes n w = map (\<lambda>i. ucast (drop_bit (8 * (n - 1 - i)) w)) [0 ..< n]"

definition parse_ipaddr :: "bool \<Rightarrow> u64 \<Rightarrow> u64 \<Rightarrow> u16 \<Rightarrow> socket_addr" where
  "parse_ipaddr is_ipv4 addr_low addr_high port =
     (if is_ipv4 then
        let addr = be_bytes 8 addr_low in
        \<lparr>sock_ip = V4 (addr ! 0) (addr ! 1) (addr ! 2) (addr ! 3), sock_port = port\<rparr>
      else
        let addr = push_bit 32 (ucast addr_high :: 128 word) OR ucast addr_low in
        \<lparr>sock_ip = V6 (be_bytes 16 addr), sock_port = port\<rparr>)"

definition sys_accept :: "'k kenv \<Rightarrow> u64 \<Rightarrow> i32 \<Rightarrow> usize \<Rightarrow> ('k kthread, errno + usize) M" where
  "sys_accept E badge socket_fd addr =
     bnd (get_task badge) (\<lambda>t.
     bnd (tcp_accept E (scast socket_fd)) (\<lambda>r.
     finish [InvalidInput, AddrInUse] r (\<lambda>ans.
       let socket_addr = parse_ipaddr (ans ! 1 \<noteq> 0) (ans ! 3) (ans ! 4) (ucast (ans ! 2)) in
       bnd (write_item E size_of_LibcSocketAddr t addr (libc_bytes (libc_from socket_addr))) (\<lambda>_.
       ret (Okay (ans ! 0))))))"

definition sys_shutdown :: "'k kenv \<Rightarrow> i32 \<Rightarrow> ('k kthread, errno + usize) M" where
  "sys_shutdown E socket_fd =
     bnd (tcp_shutdown E (scast socket_fd)) (\<lambda>r.
     finish [InvalidInput, AddrInUse] r (\<lambda>_. ret (Okay 0)))"

definition vec_with_capacity :: "usize \<Rightarrow> ('s, u8 list) M" where
  "vec_with_capacity n =
     (if sint n < 0 then stop (Message ''capacity overflow'') else ret (replicate (unat n) 0))"

definition sys_sendto :: "'k kenv \<Rightarrow> u64 \<Rightarrow> i32 \<Rightarrow> usize \<Rightarrow> usize \<Rightarrow> usize \<Rightarrow> ('k kthread, errno + usize) M" where
  "sys_sendto E badge socket_fd buf len addr =
     bnd (get_task badge) (\<lambda>t.
     try_bnd (read_item E size_of_LibcSocketAddr libc_of_bytes t addr) (\<lambda>_.
     bnd (vec_with_capacity len) (\<lambda>mem.
     bnd (read_item_list E 1 t buf (Some len) mem) (\<lambda>(_, mem').
     bnd (tcp_send E (scast socket_fd) (take 0 mem')) (\<lambda>r.
     finish [InvalidInput, AddrInUse] r (\<lambda>n. ret (Okay n)))))))"

definition sys_recvfrom :: "'k kenv \<Rightarrow> u64 \<Rightarrow> i32 \<Rightarrow> usize \<Rightarrow> usize \<Rightarrow> ('k kthread, errno + usize) M" where
  "sys_recvfrom E badge socket_fd buf len =
     bnd (get_task badge) (\<lambda>t.
     bnd (vec_with_capacity len) (\<lambda>mem.
     bnd (tcp_recv E (scast socket_fd) mem 0) (\<lambda>(r, mem').
     finish [InvalidInput, AddrInUse] r (\<lambda>n. write_item_list E 1 t buf (Some n) mem'))))"

end
