(* ===== verification/Dispatch.thy ===== *)
theory Dispatch
  imports Sys_Mm Sys_Fs Sys_Thread Sys_Net
begin

text \<open>
  The kernel thread: \<open>handle_ipc_call\<close> of \<^verbatim>\<open>syscall/mod.rs\<close>, the server loop of
  \<^verbatim>\<open>child_test.rs\<close>, the interrupt test of \<^verbatim>\<open>irq_test.rs\<close> and \<open>main\<close>.

  The server loop only ends when a task sends \<open>Exit\<close>; \<open>serve\<close> is one round of it, which
  returns whether the loop goes on, and \<open>server_loop\<close> bounds the rounds by its first argument.
\<close>

section \<open>System calls\<close>

text \<open>The arguments are the array \<open>args\<close> of six words; \<open>as _\<close> truncates to the parameter's type.\<close>

definition handle_ipc_call ::
  "'k kenv \<Rightarrow> u64 \<Rightarrow> usize \<Rightarrow> (nat \<Rightarrow> usize) \<Rightarrow> cptr \<Rightarrow> ('k kthread, errno + usize) M" where
  "handle_ipc_call E badge sys_id args fault_ep =
     (case sysno_new E sys_id of
        None \<Rightarrow> ret (Err EINVAL)
      | Some sys_no \<Rightarrow>
         (case sys_no of
            Sys_write \<Rightarrow> sys_write E badge (ucast (args 0)) (args 1) (args 2)
          | Sys_brk \<Rightarrow> sys_brk E badge (args 0)
          | Sys_mmap \<Rightarrow> sys_mmap E badge (args 0) (args 1) (ucast (args 2)) (ucast (args 3)) (ucast (args 4)) (args 5)
          | Sys_munmap \<Rightarrow> sys_unmap E badge (args 0) (args 1)
          | Sys_exit \<Rightarrow> sys_exit E badge (ucast (args 0))
          | Sys_exit_group \<Rightarrow> sys_exit_group E badge (ucast (args 0))
          | Sys_getpid \<Rightarrow> sys_getpid badge
          | Sys_execve \<Rightarrow> sys_exec E badge fault_ep
          | Sys_clone \<Rightarrow> sys_clone E badge fault_ep (args 0)
          | Sys_gettid \<Rightarrow> sys_gettid badge
          | Sys_sched_yield \<Rightarrow> sys_sched_yield E
          | Sys_getppid \<Rightarrow> sys_getppid badge
          | Sys_set_tid_address \<Rightarrow> sys_set_tid_address badge (args 0)
          | Sys_getuid \<Rightarrow> sys_getuid badge
          | Sys_geteuid \<Rightarrow> sys_geteuid badge
          | Sys_socket \<Rightarrow> sys_socket E
          | Sys_accept \<Rightarrow> sys_accept E badge (ucast (args 0)) (args 1)
          | Sys_bind \<Rightarrow> sys_bind E badge (ucast (args 0)) (args 1)
          | Sys_connect \<Rightarrow> sys_connect E badge (ucast (args 0)) (args 1)
          | Sys_listen \<Rightarrow> sys_listen E (ucast (args 0))
          | Sys_sendto \<Rightarrow> sys_sendto E badge (ucast (args 0)) (args 1) (args 2) (args 4)
          | Sys_recvfrom \<Rightarrow> sys_recvfrom E badge (ucast (args 0)) (args 1) (args 2)
          | Sys_shutdown \<Rightarrow> sys_shutdown E (ucast (args 0))
          | Sys_other _ \<Rightarrow> ret (Err ENOSYS)))"

text \<open>\<open>.map_err(|e| -e.into_raw() as isize).unwrap_or_else(|e| e as usize)\<close>\<close>

definition sys_result :: "'k kenv \<Rightarrow> errno + usize \<Rightarrow> usize" where
  "sys_result E r = (case r of Inl e \<Rightarrow> scast (- errno_into_raw E e) | Inr v \<Rightarrow> v)"

section \<open>The server\<close>

definition reply_with :: "'k kenv \<Rightarrow> usize list \<Rightarrow> (('k, 'z) sys_scheme, unit) M" where
  "reply_with E regs =
     bnd (upd_regs (\<lambda>msg. fold (\<lambda>i m. m(i := regs ! i)) [0 ..< length regs] msg)) (\<lambda>_.
     reply_ipc E (mi_new E 0 0 0 (8 * of_nat (length regs))))"

definition handle_vm_fault :: "'k kenv \<Rightarrow> u64 \<Rightarrow> u64 \<Rightarrow> ('k kthread, unit) M" where
  "handle_vm_fault E badge addr =
     (let vaddr = align_bits addr PAGE_SIZE_BITS in
      bnd (allocate_fixed E BP_Granule) (\<lambda>page_cap.
      bnd (get_task badge) (\<lambda>t.
      bnd (map_page E t vaddr page_cap) (\<lambda>t'.
      bnd (put_task badge t') (\<lambda>_.
      kcall_unwrap (tcb_resume E (tcb t')))))))"

definition handle_syscall :: "'k kenv \<Rightarrow> cptr \<Rightarrow> u64 \<Rightarrow> ('k kthread, unit) M" where
  "handle_syscall E ep badge =
     bnd get_regs (\<lambda>msgs.
     bnd (handle_ipc_call E badge (msgs 0) (\<lambda>i. msgs (i + 1)) ep) (\<lambda>res.
     reply_with E [sys_result E res]))"

definition handle_message :: "'k kenv \<Rightarrow> cptr \<Rightarrow> message_info \<Rightarrow> badge \<Rightarrow> ('k kthread, bool) M" where
  "handle_message E ep message badge =
     (if mi_label E message < 8 then
        bnd get_regs (\<lambda>regs.
        case fault_vm_addr E message regs of
          Some addr \<Rightarrow> bnd (handle_vm_fault E badge addr) (\<lambda>_. ret True)
        | None \<Rightarrow> ret True)
      else
        (case custom_try_from E message of
           Some TestCustomMessage \<Rightarrow> bnd (reply_with E []) (\<lambda>_. ret True)
         | Some SysCall \<Rightarrow> bnd (handle_syscall E ep badge) (\<lambda>_. ret True)
         | Some Exit \<Rightarrow> ret False
         | None \<Rightarrow> ret True))"

definition serve :: "'k kenv \<Rightarrow> cptr \<Rightarrow> ('k kthread, bool) M" where
  "serve E ep =
     bnd (recv_ep E ep) (\<lambda>(message, badge).
     bnd (handle_message E ep message badge) (\<lambda>go_on.
     if go_on then bnd (kdo (sel4_yield E)) (\<lambda>_. ret True) else ret False))"

primrec server_loop :: "'k kenv \<Rightarrow> cptr \<Rightarrow> nat \<Rightarrow> ('k kthread, unit) M" where
  "server_loop E ep 0 = no_fuel"
| "server_loop E ep (Suc n) =
     bnd (serve E ep) (\<lambda>go_on. if go_on then server_loop E ep n else ret ())"

section \<open>Starting the first task\<close>

definition child_context :: "elf_file \<Rightarrow> usize \<Rightarrow> cptr \<Rightarrow> user_context" where
  "child_context file sp_ptr ep =
     user_context_default\<lparr>uc_pc := elf_entry_point file, uc_sp := sp_ptr,
       uc_gpr := (uc_gpr user_context_default)(0 := ep),
       uc_tpidr_el0 := (case elf_tbss file of None \<Rightarrow> 0 | Some a \<Rightarrow> a)\<rparr>"

text \<open>\<open>?\<close> on a kernel operation: an error is returned, and the task is dropped.\<close>

definition or_return ::
  "'k kenv \<Rightarrow> sel4_task \<Rightarrow> ('k, unit) kop \<Rightarrow> ('k kthread, sel4_error + unit) M \<Rightarrow>
     ('k kthread, sel4_error + unit) M" where
  "or_return E task op rest =
     bnd (kcall op) (\<lambda>res.
     case res of
       Inl e \<Rightarrow> bnd (drop_task E task) (\<lambda>_. ret (Err e))
     | Inr _ \<Rightarrow> rest)"

definition child_args :: "u8 list list" where
  "child_args = [str_bytes ''busybox'', str_bytes ''echo'', str_bytes ''Kernel Thread's Child Says Hello!'']"

definition configure_child ::
  "'k kenv \<Rightarrow> cptr \<Rightarrow> elf_file \<Rightarrow> usize \<Rightarrow> sel4_task \<Rightarrow> ('k kthread, sel4_error + unit) M" where
  "configure_child E ep file sp_ptr task =
     bnd (allocate_fixed E BP_Granule) (\<lambda>ipc_buffer_cap.
     let ipc_buffer_addr = ipc_buffer_addr_of file in
     bnd (map_page E task ipc_buffer_addr ipc_buffer_cap) (\<lambda>task.
     or_return E task
       (tcb_configure E (tcb task) ep (cnode task) (cnode_cap_data E 0 (WORD_SIZE E - CNODE_RADIX_BITS))
          (vspace task) ipc_buffer_addr ipc_buffer_cap) (
     or_return E task (tcb_set_sched_params E (tcb task) (slot_TCB E) 0 255) (
     bnd (kcall_unwrap (tcb_write_all_registers E (tcb task) False (child_context file sp_ptr ep))) (\<lambda>_.
     bnd (kcall_unwrap (tcb_resume E (tcb task))) (\<lambda>_.
     bnd (insert_task E (tid task) task) (\<lambda>_.
     ret (Okay ()))))))))"

definition start_child :: "'k kenv \<Rightarrow> cptr \<Rightarrow> ('k kthread, sel4_error + unit) M" where
  "start_child E ep =
     bnd (new_task E) (\<lambda>task.
     bnd (kcall_unwrap (cnode_copy E (Relative_bits (cnode task) 1 CNODE_RADIX_BITS)
            (Relative (slot_CNODE E) (tcb task)) rights_all)) (\<lambda>_.
     or_return E task
       (cnode_mint E (Relative_bits (cnode task) DEFAULT_THREAD_FAULT_EP CNODE_RADIX_BITS)
          (Relative (slot_CNODE E) ep) rights_all (tid task)) (
     bnd (load_elf E task (TEST_ELF E)) (\<lambda>task.
     bnd (expect_opt ''[KernelThread] can't load elf file'' (elf_parse E (TEST_ELF E))) (\<lambda>file.
     bnd (map_stack E task 0 (USPACE_STACK_TOP - 16 * PAGE_SIZE) USPACE_STACK_TOP child_args) (\<lambda>(sp_ptr, task).
     configure_child E ep file sp_ptr task))))))"

definition test_child :: "'k kenv \<Rightarrow> nat \<Rightarrow> cptr \<Rightarrow> ('k kthread, sel4_error + unit) M" where
  "test_child E rounds ep =
     try_bnd (start_child E ep) (\<lambda>_.
     bnd (server_loop E ep rounds) (\<lambda>_. ret (Okay ())))"

section \<open>Interrupts and main\<close>

definition call_root :: "'k kenv \<Rightarrow> RootMessageLabel \<Rightarrow> (('k, 'z) sys_scheme, message_info) M" where
  "call_root E label =
     bnd get_regs (\<lambda>regs.
     bnd (upd_regs (\<lambda>_. snd (root_build E label regs))) (\<lambda>_.
     call_ep E DEFAULT_THREAD_FAULT_EP (fst (root_build E label regs))))"

definition test_irq :: "'k kenv \<Rightarrow> ('k kthread, unit) M" where
  "test_irq E =
     bnd allocate_normal_cap (\<lambda>irq_handler.
     bnd (allocate_fixed E BP_Notification) (\<lambda>ntfn.
     bnd (call_root E (RegisterIRQ irq_handler SERIAL_DEVICE_IRQ)) (\<lambda>_.
     bnd (kcall_unwrap (irq_handler_set_notification E irq_handler ntfn)) (\<lambda>_.
     kdo (ntfn_wait E ntfn)))))"

definition test_irq_with_cap_transfer :: "'k kenv \<Rightarrow> ('k kthread, unit) M" where
  "test_irq_with_cap_transfer E =
     (let irq_handler = DEFAULT_THREAD_RECV_SLOT in
      bnd (allocate_fixed E BP_Notification) (\<lambda>notification.
      bnd (call_root E (RegisterIRQWithCap SERIAL_DEVICE_IRQ)) (\<lambda>_.
      bnd (set_recv_slot (Relative (slot_CNODE E) irq_handler)) (\<lambda>_.
      bnd (recv_ep E DEFAULT_THREAD_IRQ_EP) (\<lambda>_.
      bnd (reply_ipc E (mi_new E 0 0 0 0)) (\<lambda>_.
      bnd (kcall_unwrap (irq_handler_set_notification E irq_handler notification)) (\<lambda>_.
      bnd (kcall_unwrap (irq_handler_ack E irq_handler)) (\<lambda>_.
      kdo (ntfn_wait E notification)))))))))"

definition kernel_thread_main :: "'k kenv \<Rightarrow> nat \<Rightarrow> ('k kthread, unit) M" where
  "kernel_thread_main E rounds =
     bnd (allocator_init DEFAULT_EMPTY_SLOT_INDEX KERNEL_THREAD_SLOT_NUMS DEFAULT_CUSTOM_SLOT) (\<lambda>_.
     bnd (test_irq_with_cap_transfer E) (\<lambda>_.
     bnd (allocate_fixed E BP_Endpoint) (\<lambda>ep.
     bnd (bnd (test_child E rounds ep) unwrap_res) (\<lambda>_.
     bnd (kcall_unwrap (tcb_suspend E 1)) (\<lambda>_.
     stop (Message ''unreachable''))))))"

end
