(* ===== verification/Ref_Env.thy ===== *)
theory Ref_Env
  imports Kernel_Task
begin

text \<open>
  A concrete environment of the kernel thread: the reference kernel together with functions that
  do what the crates document. It shows that the hypotheses of the theorems can hold together and
  runs the thread on concrete inputs. The system call numbers and error codes are those of Linux on
  AArch64, the ELF images are one segment of three bytes.
\<close>

fun ref_sysno :: "usize \<Rightarrow> sysno option" where
  "ref_sysno n = (if n = 64 then Some Sys_write else if n = 214 then Some Sys_brk
     else if n = 222 then Some Sys_mmap else if n = 215 then Some Sys_munmap
     else if n = 93 then Some Sys_exit else if n = 94 then Some Sys_exit_group
     else if n = 172 then Some Sys_getpid else if n = 221 then Some Sys_execve
     else if n = 220 then Some Sys_clone else if n = 178 then Some Sys_gettid
     else if n = 198 then Some Sys_socket else if n < 400 then Some (Sys_other (unat n)) else None)"

fun ref_errno :: "errno \<Rightarrow> i32" where
  "ref_errno EINVAL = 22"
| "ref_errno EFAULT = 14"
| "ref_errno ENOMEM = 12"
| "ref_errno ENOSYS = 38"

definition ref_elf :: elf_file where
  "ref_elf = \<lparr>elf_entry_point = 0x1ffe,
     elf_program_headers = [\<lparr>ph_is_load = True, ph_is_tls = False, ph_offset = 0, ph_virtual_addr = 0x1ffe, ph_file_size = 3, ph_mem_size = 0x10\<rparr>],
     elf_sections = [(0x1ffe, 0x10)], elf_tbss = None\<rparr>"

definition ref_env :: "ref_state kenv" where
  "ref_env = sel4.extend ref_kernel (kenv.fields
     64 0x5000 0x6000
     (\<lambda>a. a mod 4096) (\<lambda>a. a - a mod 4096) (\<lambda>a. (a + 4095) - (a + 4095) mod 4096)
     (\<lambda>a b. if a mod 4096 = 0 \<and> b mod 4096 = 0 then Some (page_list a b) else None)
     ref_sysno ref_errno
     (\<lambda>known x. if x AND NOT (foldr (OR) known 0) = 0 then Some x else None)
     (\<lambda>x f. x AND f = f)
     (\<lambda>x. if x = 22 then Some InvalidInput else Some (Other_ax (unat x)))
     (\<lambda>_. clone_args_default) (\<lambda>a. octets (sock_ip a)) (\<lambda>n _. replicate n 0) 0
     (\<lambda>_. Some ref_elf) (\<lambda>_. Some [ref_segment]) [1, 2, 3] [1, 2, 3]
     (\<lambda>m regs. if ref_mi_label m = 5 then Some (regs 1) else None)
     (\<lambda>a b. if unat a + unat b < 2 ^ 64 then Some (a + b) else None)
     (\<lambda>a b. if b \<le> a then Some (a - b) else None)
     56 32)"

lemma ref_env_kernel [simp]:
  "mi_new ref_env = mi_new ref_kernel"
  "mi_label ref_env = mi_label ref_kernel"
  "mi_length ref_env = mi_length ref_kernel"
  "slot_NULL ref_env = slot_NULL ref_kernel"
  "slot_TCB ref_env = slot_TCB ref_kernel"
  "slot_CNODE ref_env = slot_CNODE ref_kernel"
  "slot_VSPACE ref_env = slot_VSPACE ref_kernel"
  "slot_IRQ_CONTROL ref_env = slot_IRQ_CONTROL ref_kernel"
  "slot_ASID_CONTROL ref_env = slot_ASID_CONTROL ref_kernel"
  "slot_ASID_POOL ref_env = slot_ASID_POOL ref_kernel"
  "NUM_LEVELS ref_env = NUM_LEVELS ref_kernel"
  "GRANULE_SIZE ref_env = GRANULE_SIZE ref_kernel"
  "span_bits ref_env = span_bits ref_kernel"
  "table_from_level ref_env = table_from_level ref_kernel"
  "untyped_retype ref_env = untyped_retype ref_kernel"
  "cnode_copy ref_env = cnode_copy ref_kernel"
  "cnode_mint ref_env = cnode_mint ref_kernel"
  "cnode_mutate ref_env = cnode_mutate ref_kernel"
  "cnode_revoke ref_env = cnode_revoke ref_kernel"
  "cnode_delete ref_env = cnode_delete ref_kernel"
  "asid_pool_assign ref_env = asid_pool_assign ref_kernel"
  "frame_map ref_env = frame_map ref_kernel"
  "frame_unmap ref_env = frame_unmap ref_kernel"
  "frame_get_address ref_env = frame_get_address ref_kernel"
  "pt_map ref_env = pt_map ref_kernel"
  "table_map ref_env = table_map ref_kernel"
  "cnode_cap_data ref_env = cnode_cap_data ref_kernel"
  "tcb_configure ref_env = tcb_configure ref_kernel"
  "tcb_set_sched_params ref_env = tcb_set_sched_params ref_kernel"
  "tcb_write_all_registers ref_env = tcb_write_all_registers ref_kernel"
  "tcb_read_all_registers ref_env = tcb_read_all_registers ref_kernel"
  "tcb_resume ref_env = tcb_resume ref_kernel"
  "tcb_suspend ref_env = tcb_suspend ref_kernel"
  "ep_call ref_env = ep_call ref_kernel"
  "ipc_reply ref_env = ipc_reply ref_kernel"
  "sel4_yield ref_env = sel4_yield ref_kernel"
  "debug_put_char ref_env = debug_put_char ref_kernel"
  "ptr_read ref_env = ptr_read ref_kernel"
  "ptr_write ref_env = ptr_write ref_kernel"
  "WORD_SIZE ref_env = WORD_SIZE ref_kernel"
  "cap_data_skip ref_env = cap_data_skip ref_kernel"
  "cap_data_skip_high_bits ref_env = cap_data_skip_high_bits ref_kernel"
  "tcb_set_space ref_env = tcb_set_space ref_kernel"
  "ep_recv ref_env = ep_recv ref_kernel"
  "irq_control_get ref_env = irq_control_get ref_kernel"
  "irq_handler_set_notification ref_env = irq_handler_set_notification ref_kernel"
  "irq_handler_ack ref_env = irq_handler_ack ref_kernel"
  "ntfn_wait ref_env = ntfn_wait ref_kernel"
  by (simp_all add: ref_env_def sel4.extend_def)

lemma ref_env_fields [simp]:
  "fuel ref_env = 64"
  "page_seat_vaddr ref_env = 0x5000"
  "ext_page_seat ref_env = 0x6000"
  "align_offset_4k ref_env = (\<lambda>a. a mod 4096)"
  "align_down_4k ref_env = (\<lambda>a. a - a mod 4096)"
  "align_up_4k ref_env = (\<lambda>a. (a + 4095) - (a + 4095) mod 4096)"
  "page_iter_4k ref_env = (\<lambda>a b. if a mod 4096 = 0 \<and> b mod 4096 = 0 then Some (page_list a b) else None)"
  "sysno_new ref_env = ref_sysno"
  "errno_into_raw ref_env = ref_errno"
  "flags_from_bits ref_env = (\<lambda>known x. if x AND NOT (foldr (OR) known 0) = 0 then Some x else None)"
  "flags_contains ref_env = (\<lambda>x f. x AND f = f)"
  "ax_try_from ref_env = (\<lambda>x. if x = 22 then Some InvalidInput else Some (Other_ax (unat x)))"
  "clone_args_of_bytes ref_env = (\<lambda>_. clone_args_default)"
  "socket_addr_bytes ref_env = (\<lambda>a. octets (sock_ip a))"
  "bytes_beyond ref_env = (\<lambda>n _. replicate n 0)"
  "local_ptr ref_env = 0"
  "elf_parse ref_env = (\<lambda>_. Some ref_elf)"
  "object_parse ref_env = (\<lambda>_. Some [ref_segment])"
  "TEST_ELF ref_env = [1, 2, 3]"
  "SHIM_ELF ref_env = [1, 2, 3]"
  "fault_vm_addr ref_env = (\<lambda>m regs. if ref_mi_label m = 5 then Some (regs 1) else None)"
  "va_add ref_env = (\<lambda>a b. if unat a + unat b < 2 ^ 64 then Some (a + b) else None)"
  "va_sub ref_env = (\<lambda>a b. if b \<le> a then Some (a - b) else None)"
  "size_of_CloneArgs ref_env = 56"
  "size_of_SocketAddr ref_env = 32"
  by (simp_all add: ref_env_def sel4.extend_def kenv.fields_def)

lemma ref_env_laws:
  "retype_succeeds ref_env" "label_kept ref_env" "length_kept ref_env"
  "memory_addr_laws ref_env" "bitflags_laws ref_env"
  using ref_kernel_laws
  by (simp_all add: retype_succeeds_def label_kept_def length_kept_def memory_addr_laws_def bitflags_laws_def)

text \<open>A state of the kernel thread on this kernel, with an allocator over a range of slots.\<close>

definition ref_kthread :: "ref_state \<Rightarrow> usize \<Rightarrow> usize \<Rightarrow> (u64, sel4_task) btree \<Rightarrow> u64 \<Rightarrow> ref_state kthread" where
  "ref_kthread k range_start range_end m i = \<lparr>kern = k,
     ipcbuf = \<lparr>msg_regs = (\<lambda>_. 0), caps_or_badges = (\<lambda>_. 0), recv_slot = None\<rparr>,
     obj_allocator = \<lparr>slots_start = range_start, slots_end = range_end, ut = DEFAULT_CUSTOM_SLOT\<rparr>,
     task_map = m, id_counter = i\<rparr>"

end
