(* ===== verification/Kernel_Invariant.thy ===== *)
theory Kernel_Invariant
  imports Dispatch Ref_Env
begin

text \<open>
  The invariant of the kernel thread. A state is reached from the initial one by the steps of
  \<open>main\<close>: the interrupt test, the allocation of an endpoint, the start of the first task, and
  the rounds of the server loop, whatever the kernel and the user tasks do. In every such state the
  task table is a map from identifiers to well-formed tasks and no frame belongs to two of them.
\<close>

section \<open>Framing\<close>

text \<open>\<open>framed s u\<close>: the table and the identifier counter are kept, and slots were only taken.\<close>

definition framed :: "'k kthread \<Rightarrow> 'k kthread \<Rightarrow> bool" where
  "framed s u \<longleftrightarrow> task_map u = task_map s \<and> id_counter u = id_counter s \<and> first_free s \<le> first_free u"

lemma framed_refl [simp]: "framed s s"
  by (simp add: framed_def)

lemma framed_trans: "framed s t \<Longrightarrow> framed t u \<Longrightarrow> framed s u"
  by (auto simp: framed_def)

lemma framed_upd [simp]:
  "framed s (u\<lparr>kern := k\<rparr>) = framed s u" "framed s (u\<lparr>ipcbuf := b\<rparr>) = framed s u"
  "framed s (u\<lparr>kern := k, ipcbuf := b\<rparr>) = framed s u"
  by (simp_all add: framed_def)

lemma grown_framed: "grown s u \<Longrightarrow> framed s u"
  using grown_le [of s u] by (auto simp: framed_def grown_def took_def)

lemma framed_grown: "framed s t \<Longrightarrow> grown t u \<Longrightarrow> framed s u"
  by (blast intro: framed_trans grown_framed)

lemma kern_only_framed: "kern_only s u \<Longrightarrow> framed s u"
  by (auto simp: kern_only_def)

lemma pwp_in_window:
  "(\<And>s. pwp body (\<lambda>_ t. kern_only s t) s) \<Longrightarrow> pwp (in_window E c body) (\<lambda>_ t. kern_only s t) s"
  unfolding in_window_def
  by (intro pwp_intros, rule pwp_use, assumption) (auto intro!: pwp_intros)

lemma pwp_vaddr [pwp_intros]:
  "(\<And>x. Q x s) \<Longrightarrow> pwp (vaddr_add E a n) Q s" "(\<And>x. Q x s) \<Longrightarrow> pwp (vaddr_sub E a n) Q s"
  by (simp_all add: vaddr_add_def vaddr_sub_def wp_simps split: option.split)

lemma pwp_read_ptr [pwp_intros]: "(\<And>x. Q x s) \<Longrightarrow> pwp (read_ptr E a n) Q s"
  by (simp add: read_ptr_def wp_simps)

lemma pwp_process_loop:
  assumes f: "\<And>src off len c s. pwp (f src off len c) (\<lambda>_ t. kern_only s t) s"
  shows "pwp (process_loop E t addr f n buf_addr len c) (\<lambda>_ u. kern_only s u) s"
proof (induction n arbitrary: buf_addr len c s)
  case (Suc n)
  show ?case
    unfolding process_loop.simps
    apply (intro pwp_intros pwp_use [OF pwp_in_window])
     apply (simp_all add: process_page_def Let_def)
     apply (intro pwp_intros pwp_use [OF f])
     apply simp
    apply (intro pwp_intros pwp_use [OF Suc])
    apply (auto intro: kern_only_trans)
    done
qed (simp add: wp_simps)

lemma pwp_process_item_list:
  assumes "\<And>src off len c s. pwp (f src off len c) (\<lambda>_ t. kern_only s t) s"
  shows "pwp (process_item_list E sz t addr num f c) (\<lambda>_ u. kern_only s u) s"
  unfolding process_item_list_def by (intro pwp_intros pwp_process_loop assms) simp_all

lemma pwp_read_item: "pwp (read_item E sz d t addr) (\<lambda>_ u. kern_only s u) s"
  unfolding read_item_def
  by (intro pwp_intros pwp_use [OF pwp_process_item_list]) simp_all

lemma pwp_write_item: "pwp (write_item E sz t addr item) (\<lambda>_ u. kern_only s u) s"
  unfolding write_item_def
  by (intro pwp_intros pwp_use [OF pwp_process_item_list]) simp_all

lemma pwp_read_item_list: "pwp (read_item_list E sz t addr num buf) (\<lambda>_ u. kern_only s u) s"
  unfolding read_item_list_def
  by (intro pwp_process_item_list pwp_intros) simp_all

lemma pwp_write_item_list: "pwp (write_item_list E sz t addr num buf) (\<lambda>_ u. kern_only s u) s"
  unfolding write_item_list_def
  by (intro pwp_intros pwp_use [OF pwp_process_item_list]) simp_all

section \<open>The invariant\<close>

text \<open>
  Of a table \<open>m\<close>, the identifier counter \<open>i\<close> and the first free slot \<open>n\<close>. That the
  counter stays below the first free slot keeps it from wrapping around: every task takes slots.
\<close>

definition table_ok :: "(u64, sel4_task) btree \<Rightarrow> u64 \<Rightarrow> usize \<Rightarrow> bool" where
  "table_ok m i n \<longleftrightarrow> bt_ok m \<and> i \<le> n
     \<and> (\<forall>b t. bt_get m b = Some t \<longrightarrow> tid t = b \<and> pid t = 0 \<and> b < i \<and> task_ok n t)
     \<and> (\<forall>b b' t t'. bt_get m b = Some t \<longrightarrow> bt_get m b' = Some t' \<longrightarrow> b \<noteq> b' \<longrightarrow> page_caps t \<inter> page_caps t' = {})"

definition kinv :: "'k kthread \<Rightarrow> bool" where
  "kinv s \<longleftrightarrow> table_ok (task_map s) (id_counter s) (first_free s)"

lemma page_caps_below: "task_ok n t \<Longrightarrow> c \<in> page_caps t \<Longrightarrow> c < n"
  by (auto simp: page_caps_def task_ok_def ran_def)

lemma table_ok_entry:
  assumes "table_ok m i n" and "bt_get m b = Some t"
  shows "tid t = b" and "pid t = 0" and "b < i" and "task_ok n t"
  using assms unfolding table_ok_def by blast+

lemma table_ok_mono:
  "table_ok m i n \<Longrightarrow> n \<le> n' \<Longrightarrow> i \<le> i' \<Longrightarrow> i' \<le> n' \<Longrightarrow> table_ok m i' n'"
  unfolding table_ok_def by (blast intro: task_ok_mono order.strict_trans2)

lemma table_ok_put:
  assumes m: "table_ok m i n" and le: "n \<le> n'"
    and t: "tid t = b" "pid t = 0" "b < i" "task_ok n' t"
    and caps: "page_caps t \<subseteq> (case bt_get m b of None \<Rightarrow> {} | Some t0 \<Rightarrow> page_caps t0) \<union> {n ..< n'}"
  shows "table_ok (bt_insert b t m) i n'"
proof -
  have ok: "bt_ok m" and i: "i \<le> n'" using m le by (auto simp: table_ok_def)
  have get: "bt_get (bt_insert b t m) = (bt_get m)(b \<mapsto> t)" using ok by (rule bt.get_ins)
  have other: "page_caps t \<inter> page_caps t' = {}" if "bt_get m b' = Some t'" "b' \<noteq> b" for b' t'
  proof -
    have "page_caps t' \<inter> {n ..< n'} = {}"
      using page_caps_below [OF table_ok_entry(4) [OF m that(1)]] by fastforce
    moreover have "page_caps t0 \<inter> page_caps t' = {}" if "bt_get m b = Some t0" for t0
      using m that \<open>bt_get m b' = Some t'\<close> \<open>b' \<noteq> b\<close> unfolding table_ok_def by metis
    ultimately show ?thesis using caps by (cases "bt_get m b") auto
  qed
  show ?thesis
    unfolding table_ok_def get
  proof (intro conjI allI impI)
    show "bt_ok (bt_insert b t m)" using ok by (rule bt.ok_ins)
  next
    fix x u assume x: "((bt_get m)(b \<mapsto> t)) x = Some u"
    show "tid u = x" "pid u = 0" "x < i" "task_ok n' u"
      using x t table_ok_entry [OF m, of x u] task_ok_mono [OF _ le] by (auto split: if_splits)
  next
    fix x y u v
    assume "((bt_get m)(b \<mapsto> t)) x = Some u" "((bt_get m)(b \<mapsto> t)) y = Some v" "x \<noteq> y"
    then show "page_caps u \<inter> page_caps v = {}"
      using other m unfolding table_ok_def by (auto split: if_splits)
  qed (rule i)
qed

lemma table_ok_fresh: "table_ok m i n \<Longrightarrow> bt_get m i = None"
  using table_ok_entry(3) by (cases "bt_get m i") fastforce+

lemma kinv_framed: "kinv s \<Longrightarrow> framed s u \<Longrightarrow> kinv u"
  by (auto simp: kinv_def framed_def table_ok_def intro: task_ok_mono)

lemma kinv_get:
  assumes "kinv s" and "bt_get (task_map s) b = Some t"
  shows "tid t = b" and "pid t = 0" and "b < id_counter s" and "task_ok (first_free s) t"
  using table_ok_entry [OF assms [unfolded kinv_def]] by auto

text \<open>A handler that has made a step of a task and stores it keeps the invariant.\<close>

lemma kinv_put_step:
  assumes inv: "kinv s" and t: "bt_get (task_map s) b = Some t"
    and step: "task_step s t u t'" and v: "framed u v"
    and t'': "tid t'' = tid t'" "pid t'' = pid t'" "mapped_page t'' = mapped_page t'"
  shows "kinv (v\<lparr>task_map := bt_insert b t'' (task_map v)\<rparr>)"
proof -
  have g: "framed s u" using step by (auto simp: task_step_def intro: grown_framed)
  have sv: "framed s v" using g v by (rule framed_trans)
  have ok: "task_ok (first_free v) t''"
    using step kinv_get(4) [OF inv t] v t''(3) task_ok_mono [of "first_free u" t' "first_free v"]
    by (auto simp: task_step_def framed_def task_ok_def)
  have caps: "page_caps t'' \<subseteq> page_caps t \<union> {first_free s ..< first_free v}"
    using step v t''(3) by (auto simp: task_step_def taken_def framed_def page_caps_def dest!: subsetD)
  have id: "tid t'' = b" "pid t'' = 0"
    using kinv_get [OF inv t] step t'' by (simp_all add: task_step_def same_task_def)
  have "table_ok (bt_insert b t'' (task_map s)) (id_counter s) (first_free v)"
    by (rule table_ok_put [OF inv [unfolded kinv_def]])
      (use sv ok caps id t kinv_get [OF inv t] in \<open>auto simp: framed_def\<close>)
  then show ?thesis using sv by (simp add: kinv_def framed_def)
qed

lemma pwp_get_task [pwp_intros]:
  "(\<And>t. bt_get (task_map s) b = Some t \<Longrightarrow> Q t s) \<Longrightarrow> pwp (get_task b) Q s"
  by (simp add: get_task_def wp_simps split: option.split)

lemma pwp_put_task [pwp_intros]:
  "Q () (s\<lparr>task_map := bt_insert b t (task_map s)\<rparr>) \<Longrightarrow> pwp (put_task b t) Q s"
  by (simp add: put_task_def wp_simps)

lemma kinv_upd [simp]: "kinv (s\<lparr>kern := k\<rparr>) = kinv s" "kinv (s\<lparr>ipcbuf := b\<rparr>) = kinv s"
  "kinv (s\<lparr>kern := k, ipcbuf := b\<rparr>) = kinv s"
  by (simp_all add: kinv_def)

section \<open>Memory system calls\<close>

lemma pwp_mmap_pages:
  "task_step s0 t0 s t \<Longrightarrow> task_ok (first_free s0) t0 \<Longrightarrow>
     pwp (mmap_pages E vaddrs t) (\<lambda>t' u. task_step s0 t0 u t') s"
proof (induction vaddrs arbitrary: s t)
  case Nil
  then show ?case by (simp add: wp_simps)
next
  case (Cons vaddr vaddrs)
  show ?case
    unfolding mmap_pages.simps
    by (intro pwp_intros pwp_use [OF new_page_step [OF Cons.prems]] Cons.IH Cons.prems) auto
qed

lemma page_removed_step:
  assumes "task_step s0 t0 s t" and "task_ok (first_free s0) t0"
  shows "task_step s0 t0 s (t\<lparr>mapped_page := bt_remove a (mapped_page t)\<rparr>)"
proof -
  have ok: "task_ok (first_free s) t" using assms by (simp add: task_step_def)
  then have get: "bt_get (bt_remove a (mapped_page t)) = (bt_get (mapped_page t))(a := None)"
    by (simp add: task_ok_def bt_facts)
  have "task_ok (first_free s) (t\<lparr>mapped_page := bt_remove a (mapped_page t)\<rparr>)"
    using ok unfolding task_ok_def sel4_task.select_convs sel4_task.update_convs
    by (simp add: get bt_facts map_inj_del)
  moreover have "page_caps (t\<lparr>mapped_page := bt_remove a (mapped_page t)\<rparr>) \<subseteq> page_caps t"
    by (auto simp: page_caps_def get ran_def split: if_splits)
  ultimately show ?thesis
    using assms(1) by (auto simp: task_step_def intro: same_task_trans)
qed

lemma pwp_unmap_pages:
  "task_step s0 t0 s t \<Longrightarrow> task_ok (first_free s0) t0 \<Longrightarrow>
     pwp (unmap_pages E vaddrs t) (\<lambda>t' u. task_step s0 t0 u t') s"
proof (induction vaddrs arbitrary: s t)
  case Nil
  then show ?case by (simp add: wp_simps)
next
  case (Cons vaddr vaddrs)
  have removed: "task_step s0 t0 (s\<lparr>kern := k\<rparr>) (t\<lparr>mapped_page := bt_remove vaddr (mapped_page t)\<rparr>)" for k
    by (rule task_step_kern_only [OF page_removed_step [OF Cons.prems]]) simp
  show ?case
    unfolding unmap_pages.simps unmap_page_def
    by (intro pwp_intros Cons.IH Cons.prems removed)
qed

lemma pwp_put_step:
  assumes "kinv s" and "bt_get (task_map s) b = Some t" and "task_step s t u t'"
    and "tid t'' = tid t'" "pid t'' = pid t'" "mapped_page t'' = mapped_page t'"
    and "\<And>v. kinv v \<Longrightarrow> Q () v"
  shows "pwp (put_task b t'') Q u"
  by (rule pwp_put_task, rule assms(7), rule kinv_put_step [OF assms(1-3) framed_refl assms(4-6)])

lemma kinv_sys_brk: "kinv s \<Longrightarrow> pwp (sys_brk E b addr) (\<lambda>_. kinv) s"
  unfolding sys_brk_def
  apply (rule pwp_bnd, rule pwp_get_task, rule pwp_if, erule pwp_ret, rule pwp_bnd)
  apply (rule pwp_use [where Q = "\<lambda>t' u. task_step s t u t'" for t])
   apply (intro pwp_intros)
    apply (rule pwp_use [OF pwp_brk [OF task_step_refl]], erule (1) kinv_get(4))
    apply (auto intro!: pwp_intros)[2]
  apply (rule pwp_bnd, erule (2) pwp_put_step; simp add: wp_simps)
  done

lemma pwp_page_range [pwp_intros]: "(\<And>x. Q x s) \<Longrightarrow> pwp (page_range E a n) Q s"
  unfolding page_range_def by (intro pwp_intros) simp

lemma kinv_sys_mmap: "kinv s \<Longrightarrow> pwp (sys_mmap E b addr len prot flags fd off) (\<lambda>_. kinv) s"
  unfolding sys_mmap_def
  apply (intro pwp_intros; (assumption)?)
   apply (rule pwp_use [OF pwp_mmap_pages [OF task_step_refl]], erule (1) kinv_get(4),
      rule pwp_bnd, erule (2) pwp_put_step; simp add: wp_simps)+
  done

lemma kinv_sys_unmap: "kinv s \<Longrightarrow> pwp (sys_unmap E b addr len) (\<lambda>_. kinv) s"
  unfolding sys_unmap_def
  apply (intro pwp_intros)
  apply (rule pwp_use [OF pwp_unmap_pages [OF task_step_refl]], erule (1) kinv_get(4))
  apply (rule pwp_bnd, erule (2) pwp_put_step; simp add: wp_simps)
  done

section \<open>Output and identifiers\<close>

lemma pwp_for_each_kern:
  "(\<And>x s. x \<in> set xs \<Longrightarrow> pwp (f x) (\<lambda>_ t. kern_only s t) s) \<Longrightarrow> pwp (for_each f xs) (\<lambda>_ t. kern_only s t) s"
  by (rule wp_for_each) (auto intro: pwp_use kern_only_trans)

lemma pwp_write_loop: "pwp (write_loop E t n a c l) (\<lambda>_ u. kern_only s u) s"
proof (induction n arbitrary: a c l s)
  case (Suc n)
  have page: "pwp (write_page E a c l) (\<lambda>_ u. kern_only s u) s" for s
    unfolding write_page_def Let_def
    by (intro pwp_intros pwp_use [OF pwp_for_each_kern]) simp_all
  show ?case
    unfolding write_loop.simps
    by (intro pwp_intros pwp_use [OF pwp_in_window [OF page]] pwp_use [OF Suc]) (auto intro: kern_only_trans)
qed (simp add: wp_simps)

lemma kinv_kern_only: "kinv s \<Longrightarrow> kern_only s u \<Longrightarrow> kinv u"
  by (auto simp: kern_only_def)

lemma kinv_sys_write: "kinv s \<Longrightarrow> pwp (sys_write E b fd buf n) (\<lambda>_. kinv) s"
  unfolding sys_write_def
  by (intro pwp_intros pwp_use [OF pwp_write_loop]) (auto intro: kinv_kern_only)

lemma kinv_put_field:
  assumes "kinv s" and "bt_get (task_map s) b = Some t"
    and "tid t' = tid t" "pid t' = pid t" "mapped_page t' = mapped_page t"
  shows "kinv (s\<lparr>task_map := bt_insert b t' (task_map s)\<rparr>)"
  by (rule kinv_put_step [OF assms(1,2) task_step_refl framed_refl assms(3-5)])

lemma kinv_ids:
  "kinv s \<Longrightarrow> pwp (sys_exit E b e) (\<lambda>_. kinv) s" "kinv s \<Longrightarrow> pwp (sys_exit_group E b e) (\<lambda>_. kinv) s"
  "kinv s \<Longrightarrow> pwp (sys_sched_yield E) (\<lambda>_. kinv) s" "kinv s \<Longrightarrow> pwp (sys_getpid b) (\<lambda>_. kinv) s"
  "kinv s \<Longrightarrow> pwp (sys_getppid b) (\<lambda>_. kinv) s" "kinv s \<Longrightarrow> pwp (sys_getuid b) (\<lambda>_. kinv) s"
  "kinv s \<Longrightarrow> pwp (sys_geteuid b) (\<lambda>_. kinv) s" "kinv s \<Longrightarrow> pwp (sys_gettid b) (\<lambda>_. kinv) s"
  "kinv s \<Longrightarrow> pwp (sys_set_tid_address b a) (\<lambda>_. kinv) s"
  unfolding sys_exit_def sys_exit_group_def sys_sched_yield_def sys_getpid_def sys_getppid_def
    sys_getuid_def sys_geteuid_def sys_gettid_def sys_set_tid_address_def
  by (intro pwp_intros; simp add: kinv_put_field)+

section \<open>execve\<close>

lemma zip_distinct_inj: "distinct cs \<Longrightarrow> (k, c) \<in> set (zip ks cs) \<Longrightarrow> (k', c) \<in> set (zip ks cs) \<Longrightarrow> k = k'"
  by (auto simp: in_set_zip nth_eq_iff_index_eq)

lemma image_pages_ok:
  assumes a: "page_aligned a" and caps: "set caps \<subseteq> taken s u" "distinct caps"
    and m: "m = with_pages 4096 a 0 caps []"
  shows "bt_ok m" and "bt_get m x = Some c \<Longrightarrow> page_aligned x \<and> c \<in> taken s u" and "map_inj (bt_get m)"
proof -
  let ?ks = "map (\<lambda>j. a + of_nat j * 4096) [0 ..< length caps]"
  show "bt_ok m" by (simp add: m bt_ok_with_pages)
  have z: "(x, c) \<in> set (zip ?ks caps)" if "bt_get m x = Some c" for x c
    using with_pages_mem [of "(x, c)" 4096 a 0 caps "[]"] bt_get_mem [OF that] by (simp add: m)
  show "page_aligned x \<and> c \<in> taken s u" if get: "bt_get m x = Some c"
  proof -
    obtain j where x: "x = a + of_nat j * 4096" and c: "c \<in> set caps"
      using set_zip_leftD [OF z [OF get]] set_zip_rightD [OF z [OF get]] by auto
    show ?thesis unfolding x using page_aligned_add [OF a] subsetD [OF caps(1) c] ..
  qed
  show "map_inj (bt_get m)"
    unfolding map_inj_def by (intro allI impI) (rule zip_distinct_inj [OF caps(2) z z])
qed

lemma image_step:
  assumes a: "page_aligned a" and caps: "set caps \<subseteq> taken s u" "distinct caps" and g: "grown s u"
    and m: "m = with_pages 4096 a 0 caps []"
  shows "task_step s t u (t\<lparr>mapped_page := [], mapped_pt := []\<rparr>\<lparr>mapped_page := m\<rparr>)"
proof -
  let ?t = "t\<lparr>mapped_page := [], mapped_pt := []\<rparr>\<lparr>mapped_page := m\<rparr>"
  note pages = image_pages_ok [OF a caps m]
  have "page_caps ?t \<subseteq> taken s u"
    using pages(2) by (auto simp: page_caps_def ran_def)
  moreover have "task_ok (first_free u) ?t"
    using pages unfolding task_ok_def taken_def by auto
  ultimately show ?thesis
    using g by (auto simp: task_step_def same_task_def)
qed

lemma pwp_map_image_step:
  assumes "GRANULE_SIZE E = 4096" and "page_aligned (fst fp)"
  shows "pwp (map_image E (mapped_page (t\<lparr>mapped_page := [], mapped_pt := []\<rparr>)) v fp segs cv fa)
    (\<lambda>m u. task_step s t u (t\<lparr>mapped_page := [], mapped_pt := []\<rparr>\<lparr>mapped_page := m\<rparr>)) s"
  by (rule pwp_use [OF pwp_map_image], elim exE conjE)
    (rule image_step [OF assms(2)]; simp add: assms(1))

lemma pwp_footprint:
  "GRANULE_SIZE S = 4096 \<Longrightarrow> pwp (footprint S segs) (\<lambda>fp u. page_aligned (fst fp) \<and> u = s) s"
  unfolding footprint_def by (intro pwp_intros) (simp add: coarsen_footprint_def round_down_def)

lemma kinv_sys_exec:
  assumes "kinv s" and g: "GRANULE_SIZE E = 4096"
  shows "pwp (sys_exec E b ep) (\<lambda>_. kinv) s"
  unfolding sys_exec_def Let_def
  apply (rule pwp_bnd, rule pwp_get_task)
  apply (frule kinv_get(4) [OF assms(1)])
  apply (rule pwp_bnd, rule pwp_unwrap_opt, rule pwp_bnd, rule pwp_use [OF pwp_footprint [OF g]])
  apply (elim conjE, hypsubst, rule pwp_bnd)
  apply (rule pwp_use [OF pwp_map_image_step [OF g]], assumption)
  apply (rule pwp_bnd, rule pwp_use [OF pwp_map_stack], assumption, assumption)
  apply (intro pwp_case_prod pwp_bnd pwp_expect_opt pwp_allocate_fixed)
  apply (hypsubst, simp only: snd_conv)
  apply (rule pwp_use [OF new_page_step], assumption+)
  apply (intro pwp_intros pwp_put_step [OF assms(1)], assumption)
      apply (auto intro: task_step_kern_only)
  done

section \<open>clone\<close>

lemma pwp_revoke_and_delete: "pwp (revoke_and_delete E c) (\<lambda>_ t. kern_only s t) s"
  unfolding revoke_and_delete_def by (intro pwp_intros) simp

lemma pwp_kern_bnd:
  "pwp m (\<lambda>_ t. kern_only s t) s \<Longrightarrow> (\<And>x t. pwp (f x) (\<lambda>_ u. kern_only t u) t) \<Longrightarrow>
     pwp (bnd m f) (\<lambda>_ u. kern_only s u) s"
  by (rule pwp_bnd, erule pwp_use, rule pwp_use, assumption, erule (1) kern_only_trans)

lemma pwp_drop_task: "pwp (drop_task E t) (\<lambda>_ u. kern_only s u) s"
  unfolding drop_task_def
  by (intro pwp_kern_bnd pwp_revoke_and_delete pwp_for_each_kern)

lemma pwp_copy_page: "pwp (copy_page E c d) (\<lambda>_ u. kern_only s u) s"
  unfolding copy_page_def
  by (intro pwp_intros pwp_use [OF pwp_in_window]) (auto intro: kern_only_trans)

lemma pwp_clone_pages:
  "task_step s0 t0 s t \<Longrightarrow> task_ok (first_free s0) t0 \<Longrightarrow>
     pwp (clone_pages E ps t) (\<lambda>t' u. task_step s0 t0 u t') s"
proof (induction ps arbitrary: s t)
  case Nil
  then show ?case by (simp add: wp_simps)
next
  case (Cons p ps)
  show ?case
    unfolding clone_pages.simps
    apply (intro pwp_intros pwp_use [OF pwp_copy_page] pwp_use [OF new_page_step [OF Cons.prems]]
        Cons.IH Cons.prems(2))
    apply (auto simp: taken_kern_only intro: grown_kern_only)
    done
qed

text \<open>
  A task that is being built since state \<open>s\<close>, under the identifier \<open>i\<close>, and its entry into
  the table.
\<close>

definition growing :: "'k kthread \<Rightarrow> u64 \<Rightarrow> 'k kthread \<Rightarrow> sel4_task \<Rightarrow> bool" where
  "growing s i u t \<longleftrightarrow> framed s u \<and> tid t = i \<and> pid t = 0 \<and> task_ok (first_free u) t
     \<and> page_caps t \<subseteq> taken s u"

lemma growing_step:
  assumes "growing s i u t" and "task_step u t v t'"
  shows "growing s i v t'"
proof -
  have uv: "framed u v" using assms(2) by (simp add: task_step_def grown_framed)
  have su: "framed s u" using assms(1) by (simp add: growing_def)
  have "taken s u \<subseteq> taken s v" "taken u v \<subseteq> taken s v"
    using su uv by (auto simp: framed_def taken_def)
  then show ?thesis
    using assms framed_trans [OF su uv] by (auto simp: growing_def task_step_def same_task_def)
qed

lemma growing_frame:
  assumes "growing s i u t" and "framed u v"
  shows "growing s i v t"
proof -
  have "taken s u \<subseteq> taken s v" using assms by (auto simp: framed_def taken_def)
  then show ?thesis
    using assms task_ok_mono [of "first_free u" t "first_free v"] framed_trans [of s u v]
    by (auto simp: growing_def framed_def)
qed

lemma growing_upd [simp]: "growing s i (u\<lparr>kern := k\<rparr>) t = growing s i u t"
  "growing s i u (t\<lparr>vspace := v\<rparr>) = growing s i u t"
  by (simp_all add: growing_def task_ok_def page_caps_def)

lemma growing_kinv: "kinv s \<Longrightarrow> growing s i u t \<Longrightarrow> kinv u"
  by (auto simp: growing_def intro: kinv_framed)

lemma pwp_insert_task:
  assumes "kinv s" and "bt_get (task_map s) i = None" and "i < id_counter s" and "growing s i u t"
  shows "pwp (insert_task E i t) (\<lambda>_. kinv) u"
proof -
  have "table_ok (bt_insert i t (task_map s)) (id_counter s) (first_free u)"
    by (rule table_ok_put [OF assms(1) [unfolded kinv_def]])
      (use assms in \<open>auto simp: growing_def framed_def taken_def\<close>)
  then have "kinv (u\<lparr>task_map := bt_insert i t (task_map u)\<rparr>)"
    using assms(4) by (simp add: kinv_def growing_def framed_def)
  moreover have "bt_get (task_map u) i = None" using assms(2,4) by (simp add: growing_def framed_def)
  ultimately show ?thesis
    unfolding insert_task_def by (intro pwp_intros) simp_all
qed

text \<open>What \<open>Sel4Task::new\<close> leaves behind.\<close>

definition born :: "'k kthread \<Rightarrow> sel4_task \<Rightarrow> 'k kthread \<Rightarrow> bool" where
  "born s t u \<longleftrightarrow> task_map u = task_map s \<and> id_counter u = id_counter s + 1
     \<and> first_free s < first_free u \<and> tid t = id_counter s \<and> pid t = 0 \<and> mapped_page t = []"

lemma bornI:
  assumes "grown s t" "first_free s \<in> taken s t" "grown t u" "grown u v"
  shows "born s \<lparr>pid = 0, tid = id_counter v, tcb = a, cnode = b, vspace = c, mapped_pt = [], mapped_page = [],
      heap = h, exit_code = e, clear_child_tid = d\<rparr> (v\<lparr>id_counter := id_counter v + 1\<rparr>)"
proof -
  have "framed t v" using framed_trans [OF grown_framed [OF assms(3)] grown_framed [OF assms(4)]] .
  then show ?thesis
    using grown_framed [OF assms(1)] assms(2) by (auto simp: born_def framed_def taken_def)
qed

lemma pwp_new_task: "pwp (new_task E) (born s) s"
  unfolding new_task_def
  by (intro pwp_intros bornI) auto

lemma born_kinv:
  assumes "kinv s" and "born s t u"
  shows "kinv u" and "bt_get (task_map u) (tid t) = None" and "tid t < id_counter u" and "growing u (tid t) u t"
proof -
  have i: "id_counter s \<le> first_free s" using assms(1) by (simp add: kinv_def table_ok_def)
  have lt: "first_free s < first_free u" using assms(2) by (simp add: born_def)
  have le: "id_counter s + 1 \<le> first_free u"
    using i lt word_less_Suc_le [of "id_counter s" "first_free u"] by (simp add: order.strict_trans1)
  have "id_counter s < id_counter s + 1"
    using i lt by (metis word_less_Suc_le order.strict_trans1 order_refl)
  then show "tid t < id_counter u" using assms(2) by (simp add: born_def)
  then show "kinv u"
    using assms i lt le by (auto simp: kinv_def born_def intro: table_ok_mono)
  show "bt_get (task_map u) (tid t) = None"
    using assms by (simp add: born_def kinv_def table_ok_fresh)
  show "growing u (tid t) u t"
    using assms(2) by (simp add: growing_def born_def task_ok_def page_caps_def bt_get_def [abs_def] ran_def)
qed

text \<open>A new frame in a task that is being built.\<close>

lemma growing_new_page:
  assumes "growing s i u t" and "c \<in> taken u v" and "grown u v"
  shows "pwp (map_page E t vaddr c) (\<lambda>t' w. growing s i w t') v"
proof -
  have "task_ok (first_free u) t" using assms(1) by (simp add: growing_def)
  then show ?thesis
    by (rule pwp_use [OF new_page_step [OF task_step_refl _ assms(2,3)]]) (auto intro: growing_step [OF assms(1)])
qed

lemma pwp_or_drop:
  assumes "kinv u" and "\<And>k. pwp rest (\<lambda>_. kinv) (u\<lparr>kern := k\<rparr>)"
  shows "pwp (or_drop E t f rest) (\<lambda>_. kinv) u"
  unfolding or_drop_def
  by (intro pwp_intros pwp_use [OF pwp_drop_task]) (use assms in \<open>auto intro: kinv_kern_only\<close>)

lemma kinv_start_clone:
  assumes s: "kinv s" "bt_get (task_map s) i = None" "i < id_counter s" and u: "growing s i u t"
  shows "pwp (start_clone E ep args task i t) (\<lambda>_. kinv) u"
  unfolding start_clone_def
  apply (intro pwp_bnd pwp_allocate_fixed)
  apply (rule pwp_use [OF growing_new_page [OF u]], assumption+)
  apply (intro pwp_or_drop pwp_intros; (simp add: growing_kinv [OF s(1)])?)
  apply (rule pwp_use [OF pwp_insert_task [OF s]], simp, erule pwp_ret)
  done

lemma growing_clone:
  assumes "growing s i u t"
  shows "pwp (clone_vspace E t src) (\<lambda>t' v. growing s i v t') u"
    and "pwp (share_vspace E t src) (\<lambda>t' v. growing s i v t') u"
proof -
  have ok: "task_ok (first_free u) t" using assms by (simp add: growing_def)
  show "pwp (clone_vspace E t src) (\<lambda>t' v. growing s i v t') u"
    unfolding clone_vspace_def
    by (rule pwp_use [OF pwp_clone_pages [OF task_step_refl ok]]) (rule growing_step [OF assms])
  show "pwp (share_vspace E t src) (\<lambda>t' v. growing s i v t') u"
    unfolding share_vspace_def
    by (intro pwp_intros) (auto intro: growing_frame [OF assms] grown_framed)
qed

lemma kinv_sys_clone:
  assumes "kinv s"
  shows "pwp (sys_clone E b ep ptr) (\<lambda>_. kinv) s"
proof -
  have rest: "pwp (clone_vspace E t task) (\<lambda>x. pwp (start_clone E ep args task (tid t) x) (\<lambda>_. kinv)) (u\<lparr>kern := k\<rparr>)"
    "pwp (share_vspace E t task) (\<lambda>x. pwp (start_clone E ep args task (tid t) x) (\<lambda>_. kinv)) (u\<lparr>kern := k\<rparr>)"
    if "kinv v" "born v t u" for t task args u v k
  proof -
    have g: "growing u (tid t) (u\<lparr>kern := k\<rparr>) t" using born_kinv(4) [OF that] by simp
    note start = kinv_start_clone [OF born_kinv(1-3) [OF that]]
    show "pwp (clone_vspace E t task) (\<lambda>x. pwp (start_clone E ep args task (tid t) x) (\<lambda>_. kinv)) (u\<lparr>kern := k\<rparr>)"
      by (rule pwp_use [OF growing_clone(1) [OF g]]) (rule start)
    show "pwp (share_vspace E t task) (\<lambda>x. pwp (start_clone E ep args task (tid t) x) (\<lambda>_. kinv)) (u\<lparr>kern := k\<rparr>)"
      by (rule pwp_use [OF growing_clone(2) [OF g]]) (rule start)
  qed
  show ?thesis
    unfolding sys_clone_def
    apply (rule pwp_bnd, rule pwp_get_task, rule pwp_if, rule pwp_ret, rule assms)
    apply (rule pwp_try_bnd, rule pwp_use [OF pwp_read_item])
    apply (drule kinv_kern_only [OF assms])
    apply (simp split: sum.split, intro conjI impI allI pwp_intros, assumption)
    apply (rule pwp_use [OF pwp_new_task])
    apply (intro pwp_intros pwp_or_drop)
     apply (simp add: born_kinv(1))
    apply (simp_all add: rest)
    done
qed

section \<open>Sockets\<close>

named_theorems kinv_intros \<open>what the requests to the network thread do to the invariant\<close>

lemma kinv_grown: "kinv s \<Longrightarrow> grown s u \<Longrightarrow> kinv u"
  by (blast intro: kinv_framed grown_framed)

lemma kinv_send_net_ipc [kinv_intros]:
  "kinv s \<Longrightarrow> (\<And>x u. kinv u \<Longrightarrow> Q x u) \<Longrightarrow> pwp (send_net_ipc E l c) Q s"
  unfolding send_net_ipc_def by (intro pwp_intros) simp_all

lemma kinv_gen_cap [kinv_intros]:
  "kinv s \<Longrightarrow> (\<And>x u. kinv u \<Longrightarrow> Q x u) \<Longrightarrow> pwp (gen_cap E sz item num) Q s"
  unfolding gen_cap_def Let_def by (intro pwp_intros) (auto simp: kinv_grown)

lemma kinv_get_reg [kinv_intros]:
  "kinv s \<Longrightarrow> (\<And>x u. kinv u \<Longrightarrow> Q x u) \<Longrightarrow> pwp (get_reg i) Q s"
  unfolding get_reg_def by (intro pwp_intros) simp_all

lemma kinv_results [kinv_intros]:
  "kinv s \<Longrightarrow> (\<And>x u. kinv u \<Longrightarrow> Q x u) \<Longrightarrow> pwp (handle_axresult E v) Q s"
  "kinv s \<Longrightarrow> (\<And>x u. kinv u \<Longrightarrow> R x u) \<Longrightarrow> pwp (accept_result E regs) R s"
  "kinv s \<Longrightarrow> (\<And>x u. kinv u \<Longrightarrow> S x u) \<Longrightarrow> pwp (vec_with_capacity n) S s"
  unfolding handle_axresult_def accept_result_def vec_with_capacity_def Let_def
  by (intro pwp_intros; simp)+

lemma kinv_memory [kinv_intros]:
  "kinv s \<Longrightarrow> (\<And>x u. kinv u \<Longrightarrow> Q x u) \<Longrightarrow> pwp (read_item E sz d t a) Q s"
  "kinv s \<Longrightarrow> (\<And>x u. kinv u \<Longrightarrow> R x u) \<Longrightarrow> pwp (write_item E sz t a item) R s"
  "kinv s \<Longrightarrow> (\<And>x u. kinv u \<Longrightarrow> S x u) \<Longrightarrow> pwp (read_item_list E sz t a num buf) S s"
  "kinv s \<Longrightarrow> (\<And>x u. kinv u \<Longrightarrow> T x u) \<Longrightarrow> pwp (write_item_list E sz t a num buf) T s"
  by (rule pwp_use [OF pwp_read_item] pwp_use [OF pwp_write_item] pwp_use [OF pwp_read_item_list]
      pwp_use [OF pwp_write_item_list]; metis kinv_kern_only)+

lemma kinv_finish [kinv_intros]:
  "kinv s \<Longrightarrow> (\<And>e. Q (Inl e) s) \<Longrightarrow> (\<And>x. r = Inr x \<Longrightarrow> pwp (ok x) Q s) \<Longrightarrow> pwp (finish known r ok) Q s"
  unfolding finish_def by (intro pwp_intros) auto

lemmas net_defs = tcp_new_def tcp_bind_def tcp_send_def receive_into_def tcp_recv_def tcp_listen_def
  tcp_connect_def tcp_accept_def tcp_shutdown_def drop_value_def Let_def

lemma kinv_net:
  "kinv s \<Longrightarrow> pwp (sys_socket E) (\<lambda>_. kinv) s"
  "kinv s \<Longrightarrow> pwp (sys_listen E fd) (\<lambda>_. kinv) s"
  "kinv s \<Longrightarrow> pwp (sys_shutdown E fd) (\<lambda>_. kinv) s"
  unfolding sys_socket_def sys_listen_def sys_shutdown_def net_defs
  by (intro pwp_intros kinv_intros; assumption)+

lemma kinv_net_addr:
  "kinv s \<Longrightarrow> pwp (sys_bind E b fd a) (\<lambda>_. kinv) s"
  "kinv s \<Longrightarrow> pwp (sys_connect E b fd a) (\<lambda>_. kinv) s"
  "kinv s \<Longrightarrow> pwp (sys_accept E b fd a) (\<lambda>_. kinv) s"
  unfolding sys_bind_def sys_connect_def sys_accept_def try_bnd_def net_defs
  by (intro pwp_intros kinv_intros; assumption)+

lemma kinv_net_data:
  "kinv s \<Longrightarrow> pwp (sys_sendto E b fd buf n a) (\<lambda>_. kinv) s"
  "kinv s \<Longrightarrow> pwp (sys_recvfrom E b fd buf n) (\<lambda>_. kinv) s"
  unfolding sys_sendto_def sys_recvfrom_def try_bnd_def net_defs
  by (intro pwp_intros kinv_intros; simp)+

section \<open>The server\<close>

lemma kinv_handle_ipc_call:
  assumes "kinv s" and "GRANULE_SIZE E = 4096"
  shows "pwp (handle_ipc_call E b i args ep) (\<lambda>_. kinv) s"
  unfolding handle_ipc_call_def
  by (auto intro!: pwp_intros kinv_sys_write kinv_sys_brk kinv_sys_mmap kinv_sys_unmap kinv_ids
      kinv_sys_exec kinv_sys_clone kinv_net kinv_net_addr kinv_net_data
      simp: assms split: sysno.split)

lemma kinv_reply_with: "kinv s \<Longrightarrow> pwp (reply_with E regs) (\<lambda>_. kinv) s"
  unfolding reply_with_def by (intro pwp_intros) simp

lemma kinv_handle_vm_fault:
  assumes "kinv s"
  shows "pwp (handle_vm_fault E b a) (\<lambda>_. kinv) s"
  unfolding handle_vm_fault_def Let_def
proof (rule pwp_bnd, rule pwp_allocate_fixed, rule pwp_bnd, rule pwp_get_task, rule pwp_bnd)
  fix u t assume u: "grown s u" "first_free s \<in> taken s u" and "bt_get (task_map u) b = Some t"
  then have t: "bt_get (task_map s) b = Some t" using grown_framed [OF u(1)] by (simp add: framed_def)
  show "pwp (map_page E t (align_bits a PAGE_SIZE_BITS) (first_free s))
      (\<lambda>t'. pwp (seq (put_task b t') (kcall_unwrap (tcb_resume E (tcb t')))) (\<lambda>_. kinv)) u"
    by (rule pwp_use [OF new_page_step [OF task_step_refl kinv_get(4) [OF assms t] u(2,1)]])
      (auto intro!: pwp_bnd pwp_kcall_unwrap pwp_put_step [OF assms t])
qed

lemma kinv_handle_message:
  assumes "kinv s" and "GRANULE_SIZE E = 4096"
  shows "pwp (handle_message E ep m b) (\<lambda>_. kinv) s"
proof -
  have call: "pwp (handle_syscall E ep b) (\<lambda>_. kinv) s"
    unfolding handle_syscall_def
    by (intro pwp_intros pwp_use [OF kinv_handle_ipc_call [OF assms]]) (rule kinv_reply_with)
  show ?thesis
    unfolding handle_message_def
    by (auto intro!: pwp_intros pwp_use [OF kinv_handle_vm_fault] pwp_use [OF kinv_reply_with] pwp_use [OF call]
        simp: assms(1) split: CustomMessageLabel.split)
qed

lemma kinv_serve:
  assumes "kinv s" and "GRANULE_SIZE E = 4096"
  shows "pwp (serve E ep) (\<lambda>_. kinv) s"
  unfolding serve_def
  by (intro pwp_intros pwp_use [OF kinv_handle_message]) (simp_all add: assms)

section \<open>The first task\<close>

lemma growing_load:
  assumes "growing s i u t"
  shows "pwp (load_elf E t d) (\<lambda>t' v. growing s i v t') u"
    and "pwp (map_stack E t entry start stop' args) (\<lambda>r v. growing s i v (snd r)) u"
proof -
  have ok: "task_ok (first_free u) t" using assms by (simp add: growing_def)
  show "pwp (load_elf E t d) (\<lambda>t' v. growing s i v t') u"
    by (rule pwp_use [OF pwp_load_elf [OF ok]]) (rule growing_step [OF assms])
  show "pwp (map_stack E t entry start stop' args) (\<lambda>r v. growing s i v (snd r)) u"
    by (rule pwp_use [OF pwp_map_stack [OF task_step_refl ok]]) (rule growing_step [OF assms])
qed

lemma pwp_or_return:
  assumes "kinv u" and "\<And>k. pwp rest (\<lambda>_. kinv) (u\<lparr>kern := k\<rparr>)"
  shows "pwp (or_return E t f rest) (\<lambda>_. kinv) u"
  unfolding or_return_def
  by (intro pwp_intros pwp_use [OF pwp_drop_task]) (use assms in \<open>auto intro: kinv_kern_only\<close>)

lemma kinv_configure_child:
  assumes s: "kinv s" "bt_get (task_map s) i = None" "i < id_counter s" and u: "growing s i u t"
  shows "pwp (configure_child E ep file sp t) (\<lambda>_. kinv) u"
  unfolding configure_child_def Let_def
  apply (intro pwp_bnd pwp_allocate_fixed)
  apply (rule pwp_use [OF growing_new_page [OF u]], assumption+)
  apply (intro pwp_or_return pwp_intros; (simp add: growing_kinv [OF s(1)])?)
  apply (subgoal_tac "tid x = i", simp, rule pwp_use [OF pwp_insert_task [OF s]], simp, erule pwp_ret)
  apply (simp add: growing_def)
  done

lemma kinv_start_child:
  assumes "kinv s"
  shows "pwp (start_child E ep) (\<lambda>_. kinv) s"
  unfolding start_child_def
proof (rule pwp_bnd, rule pwp_use [OF pwp_new_task], intro pwp_bnd pwp_kcall_unwrap pwp_or_return)
  fix t u k assume b: "born s t u"
  note new = born_kinv [OF assms b]
  show "kinv (u\<lparr>kern := k\<rparr>)" using new by simp
  fix l
  have g: "growing u (tid t) (u\<lparr>kern := k, kern := l\<rparr>) t" using new(4) by simp
  show "pwp (load_elf E t (TEST_ELF E)) (\<lambda>task. pwp (bnd (expect_opt ''[KernelThread] can't load elf file''
      (elf_parse E (TEST_ELF E))) (\<lambda>file. bnd (map_stack E task 0 (USPACE_STACK_TOP - 16 * PAGE_SIZE)
      USPACE_STACK_TOP child_args) (\<lambda>(sp_ptr, task). configure_child E ep file sp_ptr task))) (\<lambda>_. kinv))
      (u\<lparr>kern := k, kern := l\<rparr>)"
    by (rule pwp_use [OF growing_load(1) [OF g]])
      (auto intro!: pwp_bnd pwp_expect_opt pwp_case_prod pwp_use [OF growing_load(2)]
        kinv_configure_child [OF new(1-3)])
qed

section \<open>Reachable states\<close>

definition kt_init :: "'k \<Rightarrow> ipc_buffer \<Rightarrow> 'k kthread" where
  "kt_init k b = \<lparr>kern = k, ipcbuf = b, obj_allocator = allocator_empty, task_map = [], id_counter = 1\<rparr>"

inductive kt_step :: "'k kenv \<Rightarrow> 'k kthread \<Rightarrow> 'k kthread \<Rightarrow> bool" for E where
  irq: "test_irq_with_cap_transfer E s = (Ret (), t) \<Longrightarrow> kt_step E s t"
| endpoint: "allocate_fixed E BP_Endpoint s = (Ret ep, t) \<Longrightarrow> kt_step E s t"
| start: "start_child E ep s = (Ret r, t) \<Longrightarrow> kt_step E s t"
| serve: "serve E ep s = (Ret go_on, t) \<Longrightarrow> kt_step E s t"

inductive kt_reachable :: "'k kenv \<Rightarrow> 'k kthread \<Rightarrow> bool" for E where
  init: "allocator_init DEFAULT_EMPTY_SLOT_INDEX KERNEL_THREAD_SLOT_NUMS DEFAULT_CUSTOM_SLOT (kt_init k b) = (Ret (), s) \<Longrightarrow>
    kt_reachable E s"
| step: "kt_reachable E s \<Longrightarrow> kt_step E s t \<Longrightarrow> kt_reachable E t"

lemma kinv_irq: "kinv s \<Longrightarrow> pwp (test_irq_with_cap_transfer E) (\<lambda>_. kinv) s"
  unfolding test_irq_with_cap_transfer_def call_root_def Let_def
  by (intro pwp_intros) (simp add: kinv_grown)

lemma kinv_step:
  assumes "kt_step E s t" and "kinv s" and "GRANULE_SIZE E = 4096"
  shows "kinv t"
  using assms(1)
proof cases
  case irq
  then show ?thesis using pwp_Ret [OF kinv_irq [OF assms(2)]] by blast
next
  case (endpoint ep)
  have "pwp (allocate_fixed E BP_Endpoint) (\<lambda>_. kinv) s"
    by (intro pwp_intros) (rule kinv_grown [OF assms(2)])
  then show ?thesis using endpoint pwp_Ret by fastforce
next
  case (start ep r)
  then show ?thesis using pwp_Ret [OF kinv_start_child [OF assms(2)]] by blast
next
  case (serve ep go_on)
  then show ?thesis using pwp_Ret [OF kinv_serve [OF assms(2,3)]] by blast
qed

lemma kinv_reachable: "kt_reachable E s \<Longrightarrow> GRANULE_SIZE E = 4096 \<Longrightarrow> kinv s"
proof (induction rule: kt_reachable.induct)
  case (init k b s)
  then show ?case
    by (auto simp: allocator_init_def kt_init_def run_simps kinv_def table_ok_def const_defs)
next
  case (step s t)
  then show ?case by (blast intro: kinv_step)
qed

section \<open>Properties\<close>

text \<open>
  C1. Isolation of the tasks. In every state that the kernel thread reaches, whatever the kernel
  answers and whatever the tasks send, the task table maps each identifier to the task of that
  identifier, the page map of every task is ordered, has page addresses as keys and enters no frame
  twice, every frame lies below the first free slot, and no frame is in the page maps of two tasks.
\<close>

theorem tasks_isolated:
  assumes "kt_reachable E s" and "GRANULE_SIZE E = 4096"
  shows "bt_ok (task_map s)
    \<and> (\<forall>b t. bt_get (task_map s) b = Some t \<longrightarrow> tid t = b \<and> b < id_counter s \<and> task_ok (first_free s) t)
    \<and> (\<forall>b b' t t'. bt_get (task_map s) b = Some t \<longrightarrow> bt_get (task_map s) b' = Some t' \<longrightarrow> b \<noteq> b' \<longrightarrow>
          page_caps t \<inter> page_caps t' = {})"
  using kinv_reachable [OF assms] unfolding kinv_def table_ok_def by blast

definition ref_boot :: "ref_state kthread" where
  "ref_boot = ref_kthread (ref_init\<lparr>inbox := [((ref_mi_new 0x100 0 0 0, 1), \<lambda>_. 7)]\<rparr>) 32 1024 [] 1"

lemma ref_boot_reachable: "kt_reachable ref_env ref_boot"
  by (rule kt_reachable.init [where k = "ref_init\<lparr>inbox := [((ref_mi_new 0x100 0 0 0, 1), \<lambda>_. 7)]\<rparr>"
        and b = "\<lparr>msg_regs = (\<lambda>_. 0), caps_or_badges = (\<lambda>_. 0), recv_slot = None\<rparr>"])
    (simp add: allocator_init_def kt_init_def run_simps ref_boot_def ref_kthread_def const_defs)

lemma ref_boot_run:
  "\<exists>s. serve ref_env 40 ref_boot = (Ret True, s) \<and> replies (kern s) = [7]"
  by (simp add: serve_def [THEN fun_cong] handle_message_def [THEN fun_cong] reply_with_def [THEN fun_cong]
      custom_try_from_def custom_decode_def Custom_LABEL_START_def ref_label_kept ref_boot_def ref_kthread_def
      run_simps ref_defs Let_def)

theorem tasks_isolated_witness:
  "\<exists>s. serve ref_env 40 ref_boot = (Ret True, s) \<and> replies (kern s) = [7] \<and> bt_ok (task_map s)"
proof -
  obtain s where run: "serve ref_env 40 ref_boot = (Ret True, s)" "replies (kern s) = [7]"
    using ref_boot_run by blast
  have "kt_reachable ref_env s"
    using ref_boot_reachable kt_step.serve [OF run(1)] by (rule kt_reachable.step)
  from tasks_isolated [OF this] run show ?thesis by simp
qed

end
