(* ===== verification/Paging.thy ===== *)
theory Paging
  imports Allocator
begin

text \<open>
  What the threads rely on when they map frames: an address of an address space has page tables
  missing or not, something is mapped there or not, and a capability is fresh while the object that
  was retyped into its slot has not been mapped. \<open>paging_laws\<close> states how \<open>frame_map\<close>,
  \<open>pt_map\<close> and \<open>untyped_retype\<close> act on these, as the \<^verbatim>\<open>sel4\<close> manual documents them: a
  mapping fails with \<open>FailedLookup\<close> while a table is missing, mapping a table fills the highest
  missing level, and an object is retyped into exactly the slots that the call names. With these
  laws the loops that map a page and add the missing tables end.
\<close>

record 'k space_view =
  missing :: "cptr \<Rightarrow> usize \<Rightarrow> 'k \<Rightarrow> nat"
  unmapped :: "cptr \<Rightarrow> usize \<Rightarrow> 'k \<Rightarrow> bool"
  fresh :: "cptr \<Rightarrow> 'k \<Rightarrow> bool"

text \<open>No table went missing, nothing was mapped outside \<open>A\<close>, and no capability outside
  \<open>C\<close> was used. In a \<open>quiet\<close> step no table was added either.\<close>

definition calm :: "'k space_view \<Rightarrow> (cptr \<times> usize) set \<Rightarrow> cptr set \<Rightarrow> 'k \<Rightarrow> 'k \<Rightarrow> bool" where
  "calm V A C k k' \<longleftrightarrow> (\<forall>v a. missing V v a k' \<le> missing V v a k)
     \<and> (\<forall>v a. (v, a) \<notin> A \<longrightarrow> unmapped V v a k' = unmapped V v a k)
     \<and> (\<forall>c. c \<notin> C \<longrightarrow> fresh V c k' = fresh V c k)"

definition quiet :: "'k space_view \<Rightarrow> (cptr \<times> usize) set \<Rightarrow> cptr set \<Rightarrow> 'k \<Rightarrow> 'k \<Rightarrow> bool" where
  "quiet V A C k k' \<longleftrightarrow> calm V A C k k' \<and> (\<forall>v a. missing V v a k' = missing V v a k)"

lemma calm_refl [simp]: "calm V A C k k"
  by (simp add: calm_def)

lemma calm_trans: "calm V A C k k' \<Longrightarrow> calm V B D k' k'' \<Longrightarrow> A \<union> B \<subseteq> A' \<Longrightarrow> C \<union> D \<subseteq> C' \<Longrightarrow> calm V A' C' k k''"
  unfolding calm_def by (intro conjI allI impI) (meson order_trans, blast, blast)

lemma calm_mono: "calm V A C k k' \<Longrightarrow> A \<subseteq> A' \<Longrightarrow> C \<subseteq> C' \<Longrightarrow> calm V A' C' k k'"
  unfolding calm_def by blast

lemma quiet_refl [simp]: "quiet V A C k k"
  by (simp add: quiet_def)

lemma quiet_calm: "quiet V A C k k' \<Longrightarrow> calm V A C k k'"
  by (simp add: quiet_def)

lemma quiet_trans: "quiet V A C k k' \<Longrightarrow> quiet V B D k' k'' \<Longrightarrow> A \<union> B \<subseteq> A' \<Longrightarrow> C \<union> D \<subseteq> C' \<Longrightarrow> quiet V A' C' k k''"
  unfolding quiet_def by (auto intro: calm_trans)

lemma quiet_missing: "quiet V A C k k' \<Longrightarrow> missing V v a k' = missing V v a k"
  by (simp add: quiet_def)

lemma calm_unmapped: "calm V A C k k' \<Longrightarrow> (v, a) \<notin> A \<Longrightarrow> unmapped V v a k' = unmapped V v a k"
  and calm_fresh: "calm V A C k k' \<Longrightarrow> c \<notin> C \<Longrightarrow> fresh V c k' = fresh V c k"
  and calm_missing: "calm V A C k k' \<Longrightarrow> missing V v a k' \<le> missing V v a k"
  by (simp_all add: calm_def)

definition frame_laws :: "('k, 'e) sel4_scheme \<Rightarrow> 'k space_view \<Rightarrow> bool" where
  "frame_laws S V \<longleftrightarrow> (\<forall>c v a r k.
     quiet V {(v, a)} {c} k (snd (frame_map S c v a r k))
     \<and> (0 < missing V v a k \<longrightarrow>
          fst (frame_map S c v a r k) = Inl FailedLookup \<and> quiet V {} {} k (snd (frame_map S c v a r k)))
     \<and> (missing V v a k = 0 \<and> unmapped V v a k \<and> fresh V c k \<longrightarrow> fst (frame_map S c v a r k) = Inr ()))"

definition table_laws :: "('k, 'e) sel4_scheme \<Rightarrow> 'k space_view \<Rightarrow> bool" where
  "table_laws S V \<longleftrightarrow> (\<forall>c v a k. 0 < missing V v a k \<and> fresh V c k \<longrightarrow>
     fst (pt_map S c v a k) = Inr () \<and> calm V {} {c} k (snd (pt_map S c v a k))
     \<and> missing V v a (snd (pt_map S c v a k)) = missing V v a k - 1)"

definition slot_laws :: "('k, 'e) sel4_scheme \<Rightarrow> 'k space_view \<Rightarrow> bool" where
  "slot_laws S V \<longleftrightarrow> (\<forall>u bp i j k.
     quiet V {} {j * 4096 + i} k (snd (untyped_retype S u bp (Relative_bits (slot_CNODE S) j 52) i 1 k))
     \<and> fresh V (j * 4096 + i) (snd (untyped_retype S u bp (Relative_bits (slot_CNODE S) j 52) i 1 k))
     \<and> quiet V {} {} k (snd (untyped_retype S u (BP_CNode 12) (Relative_self (slot_CNODE S)) j 1 k)))"

definition paging_laws :: "('k, 'e) sel4_scheme \<Rightarrow> 'k space_view \<Rightarrow> bool" where
  "paging_laws S V \<longleftrightarrow> retype_succeeds S \<and> frame_laws S V \<and> table_laws S V \<and> slot_laws S V"

lemma paging_lawsD:
  assumes "paging_laws S V"
  shows "quiet V {(v, a)} {c} k (snd (frame_map S c v a r k))"
    and "0 < missing V v a k \<Longrightarrow> fst (frame_map S c v a r k) = Inl FailedLookup"
    and "0 < missing V v a k \<Longrightarrow> quiet V {} {} k (snd (frame_map S c v a r k))"
    and "missing V v a k = 0 \<Longrightarrow> unmapped V v a k \<Longrightarrow> fresh V c k \<Longrightarrow> fst (frame_map S c v a r k) = Inr ()"
    and "0 < missing V v a k \<Longrightarrow> fresh V c k \<Longrightarrow> fst (pt_map S c v a k) = Inr ()"
    and "0 < missing V v a k \<Longrightarrow> fresh V c k \<Longrightarrow> calm V {} {c} k (snd (pt_map S c v a k))"
    and "0 < missing V v a k \<Longrightarrow> fresh V c k \<Longrightarrow>
      missing V v a (snd (pt_map S c v a k)) = missing V v a k - 1"
  using assms unfolding paging_laws_def frame_laws_def table_laws_def by blast+

lemma took_slot_fields [simp]: "kern (took_slot k s) = k" "ut (obj_allocator (took_slot k s)) = ut (obj_allocator s)"
  "took_slot k (s\<lparr>kern := k'\<rparr>) = took_slot k s"
  by (simp_all add: took_slot_def)

lemma twp_allocate_fresh:
  assumes "paging_laws S V" and "0 < capacity s"
    and "\<And>k. quiet V {} {first_free s} (kern s) k \<Longrightarrow> fresh V (first_free s) k \<Longrightarrow> Q (first_free s) (took_slot k s)"
  shows "twp (allocate_fixed S bp) Q s"
proof -
  let ?c = "first_free s"
  let ?r = "\<lambda>k. snd (untyped_retype S (ut (obj_allocator s)) bp (Relative_bits (slot_CNODE S) (cnode_index_of ?c) 52) (slot_index_of ?c) 1 k)"
  have has: "has_slot s" using assms(2) by (simp add: has_slot_iff_capacity)
  have ok: "retype_succeeds S" and laws: "slot_laws S V" using assms(1) by (simp_all add: paging_laws_def)
  have "Q ?c (took_slot (?r k) s)" if "quiet V {} {} (kern s) k" for k
  proof (rule assms(3))
    have new: "quiet V {} {?c} k (?r k) \<and> fresh V ?c (?r k)"
      using laws [unfolded slot_laws_def, rule_format, of "cnode_index_of ?c" "slot_index_of ?c" k "ut (obj_allocator s)" bp]
      by (simp add: slot_address_split)
    then show "fresh V ?c (?r k)" by simp
    show "quiet V {} {?c} (kern s) (?r k)" using new by (intro quiet_trans [OF that]) auto
  qed
  moreover have "quiet V {} {} (kern s) (snd (untyped_retype S u (BP_CNode 12) (Relative_self (slot_CNODE S)) j 1 (kern s)))" for u j
    using laws by (simp add: slot_laws_def)
  ultimately show ?thesis
    using has by (cases "slot_index_of ?c = 0") (simp_all add: allocate_fixed_def allocate_and_retype_def
        allocate_slot_def wp_simps Let_def retype_succeedsD [OF ok])
qed

text \<open>What mapping one page may do to the state: at most \<open>n\<close> slots are taken.\<close>

definition mapping_step :: "'k space_view \<Rightarrow> (cptr \<times> usize) set \<Rightarrow> nat \<Rightarrow> ('k, 'z) alloc_sys_scheme \<Rightarrow> ('k, 'z) alloc_sys_scheme \<Rightarrow> bool" where
  "mapping_step V A n s t \<longleftrightarrow> calm V A UNIV (kern s) (kern t) \<and> capacity s \<le> capacity t + n"

lemma mapping_step_refl [simp]: "mapping_step V A n s s"
  by (simp add: mapping_step_def)

lemma mapping_step_trans:
  "mapping_step V A n s t \<Longrightarrow> mapping_step V B m t u \<Longrightarrow> mapping_step V (A \<union> B) (n + m) s u"
  unfolding mapping_step_def by (auto intro: calm_trans)

lemma mapping_step_mono:
  "mapping_step V A n s t \<Longrightarrow> A \<subseteq> B \<Longrightarrow> n \<le> m \<Longrightarrow> mapping_step V B m s t"
  unfolding mapping_step_def by (auto intro: calm_mono)

lemma mapping_step_kern: "calm V A UNIV (kern s) k \<Longrightarrow> mapping_step V A n s (s\<lparr>kern := k\<rparr>)"
  by (simp add: mapping_step_def capacity_def)

lemma mapping_step_slot:
  "quiet V {} {first_free s} (kern s) k \<Longrightarrow> 0 < capacity s \<Longrightarrow> mapping_step V {} 1 s (took_slot k s)"
  unfolding mapping_step_def by (auto simp: capacity_took_slot has_slot_iff_capacity intro: calm_mono quiet_calm)

section \<open>Mapping with retries\<close>

text \<open>A frame that is about to be mapped: nothing is mapped at the address, the capability is fresh
  and not one of the free slots, and there is a slot for every table that is missing.\<close>

definition mappable :: "'k space_view \<Rightarrow> cptr \<Rightarrow> usize \<Rightarrow> cptr \<Rightarrow> ('k, 'z) alloc_sys_scheme \<Rightarrow> bool" where
  "mappable V v a page s \<longleftrightarrow> unmapped V v a (kern s) \<and> fresh V page (kern s) \<and> page \<notin> avail s
     \<and> missing V v a (kern s) \<le> capacity s"

lemma mappable_table:
  assumes "mappable V v a page s" and "0 < missing V v a (kern s)" and "calm V {} {first_free s} (kern s) k"
    and "missing V v a k = missing V v a (kern s) - 1"
  shows "mappable V v a page (took_slot k s)"
proof -
  have has: "has_slot s" using assms(1,2) by (simp add: mappable_def has_slot_iff_capacity)
  then have "page \<noteq> first_free s" using assms(1) avail_took_slot [of s] by (auto simp: mappable_def)
  then show ?thesis
    using assms has calm_unmapped [OF assms(3), of v a] calm_fresh [OF assms(3), of page]
    by (auto simp: mappable_def avail_took_slot capacity_took_slot)
qed

lemma mapping_step_table:
  assumes "mappable V v a page s" and "0 < missing V v a (kern s)" and "calm V {} {first_free s} (kern s) k"
    and "missing V v a k = missing V v a (kern s) - 1" and "mapping_step V A (missing V v a k) (took_slot k s) u"
  shows "mapping_step V A (missing V v a (kern s)) s u"
proof -
  have "mapping_step V {} 1 s (took_slot k s)"
    using assms(1,2,3)
    by (auto simp: mapping_step_def mappable_def capacity_took_slot has_slot_iff_capacity intro: calm_mono)
  from mapping_step_trans [OF this assms(5)] show ?thesis using assms(2,4) by simp
qed

lemma mappable_same:
  assumes "kern u = kern s" and "obj_allocator u = obj_allocator s"
  shows "mappable V v a page u = mappable V v a page s"
  using assms by (simp add: mappable_def capacity_def avail_def)

lemma mapping_step_same:
  assumes "kern u = kern s" and "obj_allocator u = obj_allocator s"
  shows "mapping_step V A n u w = mapping_step V A n s w"
  using assms by (simp add: mapping_step_def capacity_def)

text \<open>One round of such a loop: the frame is mapped, or one more table is.\<close>

lemma twp_map_round:
  assumes laws: "paging_laws S V" and page: "mappable V v a page s"
    and mapped: "\<And>k. missing V v a (kern s) = 0 \<Longrightarrow> mapping_step V {(v, a)} 0 s (s\<lparr>kern := k\<rparr>) \<Longrightarrow>
       twp fin Q (s\<lparr>kern := k\<rparr>)"
    and table: "\<And>k. 0 < missing V v a (kern s) \<Longrightarrow> calm V {} {first_free s} (kern s) k \<Longrightarrow>
       missing V v a k = missing V v a (kern s) - 1 \<Longrightarrow> mappable V v a page (took_slot k s) \<Longrightarrow>
       twp (again (first_free s)) Q (took_slot k s)"
  shows "twp (bnd (kcall (frame_map S page v a r)) (\<lambda>res. case res of
       Inr _ \<Rightarrow> fin
     | Inl e \<Rightarrow> (if e = FailedLookup then
           bnd (allocate_fixed S BP_PT) (\<lambda>pt_cap. bnd (kcall_unwrap (pt_map S pt_cap v a)) (\<lambda>_. again pt_cap))
         else bad))) Q s"
proof (cases "missing V v a (kern s) = 0")
  case True
  have "mapping_step V {(v, a)} 0 s (s\<lparr>kern := snd (frame_map S page v a r (kern s))\<rparr>)"
    by (intro mapping_step_kern calm_mono [OF quiet_calm [OF paging_lawsD(1) [OF laws]]]) simp_all
  then show ?thesis
    using paging_lawsD(4) [OF laws True] page mapped [OF True] by (simp add: wp_simps mappable_def)
next
  case False
  then have pos: "0 < missing V v a (kern s)" by simp
  let ?k = "snd (frame_map S page v a r (kern s))" and ?c = "first_free s"
  have k: "quiet V {} {} (kern s) ?k" by (rule paging_lawsD(3) [OF laws pos])
  have "twp (kcall_unwrap (pt_map S ?c v a)) (\<lambda>_. twp (again ?c) Q) (took_slot k' s)"
    if k': "quiet V {} {?c} ?k k'" "fresh V ?c k'" for k'
  proof -
    have q: "quiet V {} {?c} (kern s) k'" by (rule quiet_trans [OF k k'(1)]) auto
    then have pos': "0 < missing V v a k'" using pos by (simp add: quiet_missing)
    have c: "calm V {} {?c} (kern s) (snd (pt_map S ?c v a k'))"
      by (rule calm_trans [OF quiet_calm [OF q] paging_lawsD(6) [OF laws pos' k'(2)]]) auto
    have m: "missing V v a (snd (pt_map S ?c v a k')) = missing V v a (kern s) - 1"
      using paging_lawsD(7) [OF laws pos' k'(2)] q by (simp add: quiet_missing)
    show ?thesis
      using table [OF pos c m mappable_table [OF page pos c m]]
      by (simp add: wp_simps paging_lawsD(5) [OF laws pos' k'(2)])
  qed
  moreover have "0 < capacity (s\<lparr>kern := ?k\<rparr>)" using page pos by (auto simp: mappable_def capacity_def)
  ultimately have "twp (allocate_fixed S BP_PT) (\<lambda>pt_cap. twp (kcall_unwrap (pt_map S pt_cap v a)) (\<lambda>_. twp (again pt_cap) Q))
      (s\<lparr>kern := ?k\<rparr>)"
    by (intro twp_allocate_fresh [OF laws]) simp_all
  then show ?thesis
    by (simp add: wp_bnd wp_kcall wp_if wp_case_sum paging_lawsD(2) [OF laws pos])
qed

text \<open>The contract of a loop that maps one page: its rounds try the mapping, and put a new table in
  place and note it down when one is missing. \<open>keep\<close> notes a table, and \<open>outcome\<close> is what holds between
  the argument of the loop and its result. Every such loop ends.\<close>

locale mapping_loop =
  fixes S :: "('k, 'e) sel4_scheme"
    and loop :: "nat \<Rightarrow> 'x \<Rightarrow> (('k, 'z) alloc_sys_scheme, 'r) M"
    and space :: "'x \<Rightarrow> cptr" and addr :: usize and page :: cptr
    and result :: "'x \<Rightarrow> 'r"
    and keep :: "'x \<Rightarrow> cptr \<Rightarrow> (('k, 'z) alloc_sys_scheme, 'x) M"
    and bad :: "(('k, 'z) alloc_sys_scheme, 'r) M"
    and outcome :: "'x \<Rightarrow> 'r \<Rightarrow> bool"
  assumes round: "loop (Suc n) x =
      bnd (kcall (frame_map S page (space x) addr rights_all)) (\<lambda>res. case res of
        Inr _ \<Rightarrow> ret (result x)
      | Inl e \<Rightarrow> (if e = FailedLookup then
            bnd (allocate_fixed S BP_PT) (\<lambda>pt.
            bnd (kcall_unwrap (pt_map S pt (space x) addr)) (\<lambda>_. bnd (keep x pt) (loop n)))
          else bad))"
    and keeps: "twp (keep x pt) (\<lambda>x' u. space x' = space x \<and> (\<forall>y. outcome x' y \<longrightarrow> outcome x y)
      \<and> kern u = kern s \<and> obj_allocator u = obj_allocator s) s"
    and finishes: "outcome x (result x)"
begin

lemma ends:
  assumes laws: "paging_laws S V"
  shows "missing V (space x) addr (kern s) < n \<Longrightarrow> mappable V (space x) addr page s \<Longrightarrow>
    twp (loop n x) (\<lambda>y u. outcome x y \<and> mapping_step V {(space x, addr)} (missing V (space x) addr (kern s)) s u) s"
proof (induction n arbitrary: x s)
  case (Suc n)
  show ?case
    unfolding round
  proof (rule twp_map_round [OF laws Suc.prems(2)], goal_cases)
    case (1 k)
    then show ?case by (simp add: wp_simps finishes)
  next
    case (2 k)
    note step = mapping_step_table [OF Suc.prems(2) 2(1-3)]
    show ?case
      unfolding wp_bnd
    proof (rule twp_use [OF keeps], elim conjE)
      fix x' and u :: "('k, 'z) alloc_sys_scheme"
      assume *: "space x' = space x" "\<forall>y. outcome x' y \<longrightarrow> outcome x y"
        "kern u = kern (took_slot k s)" "obj_allocator u = obj_allocator (took_slot k s)"
      show "twp (loop n x') (\<lambda>y w. outcome x y \<and> mapping_step V {(space x, addr)} (missing V (space x) addr (kern s)) s w) u"
        by (rule twp_use [OF Suc.IH])
          (use 2 * Suc.prems(1) step mappable_same [OF *(3,4)] mapping_step_same [OF *(3,4)] in auto)
    qed
  qed
qed simp

end

text \<open>A list of addresses that can be mapped one after the other: they are page addresses, nothing is
  mapped there, and the slots suffice for a frame and all but the root table of each.\<close>

definition all_mappable :: "('k, 'e) sel4_scheme \<Rightarrow> 'k space_view \<Rightarrow> cptr \<Rightarrow> usize list \<Rightarrow> ('k, 'z) alloc_sys_scheme \<Rightarrow> bool" where
  "all_mappable S V v as s \<longleftrightarrow> distinct as \<and> length as * NUM_LEVELS S \<le> capacity s
     \<and> (\<forall>a \<in> set as. a mod PAGE_SIZE = 0 \<and> unmapped V v a (kern s) \<and> missing V v a (kern s) < NUM_LEVELS S)"

lemma all_mappable_frame:
  assumes "all_mappable S V v (a # as) s" and "quiet V {} {first_free s} (kern s) k" and "fresh V (first_free s) k"
  shows "mappable V v a (first_free s) (took_slot k s)" and "0 < capacity s"
    and "missing V v a (kern (took_slot k s)) < NUM_LEVELS S" and "a mod PAGE_SIZE = 0"
proof -
  have cap: "NUM_LEVELS S \<le> capacity s" and m: "missing V v a (kern s) < NUM_LEVELS S"
    using assms(1) by (auto simp: all_mappable_def)
  then show c: "0 < capacity s" by simp
  then have "has_slot s" by (simp add: has_slot_iff_capacity)
  then show "mappable V v a (first_free s) (took_slot k s)"
    using assms cap m calm_unmapped [OF quiet_calm [OF assms(2)], of v a]
    by (auto simp: mappable_def all_mappable_def avail_took_slot capacity_took_slot quiet_missing)
  show "missing V v a (kern (took_slot k s)) < NUM_LEVELS S" using m assms(2) by (simp add: quiet_missing)
  show "a mod PAGE_SIZE = 0" using assms(1) by (simp add: all_mappable_def)
qed

lemma all_mappable_rest:
  assumes "all_mappable S V v (a # as) s" and "mapping_step V {(v, a)} (NUM_LEVELS S) s u"
  shows "all_mappable S V v as u"
proof -
  have "missing V v b (kern u) \<le> missing V v b (kern s)" for b
    using assms(2) by (auto simp: mapping_step_def intro: calm_missing)
  moreover have "unmapped V v b (kern u) = unmapped V v b (kern s)" if "b \<in> set as" for b
    using assms that calm_unmapped [of V "{(v, a)}" UNIV "kern s" "kern u" v b]
    by (auto simp: mapping_step_def all_mappable_def)
  moreover have "length as * NUM_LEVELS S \<le> capacity u"
    using assms by (auto simp: all_mappable_def mapping_step_def)
  ultimately show ?thesis
    using assms(1) by (auto simp: all_mappable_def intro: order.strict_trans1)
qed

lemma mapping_step_page:
  assumes "all_mappable S V v (a # as) s" and "quiet V {} {first_free s} (kern s) k"
    and "mapping_step V {(v, a)} (missing V v a k) (took_slot k s) u"
  shows "mapping_step V {(v, a)} (NUM_LEVELS S) s u"
proof -
  have "0 < capacity s" and "missing V v a k < NUM_LEVELS S"
    using assms(1,2) by (auto simp: all_mappable_def quiet_missing)
  then show ?thesis
    using mapping_step_trans [OF mapping_step_slot [OF assms(2)] assms(3)] by (auto intro: mapping_step_mono)
qed

section \<open>The reference kernel\<close>

definition ref_view :: "ref_state space_view" where
  "ref_view = \<lparr>missing = (\<lambda>v a k. missing_tables k), unmapped = (\<lambda>v a k. True), fresh = (\<lambda>c k. True)\<rparr>"

lemma ref_paging_laws: "paging_laws ref_kernel ref_view"
  by (simp add: paging_laws_def ref_kernel_laws frame_laws_def table_laws_def slot_laws_def quiet_def calm_def ref_view_def
      ref_frame_map_def ref_pt_map_def ref_retype_def)

end
