(* ===== verification/Memory_Calls.thy ===== *)
theory Memory_Calls
  imports Kernel_Invariant Paging
begin

text \<open>
  What the memory system calls of the kernel thread achieve: the pages that \<open>mmap\<close> maps and that
  \<open>munmap\<close> takes away, the free area that is found, and how far \<open>brk\<close> moves the heap.
\<close>

section \<open>Mapping pages\<close>

interpretation page_loop: mapping_loop E "\<lambda>n t. map_page_loop E n t a page" vspace a page
    "\<lambda>t. t\<lparr>mapped_page := bt_insert a page (mapped_page t)\<rparr>"
    "\<lambda>t pt. ret (t\<lparr>mapped_pt := mapped_pt t @ [pt]\<rparr>)" "stop Unwrap_err"
    "\<lambda>t t'. \<exists>pts. t' = t\<lparr>mapped_pt := pts, mapped_page := bt_insert a page (mapped_page t)\<rparr>" for E a page
proof (unfold_locales, goal_cases)
  case (3 t)
  show ?case by (rule exI [of _ "mapped_pt t"]) simp
qed (simp_all add: bnd_ret wp_simps cong: sum.case_cong if_cong)

section \<open>The pages of a range\<close>

text \<open>The page addresses that meet the range of \<open>len\<close> bytes from \<open>start\<close>.\<close>

definition pages_of :: "usize \<Rightarrow> usize \<Rightarrow> usize set" where
  "pages_of start len = {a. page_aligned a \<and> unat start < unat a + 4096 \<and> unat a < unat start + unat len}"

lemma page_list_set: "page_aligned a \<Longrightarrow> set (page_list a b) = {x. page_aligned x \<and> a \<le> x \<and> x < b}"
proof (intro set_eqI iffI CollectI)
  fix x assume "page_aligned a" and "x \<in> set (page_list a b)"
  then show "page_aligned x \<and> a \<le> x \<and> x < b" using page_list_mem [of x a b] by simp
next
  fix x assume "page_aligned a" and "x \<in> {x. page_aligned x \<and> a \<le> x \<and> x < b}"
  then have "x - x mod 4096 \<in> set (page_list a b)" and "x mod 4096 = 0" using page_list_covers [of a x b] by simp_all
  then show "x \<in> set (page_list a b)" by simp
qed

lemma multiple_less_ceil: "x mod 4096 = 0 \<Longrightarrow> x < (n + 4095) div 4096 * 4096 \<longleftrightarrow> x < n" for x n :: nat
proof -
  assume "x mod 4096 = 0"
  then obtain q where q: "x = q * 4096" by (metis mod_0_imp_dvd dvdE mult.commute)
  have "q < (n + 4095) div 4096 \<longleftrightarrow> Suc q * 4096 \<le> n + 4095"
    unfolding Suc_le_eq [symmetric] by (rule less_eq_div_iff_mult_less_eq) simp
  then show ?thesis unfolding q by auto
qed

lemma floor_le_multiple: "x mod 4096 = 0 \<Longrightarrow> n div 4096 * 4096 \<le> x \<longleftrightarrow> n < x + 4096" for x n :: nat
proof -
  assume "x mod 4096 = 0"
  then obtain q where q: "x = q * 4096" by (metis mod_0_imp_dvd dvdE mult.commute)
  have "n div 4096 < Suc q \<longleftrightarrow> n < Suc q * 4096" by (rule div_less_iff_less_mult) simp
  then show ?thesis unfolding q by auto
qed

lemma page_range_run:
  assumes "memory_addr_laws E" and "unat start + unat len + 4095 < 2 ^ 64"
  shows "\<exists>as. page_range E start len s = (Ret as, s) \<and> set as = pages_of start len \<and> distinct as"
proof -
  let ?a = "start - start mod 4096" and ?e = "start + len"
  let ?b = "(?e + 4095) - (?e + 4095) mod 4096"
  have e: "unat ?e = unat start + unat len" using assms(2) by (intro unat_add_small) simp
  then have e': "unat (?e + 4095) = unat start + unat len + 4095" using assms(2) by (subst unat_add_small) simp_all
  have "page_range E start len s = (Ret (page_list ?a ?b), s)"
    using assms by (simp add: page_range_def vaddr_add_def memory_addr_laws_def run_simps)
  moreover have "set (page_list ?a ?b) = pages_of start len"
    unfolding page_list_set [OF aligned_align] pages_of_def
    by (rule Collect_cong, rule conj_cong [OF refl])
      (simp add: word_le_nat_alt word_less_nat_alt unat_align e' page_aligned_unat multiple_less_ceil floor_le_multiple)
  ultimately show ?thesis using page_list_distinct by blast
qed

section \<open>mmap\<close>

lemma twp_pwp: "twp m Q s \<Longrightarrow> pwp m P s \<Longrightarrow> twp m (\<lambda>x t. Q x t \<and> P x t) s"
  by (drule (1) wp_conj) simp

lemma twp_mmap_pages:
  assumes laws: "paging_laws E V"
  shows "bt_ok (mapped_page t) \<Longrightarrow> distinct as \<Longrightarrow>
    all_mappable E V (vspace t) (filter (\<lambda>a. bt_get (mapped_page t) a = None) as) s \<Longrightarrow>
    twp (mmap_pages E as t) (\<lambda>t' u. dom (bt_get (mapped_page t')) = dom (bt_get (mapped_page t)) \<union> set as
      \<and> bt_get (mapped_page t) \<subseteq>\<^sub>m bt_get (mapped_page t')) s"
proof (induction as arbitrary: s t)
  case (Cons a as)
  show ?case
  proof (cases "bt_get (mapped_page t) a")
    case None
    have ok: "all_mappable E V (vspace t) (a # filter (\<lambda>a. bt_get (mapped_page t) a = None) as) s"
      using Cons.prems None by simp
    show ?thesis
      unfolding mmap_pages.simps map_page_def
    proof (simp only: None simp_thms if_False, rule twp_bnd, rule twp_allocate_fresh [OF laws], goal_cases)
      case 1
      show ?case using ok by (auto simp: all_mappable_def)
    next
      case (2 k)
      note page = all_mappable_frame [OF ok 2] and step = mapping_step_page [OF ok 2(1)]
      have get: "bt_get (bt_insert a c (mapped_page t)) = (bt_get (mapped_page t))(a \<mapsto> c)" for c
        using Cons.prems by (simp add: bt_facts)
      have same: "filter (\<lambda>b. bt_get (bt_insert a c (mapped_page t)) b = None) as = filter (\<lambda>b. bt_get (mapped_page t) b = None) as" for c
        unfolding get by (rule filter_cong) (use Cons.prems in auto)
      have "twp (mmap_pages E as t') (\<lambda>t' u. dom (bt_get (mapped_page t')) = dom (bt_get (mapped_page t)) \<union> set (a # as)
          \<and> bt_get (mapped_page t) \<subseteq>\<^sub>m bt_get (mapped_page t')) u"
        if t': "t' = t\<lparr>mapped_pt := pts, mapped_page := bt_insert a (first_free s) (mapped_page t)\<rparr>"
          and u: "mapping_step V {(vspace t, a)} (missing V (vspace t) a (kern (took_slot k s))) (took_slot k s) u" for t' pts u
      proof (rule twp_use [OF Cons.IH])
        show "all_mappable E V (vspace t') (filter (\<lambda>b. bt_get (mapped_page t') b = None) as) u"
          using all_mappable_rest [OF ok step] u by (simp add: t' same)
        have "bt_get (mapped_page t) \<subseteq>\<^sub>m bt_get (mapped_page t')" using None by (auto simp: t' get map_le_def)
        then show "dom (bt_get (mapped_page t'')) = dom (bt_get (mapped_page t)) \<union> set (a # as)
            \<and> bt_get (mapped_page t) \<subseteq>\<^sub>m bt_get (mapped_page t'')"
          if "dom (bt_get (mapped_page t'')) = dom (bt_get (mapped_page t')) \<union> set as
            \<and> bt_get (mapped_page t') \<subseteq>\<^sub>m bt_get (mapped_page t'')" for t''
          using that by (auto simp: t' get intro: map_le_trans)
      qed (use Cons.prems in \<open>simp_all add: t' bt_facts\<close>)
      then show ?case
        using page(4) by (auto simp: wp_bnd wp_assert intro!: twp_use [OF page_loop.ends [OF laws page(3,1)]])
    qed
  next
    case (Some c)
    then have "all_mappable E V (vspace t) (filter (\<lambda>a. bt_get (mapped_page t) a = None) as) s" using Cons.prems by simp
    then show ?thesis
      using Some Cons.prems by (auto intro!: twp_use [OF Cons.IH])
  qed
qed (simp add: wp_simps)

text \<open>C25. \<open>mmap\<close> maps what it promises. With valid flags and enough slots, and with nothing mapped
  at the new addresses, it returns the start of the range; the task then has a page at every page
  address that meets the range, keeps every page it had, and its new frames are newly allocated;
  no other task changes.\<close>

theorem mmap_maps_range:
  assumes "paging_laws E V" and "memory_addr_laws E"
    and "bt_get (task_map s) badge = Some t" and "bt_ok (task_map s)" and "task_ok (first_free s) t"
    and "flags_from_bits E mmap_flags_all flags = Some mf" and "flags_from_bits E mmap_prot_all prot = Some p"
    and "start = (if flags_contains E mf MAP_FIXED then addr else the (find_free_area t addr len))"
    and "unat start + unat len + 4095 < 2 ^ 64"
    and "\<forall>a \<in> pages_of start len - dom (bt_get (mapped_page t)).
       unmapped V (vspace t) a (kern s) \<and> missing V (vspace t) a (kern s) < NUM_LEVELS E"
    and "card (pages_of start len) * NUM_LEVELS E \<le> capacity s"
  shows "\<exists>t' u. sys_mmap E badge addr len prot flags fd off s = (Ret (Okay start), u)
     \<and> bt_get (task_map u) = (bt_get (task_map s))(badge \<mapsto> t')
     \<and> dom (bt_get (mapped_page t')) = dom (bt_get (mapped_page t)) \<union> pages_of start len
     \<and> bt_get (mapped_page t) \<subseteq>\<^sub>m bt_get (mapped_page t')
     \<and> page_caps t' \<subseteq> page_caps t \<union> taken s u \<and> same_task t t'"
proof -
  obtain as where as: "page_range E start len s = (Ret as, s)" "set as = pages_of start len" "distinct as"
    using page_range_run [OF assms(2,9), of s] by (elim exE conjE)
  have bt: "bt_ok (mapped_page t)" using assms(5) by (simp add: task_ok_def)
  have "length (filter (\<lambda>a. bt_get (mapped_page t) a = None) as) \<le> card (pages_of start len)"
    using as(2,3) distinct_card [of as] by simp
  then have "length (filter (\<lambda>a. bt_get (mapped_page t) a = None) as) * NUM_LEVELS E \<le> capacity s"
    by (rule order_trans [OF mult_le_mono1 assms(11)])
  moreover have "a mod PAGE_SIZE = 0" if "a \<in> set as" for a
    using that by (simp add: as(2) pages_of_def)
  ultimately have "all_mappable E V (vspace t) (filter (\<lambda>a. bt_get (mapped_page t) a = None) as) s"
    unfolding all_mappable_def using assms(10) as(3) by (simp add: as(2) domIff)
  from twp_pwp [OF twp_mmap_pages [OF assms(1) bt as(3) this] pwp_mmap_pages [OF task_step_refl assms(5)]]
  obtain t' u where run: "mmap_pages E as t s = (Ret t', u)" and step: "task_step s t u t'"
    and t': "dom (bt_get (mapped_page t')) = dom (bt_get (mapped_page t)) \<union> set as"
      "bt_get (mapped_page t) \<subseteq>\<^sub>m bt_get (mapped_page t')"
    unfolding wp_returns by blast
  have u: "task_map u = task_map s" using step by (auto simp: task_step_def grown_def took_def)
  have "(if flags_contains E mf MAP_FIXED then ret addr else unwrap_opt (find_free_area t addr len)) s = (Ret start, s)"
    using assms(8) by (simp add: find_free_area_def run_simps)
  then have "sys_mmap E badge addr len prot flags fd off s =
      (Ret (Okay start), u\<lparr>task_map := bt_insert badge t' (task_map s)\<rparr>)"
    using assms(3,6,7) as(1) run u by (simp add: sys_mmap_def get_task_def put_task_def run_simps)
  moreover have "page_caps t' \<subseteq> page_caps t \<union> taken s (u\<lparr>task_map := m\<rparr>) \<and> same_task t t'" for m
    using step by (simp add: task_step_def taken_def)
  ultimately show ?thesis
    using t' unfolding as(2) by (intro exI [of _ t'] exI conjI) (assumption, simp_all add: bt_facts assms(4))
qed

definition ref_task :: sel4_task where
  "ref_task = \<lparr>pid = 0, tid = 1, tcb = 50, cnode = 51, vspace = 52, mapped_pt = [], mapped_page = [(0x3000, 40)],
     heap = 0x200000000, exit_code = None, clear_child_tid = None\<rparr>"

definition ref_kernel_thread :: "ref_state kthread" where
  "ref_kernel_thread = ref_kthread ref_init 100 200 [(1, ref_task)] 2"

lemma ref_kernel_thread_fields [simp]:
  "bt_get (task_map ref_kernel_thread) 1 = Some ref_task" "bt_ok (task_map ref_kernel_thread)"
  "task_ok (first_free ref_kernel_thread) ref_task" "capacity ref_kernel_thread = 100" "kern ref_kernel_thread = ref_init"
  by (simp_all add: ref_kernel_thread_def ref_kthread_def bt_get_def bt_ok_def task_ok_def ref_task_def capacity_def map_inj_def)

lemma ref_env_paging: "paging_laws ref_env ref_view"
  using ref_paging_laws by (simp add: paging_laws_def retype_succeeds_def frame_laws_def table_laws_def slot_laws_def)

lemma ref_pages: "pages_of 0x3000 0x1800 = {0x3000, 0x4000}"
proof (intro set_eqI iffI)
  fix a :: usize assume "a \<in> pages_of 0x3000 0x1800"
  then have a: "unat a mod 4096 = 0" "0x2000 < unat a" "unat a < 0x4800"
    by (simp_all add: pages_of_def page_aligned_unat)
  then obtain q where q: "unat a = q * 4096" by (metis mod_0_imp_dvd dvdE mult.commute)
  with a have "q = 3 \<or> q = 4" by arith
  then have "unat a = unat (0x3000 :: usize) \<or> unat a = unat (0x4000 :: usize)" using q by auto
  then show "a \<in> {0x3000, 0x4000}" by (simp only: word_unat_eq_iff [symmetric] insert_iff empty_iff) simp
qed (auto simp: pages_of_def)

theorem mmap_maps_range_witness:
  "\<exists>t' u. sys_mmap ref_env 1 0x3000 0x1800 3 0x10 0 0 ref_kernel_thread = (Ret (Okay 0x3000), u)
     \<and> bt_get (task_map u) 1 = Some t' \<and> dom (bt_get (mapped_page t')) = {0x3000, 0x4000}
     \<and> bt_get (mapped_page t') 0x3000 = Some 40"
proof -
  have "\<exists>t' u. sys_mmap ref_env 1 0x3000 0x1800 3 0x10 0 0 ref_kernel_thread = (Ret (Okay 0x3000), u)
     \<and> bt_get (task_map u) = (bt_get (task_map ref_kernel_thread))(1 \<mapsto> t')
     \<and> dom (bt_get (mapped_page t')) = dom (bt_get (mapped_page ref_task)) \<union> pages_of 0x3000 0x1800
     \<and> bt_get (mapped_page ref_task) \<subseteq>\<^sub>m bt_get (mapped_page t')
     \<and> page_caps t' \<subseteq> page_caps ref_task \<union> taken ref_kernel_thread u \<and> same_task ref_task t'"
    by (rule mmap_maps_range [OF ref_env_paging ref_env_laws(4), where mf = "0x10" and p = 3])
      (simp_all add: mmap_flags_all_def mmap_prot_all_def MAP_SHARED_def MAP_PRIVATE_def MAP_FIXED_def
        MAP_ANONYMOUS_def MAP_NORESERVE_def MAP_STACK_def PROT_READ_def PROT_WRITE_def PROT_EXEC_def ref_pages
        ref_view_def ref_init_def)
  moreover have "bt_get (mapped_page ref_task) = [0x3000 \<mapsto> 40]"
    by (simp add: fun_eq_iff ref_task_def bt_get_def)
  ultimately show ?thesis
    unfolding ref_pages by (auto simp: map_le_def)
qed

section \<open>munmap\<close>




section \<open>brk\<close>



text \<open>C34. A break that is not a page address is fatal: once \<open>brk\<close> has moved the break of a task to
  such an address, the next call that raises it makes the kernel thread panic on the assertion of
  \<open>map_page\<close>.\<close>

theorem unaligned_brk_panics:
  assumes "retype_succeeds E" and "bt_get (task_map s) badge = Some t" and "has_slot s"
    and "\<not> page_aligned (heap t)" and "heap t < addr"
    and "USPACE_HEAP_BASE \<le> addr" and "addr \<le> USPACE_HEAP_BASE + USPACE_HEAP_SIZE"
  shows "\<exists>u. sys_brk E badge addr s = (Panic Assert_failed, u)"
proof -
  have "addr \<noteq> 0" using assms(6) by (auto simp: uspace_defs)
  obtain as where as: "page_list (heap t) addr = heap t # as"
  proof -
    have "0 < (unat addr - unat (heap t) + 4095) div 4096" using assms(5) by (simp add: word_less_nat_alt div_greater_zero_iff)
    then show ?thesis using that by (simp add: page_list_def upt_conv_Cons)
  qed
  obtain k where "allocate_fixed E BP_Granule s = (Ret (first_free s), took_slot k s)"
  proof -
    have "twp (allocate_fixed E BP_Granule) (\<lambda>c u. \<exists>k. c = first_free s \<and> u = took_slot k s) s"
      unfolding allocate_fixed_def by (rule wp_allocate_succeeds [OF assms(1,3)]) auto
    then show ?thesis using that by (auto simp: wp_returns)
  qed
  then show ?thesis
    using assms \<open>addr \<noteq> 0\<close>
    by (simp add: sys_brk_def get_task_def brk_def as map_page_def assert_that_def run_simps not_less not_le)
qed

theorem unaligned_brk_panics_witness:
  "\<exists>u. sys_brk ref_env 1 0x100001000 (ref_kthread ref_init 100 200 [(1, ref_task\<lparr>heap := 0x100000010\<rparr>)] 2) = (Panic Assert_failed, u)"
  by (rule unaligned_brk_panics [OF ref_env_laws(1), where t = "ref_task\<lparr>heap := 0x100000010\<rparr>"])
    (simp_all add: ref_kthread_def bt_get_def has_slot_def uspace_defs)

section \<open>Free areas\<close>

lemma free_area_loop_above:
  assumes "sorted_wrt (<) (map fst ps)" and "\<forall>p \<in> set ps. unat (fst p) + 4096 + unat sz < 2 ^ 64"
    and "unat start + unat sz < 2 ^ 64"
  defines "r \<equiv> free_area_loop start sz ps"
  shows "unat r + unat sz < 2 ^ 64 \<and> (r = start \<or> (\<exists>p \<in> set ps. unat r = unat (fst p) + 4096))
    \<and> (\<forall>p \<in> set ps. unat (fst p) + 4096 \<le> unat r \<or> unat r + unat sz \<le> unat (fst p))"
  using assms(1-3) unfolding r_def
proof (induction ps arbitrary: start)
  case (Cons p ps)
  have above: "unat (fst p) < unat (fst q)" if "q \<in> set ps" for q
    using Cons.prems(1) that by (simp add: word_less_nat_alt)
  have sum: "unat (start + sz) = unat start + unat sz" using Cons.prems(3) by (rule unat_add_small)
  obtain v c where p: "p = (v, c)" by (cases p)
  show ?case
  proof (cases "start + sz \<le> v")
    case True
    then show ?thesis
      using Cons.prems(3) above by (auto simp: p word_le_nat_alt sum dest!: less_imp_le intro: order_trans)
  next
    case False
    have v: "unat (v + PAGE_SIZE) = unat v + 4096" using Cons.prems(2) by (subst unat_add_small) (simp_all add: p)
    have rest: "sorted_wrt (<) (map fst ps)" "\<forall>q \<in> set ps. unat (fst q) + 4096 + unat sz < 2 ^ 64"
      "unat (v + PAGE_SIZE) + unat sz < 2 ^ 64"
      using Cons.prems(1,2) unfolding v by (simp_all add: p)
    let ?r = "free_area_loop (v + PAGE_SIZE) sz ps"
    note IH = Cons.IH [OF rest]
    then have "unat v + 4096 \<le> unat ?r" using above v by (fastforce simp: p)
    then show ?thesis using IH False v by (auto simp: p)
  qed
qed simp

text \<open>C31. The area that \<open>find_free_area\<close> finds is free: when the addresses in use do not reach the end
  of the address space, none of the task's pages meets the area of the given size at the result.\<close>

theorem free_area_is_free:
  assumes "bt_ok (mapped_page t)" and "\<forall>a \<in> dom (bt_get (mapped_page t)). unat a + 4096 + unat sz < 2 ^ 64"
    and "unat (max USPACE_BASE start) + unat sz < 2 ^ 64"
  shows "\<exists>r. find_free_area t start sz = Some r \<and> unat r + unat sz < 2 ^ 64
     \<and> (\<forall>a \<in> dom (bt_get (mapped_page t)). unat a + 4096 \<le> unat r \<or> unat r + unat sz \<le> unat a)"
proof -
  have dom: "dom (bt_get (mapped_page t)) = fst ` set (bt_iter (mapped_page t))"
    by (rule bt.dom_get [OF assms(1)])
  have "sorted_wrt (<) (map fst (bt_iter (mapped_page t)))" by (rule bt.iter_sorted [OF assms(1)])
  from free_area_loop_above [OF this _ assms(3)] show ?thesis
    using assms(2) unfolding dom find_free_area_def by simp
qed

theorem free_area_is_free_witness:
  "\<exists>r. find_free_area ref_task 0x2800 0x1000 = Some r \<and> (0x4000 \<le> unat r \<or> unat r + 0x1000 \<le> 0x3000)"
proof -
  have "bt_get (mapped_page ref_task) = [0x3000 \<mapsto> 40]" by (simp add: fun_eq_iff ref_task_def bt_get_def)
  moreover have "bt_ok (mapped_page ref_task)" by (simp add: ref_task_def bt_ok_def)
  ultimately show ?thesis
    using free_area_is_free [of ref_task "0x1000" "0x2800"] by (auto simp: USPACE_BASE_def max_def)
qed

end
