(* ===== verification/User_Access.thy ===== *)
theory User_Access
  imports Memory_Calls
begin

text \<open>
  What the kernel thread reads and writes when it goes through its window at the memory of a user
  task. The memory is seen abstractly: a capability names a frame, a frame holds 4096 bytes, and
  the console has been sent some bytes. \<open>window_laws\<close> states what the thread relies on: a copy of
  a frame's capability can be mapped at the window page, reads and writes there are reads and writes
  of the frame, and the window can be cleared again.
\<close>

record 'k memory_view =
  frame_of :: "cptr \<Rightarrow> 'k \<Rightarrow> nat"
  frame_bytes :: "nat \<Rightarrow> 'k \<Rightarrow> u8 list"
  sent :: "'k \<Rightarrow> u8 list"
  window_free :: "'k \<Rightarrow> bool"
  window_shows :: "nat \<Rightarrow> 'k \<Rightarrow> bool"

text \<open>Slot 0, which holds the copy, is the only capability that changes its meaning.\<close>

definition same_memory :: "'k memory_view \<Rightarrow> 'k \<Rightarrow> 'k \<Rightarrow> bool" where
  "same_memory M k k' \<longleftrightarrow> (\<forall>f. frame_bytes M f k' = frame_bytes M f k)
     \<and> (\<forall>c. c \<noteq> 0 \<longrightarrow> frame_of M c k' = frame_of M c k)"







lemma same_memory_refl [simp]: "same_memory M k k"
  by (simp add: same_memory_def)


section \<open>Inside the window\<close>


section \<open>The memory of a task\<close>

text \<open>The byte at an address of a task, which lies in the frame that the page map has for its page.\<close>

definition user_page :: "nat \<Rightarrow> usize" where
  "user_page a = of_nat (a div 4096 * 4096)"

definition user_byte :: "'k memory_view \<Rightarrow> sel4_task \<Rightarrow> 'k \<Rightarrow> nat \<Rightarrow> u8" where
  "user_byte M t k a = (case bt_get (mapped_page t) (user_page a) of
       None \<Rightarrow> 0
     | Some c \<Rightarrow> frame_bytes M (frame_of M c k) k ! (a mod 4096))"

definition user_bytes :: "'k memory_view \<Rightarrow> sel4_task \<Rightarrow> 'k \<Rightarrow> nat \<Rightarrow> nat \<Rightarrow> u8 list" where
  "user_bytes M t k a n = map (user_byte M t k) [a ..< a + n]"



lemma user_bytes_0 [simp]: "user_bytes M t k a 0 = []"
  by (simp add: user_bytes_def)





section \<open>write\<close>













text \<open>C32. \<open>write\<close> from an address that is not mapped never returns: whatever number of rounds it is
  given, the loop spins without doing anything, and the kernel thread serves no other request.\<close>

theorem write_from_unmapped_spins:
  assumes "bt_get (task_map s) badge = Some t" and "bt_get (mapped_page t) (align_bits buf 12) = None" and "0 < count"
    and "fd = STDOUT_FD \<or> fd = STDERR_FD"
  shows "sys_write (E\<lparr>fuel := n\<rparr>) badge fd buf count s = (Out_of_fuel, s)"
proof -
  have "write_loop E' t m buf count payload s = (Out_of_fuel, s)" for E' m payload
    using assms(2,3) by (induction m) (simp_all add: run_simps)
  then show ?thesis using assms(1,4) by (auto simp: sys_write_def get_task_def run_simps)
qed

section \<open>The reference memory\<close>







definition ref_writer :: "ref_state kthread" where
  "ref_writer = ref_kthread (ref_init\<lparr>missing_tables := 0, obj_of := (\<lambda>_. 0)(40 := 7),
     obj_bytes := (\<lambda>_ _. 0)(7 := (\<lambda>_. 0)(4094 := 72, 4095 := 105))\<rparr>) 100 200 [(1, ref_task)] 2"


theorem write_from_unmapped_spins_witness:
  "\<forall>n. sys_write (ref_env\<lparr>fuel := n\<rparr>) 1 1 0x9000 5 ref_writer = (Out_of_fuel, ref_writer)"
  by (rule allI, rule write_from_unmapped_spins [where t = ref_task])
    (simp_all add: ref_writer_def ref_kthread_def bt_get_def ref_task_def align_bits_12 STDOUT_FD_def)

end
