(* ===== verification/Task_Helper.thy ===== *)
theory Task_Helper
  imports Elf_Image Paging
begin

text \<open>
  \<^verbatim>\<open>src/crates/task-helper/src/lib.rs\<close>: the tasks that the root task builds. \<open>mapped_pt\<close> is
  shared (\<open>Arc<NotiMutex<Vec<PT>>>\<close>) between a task and the threads cloned from it, so the
  vectors live in a store \<open>pt_store\<close> of the state and a task has the index of its own.

  The trait \<open>TaskHelperTrait\<close> is the record \<open>task_helper\<close> of its members; the root task's
  implementation is in \<^verbatim>\<open>Root_Task\<close>.
\<close>

record 'k root_sys = "'k alloc_sys" +
  pt_store :: "cptr list list"

record helper_task =
  h_tcb :: cptr
  h_cnode :: cptr
  h_vspace :: cptr
  h_mapped_pt :: nat
  h_mapped_page :: "(usize, cptr) btree"
  h_stack_bottom :: usize

record ('k, 'z) task_helper =
  DEFAULT_STACK_TOP :: usize
  allocate_pt :: "(('k, 'z) root_sys_scheme, cptr) M"
  allocate_page :: "(('k, 'z) root_sys_scheme, cptr) M"

definition cnode_relative :: "('k, 'e) sel4_scheme \<Rightarrow> cptr \<Rightarrow> abs_cptr" where
  "cnode_relative S path = Relative (slot_CNODE S) path"

definition task_abs_cptr :: "helper_task \<Rightarrow> u64 \<Rightarrow> abs_cptr" where
  "task_abs_cptr t bits = Relative (h_cnode t) bits"

definition arc_new :: "(('k, 'z) root_sys_scheme, nat) M" where
  "arc_new =
     bnd (gets pt_store) (\<lambda>store.
     bnd (modify (\<lambda>s. s\<lparr>pt_store := store @ [[]]\<rparr>)) (\<lambda>_. ret (length store)))"

definition push_pt :: "nat \<Rightarrow> cptr \<Rightarrow> (('k, 'z) root_sys_scheme, unit) M" where
  "push_pt i pt = modify (\<lambda>s. s\<lparr>pt_store := (pt_store s)[i := pt_store s ! i @ [pt]]\<rparr>)"

section \<open>Operations\<close>

definition helper_new ::
  "('k, 'e) sel4_scheme \<Rightarrow> ('k, 'z) task_helper \<Rightarrow> cptr \<Rightarrow> cptr \<Rightarrow> cptr \<Rightarrow> cptr \<Rightarrow> (usize, cptr) btree \<Rightarrow> u64 \<Rightarrow> cptr \<Rightarrow>
     (('k, 'z) root_sys_scheme, helper_task) M" where
  "helper_new S H tc cn fault_ep vs pages badge irq_ep =
     bnd arc_new (\<lambda>pts.
     let task = \<lparr>h_tcb = tc, h_cnode = cn, h_vspace = vs, h_mapped_pt = pts, h_mapped_page = pages,
                 h_stack_bottom = DEFAULT_STACK_TOP H\<rparr> in
     bnd (kcall_unwrap (cnode_mint S (task_abs_cptr task DEFAULT_THREAD_FAULT_EP) (cnode_relative S fault_ep) rights_all badge)) (\<lambda>_.
     bnd (kcall_unwrap (cnode_mint S (task_abs_cptr task DEFAULT_THREAD_IRQ_EP) (cnode_relative S irq_ep) rights_all badge)) (\<lambda>_.
     bnd (kcall_unwrap (cnode_copy S (task_abs_cptr task (slot_ASID_POOL S)) (cnode_relative S (slot_ASID_POOL S)) rights_all)) (\<lambda>_.
     bnd (kcall_unwrap (cnode_copy S (task_abs_cptr task (slot_ASID_CONTROL S)) (cnode_relative S (slot_ASID_CONTROL S)) rights_all)) (\<lambda>_.
     ret task)))))"

primrec helper_map_loop ::
  "('k, 'e) sel4_scheme \<Rightarrow> ('k, 'z) task_helper \<Rightarrow> nat \<Rightarrow> helper_task \<Rightarrow> usize \<Rightarrow> cptr \<Rightarrow>
     (('k, 'z) root_sys_scheme, helper_task) M" where
  "helper_map_loop S H 0 t vaddr page = stop (Message ''Failed to map page!'')"
| "helper_map_loop S H (Suc n) t vaddr page =
     bnd (kcall (frame_map S page (h_vspace t) vaddr rights_all)) (\<lambda>res.
     case res of
       Inr _ \<Rightarrow> ret (t\<lparr>h_mapped_page := bt_insert vaddr page (h_mapped_page t)\<rparr>)
     | Inl e \<Rightarrow>
         (if e = FailedLookup then
            bnd (allocate_pt H) (\<lambda>pt_cap.
            bnd (kcall_unwrap (pt_map S pt_cap (h_vspace t) vaddr)) (\<lambda>_.
            bnd (push_pt (h_mapped_pt t) pt_cap) (\<lambda>_.
            helper_map_loop S H n t vaddr page)))
          else stop Unwrap_err))"

definition helper_map_page ::
  "('k, 'e) sel4_scheme \<Rightarrow> ('k, 'z) task_helper \<Rightarrow> helper_task \<Rightarrow> usize \<Rightarrow> cptr \<Rightarrow>
     (('k, 'z) root_sys_scheme, helper_task) M" where
  "helper_map_page S H t vaddr page =
     bnd (assert_that (vaddr mod PAGE_SIZE = 0)) (\<lambda>_.
     helper_map_loop S H (NUM_LEVELS S) t vaddr page)"

definition helper_configure ::
  "('k, 'e) sel4_scheme \<Rightarrow> helper_task \<Rightarrow> usize \<Rightarrow> usize \<Rightarrow> cptr \<Rightarrow>
     (('k, 'z) root_sys_scheme, sel4_error + unit) M" where
  "helper_configure S t radix_bits ipc_buffer_addr ipc_buffer_cap =
     bnd (kcall_unwrap (cnode_mint S (task_abs_cptr t (slot_CNODE S)) (cnode_relative S (h_cnode t)) rights_all
            (cap_data_skip_high_bits S radix_bits))) (\<lambda>_.
     bnd (kcall_unwrap (cnode_copy S (task_abs_cptr t (slot_TCB S)) (cnode_relative S (h_tcb t)) rights_all)) (\<lambda>_.
     bnd (kcall_unwrap (cnode_copy S (task_abs_cptr t (slot_VSPACE S)) (cnode_relative S (h_vspace t)) rights_all)) (\<lambda>_.
     kcall (tcb_configure S (h_tcb t) DEFAULT_THREAD_FAULT_EP (h_cnode t) (cap_data_skip_high_bits S radix_bits)
       (h_vspace t) ipc_buffer_addr ipc_buffer_cap))))"

primrec helper_map_pages ::
  "('k, 'e) sel4_scheme \<Rightarrow> ('k, 'z) task_helper \<Rightarrow> usize list \<Rightarrow> helper_task \<Rightarrow> (('k, 'z) root_sys_scheme, helper_task) M" where
  "helper_map_pages S H [] t = ret t"
| "helper_map_pages S H (vaddr # vaddrs) t =
     bnd (allocate_page H) (\<lambda>page_cap.
     bnd (helper_map_page S H t vaddr page_cap) (helper_map_pages S H vaddrs))"

definition helper_map_stack ::
  "('k, 'e) sel4_scheme \<Rightarrow> ('k, 'z) task_helper \<Rightarrow> helper_task \<Rightarrow> usize \<Rightarrow> (('k, 'z) root_sys_scheme, helper_task) M" where
  "helper_map_stack S H t page_count =
     (let t = t\<lparr>h_stack_bottom := h_stack_bottom t - page_count * PAGE_SIZE\<rparr> in
      helper_map_pages S H (map (\<lambda>i. h_stack_bottom t + of_nat i * PAGE_SIZE) [0 ..< unat page_count]) t)"

definition clone_thread :: "helper_task \<Rightarrow> cptr \<Rightarrow> helper_task" where
  "clone_thread t tc = t\<lparr>h_tcb := tc\<rparr>"

definition helper_context :: "('k, 'z) task_helper \<Rightarrow> elf_file \<Rightarrow> user_context" where
  "helper_context H elf =
     user_context_default\<lparr>uc_pc := elf_entry_point elf, uc_sp := DEFAULT_STACK_TOP H - STACK_ALIGN_SIZE,
       uc_tpidr_el0 := (case filter ph_is_tls (elf_program_headers elf) of [] \<Rightarrow> 0 | ph # _ \<Rightarrow> ph_virtual_addr ph)\<rparr>"

definition with_context ::
  "('k, 'e) sel4_scheme \<Rightarrow> ('k, 'z) task_helper \<Rightarrow> helper_task \<Rightarrow> elf_file \<Rightarrow> (('k, 'z) root_sys_scheme, unit) M" where
  "with_context S H t elf =
     bnd (kcall (tcb_write_all_registers S (h_tcb t) False (helper_context H elf)))
       (expect_res ''can't write pc reg to tcb'')"

definition helper_run :: "('k, 'e) sel4_scheme \<Rightarrow> helper_task \<Rightarrow> (('k, 'z) root_sys_scheme, unit) M" where
  "helper_run S t = kcall_unwrap (tcb_resume S (h_tcb t))"

section \<open>Mapped pages\<close>

text \<open>Whatever the allocator does, a mapping that returns has recorded the page, and nothing else of
  the task has changed.\<close>

lemma pwp_any: "pwp m (\<lambda>_ _. True) s"
  by (simp add: wp_def split: prod.split res.split)

lemma pwp_helper_map_page:
  "pwp (helper_map_page S H t vaddr page) (\<lambda>t' _. t' = t\<lparr>h_mapped_page := bt_insert vaddr page (h_mapped_page t)\<rparr>) s"
proof -
  have "pwp (helper_map_loop S H n t vaddr page) (\<lambda>t' _. t' = t\<lparr>h_mapped_page := bt_insert vaddr page (h_mapped_page t)\<rparr>) s" for n s
  proof (induction n arbitrary: s)
    case (Suc n)
    have retry: "pwp (bnd (allocate_pt H) (\<lambda>pt_cap. bnd (kcall_unwrap (pt_map S pt_cap (h_vspace t) vaddr)) (\<lambda>_.
        bnd (push_pt (h_mapped_pt t) pt_cap) (\<lambda>_. helper_map_loop S H n t vaddr page))))
        (\<lambda>t' _. t' = t\<lparr>h_mapped_page := bt_insert vaddr page (h_mapped_page t)\<rparr>) u" for u
      by (rule pwp_bnd, rule pwp_use [OF pwp_any], rule pwp_bnd, rule pwp_use [OF pwp_any], rule pwp_bnd,
          rule pwp_use [OF pwp_any], rule Suc.IH)
    show ?case
      unfolding helper_map_loop.simps
      by (rule pwp_bnd, rule pwp_use [OF pwp_any], rule pwp_case_sum, rule pwp_if, rule retry)
        (simp_all add: wp_ret wp_stop)
  qed (simp add: wp_simps)
  then show ?thesis by (simp add: helper_map_page_def wp_simps)
qed

lemma pwp_helper_map_pages:
  assumes "bt_ok (h_mapped_page t)"
  shows "pwp (helper_map_pages S H vaddrs t) (\<lambda>t' _. bt_ok (h_mapped_page t')
     \<and> dom (bt_get (h_mapped_page t')) = dom (bt_get (h_mapped_page t)) \<union> set vaddrs
     \<and> t' = t\<lparr>h_mapped_page := h_mapped_page t'\<rparr>) s"
  using assms
proof (induction vaddrs arbitrary: t s)
  case (Cons a vaddrs)
  show ?case
    unfolding helper_map_pages.simps
  proof (rule pwp_bnd, rule pwp_use [OF pwp_any], rule pwp_bnd, rule pwp_use [OF pwp_helper_map_page], hypsubst, goal_cases)
    case (1 page u _ v)
    show ?case
      by (rule pwp_use [OF Cons.IH])
        (auto simp: bt_ok_insert bt_get_insert Cons.prems)
  qed
qed (simp add: wp_simps)

text \<open>With enough slots, mapping returns: every round of the loop adds a missing table.\<close>

interpretation helper_loop: mapping_loop S "\<lambda>n _. helper_map_loop S (H\<lparr>allocate_pt := allocate_fixed S BP_PT\<rparr>) n t a page"
    "\<lambda>_ :: unit. h_vspace t" a page "\<lambda>_. t\<lparr>h_mapped_page := bt_insert a page (h_mapped_page t)\<rparr>"
    "\<lambda>_. push_pt (h_mapped_pt t)" "stop Unwrap_err" "\<lambda>_ t'. h_vspace t' = h_vspace t" for S H t a page
  by unfold_locales (simp_all add: push_pt_def wp_simps cong: sum.case_cong if_cong)

lemma twp_helper_map_loop:
  assumes "paging_laws S V" and H: "allocate_pt H = allocate_fixed S BP_PT"
  shows "missing V (h_vspace t) a (kern s) < n \<Longrightarrow> mappable V (h_vspace t) a page s \<Longrightarrow>
    twp (helper_map_loop S H n t a page) (\<lambda>t' u. h_vspace t' = h_vspace t
      \<and> mapping_step V {(h_vspace t, a)} (missing V (h_vspace t) a (kern s)) s u) s"
proof -
  have "H\<lparr>allocate_pt := allocate_fixed S BP_PT\<rparr> = H" by (simp flip: H)
  then show "missing V (h_vspace t) a (kern s) < n \<Longrightarrow> mappable V (h_vspace t) a page s \<Longrightarrow> ?thesis"
    using helper_loop.ends [OF assms(1), where H = H] by simp
qed

lemma twp_helper_map_pages:
  assumes laws: "paging_laws S V" and H: "allocate_pt H = allocate_fixed S BP_PT" "allocate_page H = allocate_fixed S BP_Granule"
  shows "all_mappable S V (h_vspace t) as s \<Longrightarrow> twp (helper_map_pages S H as t) (\<lambda>_ _. True) s"
proof (induction as arbitrary: s t)
  case (Cons a as)
  show ?case
    unfolding helper_map_pages.simps H helper_map_page_def
  proof (rule twp_bnd, rule twp_allocate_fresh [OF laws], goal_cases)
    case 1
    show ?case using Cons.prems by (auto simp: all_mappable_def)
  next
    case (2 k)
    note page = all_mappable_frame [OF Cons.prems 2]
    show ?case
      using mapping_step_page [OF Cons.prems 2(1)] Cons.IH all_mappable_rest [OF Cons.prems] page(4)
      by (auto simp: wp_bnd wp_assert intro!: twp_use [OF twp_helper_map_loop [OF laws H(1) page(3,1)]])
  qed
qed (simp add: wp_simps)

end
