(* ===== verification/Drivers.thy ===== *)
theory Drivers
  imports Messages Ref_Kernel
begin

text \<open>
  The DMA memory of the driver threads (\<^verbatim>\<open>net-thread/src/virtio_impl.rs\<close>,
  \<^verbatim>\<open>blk-thread/src/virtio.rs\<close>) and the main function of the block thread
  (\<^verbatim>\<open>blk-thread/src/main.rs\<close>). Both threads hand out their DMA region from \<open>DMA_ADDR\<close>
  upwards and ask the root task for the physical address of a page; the VirtIO drivers are a
  library, whose operations are the fields of \<open>blk_env\<close>.
\<close>

record 'k hal_thread = "'k sys" +
  DMA_ADDR :: usize

definition net_DMA_ADDR_init :: usize where "net_DMA_ADDR_init = DMA_ADDR_START + PAGE_SIZE"
definition blk_DMA_ADDR_init :: usize where "blk_DMA_ADDR_init = DMA_ADDR_START"

section \<open>The address translation of the root task, from the client's side\<close>

definition translate_addr :: "('k, 'e) sel4_scheme \<Rightarrow> usize \<Rightarrow> (('k, 'z) sys_scheme, usize) M" where
  "translate_addr S vaddr =
     bnd get_regs (\<lambda>regs.
     bnd (upd_regs (\<lambda>_. snd (root_build S (TranslateAddr vaddr) regs))) (\<lambda>_.
     bnd (call_ep S DEFAULT_THREAD_FAULT_EP (fst (root_build S (TranslateAddr vaddr) regs))) (\<lambda>reply.
     bnd get_regs (\<lambda>regs'.
     case root_try_from S reply regs' of
       Some (TranslateAddr paddr) \<Rightarrow> ret paddr
     | _ \<Rightarrow> stop (Message ''not yet implemented'')))))"

definition non_null :: "usize \<Rightarrow> ('s, usize) M" where
  "non_null a = (if a = 0 then stop Unwrap_none else ret a)"

section \<open>The network thread\<close>

definition net_dma_alloc :: "('k, 'e) sel4_scheme \<Rightarrow> usize \<Rightarrow> (('k, 'z) hal_thread_scheme, usize \<times> usize) M" where
  "net_dma_alloc S pages =
     bnd (gets DMA_ADDR) (\<lambda>vaddr.
     bnd (modify (\<lambda>s. s\<lparr>DMA_ADDR := vaddr + pages * PAGE_SIZE\<rparr>)) (\<lambda>_.
     bnd (translate_addr S vaddr) (\<lambda>paddr.
     bnd (non_null vaddr) (\<lambda>ptr. ret (paddr, ptr)))))"

definition net_dma_dealloc :: "usize \<Rightarrow> usize \<Rightarrow> usize \<Rightarrow> (('k, 'z) hal_thread_scheme, i32) M" where
  "net_dma_dealloc paddr vaddr pages =
     bnd (gets DMA_ADDR) (\<lambda>pre_addr.
     bnd (assert_that (vaddr + pages * 0x1000 = pre_addr)) (\<lambda>_.
     bnd (modify (\<lambda>s. s\<lparr>DMA_ADDR := vaddr\<rparr>)) (\<lambda>_. ret 0)))"

definition net_share :: "('k, 'e) sel4_scheme \<Rightarrow> usize \<Rightarrow> (('k, 'z) hal_thread_scheme, usize) M" where
  "net_share S buffer = translate_addr S buffer"

definition net_unshare :: "usize \<Rightarrow> usize \<Rightarrow> (('k, 'z) hal_thread_scheme, unit) M" where
  "net_unshare paddr buffer = ret ()"

section \<open>The block thread\<close>

record ('k, 'd) blk_env = "'k sel4" +
  vd_PAGE_SIZE :: usize
  mmio_transport_new :: "usize \<Rightarrow> 'k hal_thread \<Rightarrow> bool"
  blk_new :: "usize \<Rightarrow> ('k hal_thread, 'd option) M"
  read_blocks_nb :: "'d \<Rightarrow> nat \<Rightarrow> ('k hal_thread, (nat + unit) \<times> 'd) M"
  ack_interrupt :: "'d \<Rightarrow> ('k hal_thread, 'd) M"

definition VIRTIO_BLK_OFFSET :: usize where "VIRTIO_BLK_OFFSET = 0x3e00"
definition VIRTIO_NET_OFFSET :: usize where "VIRTIO_NET_OFFSET = 0x3c00"
definition VIRTIO_MMIO_VIRT_ADDR :: usize where "VIRTIO_MMIO_VIRT_ADDR = 0x120000000"
definition VIRTIO_MMIO_BLK_VIRT_ADDR :: usize where
  "VIRTIO_MMIO_BLK_VIRT_ADDR = VIRTIO_MMIO_VIRT_ADDR + VIRTIO_BLK_OFFSET"
definition VIRTIO_MMIO_NET_VIRT_ADDR :: usize where
  "VIRTIO_MMIO_NET_VIRT_ADDR = VIRTIO_MMIO_VIRT_ADDR + VIRTIO_NET_OFFSET"

definition blk_dma_alloc :: "('k, 'd) blk_env \<Rightarrow> usize \<Rightarrow> ('k hal_thread, usize \<times> usize) M" where
  "blk_dma_alloc B pages =
     bnd (gets DMA_ADDR) (\<lambda>vaddr.
     bnd (modify (\<lambda>s. s\<lparr>DMA_ADDR := vaddr + pages * vd_PAGE_SIZE B\<rparr>)) (\<lambda>_.
     bnd (translate_addr B vaddr) (\<lambda>paddr.
     bnd (non_null vaddr) (\<lambda>ptr. ret (paddr, ptr)))))"

definition blk_dma_dealloc :: "usize \<Rightarrow> usize \<Rightarrow> usize \<Rightarrow> ('k hal_thread, i32) M" where
  "blk_dma_dealloc paddr vaddr pages = stop (Message ''not yet implemented'')"

definition blk_share :: "('k, 'd) blk_env \<Rightarrow> usize \<Rightarrow> ('k hal_thread, usize) M" where
  "blk_share B buffer = translate_addr B buffer"

definition blk_unshare :: "usize \<Rightarrow> usize \<Rightarrow> ('k hal_thread, unit) M" where
  "blk_unshare paddr buffer = ret ()"

definition blk_ntfn :: cptr where "blk_ntfn = DEFAULT_CUSTOM_SLOT"
definition blk_irq_handler :: cptr where "blk_irq_handler = DEFAULT_CUSTOM_SLOT + 1"

definition register_irq :: "('k, 'e) sel4_scheme \<Rightarrow> cptr \<Rightarrow> cptr \<Rightarrow> u64 \<Rightarrow> (('k, 'z) sys_scheme, unit) M" where
  "register_irq S irq_handler ntfn irq =
     bnd get_regs (\<lambda>regs.
     bnd (upd_regs (\<lambda>_. snd (root_build S (RegisterIRQ irq_handler irq) regs))) (\<lambda>_.
     bnd (call_ep S DEFAULT_THREAD_FAULT_EP (fst (root_build S (RegisterIRQ irq_handler irq) regs))) (\<lambda>_.
     bnd (kcall_unwrap (irq_handler_set_notification S irq_handler ntfn)) (\<lambda>_.
     kcall_unwrap (irq_handler_ack S irq_handler)))))"

primrec read_blocks :: "('k, 'd) blk_env \<Rightarrow> nat list \<Rightarrow> 'd \<Rightarrow> ('k hal_thread, 'd) M" where
  "read_blocks B [] dev = ret dev"
| "read_blocks B (block_id # ids) dev =
     bnd (read_blocks_nb B dev block_id) (\<lambda>(res, dev).
     bnd (unwrap_res res) (\<lambda>_.
     bnd (kdo (ntfn_wait B blk_ntfn)) (\<lambda>_.
     bnd (kcall_unwrap (irq_handler_ack B blk_irq_handler)) (\<lambda>_.
     bnd (ack_interrupt B dev) (read_blocks B ids)))))"

definition blk_main :: "('k, 'd) blk_env \<Rightarrow> ('k hal_thread, unit) M" where
  "blk_main B =
     bnd (gets (mmio_transport_new B VIRTIO_MMIO_BLK_VIRT_ADDR)) (\<lambda>transport_ok.
     bnd (if transport_ok then ret () else stop Unwrap_err) (\<lambda>_.
     bnd (blk_new B VIRTIO_MMIO_BLK_VIRT_ADDR) (\<lambda>dev.
     bnd (expect_opt ''[BlockThread] failed to create blk driver'' dev) (\<lambda>dev.
     bnd (register_irq B blk_irq_handler blk_ntfn VIRTIO_NET_IRQ) (\<lambda>_.
     bnd (read_blocks B [0, 1] dev) (\<lambda>_.
     bnd (kcall_unwrap (tcb_suspend B (slot_TCB B))) (\<lambda>_.
     stop (Message ''entered unreachable code''))))))))"

section \<open>DMA memory is a stack\<close>

lemma translate_addr_keeps: "pwp (translate_addr S a) (\<lambda>_ t. \<exists>k b. t = s\<lparr>kern := k, ipcbuf := b\<rparr>) s"
  unfolding translate_addr_def get_regs_def upd_regs_def
  by (simp add: wp_simps) (auto simp: wp_def run_simps Let_def split: option.split RootMessageLabel.split)

lemma net_dma_alloc_Ret:
  assumes "net_dma_alloc S n s = (Ret r, t)"
  shows "snd r = DMA_ADDR s \<and> DMA_ADDR t = DMA_ADDR s + n * 4096"
proof -
  have "pwp (net_dma_alloc S n) (\<lambda>r t. snd r = DMA_ADDR s \<and> DMA_ADDR t = DMA_ADDR s + n * 4096) s"
    unfolding net_dma_alloc_def non_null_def
    by (simp add: wp_simps) (rule pwp_use [OF translate_addr_keeps], auto)
  then show ?thesis using pwp_Ret assms by fast
qed

lemma for_each_append: "for_each f (xs @ ys) = bnd (for_each f xs) (\<lambda>_. for_each f ys)"
  by (induction xs) (simp_all add: fun_eq_iff run_simps split: prod.split res.split)

text \<open>\<open>dma_dealloc\<close> of a region that was returned with its page count.\<close>

definition give_back :: "(usize \<times> usize) \<times> usize \<Rightarrow> (('k, 'z) hal_thread_scheme, unit) M" where
  "give_back r = bnd (net_dma_dealloc (fst (fst r)) (snd (fst r)) (snd r)) (\<lambda>_. ret ())"

lemma give_back_run:
  "give_back r s = (if snd (fst r) + snd r * 4096 = DMA_ADDR s then (Ret (), s\<lparr>DMA_ADDR := snd (fst r)\<rparr>)
     else (Panic Assert_failed, s))"
  by (simp add: give_back_def net_dma_dealloc_def run_simps)

lemma unat_pages:
  fixes a n :: usize
  assumes "unat a + unat n * 4096 < 2 ^ 64"
  shows "unat (a + n * 4096) = unat a + unat n * 4096"
proof -
  have "unat (n * 4096) = unat n * 4096"
    using assms by (simp add: unat_word_ariths)
  then show ?thesis using assms by (simp add: unat_add_small)
qed

lemma dma_regions:
  assumes "map_each (net_dma_alloc S) ns s = (Ret rs, t)"
    and "unat (DMA_ADDR s) + sum_list (map unat ns) * 4096 < 2 ^ 64"
  shows "length rs = length ns \<and> unat (DMA_ADDR t) = unat (DMA_ADDR s) + sum_list (map unat ns) * 4096
     \<and> (\<forall>j < length ns. unat (DMA_ADDR s) \<le> unat (snd (rs ! j))
         \<and> unat (snd (rs ! j)) + unat (ns ! j) * 4096 \<le> unat (DMA_ADDR t)
         \<and> (\<forall>i < j. unat (snd (rs ! i)) + unat (ns ! i) * 4096 \<le> unat (snd (rs ! j))))"
  using assms
proof (induction ns arbitrary: s rs)
  case (Cons n ns)
  obtain r s1 rs' where r: "net_dma_alloc S n s = (Ret r, s1)" and rs': "map_each (net_dma_alloc S) ns s1 = (Ret rs', t)"
    and rs: "rs = r # rs'"
    using Cons.prems(1) by (auto simp: bnd_Ret_iff run_ret)
  have va: "snd r = DMA_ADDR s" and s1: "unat (DMA_ADDR s1) = unat (DMA_ADDR s) + unat n * 4096"
    using net_dma_alloc_Ret [OF r] Cons.prems(2) by (simp_all add: unat_pages)
  have "unat (DMA_ADDR s1) + sum_list (map unat ns) * 4096 < 2 ^ 64"
    using Cons.prems(2) s1 by simp
  from Cons.IH [OF rs' this] show ?case
    unfolding rs by (auto simp: s1 va nth_Cons split: nat.splits)
qed (simp add: run_ret)

lemma dma_give_back:
  "map_each (net_dma_alloc S) ns s = (Ret rs, t) \<Longrightarrow>
     for_each give_back (rev (zip rs ns)) t = (Ret (), t\<lparr>DMA_ADDR := DMA_ADDR s\<rparr>)"
proof (induction ns arbitrary: s rs)
  case (Cons n ns)
  obtain r s1 rs' where r: "net_dma_alloc S n s = (Ret r, s1)" and rs': "map_each (net_dma_alloc S) ns s1 = (Ret rs', t)"
    and rs: "rs = r # rs'"
    using Cons.prems by (auto simp: bnd_Ret_iff run_ret)
  show ?case
    using net_dma_alloc_Ret [OF r] Cons.IH [OF rs'] by (simp add: rs for_each_append run_bnd give_back_run run_ret)
qed (simp add: run_ret)

text \<open>C18. The DMA memory of the network thread is a stack. Regions that are allocated one after the
  other lie above one another without overlap as long as they do not run past the end of the
  address space, and giving them back in reverse order restores the allocator; giving back any
  region but the last one panics.\<close>

theorem dma_memory_is_a_stack:
  assumes "map_each (net_dma_alloc S) ns s = (Ret rs, t)"
    and "unat (DMA_ADDR s) + sum_list (map unat ns) * 4096 < 2 ^ 64"
  shows "length rs = length ns
    \<and> (\<forall>j < length ns. unat (DMA_ADDR s) \<le> unat (snd (rs ! j))
         \<and> unat (snd (rs ! j)) + unat (ns ! j) * 4096 \<le> unat (DMA_ADDR t)
         \<and> (\<forall>i < j. unat (snd (rs ! i)) + unat (ns ! i) * 4096 \<le> unat (snd (rs ! j))))
    \<and> for_each give_back (rev (zip rs ns)) t = (Ret (), t\<lparr>DMA_ADDR := DMA_ADDR s\<rparr>)
    \<and> (\<forall>r. snd (fst r) + snd r * 4096 \<noteq> DMA_ADDR t \<longrightarrow> give_back r t = (Panic Assert_failed, t))"
proof -
  have "\<forall>r. snd (fst r) + snd r * 4096 \<noteq> DMA_ADDR t \<longrightarrow> give_back r t = (Panic Assert_failed, t)"
    by (simp add: give_back_run)
  then show ?thesis using dma_regions [OF assms] dma_give_back [OF assms(1)] by blast
qed

definition ref_hal_thread :: "ref_state hal_thread" where
  "ref_hal_thread = \<lparr>kern = ref_init, ipcbuf = \<lparr>msg_regs = (\<lambda>_. 0), caps_or_badges = (\<lambda>_. 0), recv_slot = None\<rparr>,
     DMA_ADDR = net_DMA_ADDR_init\<rparr>"

lemma ref_dma_alloc:
  "\<exists>t. map_each (net_dma_alloc ref_kernel) [1, 2] ref_hal_thread
      = (Ret [(0x100004000, 0x100004000), (0x100005000, 0x100005000)], t)"
  by (simp add: net_dma_alloc_def translate_addr_def non_null_def run_simps Let_def root_build_def root_to_label_def
      Root_LABEL_START_def root_try_from_def root_decode_def ref_label_kept net_DMA_ADDR_init_def ref_hal_thread_def const_defs)

theorem dma_memory_is_a_stack_witness:
  "\<exists>t. map_each (net_dma_alloc ref_kernel) [1, 2] ref_hal_thread
     = (Ret [(0x100004000, 0x100004000), (0x100005000, 0x100005000)], t)
   \<and> for_each give_back [((0x100005000, 0x100005000), 2), ((0x100004000, 0x100004000), 1)] t
     = (Ret (), t\<lparr>DMA_ADDR := 0x100004000\<rparr>)"
proof -
  obtain t where t: "map_each (net_dma_alloc ref_kernel) [1, 2] ref_hal_thread
      = (Ret [(0x100004000, 0x100004000), (0x100005000, 0x100005000)], t)" using ref_dma_alloc by blast
  show ?thesis
    using dma_memory_is_a_stack [OF t] t by (simp add: net_DMA_ADDR_init_def ref_hal_thread_def const_defs)
qed

end
