(* ===== verification/Root_Task.thy ===== *)
theory Root_Task
  imports Task_Helper Drivers
begin

text \<open>
  \<^verbatim>\<open>src/crates/root-task\<close>: the initial thread. It splits the untyped memory, rebuilds its CSpace,
  builds and starts the kernel thread, the block thread and the network thread, and then serves
  their requests. What the kernel puts in \<open>BootInfo\<close>, the embedded ELF images and the linker's
  addresses are fields of \<open>renv\<close>.
\<close>

record untyped_desc =
  ud_is_device :: bool
  ud_size_bits :: nat
  ud_paddr :: usize

record 'k renv = "'k sel4" +
  bi_untyped_list :: "untyped_desc list"
  bi_untyped_start :: usize
  bi_device_untyped :: "nat \<times> nat"
  bi_kernel_untyped_start :: nat
  bi_empty :: "usize \<times> usize"
  bi_user_image_frames_start :: usize
  bin_kernel_thread :: "u8 list"
  bin_block_thread :: "u8 list"
  bin_net_thread :: "u8 list"
  r_free_page_placeholder :: usize
  r_executable_start :: usize
  r_object_parse :: "u8 list \<Rightarrow> segment list option"
  r_elf_parse :: "u8 list \<Rightarrow> elf_file option"

definition TASK_FILES :: "'k renv \<Rightarrow> u8 list list" where
  "TASK_FILES R = [bin_kernel_thread R, bin_block_thread R, bin_net_thread R]"

definition VIRTIO_MMIO_ADDR :: usize where "VIRTIO_MMIO_ADDR = 0xa003e00"

section \<open>utils.rs and task.rs\<close>

definition get_user_image_frame_slot :: "'k renv \<Rightarrow> usize \<Rightarrow> cptr" where
  "get_user_image_frame_slot R addr =
     bi_user_image_frames_start R + (addr div GRANULE_SIZE R - r_executable_start R div GRANULE_SIZE R)"

definition root_init_free_page_addr :: "'k renv \<Rightarrow> (('k, 'z) sys_scheme, usize) M" where
  "root_init_free_page_addr R =
     (let addr = r_free_page_placeholder R in
      bnd (kcall_unwrap (frame_unmap R (get_user_image_frame_slot R addr))) (\<lambda>_. ret addr))"

definition root_abs_cptr :: "'k renv \<Rightarrow> cptr \<Rightarrow> abs_cptr" where
  "root_abs_cptr R path = Relative (slot_CNODE R) path"

definition root_helper :: "'k renv \<Rightarrow> ('k, 'z) task_helper" where
  "root_helper R = \<lparr>DEFAULT_STACK_TOP = 0x100000000, allocate_pt = allocate_fixed R BP_PT,
     allocate_page = allocate_fixed R BP_Granule\<rparr>"

definition rebuild_cspace :: "'k renv \<Rightarrow> ('k root_sys, unit) M" where
  "rebuild_cspace R =
     bnd (allocate_variable_sized_origin R (BP_CNode CNODE_RADIX_BITS)) (\<lambda>cn.
     bnd (kcall_unwrap (cnode_mint R (Relative_bits cn 0 CNODE_RADIX_BITS)
            (Relative (slot_CNODE R) (slot_CNODE R)) rights_all (cap_data_skip R 0))) (\<lambda>_.
     bnd (kcall_unwrap (cnode_mutate R (Relative (slot_CNODE R) 0)
            (Relative (slot_CNODE R) (slot_CNODE R)) (cap_data_skip_high_bits R CNODE_RADIX_BITS))) (\<lambda>_.
     bnd (kcall_unwrap (cnode_mint R (Relative 0 (slot_CNODE R)) (Relative 0 cn) rights_all
            (cap_data_skip_high_bits R (CNODE_RADIX_BITS * 2)))) (\<lambda>_.
     bnd (kcall_unwrap (cnode_delete R (Relative (slot_CNODE R) 0))) (\<lambda>_.
     kcall_unwrap (tcb_set_space R (slot_TCB R) 0 cn (cap_data_skip_high_bits R (2 * CNODE_RADIX_BITS)) (slot_VSPACE R)))))))"

definition make_child_vspace ::
  "'k renv \<Rightarrow> cptr \<Rightarrow> (usize, cptr) btree \<Rightarrow> segment list \<Rightarrow> cptr \<Rightarrow> usize \<Rightarrow> cptr \<Rightarrow>
     ('k root_sys, (cptr \<times> usize \<times> cptr) \<times> (usize, cptr) btree) M" where
  "make_child_vspace R cn pages img caller_vspace free_page_addr asid_pool =
     bnd (allocate_cnode R CNODE_RADIX_BITS) (\<lambda>inner_cnode.
     bnd (allocate_fixed R BP_VSpace) (\<lambda>child_vspace.
     bnd (kcall_unwrap (cnode_mutate R (Relative_bits cn 0 CNODE_RADIX_BITS) (root_abs_cptr R inner_cnode) (cap_data_skip R 0))) (\<lambda>_.
     bnd (kcall_unwrap (cnode_mutate R (root_abs_cptr R 0) (root_abs_cptr R cn) (cap_data_skip_high_bits R (2 * CNODE_RADIX_BITS)))) (\<lambda>_.
     bnd (kcall_unwrap (cnode_mutate R (root_abs_cptr R cn) (root_abs_cptr R 0) (cap_data_skip_high_bits R (2 * CNODE_RADIX_BITS)))) (\<lambda>_.
     bnd (kcall_unwrap (asid_pool_assign R asid_pool child_vspace)) (\<lambda>_.
     bnd (footprint R img) (\<lambda>fp.
     bnd (map_intermediate_translation_tables R child_vspace (fst fp, snd fp + GRANULE_SIZE R)) (\<lambda>_.
     bnd (map_image R pages child_vspace fp img caller_vspace free_page_addr) (\<lambda>pages'.
     let ipc_buffer_addr = snd fp in
     bnd (allocate_fixed R BP_Granule) (\<lambda>ipc_buffer_cap.
     bnd (kcall_unwrap (frame_map R ipc_buffer_cap child_vspace ipc_buffer_addr rights_all)) (\<lambda>_.
     ret ((child_vspace, ipc_buffer_addr, ipc_buffer_cap), bt_insert ipc_buffer_addr ipc_buffer_cap pages'))))))))))))"

definition build_kernel_thread ::
  "'k renv \<Rightarrow> cptr \<Rightarrow> u64 \<Rightarrow> cptr \<Rightarrow> u8 list \<Rightarrow> usize \<Rightarrow> ('k root_sys, sel4_error + helper_task) M" where
  "build_kernel_thread R fault_ep badge irq_ep file_data free_page_addr =
     bnd (allocate_cnode R CNODE_RADIX_BITS) (\<lambda>cn.
     bnd (unwrap_opt (r_object_parse R file_data)) (\<lambda>img.
     bnd (make_child_vspace R cn [] img (slot_VSPACE R) free_page_addr (slot_ASID_POOL R))
       (\<lambda>((vs, ipc_buffer_addr, ipc_buffer_cap), pages).
     bnd (allocate_fixed R BP_Tcb) (\<lambda>tc.
     bnd (helper_new R (root_helper R) tc cn fault_ep vs pages badge irq_ep) (\<lambda>task.
     try_bnd (helper_configure R task (2 * CNODE_RADIX_BITS) ipc_buffer_addr ipc_buffer_cap) (\<lambda>_.
     bnd (helper_map_stack R (root_helper R) task 10) (\<lambda>task.
     try_bnd (kcall (tcb_set_sched_params R (h_tcb task) (slot_TCB R) 255 255)) (\<lambda>_.
     bnd (expect_opt ''parse elf error'' (r_elf_parse R file_data)) (\<lambda>file.
     bnd (with_context R (root_helper R) task file) (\<lambda>_.
     ret (Okay task)))))))))))"

definition run_tasks :: "'k renv \<Rightarrow> helper_task list \<Rightarrow> ('k root_sys, unit) M" where
  "run_tasks R tasks = for_each (helper_run R) tasks"

section \<open>Untyped memory\<close>

text \<open>\<open>partition_point(is_device)\<close> of a list whose devices come first, and \<open>sort_by\<close> (stable).\<close>

definition mem_untyped_start :: "'k renv \<Rightarrow> usize" where
  "mem_untyped_start R = bi_untyped_start R + of_nat (length (takeWhile ud_is_device (bi_untyped_list R)))"

text \<open>A slice \<open>xs[a..b]\<close> panics unless \<open>a <= b <= xs.len()\<close>.\<close>

definition slice :: "nat \<Rightarrow> nat \<Rightarrow> 'a list \<Rightarrow> ('s, 'a list) M" where
  "slice a b xs = (if a \<le> b \<and> b \<le> length xs then ret (take (b - a) (drop a xs)) else stop Index_out_of_bounds)"

definition mem_untypes :: "'k renv \<Rightarrow> ('s, (nat \<times> untyped_desc) list) M" where
  "mem_untypes R =
     bnd (slice (bi_kernel_untyped_start R) (length (bi_untyped_list R)) (bi_untyped_list R)) (\<lambda>us.
     ret (sort_key (\<lambda>p. ud_size_bits (snd p)) (enumerate 0 us)))"

definition pop_untyped :: "'k renv \<Rightarrow> string \<Rightarrow> (nat \<times> untyped_desc) list \<Rightarrow> ('s, cptr \<times> (nat \<times> untyped_desc) list) M" where
  "pop_untyped R msg us =
     (if us = [] then stop (Message msg)
      else ret (mem_untyped_start R + of_nat (fst (last us)), butlast us))"

section \<open>Devices\<close>

definition in_device :: "untyped_desc \<Rightarrow> usize \<Rightarrow> bool" where
  "in_device d a \<longleftrightarrow> ud_paddr d \<le> a \<and> a < ud_paddr d + push_bit (ud_size_bits d) 1"

primrec find_device :: "nat \<Rightarrow> untyped_desc list \<Rightarrow> (nat \<times> untyped_desc) option" where
  "find_device i [] = None"
| "find_device i (d # ds) = (if in_device d VIRTIO_MMIO_ADDR then Some (i, d) else find_device (Suc i) ds)"

primrec map_device_loop ::
  "'k renv \<Rightarrow> nat \<Rightarrow> cptr \<Rightarrow> helper_task \<Rightarrow> ('k root_sys, unit) M" where
  "map_device_loop R 0 frame t = no_fuel"
| "map_device_loop R (Suc n) frame t =
     bnd (kcall (frame_map R frame (h_vspace t) VIRTIO_MMIO_VIRT_ADDR rights_all)) (\<lambda>res.
     case res of
       Inr _ \<Rightarrow> ret ()
     | Inl e \<Rightarrow>
         (if e = FailedLookup then
            bnd (allocate_pt (root_helper R)) (\<lambda>pt.
            bnd (kcall_unwrap (pt_map R pt (h_vspace t) VIRTIO_MMIO_VIRT_ADDR)) (\<lambda>_.
            bnd (push_pt (h_mapped_pt t) pt) (\<lambda>_.
            map_device_loop R n frame t)))
          else stop (Message ''[RootTask] map device memory failed'')))"

definition copy_to :: "'k renv \<Rightarrow> helper_task \<Rightarrow> u64 \<Rightarrow> cptr \<Rightarrow> ('k root_sys, unit) M" where
  "copy_to R t slot cap = kcall_unwrap (cnode_copy R (task_abs_cptr t slot) (root_abs_cptr R cap) rights_all)"

definition map_dma :: "'k renv \<Rightarrow> nat \<Rightarrow> helper_task \<Rightarrow> ('k root_sys, helper_task) M" where
  "map_dma R n t = helper_map_pages R (root_helper R) (map (\<lambda>i. DMA_ADDR_START + of_nat i * PAGE_SIZE) [0 ..< n]) t"

section \<open>Preparation of the threads\<close>

primrec build_tasks ::
  "'k renv \<Rightarrow> cptr \<Rightarrow> cptr \<Rightarrow> u8 list list \<Rightarrow> helper_task list \<Rightarrow> ('k root_sys, sel4_error + helper_task list) M" where
  "build_tasks R fault_ep irq_ep [] tasks = ret (Okay tasks)"
| "build_tasks R fault_ep irq_ep (f # fs) tasks =
     bnd (root_init_free_page_addr R) (\<lambda>addr.
     try_bnd (build_kernel_thread R fault_ep (of_nat (length tasks)) irq_ep f addr) (\<lambda>t.
     build_tasks R fault_ep irq_ep fs (tasks @ [t])))"

text \<open>The block thread: endpoint, notification, device memory, two pages for DMA.\<close>

definition prepare_blk :: "'k renv \<Rightarrow> nat \<Rightarrow> helper_task \<Rightarrow> helper_task \<Rightarrow> ('k root_sys, cptr \<times> helper_task) M" where
  "prepare_blk R fuel_left kt bt =
     bnd (allocate_fixed R BP_Endpoint) (\<lambda>blk_dev_ep.
     bnd (allocate_fixed R BP_Notification) (\<lambda>blk_irq_not.
     bnd (copy_to R kt (DEFAULT_CUSTOM_SLOT + 1) blk_dev_ep) (\<lambda>_.
     bnd (copy_to R bt DEFAULT_CUSTOM_SLOT blk_irq_not) (\<lambda>_.
     bnd (copy_to R bt (DEFAULT_CUSTOM_SLOT + 2) blk_dev_ep) (\<lambda>_.
     bnd (slice (fst (bi_device_untyped R)) (snd (bi_device_untyped R)) (bi_untyped_list R)) (\<lambda>devs.
     bnd (expect_opt ''[RootTask] can't find device memory'' (find_device 0 devs)) (\<lambda>(idx, desc).
     bnd (assert_that (ud_is_device desc)) (\<lambda>_.
     let untyped = bi_untyped_start R + of_nat idx in
     bnd (allocate_slot R) (\<lambda>(slot_index, cnode_index, frame).
     bnd (kcall_unwrap (untyped_retype R untyped BP_LargePage (Relative_bits (slot_CNODE R) cnode_index 52) slot_index 1)) (\<lambda>_.
     bnd (kcall_unwrap (frame_get_address R frame)) (\<lambda>paddr.
     bnd (assert_that (paddr < VIRTIO_MMIO_ADDR)) (\<lambda>_.
     bnd (map_device_loop R fuel_left frame bt) (\<lambda>_.
     bnd (map_dma R 2 bt) (\<lambda>bt'.
     ret (frame, bt')))))))))))))))"

definition prepare_net :: "'k renv \<Rightarrow> nat \<Rightarrow> cptr \<Rightarrow> helper_task \<Rightarrow> helper_task \<Rightarrow> ('k root_sys, helper_task) M" where
  "prepare_net R fuel_left blk_frame kt nt =
     bnd (allocate_fixed R BP_Endpoint) (\<lambda>net_dev_ep.
     bnd (allocate_fixed R BP_Notification) (\<lambda>net_irq_not.
     bnd (copy_to R kt (DEFAULT_CUSTOM_SLOT + 2) net_dev_ep) (\<lambda>_.
     bnd (copy_to R nt DEFAULT_CUSTOM_SLOT net_irq_not) (\<lambda>_.
     bnd (copy_to R nt (DEFAULT_CUSTOM_SLOT + 2) net_dev_ep) (\<lambda>_.
     bnd (allocate_slot R) (\<lambda>(_, _, frame).
     bnd (kcall_unwrap (cnode_copy R (root_abs_cptr R frame) (root_abs_cptr R blk_frame) rights_all)) (\<lambda>_.
     bnd (kcall_unwrap (frame_get_address R frame)) (\<lambda>paddr.
     bnd (assert_that (paddr < VIRTIO_MMIO_ADDR)) (\<lambda>_.
     bnd (map_device_loop R fuel_left frame nt) (\<lambda>_.
     map_dma R 32 nt))))))))))"

definition boot :: "'k renv \<Rightarrow> nat \<Rightarrow> ('k root_sys, sel4_error + (cptr \<times> cptr \<times> cptr \<times> helper_task list)) M" where
  "boot R fuel_left =
     bnd (mem_untypes R) (\<lambda>mem.
     bnd (pop_untyped R ''[RootTask] No untyped memory for kernel thread'' mem) (\<lambda>(kernel_untyped, us).
     bnd (pop_untyped R ''[RootTask] No untyped memory for root task'' us) (\<lambda>(root_untyped, us').
     bnd (allocator_init (fst (bi_empty R)) (snd (bi_empty R)) root_untyped) (\<lambda>_.
     bnd (rebuild_cspace R) (\<lambda>_.
     bnd (allocate_fixed R BP_Endpoint) (\<lambda>fault_ep.
     bnd (allocate_fixed R BP_Endpoint) (\<lambda>irq_ep.
     bnd allocate_normal_cap (\<lambda>common_irq_handler.
     try_bnd (build_tasks R fault_ep irq_ep (TASK_FILES R) []) (\<lambda>tasks.
     (case tasks of
        [kt, bt, nt] \<Rightarrow>
          bnd (copy_to R kt DEFAULT_CUSTOM_SLOT kernel_untyped) (\<lambda>_.
          bnd (prepare_blk R fuel_left kt bt) (\<lambda>(frame, bt').
          bnd (prepare_net R fuel_left frame kt nt) (\<lambda>nt'.
          bnd (run_tasks R [kt, bt', nt']) (\<lambda>_.
          ret (Okay (fault_ep, irq_ep, common_irq_handler, [kt, bt', nt']))))))
      | _ \<Rightarrow> stop Index_out_of_bounds))))))))))"

section \<open>Requests\<close>

definition task_of_badge :: "helper_task list \<Rightarrow> badge \<Rightarrow> ('s, helper_task) M" where
  "task_of_badge tasks badge =
     (if unat badge < length tasks then ret (tasks ! unat badge) else stop Index_out_of_bounds)"

definition root_register_irq :: "'k renv \<Rightarrow> helper_task list \<Rightarrow> badge \<Rightarrow> cptr \<Rightarrow> u64 \<Rightarrow> ('k root_sys, unit) M" where
  "root_register_irq R tasks badge irq_handler irq_num =
     bnd (task_of_badge tasks badge) (\<lambda>t.
     bnd (kcall_unwrap (irq_control_get R (slot_IRQ_CONTROL R) irq_num (Relative (h_cnode t) irq_handler))) (\<lambda>_.
     reply_ipc R (mi_new R 0 0 0 0)))"

definition root_register_irq_with_cap :: "'k renv \<Rightarrow> cptr \<Rightarrow> cptr \<Rightarrow> u64 \<Rightarrow> ('k root_sys, unit) M" where
  "root_register_irq_with_cap R irq_ep common_irq_handler irq_num =
     bnd (reply_ipc R (mi_new R 0 0 0 0)) (\<lambda>_.
     bnd (kcall_unwrap (irq_control_get R (slot_IRQ_CONTROL R) irq_num (Relative (slot_CNODE R) common_irq_handler))) (\<lambda>_.
     bnd (set_cap_reg 0 common_irq_handler) (\<lambda>_.
     bnd (call_ep R irq_ep (mi_new R 0 0 1 0)) (\<lambda>_. ret ()))))"

definition root_translate_addr :: "'k renv \<Rightarrow> helper_task list \<Rightarrow> badge \<Rightarrow> usize \<Rightarrow> ('k root_sys, unit) M" where
  "root_translate_addr R tasks badge addr =
     bnd (task_of_badge tasks badge) (\<lambda>t.
     bnd (unwrap_opt (bt_get (h_mapped_page t) (addr AND NOT 0xfff))) (\<lambda>page.
     bnd (kcall_unwrap (frame_get_address R page)) (\<lambda>phys_addr.
     bnd get_regs (\<lambda>regs.
     bnd (upd_regs (\<lambda>_. snd (root_build R (TranslateAddr (phys_addr + addr mod 0x1000)) regs))) (\<lambda>_.
     reply_ipc R (fst (root_build R (TranslateAddr (phys_addr + addr mod 0x1000)) regs)))))))"

definition root_handle :: "'k renv \<Rightarrow> cptr \<Rightarrow> cptr \<Rightarrow> helper_task list \<Rightarrow> message_info \<Rightarrow> badge \<Rightarrow> ('k root_sys, unit) M" where
  "root_handle R irq_ep common_irq_handler tasks message badge =
     bnd get_regs (\<lambda>regs.
     case root_try_from R message regs of
       Some (RegisterIRQ irq_handler irq_num) \<Rightarrow> root_register_irq R tasks badge irq_handler irq_num
     | Some (RegisterIRQWithCap irq_num) \<Rightarrow> root_register_irq_with_cap R irq_ep common_irq_handler irq_num
     | Some (TranslateAddr addr) \<Rightarrow> root_translate_addr R tasks badge addr
     | None \<Rightarrow> ret ())"

definition root_serve :: "'k renv \<Rightarrow> cptr \<Rightarrow> cptr \<Rightarrow> cptr \<Rightarrow> helper_task list \<Rightarrow> ('k root_sys, unit) M" where
  "root_serve R fault_ep irq_ep common_irq_handler tasks =
     bnd (recv_ep R fault_ep) (\<lambda>(message, badge).
     root_handle R irq_ep common_irq_handler tasks message badge)"

primrec root_loop :: "'k renv \<Rightarrow> cptr \<Rightarrow> cptr \<Rightarrow> cptr \<Rightarrow> helper_task list \<Rightarrow> nat \<Rightarrow> ('k root_sys, unit) M" where
  "root_loop R fault_ep irq_ep h tasks 0 = no_fuel"
| "root_loop R fault_ep irq_ep h tasks (Suc n) =
     bnd (root_serve R fault_ep irq_ep h tasks) (\<lambda>_. root_loop R fault_ep irq_ep h tasks n)"

definition root_main :: "'k renv \<Rightarrow> nat \<Rightarrow> nat \<Rightarrow> ('k root_sys, sel4_error + unit) M" where
  "root_main R fuel_left rounds =
     try_bnd (boot R fuel_left) (\<lambda>(fault_ep, irq_ep, h, tasks).
     bnd (root_loop R fault_ep irq_ep h tasks rounds) (\<lambda>_. ret (Okay ())))"

section \<open>The DMA region\<close>

lemma page_of_address: "a AND NOT 0xfff = a - a mod 4096" for a :: usize
  using align_bits_12 [of a] by (simp add: align_bits_def push_bit_eq_mult)

lemma dma_pages_mapped:
  assumes "map_dma R n t s = (Ret t', s')" and "bt_ok (h_mapped_page t)" and "n \<le> 2 ^ 20"
    and "unat DMA_ADDR_START \<le> unat a" and "unat a < unat DMA_ADDR_START + n * 4096"
  shows "\<exists>page. bt_get (h_mapped_page t') (a AND NOT 0xfff) = Some page"
proof -
  have "dom (bt_get (h_mapped_page t')) =
      dom (bt_get (h_mapped_page t)) \<union> set (map (\<lambda>i. DMA_ADDR_START + of_nat i * PAGE_SIZE) [0 ..< n])"
    using pwp_Ret [OF pwp_helper_map_pages [OF assms(2)] assms(1) [unfolded map_dma_def]] by blast
  moreover have "a AND NOT 0xfff \<in> set (map (\<lambda>i. DMA_ADDR_START + of_nat i * PAGE_SIZE) [0 ..< n])"
  proof -
    let ?i = "(unat a - unat DMA_ADDR_START) div 4096"
    have i: "?i < n" using assms(4,5) by (simp add: div_less_iff_less_mult)
    have start: "unat DMA_ADDR_START = 0x100003 * 4096" by (simp add: DMA_ADDR_START_def)
    have "unat (of_nat ?i :: usize) = ?i" using i assms(3) by (intro unat_of_nat_small) simp
    then have "unat (DMA_ADDR_START + of_nat ?i * 4096) = unat DMA_ADDR_START + ?i * 4096"
      using i assms(3) by (subst unat_pages) (simp_all add: start)
    also have "\<dots> = unat a div 4096 * 4096"
    proof -
      obtain d where d: "unat a = 0x100003 * 4096 + d" using assms(4) unfolding start by (rule le_Suc_ex [THEN exE])
      have "(0x100003 * 4096 + d) div 4096 = 0x100003 + d div 4096" by (rule div_mult_self3) simp
      then show ?thesis unfolding d start by (simp only: diff_add_inverse add_mult_distrib)
    qed
    finally have "a AND NOT 0xfff = DMA_ADDR_START + of_nat ?i * PAGE_SIZE"
      unfolding page_of_address word_unat_eq_iff by (simp add: unat_align)
    then show ?thesis using i by auto
  qed
  ultimately show ?thesis by (metis (no_types, lifting) UnCI domD)
qed

end
