(* ===== verification/Shim.thy ===== *)
theory Shim
  imports Sys_Thread Messages Elf_Image
begin

text \<open>
  \<^verbatim>\<open>src/crates/shim\<close> and \<^verbatim>\<open>src/crates/test-thread\<close>: the code that runs inside a user task. Linux
  system calls are redirected to \<open>vsyscall_handler\<close>, which turns them into messages to the
  kernel thread; \<open>main\<close> of both programs is a sequence of such calls. The two programs have
  a handler of their own each, with the same text (\<open>test_handler_same\<close>).

  The state has the TLS register \<open>tpidr_el0\<close>, the statics \<open>TP_REG\<close> and \<open>EP_CPTR\<close>, and the address
  of the IPC buffer that the program gave to the \<^verbatim>\<open>sel4\<close> crate. The
  numbers of the system calls (crate \<^verbatim>\<open>syscalls\<close>) and addresses chosen by the linker or the
  compiler are fields of \<open>shim_env\<close>.
\<close>

record 'k user_thread = "'k sys" +
  tpidr_el0 :: usize
  TP_REG :: usize
  EP_CPTR :: u64
  ipc_buffer_ptr :: usize

record 'k shim_env = "'k sel4" +
  sysno_id :: "sysno \<Rightarrow> u64"
  thread_fn_addr :: usize
  clone_args_addr :: usize
  bytes_of_clone_args :: "clone_args \<Rightarrow> u8 list"
  image_end_addr :: usize

section \<open>The handler\<close>

definition SHIM_WORD_SIZE :: usize where "SHIM_WORD_SIZE = 8"

definition load_tp_reg :: "('k user_thread, usize) M" where
  "load_tp_reg = gets tpidr_el0"

definition set_tp_reg :: "usize \<Rightarrow> ('k user_thread, unit) M" where
  "set_tp_reg tp = modify (\<lambda>s. s\<lparr>tpidr_el0 := tp\<rparr>)"

definition syscall_info :: "'k shim_env \<Rightarrow> message_info" where
  "syscall_info U = mi_new U (custom_to_label SysCall) 0 0 (7 * SHIM_WORD_SIZE)"

definition call_kernel :: "'k shim_env \<Rightarrow> ('k user_thread, message_info) M" where
  "call_kernel U = bnd (gets EP_CPTR) (\<lambda>ep. call_ep U ep (syscall_info U))"

definition get_tid :: "'k shim_env \<Rightarrow> ('k user_thread, u64) M" where
  "get_tid U =
     bnd (upd_regs (\<lambda>msgs. msgs(0 := sysno_id U Sys_gettid))) (\<lambda>_.
     bnd (call_kernel U) (\<lambda>_.
     bnd get_regs (\<lambda>msgs. ret (msgs 0))))"

definition syscall_regs :: "usize \<Rightarrow> usize \<Rightarrow> usize \<Rightarrow> usize \<Rightarrow> usize \<Rightarrow> usize \<Rightarrow> usize \<Rightarrow> regs \<Rightarrow> regs" where
  "syscall_regs nr a b c d e f msgs = msgs(0 := nr, 1 := a, 2 := b, 3 := c, 4 := d, 5 := e, 6 := f)"

definition vsyscall_result :: "'k shim_env \<Rightarrow> usize \<Rightarrow> message_info \<Rightarrow> ('k user_thread, usize) M" where
  "vsyscall_result U tp message =
     bnd (assert_that (mi_length U message = SHIM_WORD_SIZE)) (\<lambda>_.
     bnd get_regs (\<lambda>msgs.
     bnd (set_tp_reg tp) (\<lambda>_.
     ret (msgs 0))))"

definition vsyscall_handler ::
  "'k shim_env \<Rightarrow> usize \<Rightarrow> usize \<Rightarrow> usize \<Rightarrow> usize \<Rightarrow> usize \<Rightarrow> usize \<Rightarrow> usize \<Rightarrow> ('k user_thread, usize) M" where
  "vsyscall_handler U nr a b c d e f =
     bnd (if nr = sysno_id U Sys_clone then get_tid U else ret 0) (\<lambda>prev_id.
     bnd load_tp_reg (\<lambda>tp.
     bnd (gets TP_REG) (\<lambda>shim_tp.
     bnd (set_tp_reg shim_tp) (\<lambda>_.
     bnd (upd_regs (syscall_regs nr a b c d e f)) (\<lambda>_.
     bnd (call_kernel U) (\<lambda>message.
     if prev_id \<noteq> 0 then
       bnd (set_tp_reg tp) (\<lambda>_.
       bnd (get_tid U) (\<lambda>tid_now.
       if tid_now \<noteq> prev_id then ret 0 else vsyscall_result U tp message))
     else vsyscall_result U tp message))))))"

section \<open>The programs\<close>

definition THREAD_STACK_SIZE :: usize where "THREAD_STACK_SIZE = 0x1000"

definition hello_content :: "u8 list" where
  "hello_content = str_bytes ''Hello, World!''"

definition thread_fn :: "'k shim_env \<Rightarrow> ('k user_thread, unit) M" where
  "thread_fn U =
     bnd (vsyscall_handler U (sysno_id U Sys_mmap) 0x2000 0x1000 0b11 0b10000 0 0) (\<lambda>mmap_ptr.
     bnd (kdo (ptr_write U mmap_ptr hello_content)) (\<lambda>_.
     bnd (vsyscall_handler U (sysno_id U Sys_write) 1 mmap_ptr (of_nat (length hello_content)) 0 0 0) (\<lambda>_.
     bnd (vsyscall_handler U (sysno_id U Sys_exit) 0 0 0 0 0 0) (\<lambda>_. ret ()))))"

text \<open>The IPC buffer of a program is the page behind its image; \<open>_end\<close> is a symbol of the linker.\<close>

definition set_ipc_buffer_with_symbol :: "'k shim_env \<Rightarrow> ('k user_thread, unit) M" where
  "set_ipc_buffer_with_symbol U =
     (let ipc_buffer = next_multiple_of (image_end_addr U) (GRANULE_SIZE U) in
      if ipc_buffer = 0 then stop Unwrap_none else modify (\<lambda>s. s\<lparr>ipc_buffer_ptr := ipc_buffer\<rparr>))"

definition shim_setup :: "'k shim_env \<Rightarrow> ('k user_thread, unit) M" where
  "shim_setup U =
     bnd (set_ipc_buffer_with_symbol U) (\<lambda>_.
     bnd load_tp_reg (\<lambda>tp.
     bnd (modify (\<lambda>s. s\<lparr>TP_REG := tp, EP_CPTR := DEFAULT_THREAD_FAULT_EP\<rparr>)) (\<lambda>_.
     bnd (call_ep U DEFAULT_THREAD_FAULT_EP (mi_new U (custom_to_label TestCustomMessage) 0 0 0)) (\<lambda>_.
     ret ()))))"

definition shim_clone_args :: "'k shim_env \<Rightarrow> usize \<Rightarrow> clone_args" where
  "shim_clone_args U stack_ptr = clone_args_default\<lparr>ca_flags := 0x100, ca_init_fn := thread_fn_addr U,
     ca_stack := stack_ptr + THREAD_STACK_SIZE\<rparr>"

definition shim_main :: "'k shim_env \<Rightarrow> ('k user_thread, usize) M" where
  "shim_main U =
     bnd (shim_setup U) (\<lambda>_.
     bnd (vsyscall_handler U (sysno_id U Sys_mmap) 0x4000 THREAD_STACK_SIZE 0b11 0b10000 0 0) (\<lambda>stack_ptr.
     bnd (kdo (ptr_write U (clone_args_addr U) (bytes_of_clone_args U (shim_clone_args U stack_ptr)))) (\<lambda>_.
     bnd (vsyscall_handler U (sysno_id U Sys_clone) (clone_args_addr U) 0 0 0 0 0) (\<lambda>ret_val.
     if ret_val \<noteq> 0 then
       bnd (vsyscall_handler U (sysno_id U Sys_exit) 0 0 0 0 0 0) (\<lambda>_. stop (Message ''entered unreachable code''))
     else stop (Message ''Clone failed'')))))"

section \<open>The test program\<close>

definition test_get_tid :: "'k shim_env \<Rightarrow> ('k user_thread, u64) M" where
  "test_get_tid U =
     bnd (upd_regs (\<lambda>msgs. msgs(0 := sysno_id U Sys_gettid))) (\<lambda>_.
     bnd (gets EP_CPTR) (\<lambda>ep.
     bnd (call_ep U ep (mi_new U (custom_to_label SysCall) 0 0 (7 * SHIM_WORD_SIZE))) (\<lambda>_.
     bnd get_regs (\<lambda>msgs. ret (msgs 0)))))"

definition test_vsyscall_handler ::
  "'k shim_env \<Rightarrow> usize \<Rightarrow> usize \<Rightarrow> usize \<Rightarrow> usize \<Rightarrow> usize \<Rightarrow> usize \<Rightarrow> usize \<Rightarrow> ('k user_thread, usize) M" where
  "test_vsyscall_handler U nr a b c d e f =
     bnd (if nr = sysno_id U Sys_clone then test_get_tid U else ret 0) (\<lambda>prev_id.
     bnd load_tp_reg (\<lambda>tp.
     bnd (gets TP_REG) (\<lambda>shim_tp.
     bnd (set_tp_reg shim_tp) (\<lambda>_.
     bnd (upd_regs (\<lambda>msgs. msgs(0 := nr, 1 := a, 2 := b, 3 := c, 4 := d, 5 := e, 6 := f))) (\<lambda>_.
     bnd (gets EP_CPTR) (\<lambda>ep.
     bnd (call_ep U ep (mi_new U (custom_to_label SysCall) 0 0 (7 * SHIM_WORD_SIZE))) (\<lambda>message.
     bnd (if prev_id \<noteq> 0
          then bnd (set_tp_reg tp) (\<lambda>_. bnd (test_get_tid U) (\<lambda>now. ret (now \<noteq> prev_id)))
          else ret False) (\<lambda>in_child.
     if in_child then ret 0
     else
       bnd (assert_that (mi_length U message = SHIM_WORD_SIZE)) (\<lambda>_.
       bnd get_regs (\<lambda>msgs.
       bnd (set_tp_reg tp) (\<lambda>_. ret (msgs 0))))))))))))"

definition test_main :: "'k shim_env \<Rightarrow> ('k user_thread, usize) M" where
  "test_main U =
     bnd (shim_setup U) (\<lambda>_.
     bnd (test_vsyscall_handler U (sysno_id U Sys_mmap) 0x1000 0x1000 0b11 0b10000 0 0) (\<lambda>mmap_ptr.
     bnd (kdo (ptr_write U mmap_ptr hello_content)) (\<lambda>_.
     bnd (test_vsyscall_handler U (sysno_id U Sys_write) 1 mmap_ptr (of_nat (length hello_content)) 0 0 0) (\<lambda>_.
     bnd (kdo (ptr_write U (clone_args_addr U) (bytes_of_clone_args U clone_args_default))) (\<lambda>_.
     bnd (test_vsyscall_handler U (sysno_id U Sys_clone) (clone_args_addr U) 0 0 0 0 0) (\<lambda>ret_val.
     bnd (if ret_val \<noteq> 0 then test_vsyscall_handler U (sysno_id U Sys_exit) 0 0 0 0 0 0
          else test_vsyscall_handler U (sysno_id U Sys_execve) 0 0 0 0 0 0) (\<lambda>_.
     stop (Message ''entered unreachable code''))))))))"

text \<open>So everything that is shown of the handler of the shim holds of this one.\<close>

lemma test_get_tid_same: "test_get_tid U = get_tid U"
  by (simp add: test_get_tid_def get_tid_def call_kernel_def syscall_info_def bnd_assoc)

lemma test_handler_same: "test_vsyscall_handler U = vsyscall_handler U"
  by (intro ext) (simp add: test_vsyscall_handler_def vsyscall_handler_def vsyscall_result_def test_get_tid_same
      call_kernel_def syscall_info_def syscall_regs_def [abs_def] bnd_assoc bnd_ret if_distrib [of "\<lambda>m. bnd m f" for f] cong: if_cong)

end
