(* ===== verification/Ref_System.thy ===== *)
theory Ref_System
  imports Root_Task Shim Ref_Env
begin

text \<open>
  Concrete environments of the root task and of a user program on the reference kernel, for the
  witnesses of the properties that span threads.
\<close>

definition ref_root :: "ref_state renv" where
  "ref_root = sel4.extend ref_kernel (renv.fields
     [\<lparr>ud_is_device = True, ud_size_bits = 29, ud_paddr = 0\<rparr>, \<lparr>ud_is_device = False, ud_size_bits = 24, ud_paddr = 0x40000000\<rparr>, \<lparr>ud_is_device = False, ud_size_bits = 28, ud_paddr = 0x60000000\<rparr>]
     100
     (0, 1)
     1
     (200, 4000)
     10
     [1]
     [2]
     [3]
     0x400000
     0x200000
     (\<lambda>_. Some [ref_segment])
     (\<lambda>_. Some ref_elf))"

lemma ref_root_kernel [simp]:
  "mi_new ref_root = mi_new ref_kernel"
  "mi_label ref_root = mi_label ref_kernel"
  "mi_length ref_root = mi_length ref_kernel"
  "slot_NULL ref_root = slot_NULL ref_kernel"
  "slot_TCB ref_root = slot_TCB ref_kernel"
  "slot_CNODE ref_root = slot_CNODE ref_kernel"
  "slot_VSPACE ref_root = slot_VSPACE ref_kernel"
  "slot_IRQ_CONTROL ref_root = slot_IRQ_CONTROL ref_kernel"
  "slot_ASID_CONTROL ref_root = slot_ASID_CONTROL ref_kernel"
  "slot_ASID_POOL ref_root = slot_ASID_POOL ref_kernel"
  "NUM_LEVELS ref_root = NUM_LEVELS ref_kernel"
  "GRANULE_SIZE ref_root = GRANULE_SIZE ref_kernel"
  "span_bits ref_root = span_bits ref_kernel"
  "table_from_level ref_root = table_from_level ref_kernel"
  "untyped_retype ref_root = untyped_retype ref_kernel"
  "cnode_copy ref_root = cnode_copy ref_kernel"
  "cnode_mint ref_root = cnode_mint ref_kernel"
  "cnode_mutate ref_root = cnode_mutate ref_kernel"
  "cnode_revoke ref_root = cnode_revoke ref_kernel"
  "cnode_delete ref_root = cnode_delete ref_kernel"
  "asid_pool_assign ref_root = asid_pool_assign ref_kernel"
  "frame_map ref_root = frame_map ref_kernel"
  "frame_unmap ref_root = frame_unmap ref_kernel"
  "frame_get_address ref_root = frame_get_address ref_kernel"
  "pt_map ref_root = pt_map ref_kernel"
  "table_map ref_root = table_map ref_kernel"
  "cnode_cap_data ref_root = cnode_cap_data ref_kernel"
  "tcb_configure ref_root = tcb_configure ref_kernel"
  "tcb_set_sched_params ref_root = tcb_set_sched_params ref_kernel"
  "tcb_write_all_registers ref_root = tcb_write_all_registers ref_kernel"
  "tcb_read_all_registers ref_root = tcb_read_all_registers ref_kernel"
  "tcb_resume ref_root = tcb_resume ref_kernel"
  "tcb_suspend ref_root = tcb_suspend ref_kernel"
  "ep_call ref_root = ep_call ref_kernel"
  "ipc_reply ref_root = ipc_reply ref_kernel"
  "sel4_yield ref_root = sel4_yield ref_kernel"
  "debug_put_char ref_root = debug_put_char ref_kernel"
  "ptr_read ref_root = ptr_read ref_kernel"
  "ptr_write ref_root = ptr_write ref_kernel"
  "WORD_SIZE ref_root = WORD_SIZE ref_kernel"
  "cap_data_skip ref_root = cap_data_skip ref_kernel"
  "cap_data_skip_high_bits ref_root = cap_data_skip_high_bits ref_kernel"
  "tcb_set_space ref_root = tcb_set_space ref_kernel"
  "ep_recv ref_root = ep_recv ref_kernel"
  "irq_control_get ref_root = irq_control_get ref_kernel"
  "irq_handler_set_notification ref_root = irq_handler_set_notification ref_kernel"
  "irq_handler_ack ref_root = irq_handler_ack ref_kernel"
  "ntfn_wait ref_root = ntfn_wait ref_kernel"
  by (simp_all add: ref_root_def sel4.extend_def)

lemma ref_root_fields [simp]:
  "bi_untyped_list ref_root = [\<lparr>ud_is_device = True, ud_size_bits = 29, ud_paddr = 0\<rparr>, \<lparr>ud_is_device = False, ud_size_bits = 24, ud_paddr = 0x40000000\<rparr>, \<lparr>ud_is_device = False, ud_size_bits = 28, ud_paddr = 0x60000000\<rparr>]"
  "bi_untyped_start ref_root = 100"
  "bi_device_untyped ref_root = (0, 1)"
  "bi_kernel_untyped_start ref_root = 1"
  "bi_empty ref_root = (200, 4000)"
  "bi_user_image_frames_start ref_root = 10"
  "bin_kernel_thread ref_root = [1]"
  "bin_block_thread ref_root = [2]"
  "bin_net_thread ref_root = [3]"
  "r_free_page_placeholder ref_root = 0x400000"
  "r_executable_start ref_root = 0x200000"
  "r_object_parse ref_root = (\<lambda>_. Some [ref_segment])"
  "r_elf_parse ref_root = (\<lambda>_. Some ref_elf)"
  by (simp_all add: ref_root_def sel4.extend_def renv.fields_def)

text \<open>\<open>c\<close> is how the kernel thread answers a call.\<close>

fun ref_sysno_id :: "sysno \<Rightarrow> u64" where
  "ref_sysno_id Sys_write = 64"
| "ref_sysno_id Sys_mmap = 222"
| "ref_sysno_id Sys_exit = 93"
| "ref_sysno_id Sys_clone = 220"
| "ref_sysno_id Sys_gettid = 178"
| "ref_sysno_id Sys_execve = 221"
| "ref_sysno_id _ = 500"

definition ref_shim ::
  "(cptr \<Rightarrow> message_info \<Rightarrow> ipc_buffer \<Rightarrow> ref_state \<Rightarrow> (message_info \<times> ipc_buffer) \<times> ref_state) \<Rightarrow> ref_state shim_env" where
  "ref_shim c = sel4.extend (ref_kernel\<lparr>ep_call := c\<rparr>) (shim_env.fields ref_sysno_id 0x10000 0x20000 (\<lambda>_. []) 0x6fff8)"

lemma ref_shim_kernel [simp]:
  "mi_new (ref_shim c) = mi_new ref_kernel"
  "mi_label (ref_shim c) = mi_label ref_kernel"
  "mi_length (ref_shim c) = mi_length ref_kernel"
  "slot_NULL (ref_shim c) = slot_NULL ref_kernel"
  "slot_TCB (ref_shim c) = slot_TCB ref_kernel"
  "slot_CNODE (ref_shim c) = slot_CNODE ref_kernel"
  "slot_VSPACE (ref_shim c) = slot_VSPACE ref_kernel"
  "slot_IRQ_CONTROL (ref_shim c) = slot_IRQ_CONTROL ref_kernel"
  "slot_ASID_CONTROL (ref_shim c) = slot_ASID_CONTROL ref_kernel"
  "slot_ASID_POOL (ref_shim c) = slot_ASID_POOL ref_kernel"
  "NUM_LEVELS (ref_shim c) = NUM_LEVELS ref_kernel"
  "GRANULE_SIZE (ref_shim c) = GRANULE_SIZE ref_kernel"
  "span_bits (ref_shim c) = span_bits ref_kernel"
  "table_from_level (ref_shim c) = table_from_level ref_kernel"
  "untyped_retype (ref_shim c) = untyped_retype ref_kernel"
  "cnode_copy (ref_shim c) = cnode_copy ref_kernel"
  "cnode_mint (ref_shim c) = cnode_mint ref_kernel"
  "cnode_mutate (ref_shim c) = cnode_mutate ref_kernel"
  "cnode_revoke (ref_shim c) = cnode_revoke ref_kernel"
  "cnode_delete (ref_shim c) = cnode_delete ref_kernel"
  "asid_pool_assign (ref_shim c) = asid_pool_assign ref_kernel"
  "frame_map (ref_shim c) = frame_map ref_kernel"
  "frame_unmap (ref_shim c) = frame_unmap ref_kernel"
  "frame_get_address (ref_shim c) = frame_get_address ref_kernel"
  "pt_map (ref_shim c) = pt_map ref_kernel"
  "table_map (ref_shim c) = table_map ref_kernel"
  "cnode_cap_data (ref_shim c) = cnode_cap_data ref_kernel"
  "tcb_configure (ref_shim c) = tcb_configure ref_kernel"
  "tcb_set_sched_params (ref_shim c) = tcb_set_sched_params ref_kernel"
  "tcb_write_all_registers (ref_shim c) = tcb_write_all_registers ref_kernel"
  "tcb_read_all_registers (ref_shim c) = tcb_read_all_registers ref_kernel"
  "tcb_resume (ref_shim c) = tcb_resume ref_kernel"
  "tcb_suspend (ref_shim c) = tcb_suspend ref_kernel"
  "ipc_reply (ref_shim c) = ipc_reply ref_kernel"
  "sel4_yield (ref_shim c) = sel4_yield ref_kernel"
  "debug_put_char (ref_shim c) = debug_put_char ref_kernel"
  "ptr_read (ref_shim c) = ptr_read ref_kernel"
  "ptr_write (ref_shim c) = ptr_write ref_kernel"
  "WORD_SIZE (ref_shim c) = WORD_SIZE ref_kernel"
  "cap_data_skip (ref_shim c) = cap_data_skip ref_kernel"
  "cap_data_skip_high_bits (ref_shim c) = cap_data_skip_high_bits ref_kernel"
  "tcb_set_space (ref_shim c) = tcb_set_space ref_kernel"
  "ep_recv (ref_shim c) = ep_recv ref_kernel"
  "irq_control_get (ref_shim c) = irq_control_get ref_kernel"
  "irq_handler_set_notification (ref_shim c) = irq_handler_set_notification ref_kernel"
  "irq_handler_ack (ref_shim c) = irq_handler_ack ref_kernel"
  "ntfn_wait (ref_shim c) = ntfn_wait ref_kernel"
  by (simp_all add: ref_shim_def sel4.extend_def)

lemma ref_shim_fields [simp]:
  "ep_call (ref_shim c) = c"
  "sysno_id (ref_shim c) = ref_sysno_id"
  by (simp_all add: ref_shim_def sel4.extend_def shim_env.fields_def)

definition ref_user_thread :: "ref_state user_thread" where
  "ref_user_thread = \<lparr>kern = ref_init,
     ipcbuf = \<lparr>msg_regs = (\<lambda>_. 0), caps_or_badges = (\<lambda>_. 0), recv_slot = None\<rparr>,
     tpidr_el0 = 0x7000, TP_REG = 0x8000, EP_CPTR = DEFAULT_THREAD_FAULT_EP, ipc_buffer_ptr = 0x70000\<rparr>"

end
