(* ===== verification/Root_Properties.thy ===== *)
theory Root_Properties
  imports Ref_System
begin

text \<open>
  Properties of the root task: the loops that map device memory and DMA pages end, and what they
  have mapped then.
\<close>

section \<open>Mapping ends\<close>

interpretation device_loop: mapping_loop R "\<lambda>n _. map_device_loop R n frame t"
    "\<lambda>_ :: unit. h_vspace t" VIRTIO_MMIO_VIRT_ADDR frame "\<lambda>_. ()" "\<lambda>_. push_pt (h_mapped_pt t)"
    "stop (Message ''[RootTask] map device memory failed'')" "\<lambda>_ _. True" for R frame t
  by unfold_locales (simp_all add: push_pt_def root_helper_def wp_simps cong: sum.case_cong if_cong)

text \<open>C28. The unbounded loop that maps the device memory ends. Each round that does not map the frame
  adds one of the missing page tables, so as many rounds as tables are missing, and one more, are
  enough, and no more slots are taken than tables were missing.\<close>

theorem device_mapping_ends:
  assumes "paging_laws R V" and "mappable V (h_vspace t) VIRTIO_MMIO_VIRT_ADDR frame s"
    and "missing V (h_vspace t) VIRTIO_MMIO_VIRT_ADDR (kern s) < n"
  shows "\<exists>u. map_device_loop R n frame t s = (Ret (), u)
    \<and> capacity s \<le> capacity u + missing V (h_vspace t) VIRTIO_MMIO_VIRT_ADDR (kern s)"
  using device_loop.ends [OF assms(1,3,2)] by (auto simp: wp_returns mapping_step_def)

lemma ref_root_paging: "paging_laws ref_root ref_view"
  using ref_paging_laws by (simp add: paging_laws_def retype_succeeds_def frame_laws_def table_laws_def slot_laws_def)

definition ref_root_state :: "ref_state root_sys" where
  "ref_root_state = \<lparr>kern = ref_init, ipcbuf = \<lparr>msg_regs = (\<lambda>_. 0), caps_or_badges = (\<lambda>_. 0), recv_slot = None\<rparr>,
     obj_allocator = \<lparr>slots_start = 200, slots_end = 4000, ut = 101\<rparr>, pt_store = [[]]\<rparr>"

definition ref_helper :: helper_task where
  "ref_helper = \<lparr>h_tcb = 30, h_cnode = 31, h_vspace = 32, h_mapped_pt = 0, h_mapped_page = [], h_stack_bottom = 0x100000000\<rparr>"

lemma ref_capacity: "capacity ref_root_state = 3800"
  by (simp add: capacity_def ref_root_state_def)

theorem device_mapping_ends_witness:
  "\<exists>u. map_device_loop ref_root 3 33 ref_helper ref_root_state = (Ret (), u) \<and> 3798 \<le> capacity u"
proof -
  have "mappable ref_view (h_vspace ref_helper) VIRTIO_MMIO_VIRT_ADDR 33 ref_root_state"
    and m: "missing ref_view (h_vspace ref_helper) VIRTIO_MMIO_VIRT_ADDR (kern ref_root_state) = 2"
    by (simp_all add: mappable_def ref_view_def ref_root_state_def avail_def ref_init_def capacity_def)
  then obtain u where "map_device_loop ref_root 3 33 ref_helper ref_root_state = (Ret (), u)" "capacity ref_root_state \<le> capacity u + 2"
    using device_mapping_ends [OF ref_root_paging, of ref_helper 33 ref_root_state 3] by auto
  then show ?thesis by (auto simp: ref_capacity)
qed

text \<open>C29. The DMA pages of a driver are mapped as a whole: with slots for the frames and tables, and
  nothing mapped there before, \<open>map_dma\<close> returns, and the pages of the task are then its old ones
  and the \<open>n\<close> pages from \<open>DMA_ADDR_START\<close>.\<close>

theorem dma_region_mapped:
  assumes "paging_laws R V" and "all_mappable R V (h_vspace t) (map (\<lambda>i. DMA_ADDR_START + of_nat i * PAGE_SIZE) [0 ..< n]) s"
    and "bt_ok (h_mapped_page t)"
  shows "\<exists>t' u. map_dma R n t s = (Ret t', u) \<and> bt_ok (h_mapped_page t')
    \<and> dom (bt_get (h_mapped_page t')) = dom (bt_get (h_mapped_page t)) \<union> {DMA_ADDR_START + of_nat i * PAGE_SIZE | i. i < n}
    \<and> t' = t\<lparr>h_mapped_page := h_mapped_page t'\<rparr>"
proof -
  let ?as = "map (\<lambda>i. DMA_ADDR_START + of_nat i * PAGE_SIZE) [0 ..< n]"
  have "twp (map_dma R n t) (\<lambda>_ _. True) s"
    unfolding map_dma_def by (rule twp_helper_map_pages [OF assms(1) _ _ assms(2)]) (simp_all add: root_helper_def)
  then obtain t' u where run: "map_dma R n t s = (Ret t', u)" by (auto simp: wp_returns)
  have "set ?as = {DMA_ADDR_START + of_nat i * PAGE_SIZE | i. i < n}" by (auto simp: image_def)
  then show ?thesis
    using pwp_Ret [OF pwp_helper_map_pages [OF assms(3)] run [unfolded map_dma_def]] run by metis
qed

lemma ref_dma_mappable:
  "all_mappable ref_root ref_view 32 (map (\<lambda>i. DMA_ADDR_START + of_nat i * PAGE_SIZE) [0 ..< 32]) ref_root_state"
  unfolding all_mappable_def
proof (intro conjI ballI)
  show "distinct (map (\<lambda>i. DMA_ADDR_START + of_nat i * PAGE_SIZE) [0 ..< 32])"
    by (simp add: upt_conv_Cons DMA_ADDR_START_def)
  fix a assume "a \<in> set (map (\<lambda>i. DMA_ADDR_START + of_nat i * PAGE_SIZE) [0 ..< 32])"
  then show "a mod PAGE_SIZE = 0" by (auto simp: upt_conv_Cons DMA_ADDR_START_def)
qed (simp_all add: ref_view_def capacity_def ref_root_state_def ref_init_def)

theorem dma_region_mapped_witness:
  "\<exists>t' u. map_dma ref_root 32 ref_helper ref_root_state = (Ret t', u) \<and> 0x100022000 \<in> dom (bt_get (h_mapped_page t'))"
proof -
  have "all_mappable ref_root ref_view (h_vspace ref_helper) (map (\<lambda>i. DMA_ADDR_START + of_nat i * PAGE_SIZE) [0 ..< 32]) ref_root_state"
    using ref_dma_mappable by (simp add: ref_helper_def)
  moreover have "bt_ok (h_mapped_page ref_helper)" by (simp add: ref_helper_def bt_ok_def)
  ultimately obtain t' u where "map_dma ref_root 32 ref_helper ref_root_state = (Ret t', u)"
    "dom (bt_get (h_mapped_page t')) = dom (bt_get (h_mapped_page ref_helper)) \<union> {DMA_ADDR_START + of_nat i * PAGE_SIZE | i. i < 32}"
    using dma_region_mapped [OF ref_root_paging, of ref_helper 32 ref_root_state] by blast
  moreover have "0x100022000 = DMA_ADDR_START + of_nat 31 * PAGE_SIZE" by (simp add: DMA_ADDR_START_def)
  ultimately show ?thesis by (metis (mono_tags, lifting) UnCI mem_Collect_eq numeral_less_iff semiring_norm(76,78,81))
qed

end
