(* ===== verification/Threads.thy ===== *)
theory Threads
  imports Root_Task Paging
begin

text \<open>
  The secondary threads of \<^verbatim>\<open>kernel-thread/src/thread.rs\<close> and \<^verbatim>\<open>root-task/src/thread.rs\<close>: a
  thread is made from a notification, a TCB and an IPC buffer, its start register holds the address
  of a boxed closure, and the closure signals the notification on which the first thread waits.

  A closure is the record of what it captures. A box is an entry of \<open>boxes\<close> at the address that the
  heap gave, and \<open>Box::from_raw\<close> takes the entry out again. The heap, the program headers and the
  TLS image of the program belong to libraries and are fields of \<open>thread_env\<close>.
\<close>

section \<open>State and libraries\<close>

record thread_closure =
  cl_ntfn :: cptr
  cl_tcb :: cptr

record 'k thread_sys = "'k alloc_sys" +
  boxes :: "u64 \<rightharpoonup> thread_closure"
  own_ipc_buffer :: usize

record program_header =
  p_type :: u32
  p_vaddr :: usize
  p_filesz :: usize
  p_memsz :: usize
  p_align :: usize

record tls_image =
  tls_vaddr :: usize
  tls_filesz :: usize
  tls_memsz :: usize
  tls_align :: usize

record layout =
  layout_size :: usize
  layout_align :: usize

record 'k thread_env =
  stack_bottom :: usize
  thread_entrypoint_addr :: usize
  heap_alloc :: "layout \<Rightarrow> 'k \<Rightarrow> usize \<times> 'k"
  heap_dealloc :: "usize \<Rightarrow> layout \<Rightarrow> 'k \<Rightarrow> 'k"
  check_magic :: bool
  locate_phdrs :: "program_header list"
  PT_TLS :: u32
  tls_check :: "tls_image \<Rightarrow> bool"
  reservation_footprint :: "tls_image \<Rightarrow> layout"
  thread_pointer_offset :: "tls_image \<Rightarrow> usize"
  initialize_tls_reservation :: "tls_image \<Rightarrow> usize \<Rightarrow> 'k \<Rightarrow> 'k"
  ntfn_signal :: "cptr \<Rightarrow> 'k \<Rightarrow> 'k"

section \<open>Thread functions\<close>

text \<open>The closure captures two capabilities; the box of the box is a fat pointer. Both have 16 bytes.\<close>

definition two_words :: layout where "two_words = \<lparr>layout_size = 16, layout_align = 8\<rparr>"

definition thread_closure_new :: "'k thread_env \<Rightarrow> thread_closure \<Rightarrow> ('k thread_sys, thread_closure) M" where
  "thread_closure_new T f = bnd (kcall (heap_alloc T two_words)) (\<lambda>_. ret f)"

definition into_arg :: "'k thread_env \<Rightarrow> thread_closure \<Rightarrow> ('k thread_sys, u64) M" where
  "into_arg T f =
     bnd (kcall (heap_alloc T two_words)) (\<lambda>arg.
     bnd (modify (\<lambda>s. s\<lparr>boxes := (boxes s)(arg \<mapsto> f)\<rparr>)) (\<lambda>_. ret arg))"

definition from_arg :: "u64 \<Rightarrow> ('k thread_sys, thread_closure) M" where
  "from_arg arg =
     bnd (gets boxes) (\<lambda>b.
     bnd (unwrap_opt (b arg)) (\<lambda>f.
     bnd (modify (\<lambda>s. s\<lparr>boxes := (boxes s)(arg := None)\<rparr>)) (\<lambda>_. ret f)))"

section \<open>Thread-local storage\<close>

record tls_reservation =
  tr_start :: usize
  tr_image :: tls_image

definition tls_reservation_new :: "'k thread_env \<Rightarrow> tls_image \<Rightarrow> ('k thread_sys, tls_reservation) M" where
  "tls_reservation_new T img =
     bnd (kcall (heap_alloc T (reservation_footprint T img))) (\<lambda>start.
     bnd (kdo (initialize_tls_reservation T img start)) (\<lambda>_.
     ret \<lparr>tr_start = start, tr_image = img\<rparr>))"

definition thread_pointer :: "'k thread_env \<Rightarrow> tls_reservation \<Rightarrow> usize" where
  "thread_pointer T r = tr_start r + thread_pointer_offset T (tr_image r)"

definition tls_reservation_drop :: "'k thread_env \<Rightarrow> tls_reservation \<Rightarrow> ('k thread_sys, unit) M" where
  "tls_reservation_drop T r = kdo (heap_dealloc T (tr_start r) (reservation_footprint T (tr_image r)))"

definition get_tls_image :: "'k thread_env \<Rightarrow> ('k thread_sys, tls_image) M" where
  "get_tls_image T =
     bnd (assert_that (check_magic T)) (\<lambda>_.
     bnd (unwrap_opt (find (\<lambda>phdr. p_type phdr = PT_TLS T) (locate_phdrs T))) (\<lambda>phdr.
     let unchecked = \<lparr>tls_vaddr = p_vaddr phdr, tls_filesz = p_filesz phdr, tls_memsz = p_memsz phdr,
                      tls_align = p_align phdr\<rparr> in
     if tls_check T unchecked then ret unchecked else stop Unwrap_err))"

definition make_user_context :: "'k thread_env \<Rightarrow> thread_closure \<Rightarrow> ('k thread_sys, user_context) M" where
  "make_user_context T f =
     bnd (into_arg T f) (\<lambda>arg.
     bnd (get_tls_image T) (\<lambda>img.
     bnd (tls_reservation_new T img) (\<lambda>r.
     ret (user_context_default\<lparr>uc_sp := stack_bottom T, uc_pc := thread_entrypoint_addr T,
            uc_gpr := (uc_gpr user_context_default)(0 := arg), uc_tpidr_el0 := thread_pointer T r\<rparr>))))"

section \<open>The secondary thread\<close>

definition SECONDARY_THREAD_IPC_BUFFER_ADDR :: usize where "SECONDARY_THREAD_IPC_BUFFER_ADDR = 0x1000000000"

definition set_own_ipc_buffer :: "usize \<Rightarrow> ('k thread_sys, unit) M" where
  "set_own_ipc_buffer ptr = (if ptr = 0 then stop Unwrap_none else modify (\<lambda>s. s\<lparr>own_ipc_buffer := ptr\<rparr>))"

definition signal_and_suspend ::
  "('k, 'e) sel4_scheme \<Rightarrow> 'k thread_env \<Rightarrow> thread_closure \<Rightarrow> ('k thread_sys, unit) M" where
  "signal_and_suspend S T f =
     bnd (kdo (ntfn_signal T (cl_ntfn f))) (\<lambda>_.
     bnd (kcall_unwrap (tcb_suspend S (cl_tcb f))) (\<lambda>_.
     stop (Message ''entered unreachable code'')))"

definition secondary_body ::
  "('k, 'e) sel4_scheme \<Rightarrow> 'k thread_env \<Rightarrow> thread_closure \<Rightarrow> ('k thread_sys, unit) M" where
  "secondary_body S T f =
     bnd (set_own_ipc_buffer (next_multiple_of SECONDARY_THREAD_IPC_BUFFER_ADDR (GRANULE_SIZE S))) (\<lambda>_.
     signal_and_suspend S T f)"

text \<open>The body of the root task's thread; \<open>frame\<close> is the address of \<open>SECONDARY_THREAD_IPC_BUFFER_FRAME\<close>.\<close>

definition root_secondary_body ::
  "'k renv \<Rightarrow> 'k thread_env \<Rightarrow> usize \<Rightarrow> thread_closure \<Rightarrow> ('k thread_sys, unit) M" where
  "root_secondary_body R T frame f =
     bnd (set_own_ipc_buffer frame) (\<lambda>_. signal_and_suspend R T f)"

text \<open>A panic of the function is caught, and the thread aborts then.\<close>

definition catch_unwind :: "('s, unit) M \<Rightarrow> ('s, unit) M" where
  "catch_unwind m = (\<lambda>s. case m s of (Panic p, t) \<Rightarrow> (Ret (), t) | r \<Rightarrow> r)"

definition thread_entrypoint ::
  "(thread_closure \<Rightarrow> ('k thread_sys, unit) M) \<Rightarrow> u64 \<Rightarrow> ('k thread_sys, unit) M" where
  "thread_entrypoint run arg =
     bnd (from_arg arg) (\<lambda>f.
     bnd (catch_unwind (run f)) (\<lambda>_.
     stop (Message ''Secondary thread panic!'')))"

section \<open>The tests\<close>

primrec map_buffer_loop :: "('k, 'e) sel4_scheme \<Rightarrow> nat \<Rightarrow> cptr \<Rightarrow> ('k thread_sys, unit) M" where
  "map_buffer_loop S 0 frame = no_fuel"
| "map_buffer_loop S (Suc n) frame =
     bnd (kcall (frame_map S frame (slot_VSPACE S) SECONDARY_THREAD_IPC_BUFFER_ADDR rights_all)) (\<lambda>res.
     case res of
       Inr _ \<Rightarrow> ret ()
     | Inl e \<Rightarrow>
         (if e = FailedLookup then
            bnd (allocate_fixed S BP_PT) (\<lambda>pt.
            bnd (kcall_unwrap (pt_map S pt (slot_VSPACE S) SECONDARY_THREAD_IPC_BUFFER_ADDR)) (\<lambda>_.
            map_buffer_loop S n frame))
          else stop (Message ''[RootTask] map device memory failed'')))"

definition test_threads :: "('k, 'e) sel4_scheme \<Rightarrow> 'k thread_env \<Rightarrow> nat \<Rightarrow> ('k thread_sys, unit) M" where
  "test_threads S T n =
     bnd (allocate_fixed S BP_Notification) (\<lambda>ntfn.
     bnd (allocate_fixed S BP_Tcb) (\<lambda>thread_tcb.
     bnd (allocate_fixed S BP_Granule) (\<lambda>frame.
     bnd (map_buffer_loop S n frame) (\<lambda>_.
     bnd (kcall_unwrap (tcb_configure S thread_tcb (slot_NULL S) (slot_CNODE S) (cnode_cap_data S 0 0) (slot_VSPACE S)
            SECONDARY_THREAD_IPC_BUFFER_ADDR frame)) (\<lambda>_.
     bnd (thread_closure_new T \<lparr>cl_ntfn = ntfn, cl_tcb = thread_tcb\<rparr>) (\<lambda>f.
     bnd (make_user_context T f) (\<lambda>ctx.
     bnd (kcall_unwrap (tcb_write_all_registers S thread_tcb True ctx)) (\<lambda>_.
     kdo (ntfn_wait S ntfn)))))))))"

definition ipc_buffer_frame_cap :: "'k renv \<Rightarrow> usize \<Rightarrow> cptr" where
  "ipc_buffer_frame_cap R frame = get_user_image_frame_slot R frame"

definition root_test_threads :: "'k renv \<Rightarrow> 'k thread_env \<Rightarrow> usize \<Rightarrow> ('k thread_sys, unit) M" where
  "root_test_threads R T frame =
     bnd (allocate_fixed R BP_Notification) (\<lambda>ntfn.
     bnd (allocate_fixed R BP_Tcb) (\<lambda>thread_tcb.
     bnd (kcall_unwrap (tcb_configure R thread_tcb (slot_NULL R) (slot_CNODE R) (cnode_cap_data R 0 0) (slot_VSPACE R)
            frame (ipc_buffer_frame_cap R frame))) (\<lambda>_.
     bnd (thread_closure_new T \<lparr>cl_ntfn = ntfn, cl_tcb = thread_tcb\<rparr>) (\<lambda>f.
     bnd (make_user_context T f) (\<lambda>ctx.
     bnd (kcall_unwrap (tcb_write_all_registers R thread_tcb True ctx)) (\<lambda>_.
     kdo (ntfn_wait R ntfn)))))))"

section \<open>What holds of them\<close>

text \<open>The address in the start register gives back the closure, once.\<close>

lemma into_from_arg:
  assumes "into_arg T f s = (Ret arg, t)"
  shows "from_arg arg t = (Ret f, t\<lparr>boxes := (boxes t)(arg := None)\<rparr>)"
    and "from_arg arg (t\<lparr>boxes := (boxes t)(arg := None)\<rparr>) = (Panic Unwrap_none, t\<lparr>boxes := (boxes t)(arg := None)\<rparr>)"
  using assms by (auto simp: into_arg_def from_arg_def run_simps)

text \<open>The loop that maps the IPC buffer ends, after one round more than there are tables missing.\<close>

interpretation buffer_loop: mapping_loop S "\<lambda>n _. map_buffer_loop S n frame"
    "\<lambda>_ :: unit. slot_VSPACE S" SECONDARY_THREAD_IPC_BUFFER_ADDR frame "\<lambda>_. ()" "\<lambda>_ _. ret ()"
    "stop (Message ''[RootTask] map device memory failed'')" "\<lambda>_ _. True" for S frame
  by unfold_locales (simp_all add: bnd_ret wp_simps cong: sum.case_cong if_cong)

lemma buffer_mapping_ends:
  assumes "paging_laws S V" and "mappable V (slot_VSPACE S) SECONDARY_THREAD_IPC_BUFFER_ADDR frame s"
    and "missing V (slot_VSPACE S) SECONDARY_THREAD_IPC_BUFFER_ADDR (kern s) < n"
  shows "\<exists>u. map_buffer_loop S n frame s = (Ret (), u)
    \<and> capacity s \<le> capacity u + missing V (slot_VSPACE S) SECONDARY_THREAD_IPC_BUFFER_ADDR (kern s)"
  using buffer_loop.ends [OF assms(1,3,2)] by (auto simp: wp_returns mapping_step_def)

text \<open>A thread that is started on a boxed closure sets its IPC buffer, signals the notification and
  suspends its TCB before anything else happens to the kernel.\<close>

lemma secondary_thread_signals:
  assumes "boxes s arg = Some f" and "GRANULE_SIZE S = 4096"
    and "tcb_suspend S (cl_tcb f) (ntfn_signal T (cl_ntfn f) (kern s)) = (Inr (), k)"
  shows "thread_entrypoint (secondary_body S T) arg s =
    (Panic (Message ''Secondary thread panic!''),
     s\<lparr>kern := k, boxes := (boxes s)(arg := None), own_ipc_buffer := SECONDARY_THREAD_IPC_BUFFER_ADDR\<rparr>)"
  using assms
  by (simp add: thread_entrypoint_def from_arg_def catch_unwind_def secondary_body_def set_own_ipc_buffer_def
      signal_and_suspend_def run_simps next_multiple_of_def SECONDARY_THREAD_IPC_BUFFER_ADDR_def)

text \<open>The context that the first thread writes starts the second one on the closure it made, in a
  state in which the box is still there.\<close>

lemma context_starts_closure:
  assumes "make_user_context T f s = (Ret ctx, t)"
  shows "boxes t (uc_gpr ctx 0) = Some f \<and> uc_pc ctx = thread_entrypoint_addr T \<and> uc_sp ctx = stack_bottom T"
  using assms
  by (auto simp: make_user_context_def into_arg_def get_tls_image_def tls_reservation_new_def bnd_Ret_iff run_simps
      Let_def user_context_default_def split: option.splits if_splits)

end
