(* ===== verification/Net_Api.thy ===== *)
theory Net_Api
  imports Linux_Api Messages
begin

text \<open>
  The network thread's surroundings: what it uses of \<open>smoltcp\<close> and of the network driver, its
  own state, and \<^verbatim>\<open>addr.rs\<close>.

  \<open>smoltcp\<close> and the driver are not part of the repository. Their state (the socket set, the
  interfaces, the network device) is the opaque \<open>net_stack\<close> of type \<open>'n\<close>, a TCP socket
  of \<open>smoltcp\<close> is an opaque \<open>'s\<close>, and their operations are fields of \<open>nenv\<close>. A
  \<open>None\<close> stands for a panic (a handle that is not in the socket set).

  \<open>Interface::poll\<close> calls back into the repository: it receives and transmits packets through
  the device the repository implements. \<open>poll_next\<close> is what it does next in a given state; what
  a callback returns is handed back with \<open>poll_got\<close> and \<open>poll_sent\<close>, and \<open>poll_reply\<close> is the
  packet, if any, with which a received one is answered at once.
\<close>

section \<open>Addresses: addr.rs\<close>

datatype ip_address = Ipv4 "u8 list" | Ipv6 "u8 list"

record ip_endpoint =
  ep_addr :: ip_address
  ep_port :: u16

record ip_listen_endpoint =
  le_addr :: "ip_address option"
  le_port :: u16

fun as_bytes :: "ip_address \<Rightarrow> u8 list" where
  "as_bytes (Ipv4 bs) = bs"
| "as_bytes (Ipv6 bs) = bs"

fun from_core_ipaddr :: "ip_addr \<Rightarrow> ip_address" where
  "from_core_ipaddr (V4 a b c d) = Ipv4 [a, b, c, d]"
| "from_core_ipaddr (V6 bs) = Ipv6 bs"

fun into_core_ipaddr :: "ip_address \<Rightarrow> ip_addr" where
  "into_core_ipaddr (Ipv4 bs) = V4 (bs ! 0) (bs ! 1) (bs ! 2) (bs ! 3)"
| "into_core_ipaddr (Ipv6 bs) = V6 bs"

definition from_core_sockaddr :: "socket_addr \<Rightarrow> ip_endpoint" where
  "from_core_sockaddr addr = \<lparr>ep_addr = from_core_ipaddr (sock_ip addr), ep_port = sock_port addr\<rparr>"

definition into_core_sockaddr :: "ip_endpoint \<Rightarrow> socket_addr" where
  "into_core_sockaddr addr = \<lparr>sock_ip = into_core_ipaddr (ep_addr addr), sock_port = ep_port addr\<rparr>"

definition is_unspecified :: "ip_address \<Rightarrow> bool" where
  "is_unspecified ip \<longleftrightarrow> as_bytes ip = [0, 0, 0, 0]"

definition UNSPECIFIED_IP :: ip_address where "UNSPECIFIED_IP = Ipv4 [0, 0, 0, 0]"

definition UNSPECIFIED_ENDPOINT :: ip_endpoint where
  "UNSPECIFIED_ENDPOINT = \<lparr>ep_addr = UNSPECIFIED_IP, ep_port = 0\<rparr>"

section \<open>smoltcp and the driver\<close>

type_synonym handle = nat

datatype tcp_state =
    Closed | Listening | SynSent | SynReceived | Established | FinWait1 | FinWait2 | CloseWait
  | Closing | LastAck | TimeWait

datatype connect_error = InvalidState | Unaddressable

datatype net_iface = Loopback | Eth0

datatype 's any_socket = Tcp_sock 's | Udp_sock "ip_listen_endpoint" | Other_sock

datatype poll_act = Poll_receive | Poll_transmit "u8 list" | Poll_done

text \<open>The parts of a received frame that the snooping functions read, when the frame is well formed.\<close>

record tcp_header =
  th_src :: ip_endpoint
  th_dst :: ip_endpoint
  th_syn :: bool
  th_ack :: bool

record ('k, 'n, 's) nenv = "'k sel4" +
  n_fuel :: nat
  n_align_offset_4k :: "usize \<Rightarrow> usize"
  n_size_of_SocketAddr :: usize
  n_socket_addr_of_bytes :: "u8 list \<Rightarrow> socket_addr"
  n_ax_code :: "ax_error \<Rightarrow> i32"
  set_add :: "'s \<Rightarrow> 'n \<Rightarrow> handle \<times> 'n"
  set_get :: "'n \<Rightarrow> handle \<Rightarrow> 's option"
  set_put :: "handle \<Rightarrow> 's \<Rightarrow> 'n \<Rightarrow> 'n"
  set_remove :: "handle \<Rightarrow> 'n \<Rightarrow> 'n option"
  set_iter :: "'n \<Rightarrow> 's any_socket list"
  s_new :: "usize \<Rightarrow> usize \<Rightarrow> 's"
  s_state :: "'s \<Rightarrow> tcp_state"
  s_listen :: "ip_listen_endpoint \<Rightarrow> 's \<Rightarrow> bool \<times> 's"
  s_connect :: "net_iface \<Rightarrow> ip_endpoint \<Rightarrow> ip_listen_endpoint \<Rightarrow> 'n \<Rightarrow> 's \<Rightarrow> (connect_error + unit) \<times> 's"
  s_close :: "'s \<Rightarrow> 's"
  s_local_endpoint :: "'s \<Rightarrow> ip_endpoint option"
  s_remote_endpoint :: "'s \<Rightarrow> ip_endpoint option"
  s_set_bound_endpoint :: "ip_listen_endpoint \<Rightarrow> 's \<Rightarrow> 's"
  s_get_bound_endpoint :: "'s \<Rightarrow> ip_listen_endpoint"
  s_recv_queue :: "'s \<Rightarrow> usize"
  s_recv_slice :: "nat \<Rightarrow> 's \<Rightarrow> u8 list option \<times> 's"
  s_send_slice :: "u8 list \<Rightarrow> 's \<Rightarrow> usize option \<times> 's"
  s_is_active :: "'s \<Rightarrow> bool"
  s_may_recv :: "'s \<Rightarrow> bool"
  s_may_send :: "'s \<Rightarrow> bool"
  s_can_recv :: "'s \<Rightarrow> bool"
  s_can_send :: "'s \<Rightarrow> bool"
  s_nagle_enabled :: "'s \<Rightarrow> bool"
  s_set_nagle_enabled :: "bool \<Rightarrow> 's \<Rightarrow> 's"
  ethernet_tcp :: "u8 list \<Rightarrow> tcp_header option"
  ipv4_tcp :: "u8 list \<Rightarrow> tcp_header option"
  poll_next :: "net_iface \<Rightarrow> u64 \<Rightarrow> 'n \<Rightarrow> poll_act"
  poll_got :: "net_iface \<Rightarrow> u8 list option \<Rightarrow> 'n \<Rightarrow> 'n"
  poll_reply :: "net_iface \<Rightarrow> 'n \<Rightarrow> u8 list option"
  poll_sent :: "net_iface \<Rightarrow> bool \<Rightarrow> 'n \<Rightarrow> 'n"
  dev_recycle_tx_buffers :: "'n \<Rightarrow> bool \<times> 'n"
  dev_can_transmit :: "'n \<Rightarrow> bool"
  dev_receive :: "'n \<Rightarrow> u8 list option \<times> 'n"
  dev_recycle_rx_buffer :: "u8 list \<Rightarrow> 'n \<Rightarrow> bool \<times> 'n"
  dev_alloc_tx_buffer :: "usize \<Rightarrow> 'n \<Rightarrow> bool \<times> 'n"
  dev_transmit :: "u8 list \<Rightarrow> 'n \<Rightarrow> bool \<times> 'n"

section \<open>State\<close>

record listen_table_entry =
  listen_endpoint :: ip_listen_endpoint
  syn_queue :: "handle list"

record tcp_socket =
  st :: u8
  hdl :: "handle option"
  local_addr :: ip_endpoint
  peer_addr :: ip_endpoint
  nonblock :: bool
  reuse_addr :: bool

record ('k, 'n) net_thread = "'k sys" +
  net_stack :: 'n
  lb_queue :: "u8 list list"
  listen_table :: "nat \<Rightarrow> listen_table_entry option"
  curr_port :: u16
  time_ticks :: u64
  socket_vec :: "tcp_socket option list"
  socket_vec_locked :: bool

end
