(* ===== verification/Listen_Table.thy ===== *)
theory Listen_Table
  imports Net_Api
begin

text \<open>
  The socket set of \<^verbatim>\<open>smoltcp_impl/mod.rs\<close>, the listen table of \<^verbatim>\<open>listen_table.rs\<close>, the loopback
  device of \<^verbatim>\<open>loopback.rs\<close> and the polling of the interfaces.

  The table has one entry per port below \<open>PORT_NUM\<close>; an access at another port is out of bounds.
  The mutexes of the socket set, the interfaces and the table's entries are taken and released
  within one operation and never nest on the same mutex, so they are not part of the state.
\<close>

section \<open>The socket set\<close>

definition TCP_RX_BUF_LEN :: usize where "TCP_RX_BUF_LEN = 64 * 64"
definition TCP_TX_BUF_LEN :: usize where "TCP_TX_BUF_LEN = 64 * 64"
definition LISTEN_QUEUE_SIZE :: nat where "LISTEN_QUEUE_SIZE = 32"

definition new_tcp_socket :: "('k, 'n, 's) nenv \<Rightarrow> 's" where
  "new_tcp_socket N = s_new N TCP_RX_BUF_LEN TCP_TX_BUF_LEN"

definition set_add_tcp :: "('k, 'n, 's) nenv \<Rightarrow> (('k, 'n) net_thread, handle) M" where
  "set_add_tcp N =
     bnd (gets net_stack) (\<lambda>n.
     let (h, n') = set_add N (new_tcp_socket N) n in
     bnd (modify (\<lambda>s. s\<lparr>net_stack := n'\<rparr>)) (\<lambda>_. ret h))"

definition bad_handle :: panic where
  "bad_handle = Message ''handle does not refer to a valid socket''"

definition with_socket ::
  "('k, 'n, 's) nenv \<Rightarrow> handle \<Rightarrow> ('s \<Rightarrow> 'a) \<Rightarrow> (('k, 'n) net_thread, 'a) M" where
  "with_socket N h f =
     bnd (gets net_stack) (\<lambda>n.
     case set_get N n h of
       None \<Rightarrow> stop bad_handle
     | Some x \<Rightarrow> ret (f x))"

definition with_socket_mut ::
  "('k, 'n, 's) nenv \<Rightarrow> handle \<Rightarrow> ('s \<Rightarrow> (('k, 'n) net_thread, 'a \<times> 's) M) \<Rightarrow> (('k, 'n) net_thread, 'a) M" where
  "with_socket_mut N h f =
     bnd (gets net_stack) (\<lambda>n.
     case set_get N n h of
       None \<Rightarrow> stop bad_handle
     | Some x \<Rightarrow>
         bnd (f x) (\<lambda>(r, x').
         bnd (modify (\<lambda>s. s\<lparr>net_stack := set_put N h x' (net_stack s)\<rparr>)) (\<lambda>_. ret r)))"

definition remove_socket :: "('k, 'n, 's) nenv \<Rightarrow> handle \<Rightarrow> (('k, 'n) net_thread, unit) M" where
  "remove_socket N h =
     bnd (gets net_stack) (\<lambda>n.
     case set_remove N h n of
       None \<Rightarrow> stop bad_handle
     | Some n' \<Rightarrow> modify (\<lambda>s. s\<lparr>net_stack := n'\<rparr>))"

definition bound_to :: "('k, 'n, 's) nenv \<Rightarrow> ip_address \<Rightarrow> 's any_socket \<Rightarrow> bool" where
  "bound_to N addr item =
     (case item of
        Tcp_sock x \<Rightarrow> le_addr (s_get_bound_endpoint N x) = Some addr
      | Udp_sock e \<Rightarrow> le_addr e = Some addr
      | Other_sock \<Rightarrow> False)"

definition bind_check :: "('k, 'n, 's) nenv \<Rightarrow> ip_address \<Rightarrow> u16 \<Rightarrow> (('k, 'n) net_thread, ax_error + unit) M" where
  "bind_check N addr port =
     bnd (gets net_stack) (\<lambda>n.
     ret (if list_ex (bound_to N addr) (set_iter N n) then Err AddrInUse else Okay ()))"

section \<open>The listen table\<close>

definition PORT_NUM :: nat where "PORT_NUM = 0x2000"

definition listen_table_new :: "nat \<Rightarrow> listen_table_entry option" where
  "listen_table_new = (\<lambda>_. None)"

definition entry_new :: "ip_listen_endpoint \<Rightarrow> listen_table_entry" where
  "entry_new e = \<lparr>listen_endpoint = e, syn_queue = []\<rparr>"

definition entry_can_accept :: "listen_table_entry \<Rightarrow> ip_address \<Rightarrow> bool" where
  "entry_can_accept e dst = (case le_addr (listen_endpoint e) of Some addr \<Rightarrow> addr = dst | None \<Rightarrow> True)"

definition drop_entry :: "('k, 'n, 's) nenv \<Rightarrow> listen_table_entry \<Rightarrow> (('k, 'n) net_thread, unit) M" where
  "drop_entry N e = for_each (remove_socket N) (syn_queue e)"

definition table_at :: "u16 \<Rightarrow> (('k, 'n) net_thread, listen_table_entry option) M" where
  "table_at port =
     (if unat port < PORT_NUM then gets (\<lambda>s. listen_table s (unat port)) else stop Index_out_of_bounds)"

definition table_put :: "u16 \<Rightarrow> listen_table_entry option \<Rightarrow> (('k, 'n) net_thread, unit) M" where
  "table_put port e = modify (\<lambda>s. s\<lparr>listen_table := (listen_table s)(unat port := e)\<rparr>)"

definition can_listen :: "u16 \<Rightarrow> (('k, 'n) net_thread, bool) M" where
  "can_listen port = bnd (table_at port) (\<lambda>e. ret (e = None))"

definition table_listen :: "ip_listen_endpoint \<Rightarrow> (('k, 'n) net_thread, ax_error + unit) M" where
  "table_listen e =
     bnd (assert_that (le_port e \<noteq> 0)) (\<lambda>_.
     bnd (table_at (le_port e)) (\<lambda>entry.
     if entry = None
     then bnd (table_put (le_port e) (Some (entry_new e))) (\<lambda>_. ret (Okay ()))
     else ret (Err AddrInUse)))"

definition unlisten :: "('k, 'n, 's) nenv \<Rightarrow> u16 \<Rightarrow> (('k, 'n) net_thread, unit) M" where
  "unlisten N port =
     bnd (table_at port) (\<lambda>entry.
     bnd (table_put port None) (\<lambda>_.
     case entry of None \<Rightarrow> ret () | Some e \<Rightarrow> drop_entry N e))"

definition is_connected_sock :: "('k, 'n, 's) nenv \<Rightarrow> handle \<Rightarrow> (('k, 'n) net_thread, bool) M" where
  "is_connected_sock N h = with_socket N h (\<lambda>x. \<not> (s_state N x = Listening \<or> s_state N x = SynReceived))"

definition is_closed_sock :: "('k, 'n, 's) nenv \<Rightarrow> handle \<Rightarrow> (('k, 'n) net_thread, bool) M" where
  "is_closed_sock N h = with_socket N h (\<lambda>x. s_state N x = Closed)"

definition get_addr_tuple :: "('k, 'n, 's) nenv \<Rightarrow> handle \<Rightarrow> (('k, 'n) net_thread, ip_endpoint \<times> ip_endpoint) M" where
  "get_addr_tuple N h =
     bnd (with_socket N h (\<lambda>x. (s_local_endpoint N x, s_remote_endpoint N x))) (\<lambda>(l, r).
     bnd (unwrap_opt l) (\<lambda>l'.
     bnd (unwrap_opt r) (\<lambda>r'. ret (l', r'))))"

text \<open>\<open>iter().any(is_connected)\<close> and \<open>find_map\<close>: the index of the first connected handle.\<close>

primrec first_connected ::
  "('k, 'n, 's) nenv \<Rightarrow> nat \<Rightarrow> handle list \<Rightarrow> (('k, 'n) net_thread, nat option) M" where
  "first_connected N i [] = ret None"
| "first_connected N i (h # hs) =
     bnd (is_connected_sock N h) (\<lambda>c. if c then ret (Some i) else first_connected N (Suc i) hs)"

definition table_can_accept :: "('k, 'n, 's) nenv \<Rightarrow> u16 \<Rightarrow> (('k, 'n) net_thread, ax_error + bool) M" where
  "table_can_accept N port =
     bnd (table_at port) (\<lambda>entry.
     case entry of
       Some e \<Rightarrow> bnd (first_connected N 0 (syn_queue e)) (\<lambda>i. ret (Okay (i \<noteq> None)))
     | None \<Rightarrow> ret (Err InvalidInput))"

definition swap_remove_front :: "'a list \<Rightarrow> nat \<Rightarrow> 'a list" where
  "swap_remove_front xs i = tl (xs[i := xs ! 0])"

definition table_accept ::
  "('k, 'n, 's) nenv \<Rightarrow> u16 \<Rightarrow> (('k, 'n) net_thread, ax_error + handle \<times> ip_endpoint \<times> ip_endpoint) M" where
  "table_accept N port =
     bnd (table_at port) (\<lambda>entry.
     case entry of
       None \<Rightarrow> ret (Err InvalidInput)
     | Some e \<Rightarrow>
         bnd (first_connected N 0 (syn_queue e)) (\<lambda>found.
         case found of
           None \<Rightarrow> ret (Err WouldBlock)
         | Some idx \<Rightarrow>
             let h = syn_queue e ! idx in
             bnd (table_put port (Some (e\<lparr>syn_queue := swap_remove_front (syn_queue e) idx\<rparr>))) (\<lambda>_.
             bnd (is_closed_sock N h) (\<lambda>closed.
             if closed then ret (Err ConnectionReset)
             else bnd (get_addr_tuple N h) (\<lambda>ends. ret (Okay (h, ends)))))))"

text \<open>\<open>sockets\<close> is the socket set that the poll holds.\<close>

definition incoming_tcp_packet ::
  "('k, 'n, 's) nenv \<Rightarrow> ip_endpoint \<Rightarrow> ip_endpoint \<Rightarrow> (('k, 'n) net_thread, unit) M" where
  "incoming_tcp_packet N src dst =
     bnd (table_at (ep_port dst)) (\<lambda>entry.
     case entry of
       None \<Rightarrow> ret ()
     | Some e \<Rightarrow>
         if \<not> entry_can_accept e (ep_addr dst) then ret ()
         else if length (syn_queue e) \<ge> LISTEN_QUEUE_SIZE then ret ()
         else
           let (ok, socket) = s_listen N (listen_endpoint e) (new_tcp_socket N) in
           if ok then
             bnd (gets net_stack) (\<lambda>n.
             let (h, n') = set_add N socket n in
             bnd (modify (\<lambda>s. s\<lparr>net_stack := n'\<rparr>)) (\<lambda>_.
             table_put (ep_port dst) (Some (e\<lparr>syn_queue := syn_queue e @ [h]\<rparr>))))
           else ret ())"

section \<open>Devices and polling\<close>

definition snoop :: "('k, 'n, 's) nenv \<Rightarrow> tcp_header option \<Rightarrow> (('k, 'n) net_thread, unit) M" where
  "snoop N header =
     (case header of
        None \<Rightarrow> ret ()
      | Some th \<Rightarrow>
          let is_first = th_syn th \<and> \<not> th_ack th in
          if is_first then incoming_tcp_packet N (th_src th) (th_dst th) else ret ())"

definition snoop_tcp_packet :: "('k, 'n, 's) nenv \<Rightarrow> u8 list \<Rightarrow> (('k, 'n) net_thread, unit) M" where
  "snoop_tcp_packet N buf = snoop N (ethernet_tcp N buf)"

definition snoop_tcp_from_ip :: "('k, 'n, 's) nenv \<Rightarrow> u8 list \<Rightarrow> (('k, 'n) net_thread, unit) M" where
  "snoop_tcp_from_ip N buffer = snoop N (ipv4_tcp N buffer)"

definition stack_op :: "('n \<Rightarrow> 'r \<times> 'n) \<Rightarrow> (('k, 'n) net_thread, 'r) M" where
  "stack_op f =
     bnd (gets net_stack) (\<lambda>n.
     bnd (modify (\<lambda>s. s\<lparr>net_stack := snd (f n)\<rparr>)) (\<lambda>_. ret (fst (f n))))"

definition lb_receive :: "(('k, 'n) net_thread, u8 list option) M" where
  "lb_receive =
     bnd (gets lb_queue) (\<lambda>q.
     case q of
       [] \<Rightarrow> ret None
     | buffer # rest \<Rightarrow> bnd (modify (\<lambda>s. s\<lparr>lb_queue := rest\<rparr>)) (\<lambda>_. ret (Some buffer)))"

definition lb_tx_consume :: "u8 list \<Rightarrow> (('k, 'n) net_thread, unit) M" where
  "lb_tx_consume buffer = modify (\<lambda>s. s\<lparr>lb_queue := lb_queue s @ [buffer]\<rparr>)"

definition eth_receive :: "('k, 'n, 's) nenv \<Rightarrow> (('k, 'n) net_thread, u8 list option) M" where
  "eth_receive N =
     bnd (stack_op (dev_recycle_tx_buffers N)) (\<lambda>ok.
     if \<not> ok then ret None
     else
       bnd (gets net_stack) (\<lambda>n.
       if \<not> dev_can_transmit N n then ret None
       else stack_op (dev_receive N)))"

definition eth_transmit :: "('k, 'n, 's) nenv \<Rightarrow> (('k, 'n) net_thread, bool) M" where
  "eth_transmit N =
     bnd (stack_op (dev_recycle_tx_buffers N)) (\<lambda>ok.
     if \<not> ok then ret False
     else bnd (gets net_stack) (\<lambda>n. ret (dev_can_transmit N n)))"

definition eth_tx_consume :: "('k, 'n, 's) nenv \<Rightarrow> u8 list \<Rightarrow> (('k, 'n) net_thread, unit) M" where
  "eth_tx_consume N buffer =
     bnd (stack_op (dev_alloc_tx_buffer N (of_nat (length buffer)))) (\<lambda>ok.
     if \<not> ok then stop Unwrap_err
     else
       bnd (stack_op (dev_transmit N buffer)) (\<lambda>ok'.
       if \<not> ok' then stop Unwrap_err else ret ()))"

definition receive :: "('k, 'n, 's) nenv \<Rightarrow> net_iface \<Rightarrow> (('k, 'n) net_thread, u8 list option) M" where
  "receive N i = (case i of Loopback \<Rightarrow> lb_receive | Eth0 \<Rightarrow> eth_receive N)"

definition preprocess :: "('k, 'n, 's) nenv \<Rightarrow> net_iface \<Rightarrow> u8 list \<Rightarrow> (('k, 'n) net_thread, unit) M" where
  "preprocess N i buf = (case i of Loopback \<Rightarrow> snoop_tcp_from_ip N buf | Eth0 \<Rightarrow> snoop_tcp_packet N buf)"

definition tx_consume :: "('k, 'n, 's) nenv \<Rightarrow> net_iface \<Rightarrow> u8 list \<Rightarrow> (('k, 'n) net_thread, unit) M" where
  "tx_consume N i buf = (case i of Loopback \<Rightarrow> lb_tx_consume buf | Eth0 \<Rightarrow> eth_tx_consume N buf)"

definition transmit :: "('k, 'n, 's) nenv \<Rightarrow> net_iface \<Rightarrow> (('k, 'n) net_thread, bool) M" where
  "transmit N i = (case i of Loopback \<Rightarrow> ret True | Eth0 \<Rightarrow> eth_transmit N)"

text \<open>\<open>RxToken::consume\<close>: the stack processes the packet, answers it at once or not, and the
  driver gets its buffer back.\<close>

definition rx_consume :: "('k, 'n, 's) nenv \<Rightarrow> net_iface \<Rightarrow> u8 list \<Rightarrow> (('k, 'n) net_thread, unit) M" where
  "rx_consume N i buf =
     bnd (stack_op (\<lambda>n. ((), poll_got N i (Some buf) n))) (\<lambda>_.
     bnd (gets (\<lambda>s. poll_reply N i (net_stack s))) (\<lambda>reply.
     bnd (case reply of None \<Rightarrow> ret () | Some p \<Rightarrow> tx_consume N i p) (\<lambda>_.
     case i of
       Loopback \<Rightarrow> ret ()
     | Eth0 \<Rightarrow> bnd (stack_op (dev_recycle_rx_buffer N buf)) (\<lambda>ok. if \<not> ok then stop Unwrap_err else ret ()))))"

primrec iface_poll ::
  "('k, 'n, 's) nenv \<Rightarrow> net_iface \<Rightarrow> u64 \<Rightarrow> nat \<Rightarrow> (('k, 'n) net_thread, unit) M" where
  "iface_poll N i timestamp 0 = no_fuel"
| "iface_poll N i timestamp (Suc fuel_left) =
     bnd (gets (\<lambda>s. poll_next N i timestamp (net_stack s))) (\<lambda>act.
     case act of
       Poll_done \<Rightarrow> ret ()
     | Poll_receive \<Rightarrow>
         bnd (receive N i) (\<lambda>got.
         bnd (case got of
                None \<Rightarrow> stack_op (\<lambda>n. ((), poll_got N i None n))
              | Some buf \<Rightarrow> bnd (preprocess N i buf) (\<lambda>_. rx_consume N i buf)) (\<lambda>_.
         iface_poll N i timestamp fuel_left))
     | Poll_transmit p \<Rightarrow>
         bnd (transmit N i) (\<lambda>ok.
         bnd (if ok then tx_consume N i p else ret ()) (\<lambda>_.
         bnd (stack_op (\<lambda>n. ((), poll_sent N i ok n))) (\<lambda>_.
         iface_poll N i timestamp fuel_left))))"

definition current_time :: "(('k, 'n) net_thread, u64) M" where
  "current_time =
     bnd (modify (\<lambda>s. s\<lparr>time_ticks := time_ticks s + 1\<rparr>)) (\<lambda>_. gets time_ticks)"

definition poll_interfaces :: "('k, 'n, 's) nenv \<Rightarrow> (('k, 'n) net_thread, unit) M" where
  "poll_interfaces N =
     bnd current_time (\<lambda>now.
     bnd (iface_poll N Loopback now (n_fuel N)) (\<lambda>_.
     bnd current_time (\<lambda>now'.
     iface_poll N Eth0 now' (n_fuel N))))"

end
