(* ===== verification/Tcp_Socket.thy ===== *)
theory Tcp_Socket
  imports Listen_Table
begin

text \<open>
  \<^verbatim>\<open>src/crates/net-thread/src/smoltcp_impl/tcp.rs\<close>: sockets with a POSIX-like interface. The
  methods take \<open>&self\<close> and change the socket through cells; here they take the socket and
  return the new one. A closure that an operation passes to \<open>update_state\<close> or \<open>block_on\<close> gets
  the socket as it is when the closure is called.

  \<open>block_on\<close> may wait forever for the network; \<open>n_fuel\<close> bounds its rounds.
\<close>

definition STATE_CLOSED :: u8 where "STATE_CLOSED = 0"
definition STATE_BUSY :: u8 where "STATE_BUSY = 1"
definition STATE_CONNECTING :: u8 where "STATE_CONNECTING = 2"
definition STATE_CONNECTED :: u8 where "STATE_CONNECTED = 3"
definition STATE_LISTENING :: u8 where "STATE_LISTENING = 4"

lemmas state_defs = STATE_CLOSED_def STATE_BUSY_def STATE_CONNECTING_def STATE_CONNECTED_def
  STATE_LISTENING_def

type_synonym ('k, 'n, 'a) sock_op = "tcp_socket \<Rightarrow> (('k, 'n) net_thread, 'a \<times> tcp_socket) M"

section \<open>Creation and accessors\<close>

definition tcp_socket_new :: "('k, 'n, 's) nenv \<Rightarrow> (('k, 'n) net_thread, tcp_socket) M" where
  "tcp_socket_new N =
     bnd (set_add_tcp N) (\<lambda>h.
     ret \<lparr>st = STATE_CLOSED, hdl = Some h, local_addr = UNSPECIFIED_ENDPOINT,
          peer_addr = UNSPECIFIED_ENDPOINT, nonblock = False, reuse_addr = False\<rparr>)"

definition new_connected :: "handle \<Rightarrow> ip_endpoint \<Rightarrow> ip_endpoint \<Rightarrow> tcp_socket" where
  "new_connected h l p =
     \<lparr>st = STATE_CONNECTED, hdl = Some h, local_addr = l, peer_addr = p, nonblock = False, reuse_addr = False\<rparr>"

definition sock_local_addr :: "tcp_socket \<Rightarrow> ax_error + socket_addr" where
  "sock_local_addr sk =
     (if st sk = STATE_CONNECTED \<or> st sk = STATE_LISTENING \<or> st sk = STATE_CLOSED
      then Okay (into_core_sockaddr (local_addr sk)) else Err NotConnected)"

definition sock_peer_addr :: "tcp_socket \<Rightarrow> ax_error + socket_addr" where
  "sock_peer_addr sk =
     (if st sk = STATE_CONNECTED \<or> st sk = STATE_LISTENING
      then Okay (into_core_sockaddr (peer_addr sk)) else Err NotConnected)"

definition is_nonblocking :: "tcp_socket \<Rightarrow> bool" where "is_nonblocking sk = nonblock sk"
definition set_nonblocking :: "bool \<Rightarrow> tcp_socket \<Rightarrow> tcp_socket" where
  "set_nonblocking b sk = sk\<lparr>nonblock := b\<rparr>"
definition is_reuse_addr :: "tcp_socket \<Rightarrow> bool" where "is_reuse_addr sk = reuse_addr sk"
definition set_reuse_addr :: "bool \<Rightarrow> tcp_socket \<Rightarrow> tcp_socket" where
  "set_reuse_addr b sk = sk\<lparr>reuse_addr := b\<rparr>"

definition is_connecting :: "tcp_socket \<Rightarrow> bool" where "is_connecting sk \<longleftrightarrow> st sk = STATE_CONNECTING"
definition is_connected :: "tcp_socket \<Rightarrow> bool" where "is_connected sk \<longleftrightarrow> st sk = STATE_CONNECTED"
definition is_closed :: "tcp_socket \<Rightarrow> bool" where "is_closed sk \<longleftrightarrow> st sk = STATE_CLOSED"
definition is_listening :: "tcp_socket \<Rightarrow> bool" where "is_listening sk \<longleftrightarrow> st sk = STATE_LISTENING"

section \<open>Ports and endpoints\<close>

definition PORT_START :: u16 where "PORT_START = 0x1000"
definition PORT_END :: u16 where "PORT_END = 0xffff"

primrec port_loop :: "nat \<Rightarrow> u16 \<Rightarrow> (('k, 'n) net_thread, ax_error + u16) M" where
  "port_loop 0 tries = no_fuel"
| "port_loop (Suc n) tries =
     (if tries \<le> PORT_END - PORT_START then
        bnd (gets curr_port) (\<lambda>port.
        bnd (modify (\<lambda>s. s\<lparr>curr_port := (if port = PORT_END then PORT_START else port + 1)\<rparr>)) (\<lambda>_.
        bnd (can_listen port) (\<lambda>free.
        if free then ret (Okay port) else port_loop n (tries + 1))))
      else ret (Err AddrInUse))"

text \<open>The loop makes at most \<open>0xf000\<close> rounds before it gives up.\<close>

definition get_ephemeral_port :: "(('k, 'n) net_thread, ax_error + u16) M" where
  "get_ephemeral_port =
     bnd (can_listen 6379) (\<lambda>_. port_loop 0xf001 0)"

definition bound_endpoint :: "tcp_socket \<Rightarrow> (('k, 'n) net_thread, ax_error + ip_listen_endpoint) M" where
  "bound_endpoint sk =
     try_bnd (if ep_port (local_addr sk) \<noteq> 0 then ret (Okay (ep_port (local_addr sk))) else get_ephemeral_port) (\<lambda>port.
     bnd (assert_that (port \<noteq> 0)) (\<lambda>_.
     let addr = (if \<not> is_unspecified (ep_addr (local_addr sk)) then Some (ep_addr (local_addr sk)) else None) in
     ret (Okay \<lparr>le_addr = addr, le_port = port\<rparr>)))"

section \<open>State changes and blocking\<close>

text \<open>\<open>Result<AxResult<T>, u8>\<close>: \<open>Inl\<close> is the state the socket was in instead of \<open>expect\<close>.\<close>

definition update_state ::
  "u8 \<Rightarrow> u8 \<Rightarrow> ('k, 'n, ax_error + 'a) sock_op \<Rightarrow> ('k, 'n, u8 + ax_error + 'a) sock_op" where
  "update_state expect new f sk =
     (if st sk = expect then
        bnd (f (sk\<lparr>st := STATE_BUSY\<rparr>)) (\<lambda>(res, sk').
        ret (Inr res, sk'\<lparr>st := (case res of Inr _ \<Rightarrow> new | Inl _ \<Rightarrow> expect)\<rparr>))
      else ret (Inl (st sk), sk))"

text \<open>\<open>unwrap_or(..)\<close> on such a result.\<close>

definition unwrap_state :: "ax_error + 'a \<Rightarrow> (u8 + ax_error + 'a) \<times> tcp_socket \<Rightarrow> (ax_error + 'a) \<times> tcp_socket" where
  "unwrap_state d r = (case fst r of Inl _ \<Rightarrow> d | Inr res \<Rightarrow> res, snd r)"

primrec block_loop ::
  "('k, 'n, 's) nenv \<Rightarrow> ('k, 'n, ax_error + 'a) sock_op \<Rightarrow> nat \<Rightarrow> ('k, 'n, ax_error + 'a) sock_op" where
  "block_loop N f 0 sk = no_fuel"
| "block_loop N f (Suc n) sk =
     bnd (poll_interfaces N) (\<lambda>_.
     bnd (f sk) (\<lambda>(res, sk').
     case res of
       Inr x \<Rightarrow> ret (Okay x, sk')
     | Inl e \<Rightarrow>
         if e = WouldBlock then bnd (kdo (sel4_yield N)) (\<lambda>_. block_loop N f n sk')
         else ret (Err e, sk')))"

definition block_on ::
  "('k, 'n, 's) nenv \<Rightarrow> ('k, 'n, ax_error + 'a) sock_op \<Rightarrow> ('k, 'n, ax_error + 'a) sock_op" where
  "block_on N f sk = (if is_nonblocking sk then f sk else block_loop N f (n_fuel N) sk)"

section \<open>Polling a socket\<close>

record poll_state =
  readable :: bool
  writable :: bool

definition poll_connect :: "('k, 'n, 's) nenv \<Rightarrow> ('k, 'n, ax_error + poll_state) sock_op" where
  "poll_connect N sk =
     bnd (unwrap_opt (hdl sk)) (\<lambda>h.
     bnd (with_socket N h (s_state N)) (\<lambda>state.
     if state = SynSent then ret (Okay \<lparr>readable = False, writable = False\<rparr>, sk)
     else if state = Established then
       ret (Okay \<lparr>readable = False, writable = True\<rparr>, sk\<lparr>st := STATE_CONNECTED\<rparr>)
     else
       ret (Okay \<lparr>readable = False, writable = True\<rparr>,
            sk\<lparr>local_addr := UNSPECIFIED_ENDPOINT, peer_addr := UNSPECIFIED_ENDPOINT, st := STATE_CLOSED\<rparr>)))"

definition poll_stream :: "('k, 'n, 's) nenv \<Rightarrow> tcp_socket \<Rightarrow> (('k, 'n) net_thread, ax_error + poll_state) M" where
  "poll_stream N sk =
     bnd (unwrap_opt (hdl sk)) (\<lambda>h.
     with_socket N h (\<lambda>x. Okay \<lparr>readable = \<not> s_may_recv N x \<or> s_can_recv N x,
                                writable = \<not> s_may_send N x \<or> s_can_send N x\<rparr>))"

definition poll_listener :: "('k, 'n, 's) nenv \<Rightarrow> tcp_socket \<Rightarrow> (('k, 'n) net_thread, ax_error + poll_state) M" where
  "poll_listener N sk =
     try_bnd (table_can_accept N (ep_port (local_addr sk))) (\<lambda>r.
     ret (Okay \<lparr>readable = r, writable = False\<rparr>))"

definition poll :: "('k, 'n, 's) nenv \<Rightarrow> ('k, 'n, ax_error + poll_state) sock_op" where
  "poll N sk =
     (if st sk = STATE_CONNECTING then poll_connect N sk
      else if st sk = STATE_CONNECTED then bnd (poll_stream N sk) (\<lambda>r. ret (r, sk))
      else if st sk = STATE_LISTENING then bnd (poll_listener N sk) (\<lambda>r. ret (r, sk))
      else ret (Okay \<lparr>readable = False, writable = False\<rparr>, sk))"

section \<open>Connection management\<close>

definition get_or_add :: "('k, 'n, 's) nenv \<Rightarrow> handle option \<Rightarrow> (('k, 'n) net_thread, handle) M" where
  "get_or_add N h = (case h of Some x \<Rightarrow> ret x | None \<Rightarrow> set_add_tcp N)"

definition connect_socket ::
  "('k, 'n, 's) nenv \<Rightarrow> handle \<Rightarrow> ip_endpoint \<Rightarrow> ip_listen_endpoint \<Rightarrow>
     (('k, 'n) net_thread, ax_error + ip_endpoint \<times> ip_endpoint) M" where
  "connect_socket N h remote bound =
     with_socket_mut N h (\<lambda>x.
       let iface = (if as_bytes (ep_addr remote) ! 0 = 127 then Loopback else Eth0) in
       bnd (gets net_stack) (\<lambda>n.
       let (res, x') = s_connect N iface remote bound n x in
       case res of
         Inl InvalidState \<Rightarrow> ret (Err BadState, x')
       | Inl Unaddressable \<Rightarrow> ret (Err ConnectionRefused, x')
       | Inr _ \<Rightarrow>
           bnd (unwrap_opt (s_local_endpoint N x')) (\<lambda>l.
           bnd (unwrap_opt (s_remote_endpoint N x')) (\<lambda>r.
           ret (Okay (l, r), x')))))"

definition start_connect :: "('k, 'n, 's) nenv \<Rightarrow> socket_addr \<Rightarrow> ('k, 'n, ax_error + unit) sock_op" where
  "start_connect N remote_addr sk =
     bnd (get_or_add N (hdl sk)) (\<lambda>h.
     let remote = from_core_sockaddr remote_addr in
     bnd (bound_endpoint sk) (\<lambda>b.
     case b of
       Inl e \<Rightarrow> ret (Err e, sk)
     | Inr bound \<Rightarrow>
         bnd (connect_socket N h remote bound) (\<lambda>r.
         case r of
           Inl e \<Rightarrow> ret (Err e, sk)
         | Inr (l, p) \<Rightarrow> ret (Okay (), sk\<lparr>local_addr := l, peer_addr := p, hdl := Some h\<rparr>))))"

definition await_connect :: "('k, 'n, 's) nenv \<Rightarrow> ('k, 'n, ax_error + unit) sock_op" where
  "await_connect N sk =
     bnd (poll_connect N sk) (\<lambda>(r, sk').
     case r of
       Inl e \<Rightarrow> ret (Err e, sk')
     | Inr p \<Rightarrow>
         if \<not> writable p then ret (Err WouldBlock, sk')
         else if st sk' = STATE_CONNECTED then ret (Okay (), sk')
         else ret (Err ConnectionRefused, sk'))"

definition connect :: "('k, 'n, 's) nenv \<Rightarrow> socket_addr \<Rightarrow> ('k, 'n, ax_error + unit) sock_op" where
  "connect N remote_addr sk =
     bnd (update_state STATE_CLOSED STATE_CONNECTING (start_connect N remote_addr) sk) (\<lambda>r.
     let (res, sk') = unwrap_state (Err AlreadyExists) r in
     case res of
       Inl e \<Rightarrow> ret (Err e, sk')
     | Inr _ \<Rightarrow>
         bnd (kdo (sel4_yield N)) (\<lambda>_.
         if is_nonblocking sk' then ret (Err WouldBlock, sk')
         else block_on N (await_connect N) sk'))"

definition start_bind :: "('k, 'n, 's) nenv \<Rightarrow> socket_addr \<Rightarrow> ('k, 'n, ax_error + unit) sock_op" where
  "start_bind N addr sk =
     bnd (if sock_port addr = 0 then get_ephemeral_port else ret (Okay (sock_port addr))) (\<lambda>p.
     case p of
       Inl e \<Rightarrow> ret (Err e, sk)
     | Inr port \<Rightarrow>
         let addr = addr\<lparr>sock_port := port\<rparr> in
         if local_addr sk \<noteq> UNSPECIFIED_ENDPOINT then ret (Err InvalidInput, sk)
         else
           let sk = sk\<lparr>local_addr := from_core_sockaddr addr\<rparr>;
               local_endpoint = from_core_sockaddr addr in
           bnd (if \<not> is_reuse_addr sk then bind_check N (ep_addr local_endpoint) (ep_port local_endpoint)
                else ret (Okay ())) (\<lambda>c.
           case c of
             Inl e \<Rightarrow> ret (Err e, sk)
           | Inr _ \<Rightarrow>
               bnd (bound_endpoint sk) (\<lambda>b.
               case b of
                 Inl e \<Rightarrow> ret (Err e, sk)
               | Inr bound \<Rightarrow>
                   bnd (get_or_add N (hdl sk)) (\<lambda>h.
                   bnd (with_socket_mut N h (\<lambda>x. ret ((), s_set_bound_endpoint N bound x))) (\<lambda>_.
                   ret (Okay (), sk))))))"

definition bind :: "('k, 'n, 's) nenv \<Rightarrow> socket_addr \<Rightarrow> ('k, 'n, ax_error + unit) sock_op" where
  "bind N addr sk =
     bnd (update_state STATE_CLOSED STATE_CLOSED (start_bind N addr) sk) (\<lambda>r.
     ret (unwrap_state (Err InvalidInput) r))"

definition start_listen :: "('k, 'n, ax_error + unit) sock_op" where
  "start_listen sk =
     bnd (bound_endpoint sk) (\<lambda>b.
     case b of
       Inl e \<Rightarrow> ret (Err e, sk)
     | Inr bound \<Rightarrow>
         let sk = sk\<lparr>local_addr := (local_addr sk)\<lparr>ep_port := le_port bound\<rparr>\<rparr> in
         bnd (table_listen bound) (\<lambda>r. ret (r, sk)))"

definition listen :: "('k, 'n, ax_error + unit) sock_op" where
  "listen sk =
     bnd (update_state STATE_CLOSED STATE_LISTENING start_listen sk) (\<lambda>r.
     ret (unwrap_state (Okay ()) r))"

definition try_accept :: "('k, 'n, 's) nenv \<Rightarrow> u16 \<Rightarrow> ('k, 'n, ax_error + tcp_socket) sock_op" where
  "try_accept N local_port sk =
     bnd (table_accept N local_port) (\<lambda>r.
     ret (case r of
            Inl e \<Rightarrow> Err e
          | Inr (h, l, p) \<Rightarrow> Okay (new_connected h l p), sk))"

definition accept :: "('k, 'n, 's) nenv \<Rightarrow> ('k, 'n, ax_error + tcp_socket) sock_op" where
  "accept N sk =
     (if \<not> is_listening sk then ret (Err InvalidInput, sk)
      else block_on N (try_accept N (ep_port (local_addr sk))) sk)"

definition shutdown_stream :: "('k, 'n, 's) nenv \<Rightarrow> ('k, 'n, ax_error + unit) sock_op" where
  "shutdown_stream N sk =
     bnd (unwrap_opt (hdl sk)) (\<lambda>h.
     bnd (with_socket_mut N h (\<lambda>x. ret ((), s_close N x))) (\<lambda>_.
     bnd (poll_interfaces N) (\<lambda>_.
     ret (Okay (), sk\<lparr>local_addr := UNSPECIFIED_ENDPOINT\<rparr>))))"

definition shutdown_listener :: "('k, 'n, 's) nenv \<Rightarrow> ('k, 'n, ax_error + unit) sock_op" where
  "shutdown_listener N sk =
     (let local_port = ep_port (local_addr sk) in
      bnd (unlisten N local_port) (\<lambda>_.
      bnd (poll_interfaces N) (\<lambda>_.
      ret (Okay (), sk\<lparr>local_addr := UNSPECIFIED_ENDPOINT\<rparr>))))"

definition shutdown :: "('k, 'n, 's) nenv \<Rightarrow> ('k, 'n, ax_error + unit) sock_op" where
  "shutdown N sk =
     bnd (update_state STATE_CONNECTED STATE_CLOSED (shutdown_stream N) sk) (\<lambda>r.
     let (res, sk') = unwrap_state (Okay ()) r in
     case res of
       Inl e \<Rightarrow> ret (Err e, sk')
     | Inr _ \<Rightarrow>
         bnd (update_state STATE_LISTENING STATE_CLOSED (shutdown_listener N) sk') (\<lambda>r'.
         ret (unwrap_state (Okay ()) r')))"

definition close :: "('k, 'n, 's) nenv \<Rightarrow> tcp_socket \<Rightarrow> (('k, 'n) net_thread, unit) M" where
  "close N sk =
     (case hdl sk of
        None \<Rightarrow> ret ()
      | Some h \<Rightarrow>
          bnd (with_socket_mut N h (\<lambda>x. ret ((), s_close N x))) (\<lambda>_.
          poll_interfaces N))"

definition drop_socket :: "('k, 'n, 's) nenv \<Rightarrow> tcp_socket \<Rightarrow> (('k, 'n) net_thread, unit) M" where
  "drop_socket N sk =
     bnd (shutdown N sk) (\<lambda>(_, sk').
     case hdl sk' of None \<Rightarrow> ret () | Some h \<Rightarrow> remove_socket N h)"

section \<open>Data\<close>

definition try_recv :: "('k, 'n, 's) nenv \<Rightarrow> handle \<Rightarrow> nat \<Rightarrow> ('k, 'n, ax_error + u8 list) sock_op" where
  "try_recv N h len sk =
     bnd (with_socket_mut N h (\<lambda>x.
       if s_recv_queue N x > 0 then
         (let (r, x') = s_recv_slice N len x in
          ret (case r of None \<Rightarrow> Err BadState | Some bs \<Rightarrow> Okay bs, x'))
       else if \<not> s_is_active N x then ret (Err ConnectionRefused, x)
       else if \<not> s_may_recv N x then ret (Okay [], x)
       else ret (Err WouldBlock, x))) (\<lambda>r. ret (r, sk))"

text \<open>The buffer is given by its length, and the result is what is stored in it.\<close>

definition recv :: "('k, 'n, 's) nenv \<Rightarrow> nat \<Rightarrow> ('k, 'n, ax_error + u8 list) sock_op" where
  "recv N len sk =
     (if is_connecting sk then ret (Err WouldBlock, sk)
      else if \<not> is_connected sk then ret (Err NotConnected, sk)
      else
        bnd (unwrap_opt (hdl sk)) (\<lambda>h.
        block_on N (try_recv N h len) sk))"

definition recv_timeout :: "('k, 'n, 's) nenv \<Rightarrow> nat \<Rightarrow> u64 \<Rightarrow> ('k, 'n, ax_error + u8 list) sock_op" where
  "recv_timeout N len ticks sk = stop (Message ''not implemented'')"

definition try_send :: "('k, 'n, 's) nenv \<Rightarrow> handle \<Rightarrow> u8 list \<Rightarrow> ('k, 'n, ax_error + usize) sock_op" where
  "try_send N h buf sk =
     bnd (with_socket_mut N h (\<lambda>x.
       if \<not> s_is_active N x \<or> \<not> s_may_send N x then ret (Err ConnectionReset, x)
       else if s_can_send N x then
         (let (r, x') = s_send_slice N buf x in
          ret (case r of None \<Rightarrow> Err BadState | Some n \<Rightarrow> Okay n, x'))
       else ret (Err WouldBlock, x))) (\<lambda>r. ret (r, sk))"

definition send :: "('k, 'n, 's) nenv \<Rightarrow> u8 list \<Rightarrow> ('k, 'n, ax_error + usize) sock_op" where
  "send N buf sk =
     (if is_connecting sk then ret (Err WouldBlock, sk)
      else if \<not> is_connected sk then ret (Err NotConnected, sk)
      else
        bnd (unwrap_opt (hdl sk)) (\<lambda>h.
        block_on N (try_send N h buf) sk))"

definition set_nagle_enabled :: "('k, 'n, 's) nenv \<Rightarrow> bool \<Rightarrow> tcp_socket \<Rightarrow> (('k, 'n) net_thread, ax_error + unit) M" where
  "set_nagle_enabled N enabled sk =
     (case hdl sk of
        None \<Rightarrow> ret (Err NotConnected)
      | Some h \<Rightarrow> bnd (with_socket_mut N h (\<lambda>x. ret ((), s_set_nagle_enabled N enabled x))) (\<lambda>_. ret (Okay ())))"

definition nagle_enabled :: "('k, 'n, 's) nenv \<Rightarrow> tcp_socket \<Rightarrow> (('k, 'n) net_thread, bool) M" where
  "nagle_enabled N sk =
     (case hdl sk of None \<Rightarrow> ret True | Some h \<Rightarrow> with_socket N h (s_nagle_enabled N))"

section \<open>Access to the state and to the socket of the stack\<close>

definition get_state :: "tcp_socket \<Rightarrow> u8" where "get_state sk = st sk"

definition set_state :: "u8 \<Rightarrow> tcp_socket \<Rightarrow> tcp_socket" where "set_state x sk = sk\<lparr>st := x\<rparr>"

definition sock_with_socket ::
  "('k, 'n, 's) nenv \<Rightarrow> ('s option \<Rightarrow> 'a) \<Rightarrow> tcp_socket \<Rightarrow> (('k, 'n) net_thread, 'a) M" where
  "sock_with_socket N f sk =
     (case hdl sk of
        Some h \<Rightarrow> with_socket N h (\<lambda>x. f (Some x))
      | None \<Rightarrow> ret (f None))"

text \<open>The closure gets a mutable reference, so it returns the socket of the stack as well.\<close>

definition sock_with_socket_mut ::
  "('k, 'n, 's) nenv \<Rightarrow> ('s option \<Rightarrow> 'a \<times> 's option) \<Rightarrow> tcp_socket \<Rightarrow> (('k, 'n) net_thread, 'a) M" where
  "sock_with_socket_mut N f sk =
     (case hdl sk of
        Some h \<Rightarrow> with_socket_mut N h (\<lambda>x. case f (Some x) of (r, x') \<Rightarrow> ret (r, (case x' of None \<Rightarrow> x | Some y \<Rightarrow> y)))
      | None \<Rightarrow> ret (fst (f None)))"

lemma get_set_state [simp]: "get_state (set_state x sk) = x"
  and is_connected_state: "is_connected sk \<longleftrightarrow> get_state sk = STATE_CONNECTED"
  by (simp_all add: get_state_def set_state_def is_connected_def)

end
