(* ===== verification/Net_Ipc.thy ===== *)
theory Net_Ipc
  imports Tcp_Socket
begin

text \<open>
  \<^verbatim>\<open>src/crates/net-thread/src/ipc/mod.rs\<close>: the requests of the kernel thread, the table of sockets
  \<open>SOCKET_VEC\<close>, and \<open>main\<close>'s initialisation of the stack.

  The mutex of \<open>SOCKET_VEC\<close> is part of the state: a handler holds it while it works on a
  socket, and \<open>alloc_socket_id\<close> takes it again. Taking a spin mutex that the same thread holds
  never returns.
\<close>

section \<open>The table of sockets\<close>

definition lock_sockets :: "(('k, 'n) net_thread, unit) M" where
  "lock_sockets =
     bnd (gets socket_vec_locked) (\<lambda>held.
     if held then deadlock else modify (\<lambda>s. s\<lparr>socket_vec_locked := True\<rparr>))"

definition unlock_sockets :: "(('k, 'n) net_thread, unit) M" where
  "unlock_sockets = modify (\<lambda>s. s\<lparr>socket_vec_locked := False\<rparr>)"

primrec find_free :: "nat \<Rightarrow> 'a option list \<Rightarrow> nat option" where
  "find_free i [] = None"
| "find_free i (x # xs) = (if x = None then Some i else find_free (Suc i) xs)"

text \<open>\<open>Vec::push\<close> panics at the latest when the vector would have more than \<open>isize::MAX\<close> bytes.\<close>

definition push_none :: "(('k, 'n) net_thread, u64) M" where
  "push_none =
     bnd (gets socket_vec) (\<lambda>v.
     if Suc (length v) < 2 ^ 63 then
       bnd (modify (\<lambda>s. s\<lparr>socket_vec := v @ [None]\<rparr>)) (\<lambda>_. ret (of_nat (length v)))
     else stop (Message ''capacity overflow''))"

definition alloc_socket_id :: "(('k, 'n) net_thread, u64) M" where
  "alloc_socket_id =
     bnd lock_sockets (\<lambda>_.
     bnd (gets socket_vec) (\<lambda>v.
     bnd (case find_free 0 v of
            Some i \<Rightarrow> ret (of_nat i)
          | None \<Rightarrow> push_none) (\<lambda>i.
     bnd unlock_sockets (\<lambda>_. ret i))))"

definition vec_at :: "u64 \<Rightarrow> (('k, 'n) net_thread, tcp_socket option) M" where
  "vec_at i =
     bnd (gets socket_vec) (\<lambda>v.
     if unat i < length v then ret (v ! unat i) else stop Index_out_of_bounds)"

definition vec_put :: "u64 \<Rightarrow> tcp_socket option \<Rightarrow> (('k, 'n) net_thread, unit) M" where
  "vec_put i x = modify (\<lambda>s. s\<lparr>socket_vec := (socket_vec s)[unat i := x]\<rparr>)"

text \<open>\<open>let mut socket_vec = SOCKET_VEC.lock(); let socket = socket_vec[id].as_mut().unwrap();\<close> and
  what the handler does with it, until the guard goes out of scope.\<close>

definition on_socket :: "u64 \<Rightarrow> ('k, 'n, 'a) sock_op \<Rightarrow> (('k, 'n) net_thread, 'a) M" where
  "on_socket i f =
     bnd lock_sockets (\<lambda>_.
     bnd (vec_at i) (\<lambda>x.
     bnd (unwrap_opt x) (\<lambda>sk.
     bnd (f sk) (\<lambda>(r, sk').
     bnd (vec_put i (Some sk')) (\<lambda>_.
     bnd unlock_sockets (\<lambda>_. ret r))))))"

section \<open>Messages\<close>

definition net_page_seat :: usize where "net_page_seat = 0x100002000"

definition net_reply_with :: "('k, 'n, 's) nenv \<Rightarrow> u64 list \<Rightarrow> (('k, 'n) net_thread, unit) M" where
  "net_reply_with N regs =
     bnd (upd_regs (\<lambda>msg. fold (\<lambda>i m. m(i := regs ! i)) [0 ..< length regs] msg)) (\<lambda>_.
     reply_ipc N (mi_new N 0 0 0 (8 * of_nat (length regs))))"

definition net_read_item :: "('k, 'n, 's) nenv \<Rightarrow> usize \<Rightarrow> (u8 list \<Rightarrow> 't) \<Rightarrow> usize \<Rightarrow> cptr \<Rightarrow> (('k, 'n) net_thread, 't) M" where
  "net_read_item N size_T decode p cap =
     bnd (kcall_unwrap (frame_map N cap (slot_VSPACE N) net_page_seat rights_all)) (\<lambda>_.
     if 0x1000 - n_align_offset_4k N p < size_T then stop (Message ''The item is not contained in a page.'')
     else
       bnd (gets (\<lambda>s. ptr_read N (net_page_seat + n_align_offset_4k N p) (unat size_T) (kern s))) (\<lambda>bs.
       bnd (kcall_unwrap (frame_unmap N cap)) (\<lambda>_.
       ret (decode bs))))"

definition net_axresult :: "('k, 'n, 's) nenv \<Rightarrow> ax_error + 'a \<Rightarrow> u64" where
  "net_axresult N res = (case res of Inr _ \<Rightarrow> 0 | Inl e \<Rightarrow> scast (n_ax_code N e))"

text \<open>\<open>ans.unwrap_or_else(|err| err.code() as usize) as u64\<close>\<close>

definition count_or_code :: "('k, 'n, 's) nenv \<Rightarrow> ax_error + u64 \<Rightarrow> u64" where
  "count_or_code N res = (case res of Inr n \<Rightarrow> n | Inl e \<Rightarrow> scast (n_ax_code N e))"

definition recv_cap :: cptr where "recv_cap = DEFAULT_CUSTOM_SLOT + 3"

definition map_buffer :: "('k, 'n, 's) nenv \<Rightarrow> usize \<Rightarrow> usize \<Rightarrow> (('k, 'n) net_thread, unit) M" where
  "map_buffer N buf len =
     bnd (kcall_unwrap (frame_map N recv_cap (slot_VSPACE N) net_page_seat rights_all)) (\<lambda>_.
     if n_align_offset_4k N buf + len > 0x1000
     then stop (Message ''The buffer is not contained in a page.'') else ret ())"

definition handle_new :: "('k, 'n, 's) nenv \<Rightarrow> (('k, 'n) net_thread, unit) M" where
  "handle_new N =
     bnd (tcp_socket_new N) (\<lambda>sk.
     bnd alloc_socket_id (\<lambda>i.
     bnd lock_sockets (\<lambda>_.
     bnd (vec_at i) (\<lambda>_.
     bnd (vec_put i (Some sk)) (\<lambda>_.
     bnd unlock_sockets (\<lambda>_.
     net_reply_with N [i]))))))"

definition handle_is_nonblocking :: "('k, 'n, 's) nenv \<Rightarrow> u64 \<Rightarrow> (('k, 'n) net_thread, unit) M" where
  "handle_is_nonblocking N i =
     bnd lock_sockets (\<lambda>_.
     bnd (vec_at i) (\<lambda>x.
     bnd (net_reply_with N [case x of None \<Rightarrow> 0 | Some sk \<Rightarrow> if is_nonblocking sk then 1 else 0]) (\<lambda>_.
     unlock_sockets)))"

definition handle_bind :: "('k, 'n, 's) nenv \<Rightarrow> u64 \<Rightarrow> u64 \<Rightarrow> (('k, 'n) net_thread, unit) M" where
  "handle_bind N i addr =
     on_socket i (\<lambda>sk.
       bnd (net_read_item N (n_size_of_SocketAddr N) (n_socket_addr_of_bytes N) addr recv_cap) (\<lambda>a.
       bnd (bind N a sk) (\<lambda>(ans, sk').
       bnd (net_reply_with N [net_axresult N ans]) (\<lambda>_.
       bnd (kcall_unwrap (frame_unmap N recv_cap)) (\<lambda>_.
       ret ((), sk'))))))"

definition handle_send :: "('k, 'n, 's) nenv \<Rightarrow> u64 \<Rightarrow> u64 \<Rightarrow> u64 \<Rightarrow> (('k, 'n) net_thread, unit) M" where
  "handle_send N i buf len =
     on_socket i (\<lambda>sk.
       bnd (map_buffer N buf len) (\<lambda>_.
       bnd (gets (\<lambda>s. ptr_read N net_page_seat (unat len) (kern s))) (\<lambda>bytes.
       bnd (send N bytes sk) (\<lambda>(ans, sk').
       bnd (net_reply_with N [count_or_code N ans]) (\<lambda>_.
       bnd (kcall_unwrap (frame_unmap N recv_cap)) (\<lambda>_.
       ret ((), sk')))))))"

text \<open>What the socket received is in the window when the reply is sent.\<close>

definition finish_recv ::
  "('k, 'n, 's) nenv \<Rightarrow> (ax_error + u8 list) \<times> tcp_socket \<Rightarrow> (('k, 'n) net_thread, unit \<times> tcp_socket) M" where
  "finish_recv N r =
     bnd (case fst r of Inl _ \<Rightarrow> ret () | Inr bs \<Rightarrow> kdo (ptr_write N net_page_seat bs)) (\<lambda>_.
     bnd (net_reply_with N [count_or_code N (case fst r of Inl e \<Rightarrow> Err e | Inr bs \<Rightarrow> Okay (of_nat (length bs)))]) (\<lambda>_.
     bnd (kcall_unwrap (frame_unmap N recv_cap)) (\<lambda>_.
     ret ((), snd r))))"

definition handle_recv :: "('k, 'n, 's) nenv \<Rightarrow> u64 \<Rightarrow> u64 \<Rightarrow> u64 \<Rightarrow> (('k, 'n) net_thread, unit) M" where
  "handle_recv N i buf len =
     on_socket i (\<lambda>sk.
       bnd (map_buffer N buf len) (\<lambda>_.
       bnd (recv N (unat len) sk) (finish_recv N)))"

definition handle_recv_timeout ::
  "('k, 'n, 's) nenv \<Rightarrow> u64 \<Rightarrow> u64 \<Rightarrow> u64 \<Rightarrow> u64 \<Rightarrow> (('k, 'n) net_thread, unit) M" where
  "handle_recv_timeout N i buf len timeout =
     on_socket i (\<lambda>sk.
       bnd (map_buffer N buf len) (\<lambda>_.
       bnd (recv_timeout N (unat len) timeout sk) (finish_recv N)))"

definition handle_connect :: "('k, 'n, 's) nenv \<Rightarrow> u64 \<Rightarrow> u64 \<Rightarrow> (('k, 'n) net_thread, unit) M" where
  "handle_connect N i addr =
     on_socket i (\<lambda>sk.
       bnd (net_read_item N (n_size_of_SocketAddr N) (n_socket_addr_of_bytes N) addr recv_cap) (\<lambda>a.
       bnd (connect N a sk) (\<lambda>(ans, sk').
       bnd (net_reply_with N [net_axresult N ans]) (\<lambda>_.
       ret ((), sk')))))"

definition handle_listen :: "('k, 'n, 's) nenv \<Rightarrow> u64 \<Rightarrow> (('k, 'n) net_thread, unit) M" where
  "handle_listen N i =
     on_socket i (\<lambda>sk.
       bnd (listen sk) (\<lambda>(ans, sk').
       bnd (net_reply_with N [net_axresult N ans]) (\<lambda>_.
       ret ((), sk'))))"

definition be_word :: "u8 list \<Rightarrow> 128 word" where
  "be_word bs = foldl (\<lambda>acc b. push_bit 8 acc OR ucast b) 0 bs"

definition is_ipv4 :: "ip_addr \<Rightarrow> bool" where
  "is_ipv4 ip = (case ip of V4 _ _ _ _ \<Rightarrow> True | V6 _ \<Rightarrow> False)"

definition addr_words :: "ip_addr \<Rightarrow> u64 \<times> u64" where
  "addr_words ip =
     (case ip of
        V4 a b c d \<Rightarrow> (ucast (be_word [a, b, c, d]), 0)
      | V6 bs \<Rightarrow> (ucast (be_word bs), ucast (drop_bit 32 (be_word bs))))"

definition accept_reply :: "u64 \<Rightarrow> socket_addr \<Rightarrow> u64 list" where
  "accept_reply i a =
     [i, if is_ipv4 (sock_ip a) then 1 else 0, ucast (sock_port a),
      fst (addr_words (sock_ip a)), snd (addr_words (sock_ip a))]"

definition finish_accept :: "tcp_socket \<Rightarrow> (('k, 'n) net_thread, u64 list) M" where
  "finish_accept new_socket =
     bnd alloc_socket_id (\<lambda>new_id.
     bnd (unwrap_res (sock_local_addr new_socket)) (\<lambda>a.
     bnd (vec_at new_id) (\<lambda>_.
     bnd (vec_put new_id (Some new_socket)) (\<lambda>_.
     ret (accept_reply new_id a)))))"

definition handle_accept :: "('k, 'n, 's) nenv \<Rightarrow> u64 \<Rightarrow> (('k, 'n) net_thread, unit) M" where
  "handle_accept N i =
     on_socket i (\<lambda>sk.
       bnd (accept N sk) (\<lambda>(r, sk').
       bnd (case r of
              Inl e \<Rightarrow> ret [scast (n_ax_code N e), 0, 0, 0, 0]
            | Inr new_socket \<Rightarrow> finish_accept new_socket) (\<lambda>ans.
       bnd (net_reply_with N ans) (\<lambda>_.
       ret ((), sk')))))"

definition handle_close :: "('k, 'n, 's) nenv \<Rightarrow> u64 \<Rightarrow> (('k, 'n) net_thread, unit) M" where
  "handle_close N i =
     bnd lock_sockets (\<lambda>_.
     bnd (vec_at i) (\<lambda>x.
     bnd (vec_put i None) (\<lambda>_.
     bnd (unwrap_opt x) (\<lambda>sk.
     bnd (close N sk) (\<lambda>_.
     bnd (net_reply_with N []) (\<lambda>_.
     bnd (drop_socket N sk) (\<lambda>_.
     unlock_sockets)))))))"

definition handle_set_nonblocking :: "('k, 'n, 's) nenv \<Rightarrow> u64 \<Rightarrow> u64 \<Rightarrow> (('k, 'n) net_thread, unit) M" where
  "handle_set_nonblocking N i b =
     on_socket i (\<lambda>sk.
       bnd (net_reply_with N []) (\<lambda>_.
       ret ((), set_nonblocking (b \<noteq> 0) sk)))"

definition handle_shutdown :: "('k, 'n, 's) nenv \<Rightarrow> u64 \<Rightarrow> (('k, 'n) net_thread, unit) M" where
  "handle_shutdown N i =
     on_socket i (\<lambda>sk.
       bnd (shutdown N sk) (\<lambda>(ans, sk').
       bnd (net_reply_with N [net_axresult N ans]) (\<lambda>_.
       ret ((), sk'))))"

definition handle_request :: "('k, 'n, 's) nenv \<Rightarrow> NetRequsetabel \<Rightarrow> (('k, 'n) net_thread, unit) M" where
  "handle_request N r =
     (case r of
        New \<Rightarrow> handle_new N
      | IsNonBlocking i \<Rightarrow> handle_is_nonblocking N i
      | SetNonBlocking i b \<Rightarrow> handle_set_nonblocking N i b
      | Bind i addr \<Rightarrow> handle_bind N i addr
      | Send i buf len \<Rightarrow> handle_send N i buf len
      | Recv i buf len \<Rightarrow> handle_recv N i buf len
      | RecvTimeout i buf len timeout \<Rightarrow> handle_recv_timeout N i buf len timeout
      | Connect i addr \<Rightarrow> handle_connect N i addr
      | Listen i \<Rightarrow> handle_listen N i
      | Accept i \<Rightarrow> handle_accept N i
      | Shutdown i \<Rightarrow> handle_shutdown N i
      | Close i \<Rightarrow> handle_close N i)"

definition handle_ipc :: "('k, 'n, 's) nenv \<Rightarrow> cptr \<Rightarrow> (('k, 'n) net_thread, unit) M" where
  "handle_ipc N recv_ep' =
     bnd (set_recv_slot (Relative (slot_CNODE N) recv_cap)) (\<lambda>_.
     bnd (recv_ep N recv_ep') (\<lambda>(message, badge).
     if mi_label N message < 8 then stop (Message ''not implemented'')
     else
       bnd get_regs (\<lambda>regs.
       bnd (case net_try_from N message regs of
              Some r \<Rightarrow> handle_request N r
            | None \<Rightarrow> ret ()) (\<lambda>_.
       kcall_unwrap (cnode_delete N (Relative (slot_CNODE N) recv_cap))))))"

text \<open>The loop of \<open>run_ipc\<close> never ends; the argument bounds its rounds.\<close>

primrec run_ipc_loop :: "('k, 'n, 's) nenv \<Rightarrow> nat \<Rightarrow> (('k, 'n) net_thread, unit) M" where
  "run_ipc_loop N 0 = no_fuel"
| "run_ipc_loop N (Suc n) = bnd (handle_ipc N (DEFAULT_CUSTOM_SLOT + 2)) (\<lambda>_. run_ipc_loop N n)"

definition run_ipc :: "('k, 'n, 's) nenv \<Rightarrow> nat \<Rightarrow> (('k, 'n) net_thread, unit) M" where
  "run_ipc N rounds =
     bnd (modify (\<lambda>s. s\<lparr>socket_vec := [], socket_vec_locked := False\<rparr>)) (\<lambda>_. run_ipc_loop N rounds)"

end
