(* ===== verification/Net_Invariant.thy ===== *)
theory Net_Invariant
  imports Net_Ipc
begin

text \<open>
  What the network thread keeps from one request to the next.

  \<open>net_frame\<close> is what every operation below the sockets leaves alone: the socket table, its lock,
  and the listen table except for SYN queues, which stay within their bound. \<open>nf\<close> says that a
  transformer has this frame; its rules follow the structure of the code, so that most operations
  are framed by their text alone. \<open>sock_step\<close> is what a request may do to one socket: at most it
  starts or stops listening on one port. \<open>net_inv\<close> is the invariant, and it holds in every state
  that the server reaches.
\<close>

named_theorems nf_intros \<open>rules that frame the operations of the network thread\<close>

section \<open>Frames\<close>

definition entry_step :: "listen_table_entry \<Rightarrow> listen_table_entry \<Rightarrow> bool" where
  "entry_step e e' \<longleftrightarrow> listen_endpoint e' = listen_endpoint e
     \<and> (length (syn_queue e) \<le> LISTEN_QUEUE_SIZE \<longrightarrow> length (syn_queue e') \<le> LISTEN_QUEUE_SIZE)"

definition net_frame :: "('k, 'n) net_thread \<Rightarrow> ('k, 'n) net_thread \<Rightarrow> bool" where
  "net_frame s t \<longleftrightarrow> socket_vec t = socket_vec s \<and> socket_vec_locked t = socket_vec_locked s
     \<and> (\<forall>p. rel_option entry_step (listen_table s p) (listen_table t p))"

lemma entry_step_refl [simp]: "entry_step e e"
  by (simp add: entry_step_def)

lemma entry_step_trans: "entry_step a b \<Longrightarrow> entry_step b c \<Longrightarrow> entry_step a c"
  by (simp add: entry_step_def)

lemma net_frame_refl [simp]: "net_frame s s"
  by (simp add: net_frame_def option.rel_refl)

lemma rel_entry_trans:
  "rel_option entry_step a b \<Longrightarrow> rel_option entry_step b c \<Longrightarrow> rel_option entry_step a c"
  by (cases a; cases b; cases c) (auto intro: entry_step_trans)

lemma net_frame_trans: "net_frame s t \<Longrightarrow> net_frame t u \<Longrightarrow> net_frame s u"
  unfolding net_frame_def by (auto intro: rel_entry_trans)

lemma net_frame_same:
  "socket_vec t = socket_vec s \<Longrightarrow> socket_vec_locked t = socket_vec_locked s \<Longrightarrow>
     listen_table t = listen_table s \<Longrightarrow> net_frame s t"
  by (simp add: net_frame_def option.rel_refl)

lemma net_frame_sockets:
  "net_frame s t \<Longrightarrow> socket_vec t = socket_vec s"
  "net_frame s t \<Longrightarrow> socket_vec_locked t = socket_vec_locked s"
  by (simp_all add: net_frame_def)

lemma net_frame_put:
  "listen_table s p = Some e \<Longrightarrow> entry_step e e' \<Longrightarrow>
     net_frame s (s\<lparr>listen_table := (listen_table s)(p := Some e')\<rparr>)"
  by (simp add: net_frame_def option.rel_refl)

definition nf :: "(('k, 'n) net_thread, 'a) M \<Rightarrow> bool" where
  "nf m \<longleftrightarrow> (\<forall>s. pwp m (\<lambda>_. net_frame s) s)"

lemma nfD: "nf m \<Longrightarrow> pwp m (\<lambda>_. net_frame s) s"
  by (simp add: nf_def)

lemma nfI: "(\<And>s. pwp m (\<lambda>_. net_frame s) s) \<Longrightarrow> nf m"
  by (simp add: nf_def)

lemma nf_bnd [nf_intros]: "nf m \<Longrightarrow> (\<And>x. nf (f x)) \<Longrightarrow> nf (bnd m f)"
proof (rule nfI)
  fix s assume m: "nf m" and f: "\<And>x. nf (f x)"
  show "pwp (bnd m f) (\<lambda>_. net_frame s) s"
    by (rule pwp_bnd, rule pwp_use [OF nfD [OF m]], rule pwp_use [OF nfD [OF f]])
      (rule net_frame_trans)
qed

lemma nf_basic [nf_intros]: "nf (ret x)" "nf (stop p)" "nf deadlock" "nf no_fuel" "nf (gets g)"
  by (simp_all add: nf_def wp_simps)

lemma nf_modify:
  "(\<And>s. net_frame s (g s)) \<Longrightarrow> nf (modify g)"
  by (simp add: nf_def wp_simps)

lemma nf_try_bnd [nf_intros]: "nf m \<Longrightarrow> (\<And>x. nf (f x)) \<Longrightarrow> nf (try_bnd m f)"
  unfolding try_bnd_def by (rule nf_bnd) (auto intro: nf_basic split: sum.split)

lemma nf_cases [nf_intros]:
  "nf m \<Longrightarrow> nf n \<Longrightarrow> nf (if b then m else n)"
  "nf m \<Longrightarrow> (\<And>v. nf (f v)) \<Longrightarrow> nf (case x of None \<Rightarrow> m | Some v \<Rightarrow> f v)"
  "(\<And>e. nf (g e)) \<Longrightarrow> (\<And>v. nf (h v)) \<Longrightarrow> nf (case y of Inl e \<Rightarrow> g e | Inr v \<Rightarrow> h v)"
  "(\<And>a b. nf (k a b)) \<Longrightarrow> nf (case p of (a, b) \<Rightarrow> k a b)"
  "nf m \<Longrightarrow> (\<And>z zs. nf (l z zs)) \<Longrightarrow> nf (case q of [] \<Rightarrow> m | z # zs \<Rightarrow> l z zs)"
  by (auto split: option.split sum.split prod.split list.split)

lemma nf_unwrap [nf_intros]:
  "nf (unwrap_opt x)" "nf (unwrap_res r)" "nf (assert_that b)"
  by (simp_all add: nf_def wp_simps split: option.split sum.split)

lemma nf_for_each [nf_intros]: "(\<And>x. nf (f x)) \<Longrightarrow> nf (for_each f xs)"
  by (induction xs) (simp_all add: nf_intros)

lemma nf_updates [nf_intros]:
  "nf (modify (\<lambda>s. s\<lparr>net_stack := f s\<rparr>))" "nf (modify (\<lambda>s. s\<lparr>lb_queue := g s\<rparr>))"
  "nf (modify (\<lambda>s. s\<lparr>curr_port := h s\<rparr>))" "nf (modify (\<lambda>s. s\<lparr>time_ticks := k s\<rparr>))"
  "nf (modify (\<lambda>s. s\<lparr>ipcbuf := b s\<rparr>))"
  "nf (modify (\<lambda>s. s\<lparr>kern := c s\<rparr>))"
  by (rule nf_modify, rule net_frame_same; simp)+

lemma nf_kernel [nf_intros]:
  "nf (kcall f)" "nf (kcall_unwrap g)" "nf (kdo h)" "nf (reply_ipc S info)" "nf get_regs"
  "nf (upd_regs u)" "nf (set_recv_slot c)" "nf (recv_ep S ep)"
  by (simp_all add: nf_def wp_simps kcall_unwrap_def reply_ipc_def get_regs_def upd_regs_def
      set_recv_slot_def wp_def run_recv_ep Let_def net_frame_same run_simps split: sum.split)

section \<open>The operations below the sockets\<close>

lemma nf_set [nf_intros]: "nf (set_add_tcp N)" "nf (with_socket N h f)" "nf (remove_socket N h)"
  "nf (bind_check N a port)" "nf (stack_op g)"
  unfolding set_add_tcp_def with_socket_def remove_socket_def bind_check_def stack_op_def Let_def
  by (intro nf_intros)+

lemma nf_with_socket_mut [nf_intros]: "(\<And>x. nf (f x)) \<Longrightarrow> nf (with_socket_mut N h f)"
  unfolding with_socket_mut_def by (intro nf_intros) simp_all

lemma nf_table_reads [nf_intros]: "nf (table_at port)" "nf (can_listen port)"
  unfolding can_listen_def table_at_def by (intro nf_intros)+

lemma nf_drop_entry [nf_intros]: "nf (drop_entry N e)"
  unfolding drop_entry_def by (intro nf_intros)

lemma nf_entry_reads [nf_intros]: "nf (is_connected_sock N h)" "nf (is_closed_sock N h)" "nf (get_addr_tuple N h)"
  unfolding is_connected_sock_def is_closed_sock_def get_addr_tuple_def by (intro nf_intros)+

lemma nf_first_connected [nf_intros]: "nf (first_connected N i hs)"
  by (induction hs arbitrary: i) (simp_all add: nf_intros)

lemma nf_table_can_accept [nf_intros]: "nf (table_can_accept N port)"
  unfolding table_can_accept_def by (intro nf_intros)

text \<open>Reading the table and the sockets changes nothing, so an entry that was read is still there.\<close>

lemma pwp_table_at: "pwp (table_at port) (\<lambda>e t. t = s \<and> e = listen_table s (unat port) \<and> unat port < PORT_NUM) s"
  by (simp add: table_at_def wp_simps)

lemma pwp_with_socket: "pwp (with_socket N h f) (\<lambda>_ t. t = s) s"
  by (simp add: with_socket_def wp_simps split: option.split)

lemma pwp_first_connected:
  "pwp (first_connected N i hs) (\<lambda>r t. t = s \<and> (\<forall>j. r = Some j \<longrightarrow> i \<le> j \<and> j < i + length hs)) s"
proof (induction hs arbitrary: i)
  case Nil
  then show ?case by (simp add: wp_simps)
next
  case (Cons h hs)
  have c: "pwp (is_connected_sock N h) (\<lambda>_ t. t = s) s"
    unfolding is_connected_sock_def by (rule pwp_with_socket)
  show ?case
    unfolding first_connected.simps
  proof (rule pwp_bnd, rule pwp_use [OF c], hypsubst, rule pwp_if)
    show "pwp (first_connected N (Suc i) hs)
        (\<lambda>r t. t = s \<and> (\<forall>j. r = Some j \<longrightarrow> i \<le> j \<and> j < i + length (h # hs))) s"
      by (rule pwp_use [OF Cons.IH]) auto
  qed (simp add: wp_simps)
qed

lemma length_swap_remove_front: "length (swap_remove_front xs i) = length xs - 1"
  by (simp add: swap_remove_front_def)

lemma nf_table_accept [nf_intros]: "nf (table_accept N port)"
proof (rule nfI)
  fix s :: "('a, 'b) net_thread"
  have rest: "nf (bnd (is_closed_sock N h) (\<lambda>closed. if closed then ret (Err ConnectionReset)
      else bnd (get_addr_tuple N h) (\<lambda>ends. ret (Okay (h, ends)))))" for h
    by (intro nf_intros)
  show "pwp (table_accept N port) (\<lambda>_. net_frame s) s"
    unfolding table_accept_def Let_def
  proof (rule pwp_bnd, rule pwp_use [OF pwp_table_at], elim conjE, hypsubst, rule pwp_case_option)
    fix e assume e: "listen_table s (unat port) = Some e"
    show "pwp (bnd (first_connected N 0 (syn_queue e)) (\<lambda>found. case found of None \<Rightarrow> ret (Err WouldBlock)
         | Some idx \<Rightarrow> bnd (table_put port (Some (e\<lparr>syn_queue := swap_remove_front (syn_queue e) idx\<rparr>)))
             (\<lambda>_. bnd (is_closed_sock N (syn_queue e ! idx)) (\<lambda>closed. if closed then ret (Err ConnectionReset)
                else bnd (get_addr_tuple N (syn_queue e ! idx)) (\<lambda>ends. ret (Okay (syn_queue e ! idx, ends)))))))
         (\<lambda>_. net_frame s) s"
    proof (rule pwp_bnd, rule pwp_use [OF pwp_first_connected], elim conjE, hypsubst, rule pwp_case_option)
      fix idx
      have f: "net_frame s (s\<lparr>listen_table := (listen_table s)(unat port := Some (e\<lparr>syn_queue := swap_remove_front (syn_queue e) idx\<rparr>))\<rparr>)"
        by (rule net_frame_put [OF e]) (auto simp: entry_step_def length_swap_remove_front)
      show "pwp (bnd (table_put port (Some (e\<lparr>syn_queue := swap_remove_front (syn_queue e) idx\<rparr>)))
          (\<lambda>_. bnd (is_closed_sock N (syn_queue e ! idx)) (\<lambda>closed. if closed then ret (Err ConnectionReset)
             else bnd (get_addr_tuple N (syn_queue e ! idx)) (\<lambda>ends. ret (Okay (syn_queue e ! idx, ends))))))
          (\<lambda>_. net_frame s) s"
        unfolding table_put_def
        by (rule pwp_bnd, rule pwp_modify, rule pwp_use [OF nfD [OF rest]]) (rule net_frame_trans [OF f])
    qed (simp add: wp_simps)
  qed (simp add: wp_simps)
qed

lemma nf_incoming [nf_intros]: "nf (incoming_tcp_packet N src dst)"
proof (rule nfI)
  fix s :: "('a, 'b) net_thread"
  show "pwp (incoming_tcp_packet N src dst) (\<lambda>_. net_frame s) s"
    unfolding incoming_tcp_packet_def Let_def
  proof (rule pwp_bnd, rule pwp_use [OF pwp_table_at], elim conjE, hypsubst, rule pwp_case_option)
    fix e assume e: "listen_table s (unat (ep_port dst)) = Some e"
    have "net_frame s (s\<lparr>net_stack := n, listen_table := (listen_table s)(unat (ep_port dst) := Some (e\<lparr>syn_queue := syn_queue e @ [h]\<rparr>))\<rparr>)"
      if "length (syn_queue e) < LISTEN_QUEUE_SIZE" for n h
      using e that by (simp add: net_frame_def option.rel_refl entry_step_def)
    then show "pwp (if \<not> entry_can_accept e (ep_addr dst) then ret ()
         else if LISTEN_QUEUE_SIZE \<le> length (syn_queue e) then ret ()
         else case s_listen N (listen_endpoint e) (new_tcp_socket N) of (ok, socket) \<Rightarrow>
           if ok then bnd (gets net_stack) (\<lambda>n. case set_add N socket n of (h, n') \<Rightarrow>
             bnd (modify (\<lambda>s. s\<lparr>net_stack := n'\<rparr>)) (\<lambda>_. table_put (ep_port dst) (Some (e\<lparr>syn_queue := syn_queue e @ [h]\<rparr>))))
           else ret ()) (\<lambda>_. net_frame s) s"
      by (simp add: wp_simps table_put_def split: prod.split)
  qed (simp add: wp_simps)
qed

lemma nf_loopback: "nf lb_receive" "nf (lb_tx_consume p)"
  unfolding lb_receive_def lb_tx_consume_def by (intro nf_intros)+

lemma nf_ethernet: "nf (eth_receive N)" "nf (eth_transmit N)" "nf (eth_tx_consume N p)"
  unfolding eth_receive_def eth_tx_consume_def eth_transmit_def by (intro nf_intros)+

lemma nf_devices [nf_intros]: "nf (receive N i)" "nf (tx_consume N i p)" "nf (transmit N i)"
  by (cases i; simp add: receive_def tx_consume_def transmit_def nf_loopback nf_ethernet nf_intros)+

lemma nf_snoop [nf_intros]: "nf (snoop N th)"
  unfolding snoop_def Let_def by (intro nf_intros)

lemma nf_preprocess [nf_intros]: "nf (preprocess N i buf)"
  by (cases i) (simp_all add: preprocess_def snoop_tcp_from_ip_def snoop_tcp_packet_def nf_intros)

lemma nf_rx_consume [nf_intros]: "nf (rx_consume N i buf)"
  unfolding rx_consume_def by (cases i; simp; intro nf_intros)

lemma nf_iface_poll [nf_intros]: "nf (iface_poll N i now n)"
proof (induction n)
  case (Suc n)
  have "nf (case act of
       Poll_receive \<Rightarrow>
         bnd (receive N i) (\<lambda>got.
         bnd (case got of
                None \<Rightarrow> stack_op (\<lambda>n. ((), poll_got N i None n))
              | Some buf \<Rightarrow> bnd (preprocess N i buf) (\<lambda>_. rx_consume N i buf)) (\<lambda>_.
         iface_poll N i now n))
     | Poll_transmit p \<Rightarrow>
         bnd (transmit N i) (\<lambda>ok.
         bnd (if ok then tx_consume N i p else ret ()) (\<lambda>_.
         bnd (stack_op (\<lambda>n. ((), poll_sent N i ok n))) (\<lambda>_.
         iface_poll N i now n)))
     | Poll_done \<Rightarrow> ret ())" for act
    by (cases act; simp; intro nf_intros Suc)
  then show ?case unfolding iface_poll.simps by (intro nf_bnd nf_basic)
qed (simp add: nf_intros)

lemma nf_poll_interfaces [nf_intros]: "nf (poll_interfaces N)"
  unfolding poll_interfaces_def current_time_def by (intro nf_intros)

lemma nf_ports [nf_intros]: "nf (port_loop n tries)" "nf get_ephemeral_port" "nf (bound_endpoint sk)"
proof -
  show p: "nf (port_loop n tries)" for n tries
    by (induction n arbitrary: tries) (simp_all add: nf_intros)
  show g: "nf get_ephemeral_port"
    unfolding get_ephemeral_port_def by (intro nf_intros p)
  show "nf (bound_endpoint sk)"
    unfolding bound_endpoint_def Let_def by (intro nf_intros g)
qed

section \<open>Steps of one socket\<close>

definition settled :: "tcp_socket \<Rightarrow> bool" where
  "settled sk \<longleftrightarrow> st sk \<in> {STATE_CLOSED, STATE_CONNECTING, STATE_CONNECTED, STATE_LISTENING}"

definition port_of :: "tcp_socket \<Rightarrow> nat option" where
  "port_of sk = (if st sk = STATE_LISTENING then Some (unat (ep_port (local_addr sk))) else None)"

definition entries_ok :: "('k, 'n) net_thread \<Rightarrow> bool" where
  "entries_ok s \<longleftrightarrow> (\<forall>p e. listen_table s p = Some e \<longrightarrow>
     length (syn_queue e) \<le> LISTEN_QUEUE_SIZE \<and> unat (le_port (listen_endpoint e)) = p)"

definition sock_step :: "('k, 'n) net_thread \<Rightarrow> tcp_socket \<Rightarrow> tcp_socket \<Rightarrow> ('k, 'n) net_thread \<Rightarrow> bool" where
  "sock_step s sk sk' t \<longleftrightarrow> socket_vec t = socket_vec s \<and> socket_vec_locked t = socket_vec_locked s
     \<and> (entries_ok s \<longrightarrow> entries_ok t) \<and> settled sk'
     \<and> (port_of sk' = port_of sk \<and> dom (listen_table t) = dom (listen_table s)
        \<or> port_of sk = None \<and> (\<exists>p. port_of sk' = Some p \<and> p \<notin> dom (listen_table s)
              \<and> dom (listen_table t) = insert p (dom (listen_table s)))
        \<or> port_of sk' = None \<and> (\<exists>p. port_of sk = Some p \<and> dom (listen_table t) = dom (listen_table s) - {p}))"

lemma entries_ok_upd [simp]:
  "entries_ok (s\<lparr>socket_vec_locked := b\<rparr>) = entries_ok s" "entries_ok (s\<lparr>socket_vec := v\<rparr>) = entries_ok s"
  by (simp_all add: entries_ok_def)

lemma entries_ok_frame: "net_frame s t \<Longrightarrow> entries_ok s \<Longrightarrow> entries_ok t"
  unfolding net_frame_def entries_ok_def
  by (metis (no_types, lifting) entry_step_def option.rel_cases option.sel option.simps(3))

lemma dom_frame: "net_frame s t \<Longrightarrow> dom (listen_table t) = dom (listen_table s)"
proof -
  assume "net_frame s t"
  then have "listen_table t p = None \<longleftrightarrow> listen_table s p = None" for p
    unfolding net_frame_def by (metis option.rel_distinct(1) option.rel_distinct(2) option.exhaust)
  then show ?thesis by (auto simp: dom_def)
qed

lemma sock_step_frame:
  "net_frame s t \<Longrightarrow> settled sk' \<Longrightarrow> port_of sk' = port_of sk \<Longrightarrow> sock_step s sk sk' t"
  using entries_ok_frame [of s t] by (simp add: sock_step_def dom_frame) (simp add: net_frame_def)

lemma sock_step_frame_left: "net_frame r s \<Longrightarrow> sock_step s sk sk' t \<Longrightarrow> sock_step r sk sk' t"
  by (simp add: sock_step_def dom_frame entries_ok_frame) (simp add: net_frame_def)

lemma sock_step_frame_right: "sock_step s sk sk' t \<Longrightarrow> net_frame t u \<Longrightarrow> sock_step s sk sk' u"
  by (simp add: sock_step_def dom_frame entries_ok_frame) (simp add: net_frame_def)

lemma sock_step_other: "port_of sk0 = port_of sk \<Longrightarrow> sock_step s sk0 sk' t \<longleftrightarrow> sock_step s sk sk' t"
  by (simp add: sock_step_def)

text \<open>An operation that leaves its socket as it is, and one that keeps \<open>P\<close> of it.\<close>

definition keeps :: "(tcp_socket \<Rightarrow> bool) \<Rightarrow> ('k, 'n, 'a) sock_op \<Rightarrow> bool" where
  "keeps P f \<longleftrightarrow> (\<forall>sk s. P sk \<longrightarrow> pwp (f sk) (\<lambda>(_, sk') t. P sk' \<and> net_frame s t) s)"

lemma keepsD: "keeps P f \<Longrightarrow> P sk \<Longrightarrow> pwp (f sk) (\<lambda>(_, sk') t. P sk' \<and> net_frame s t) s"
  by (simp add: keeps_def)

lemma keeps_same: "(\<And>sk. nf (m sk)) \<Longrightarrow> keeps P (\<lambda>sk. bnd (m sk) (\<lambda>r. ret (g r, sk)))"
  unfolding keeps_def
  by (intro allI impI, rule pwp_bnd, rule pwp_use [OF nfD], assumption) (simp add: wp_simps)

lemma keeps_block_on:
  assumes "keeps P f"
  shows "keeps P (block_on N f)"
proof -
  have loop: "P sk \<Longrightarrow> pwp (block_loop N f n sk) (\<lambda>(_, sk') t. P sk' \<and> net_frame s t) s" for n sk s
  proof (induction n arbitrary: sk s)
    case (Suc n)
    have again: "pwp (bnd (kdo (sel4_yield N)) (\<lambda>_. block_loop N f n sk')) (\<lambda>(_, sk'') u. P sk'' \<and> net_frame s u) t"
      if "P sk'" "net_frame s t" for sk' t
      by (rule pwp_bnd, rule pwp_use [OF nfD [OF nf_kernel(3)]], rule pwp_use [OF Suc.IH [OF that(1)]])
        (auto intro: net_frame_trans that(2))
    show ?case
      unfolding block_loop.simps
      by (rule pwp_bnd, rule pwp_use [OF nfD [OF nf_poll_interfaces]], rule pwp_bnd,
          rule pwp_use [OF keepsD [OF assms Suc.prems]])
        (auto simp: wp_ret split: sum.split intro!: again intro: net_frame_trans)
  qed (simp add: wp_simps)
  show ?thesis
    unfolding keeps_def block_on_def
    by (auto intro!: pwp_if loop keepsD [OF assms])
qed

text \<open>The socket's own operations. \<open>update_state\<close> leaves \<open>STATE_BUSY\<close> whatever its closure returns.\<close>

lemma pwp_update_state:
  assumes "st sk \<noteq> expect \<Longrightarrow> Q (Inl (st sk), sk) s"
    and "st sk = expect \<Longrightarrow> pwp (f (sk\<lparr>st := STATE_BUSY\<rparr>)) (\<lambda>(res, sk') t.
           Q (Inr res, sk'\<lparr>st := (case res of Inr _ \<Rightarrow> new | Inl _ \<Rightarrow> expect)\<rparr>) t) s"
  shows "pwp (update_state expect new f sk) Q s"
  using assms by (auto simp: update_state_def wp_simps split_def)

lemma settled_simps [simp]:
  "settled (sk\<lparr>st := STATE_CLOSED\<rparr>)" "settled (sk\<lparr>st := STATE_CONNECTING\<rparr>)"
  "settled (sk\<lparr>st := STATE_CONNECTED\<rparr>)" "settled (sk\<lparr>st := STATE_LISTENING\<rparr>)"
  "settled (sk\<lparr>local_addr := a\<rparr>) = settled sk" "settled (sk\<lparr>nonblock := b\<rparr>) = settled sk"
  by (simp_all add: settled_def)

lemma port_of_simps [simp]:
  "port_of (sk\<lparr>st := STATE_CLOSED\<rparr>) = None" "port_of (sk\<lparr>st := STATE_CONNECTING\<rparr>) = None"
  "port_of (sk\<lparr>st := STATE_CONNECTED\<rparr>) = None"
  "port_of (sk\<lparr>st := STATE_LISTENING\<rparr>) = Some (unat (ep_port (local_addr sk)))"
  "port_of (sk\<lparr>nonblock := b\<rparr>) = port_of sk"
  by (simp_all add: port_of_def state_defs)

definition dialling :: "tcp_socket \<Rightarrow> bool" where
  "dialling sk \<longleftrightarrow> st sk \<in> {STATE_CLOSED, STATE_CONNECTING, STATE_CONNECTED}"

lemma dialling_settled: "dialling sk \<Longrightarrow> settled sk \<and> port_of sk = None"
  by (auto simp: dialling_def settled_def port_of_def state_defs)

lemma keeps_await_connect: "keeps dialling (await_connect N)"
  unfolding keeps_def await_connect_def poll_connect_def
  by (auto simp: wp_simps dialling_def state_defs with_socket_def split: option.split)

lemma pwp_start_connect: "pwp (start_connect N a sk) (\<lambda>(_, sk') t. net_frame s t) s"
proof -
  have "nf (start_connect N a sk)"
    unfolding start_connect_def get_or_add_def connect_socket_def Let_def
    by (intro nf_intros) (auto intro!: nf_intros split: connect_error.split)
  then show ?thesis by (simp add: nf_def split_def)
qed

definition steps :: "('k, 'n, 'a) sock_op \<Rightarrow> bool" where
  "steps f \<longleftrightarrow> (\<forall>sk s. settled sk \<longrightarrow> pwp (f sk) (\<lambda>(_, sk') t. sock_step s sk sk' t) s)"

lemma stepsI: "(\<And>sk s. settled sk \<Longrightarrow> pwp (f sk) (\<lambda>(_, sk') t. sock_step s sk sk' t) s) \<Longrightarrow> steps f"
  by (simp add: steps_def)

lemma stepsD: "steps f \<Longrightarrow> settled sk \<Longrightarrow> pwp (f sk) (\<lambda>(_, sk') t. sock_step s sk sk' t) s"
  by (simp add: steps_def)

lemma steps_keeps:
  assumes "\<And>p. keeps (\<lambda>sk. settled sk \<and> port_of sk = p) f"
  shows "steps f"
proof (rule stepsI)
  fix sk s assume "settled sk"
  then show "pwp (f sk) (\<lambda>(_, sk') t. sock_step s sk sk' t) s"
    using keepsD [OF assms, of sk "port_of sk" s]
    by (auto intro: pwp_use sock_step_frame)
qed

lemma steps_connect: "steps (connect N a)"
proof (rule stepsI)
  fix sk and s :: "('a, 'b) net_thread" assume sk: "settled sk"
  have wait: "pwp (bnd (kdo (sel4_yield N)) (\<lambda>_. if is_nonblocking sk' then ret (Err WouldBlock, sk')
       else block_on N (await_connect N) sk')) (\<lambda>(_, sk'') u. sock_step s sk sk'' u) t"
    if "net_frame s t" "dialling sk'" "port_of sk = None" for sk' t
  proof (rule pwp_bnd, rule pwp_use [OF nfD [OF nf_kernel(3)]], rule pwp_if)
    fix u assume "net_frame t u"
    then have su: "net_frame s u" using that(1) net_frame_trans by blast
    then show "pwp (ret (Err WouldBlock, sk')) (\<lambda>(_, sk'') u. sock_step s sk sk'' u) u"
      using dialling_settled [OF that(2)] that(3) by (simp add: wp_simps sock_step_frame)
    show "pwp (block_on N (await_connect N) sk') (\<lambda>(_, sk'') u. sock_step s sk sk'' u) u"
      by (rule pwp_use [OF keepsD [OF keeps_block_on [OF keeps_await_connect] that(2)]])
        (auto simp: that(3) dialling_settled intro: sock_step_frame net_frame_trans [OF su])
  qed
  show "pwp (connect N a sk) (\<lambda>(_, sk') t. sock_step s sk sk' t) s"
    unfolding connect_def
  proof (rule pwp_bnd, rule pwp_update_state, goal_cases)
    case 1
    then show ?case using sk by (simp add: unwrap_state_def wp_simps sock_step_frame)
  next
    case 2
    then have "port_of sk = None" by (simp add: port_of_def state_defs)
    then show ?case
      by (auto simp: unwrap_state_def dialling_def wp_ret intro!: pwp_use [OF pwp_start_connect]
          pwp_case_sum wait sock_step_frame split: sum.split)
  qed
qed

lemma nf_start_bind: "nf (start_bind N a sk)"
  unfolding start_bind_def get_or_add_def Let_def by (intro nf_intros)

lemma steps_bind: "steps (bind N a)"
proof (rule stepsI)
  fix sk and s :: "('a, 'b) net_thread" assume sk: "settled sk"
  show "pwp (bind N a sk) (\<lambda>(_, sk') t. sock_step s sk sk' t) s"
    unfolding bind_def
  proof (rule pwp_bnd, rule pwp_update_state, goal_cases)
    case 1
    then show ?case using sk by (simp add: unwrap_state_def wp_simps sock_step_frame)
  next
    case 2
    then have "port_of sk = None" by (simp add: port_of_def state_defs)
    then show ?case
      by (auto simp: unwrap_state_def wp_ret intro!: pwp_use [OF nfD [OF nf_start_bind]] sock_step_frame
          split: sum.split)
  qed
qed

text \<open>\<open>listen\<close> takes a free port of the table, and the socket's address gets that port.\<close>

lemma pwp_start_listen:
  "pwp (start_listen sk) (\<lambda>(r, sk') t.
     case r of
       Inl _ \<Rightarrow> net_frame s t
     | Inr _ \<Rightarrow> socket_vec t = socket_vec s \<and> socket_vec_locked t = socket_vec_locked s
         \<and> (entries_ok s \<longrightarrow> entries_ok t) \<and> unat (ep_port (local_addr sk')) \<notin> dom (listen_table s)
         \<and> dom (listen_table t) = insert (unat (ep_port (local_addr sk'))) (dom (listen_table s))) s"
  unfolding start_listen_def Let_def
proof (rule pwp_bnd, rule pwp_use [OF nfD [OF nf_ports(3)]], rule pwp_case_sum)
  fix t bound assume st: "net_frame s t"
  show "pwp (bnd (table_listen bound) (\<lambda>r. ret (r, sk\<lparr>local_addr := local_addr sk\<lparr>ep_port := le_port bound\<rparr>\<rparr>)))
     (\<lambda>(r, sk') t. case r of Inl _ \<Rightarrow> net_frame s t
       | Inr _ \<Rightarrow> socket_vec t = socket_vec s \<and> socket_vec_locked t = socket_vec_locked s
         \<and> (entries_ok s \<longrightarrow> entries_ok t) \<and> unat (ep_port (local_addr sk')) \<notin> dom (listen_table s)
         \<and> dom (listen_table t) = insert (unat (ep_port (local_addr sk'))) (dom (listen_table s))) t"
  proof -
    have new: "entries_ok (t\<lparr>listen_table := (listen_table t)(unat (le_port bound) := Some (entry_new bound))\<rparr>)"
      if "entries_ok s"
      using entries_ok_frame [OF st that] by (auto simp: entries_ok_def entry_new_def)
    have "listen_table t p = None \<longleftrightarrow> p \<notin> dom (listen_table s)" for p
      unfolding dom_frame [OF st, symmetric] by (simp add: domIff)
    then show ?thesis
      using st new by (simp add: table_listen_def table_at_def table_put_def wp_simps net_frame_sockets [OF st] dom_frame [OF st])
  qed
qed (simp add: wp_simps)

lemma steps_listen: "steps listen"
proof (rule stepsI)
  fix sk and s :: "('a, 'b) net_thread" assume sk: "settled sk"
  show "pwp (listen sk) (\<lambda>(_, sk') t. sock_step s sk sk' t) s"
    unfolding listen_def
  proof (rule pwp_bnd, rule pwp_update_state, goal_cases)
    case 1
    then show ?case using sk by (simp add: unwrap_state_def wp_simps sock_step_frame)
  next
    case 2
    then have "port_of sk = None" by (simp add: port_of_def state_defs)
    then show ?case
      by (auto simp: unwrap_state_def wp_ret sock_step_def [of s sk "_\<lparr>st := STATE_LISTENING\<rparr>"]
          intro!: pwp_use [OF pwp_start_listen] sock_step_frame [of s _ "_\<lparr>st := STATE_CLOSED\<rparr>"] split: sum.splits)
  qed
qed

lemma nf_shutdown_stream: "nf (shutdown_stream N sk)"
  unfolding shutdown_stream_def by (intro nf_intros)

lemma pwp_shutdown_listener:
  "pwp (shutdown_listener N sk) (\<lambda>(r, _) t. r = Okay ()
     \<and> socket_vec t = socket_vec s \<and> socket_vec_locked t = socket_vec_locked s
     \<and> (entries_ok s \<longrightarrow> entries_ok t)
     \<and> dom (listen_table t) = dom (listen_table s) - {unat (ep_port (local_addr sk))}) s"
proof -
  let ?p = "ep_port (local_addr sk)"
  let ?s = "s\<lparr>listen_table := (listen_table s)(unat ?p := None)\<rparr>"
  have s: "entries_ok s \<longrightarrow> entries_ok ?s" by (simp add: entries_ok_def)
  have rest: "nf (bnd (case e of None \<Rightarrow> ret () | Some e \<Rightarrow> drop_entry N e) (\<lambda>_. poll_interfaces N))" for e
    by (intro nf_intros)
  have "socket_vec t = socket_vec s \<and> socket_vec_locked t = socket_vec_locked s
      \<and> (entries_ok s \<longrightarrow> entries_ok t) \<and> dom (listen_table t) = dom (listen_table s) - {unat ?p}"
    if t: "net_frame ?s t" for t
    using s entries_ok_frame [OF t] dom_frame [OF t] net_frame_sockets [OF t] by simp
  then have "pwp (bnd (case e of None \<Rightarrow> ret () | Some e \<Rightarrow> drop_entry N e) (\<lambda>_. poll_interfaces N)) (\<lambda>_ t.
      socket_vec t = socket_vec s \<and> socket_vec_locked t = socket_vec_locked s
     \<and> (entries_ok s \<longrightarrow> entries_ok t) \<and> dom (listen_table t) = dom (listen_table s) - {unat ?p}) ?s" for e
    by (rule pwp_use [OF nfD [OF rest]])
  then show ?thesis
    unfolding shutdown_listener_def unlisten_def table_put_def Let_def
    by (simp add: wp_simps table_at_def)
qed

lemma steps_shutdown: "steps (shutdown N)"
proof (rule stepsI)
  fix sk and s :: "('a, 'b) net_thread" assume sk: "settled sk"
  have listener: "pwp (bnd (update_state STATE_LISTENING STATE_CLOSED (shutdown_listener N) sk') (\<lambda>r. ret (unwrap_state (Okay ()) r)))
      (\<lambda>(_, sk'') u. sock_step s sk sk'' u) t"
    if "net_frame s t" "settled sk'" "port_of sk' = port_of sk" for sk' t
  proof (rule pwp_bnd, rule pwp_update_state, goal_cases)
    case 1
    then show ?case using that by (simp add: unwrap_state_def wp_simps sock_step_frame)
  next
    case 2
    then have p: "port_of sk = Some (unat (ep_port (local_addr sk')))" using that(3) by (simp add: port_of_def)
    have "sock_step s sk (sk''\<lparr>st := STATE_CLOSED\<rparr>) u"
      if "socket_vec u = socket_vec t" "socket_vec_locked u = socket_vec_locked t" "entries_ok t \<longrightarrow> entries_ok u"
        "dom (listen_table u) = dom (listen_table t) - {unat (ep_port (local_addr sk'))}" for sk'' u
      using that p by (intro sock_step_frame_left [OF \<open>net_frame s t\<close>]) (simp add: sock_step_def)
    then show ?case
      by (intro pwp_use [OF pwp_shutdown_listener]) (auto simp: unwrap_state_def wp_ret split: sum.split)
  qed
  show "pwp (shutdown N sk) (\<lambda>(_, sk') t. sock_step s sk sk' t) s"
    unfolding shutdown_def
  proof (rule pwp_bnd, rule pwp_update_state, goal_cases)
    case 1
    then show ?case using sk listener by (simp add: unwrap_state_def)
  next
    case 2
    then have p: "port_of sk = None" by (simp add: port_of_def state_defs)
    have stay: "sock_step s sk (sk'\<lparr>st := STATE_CONNECTED\<rparr>) t" if "net_frame s t" for sk' t
      using that p by (simp add: sock_step_frame)
    show ?case
      by (rule pwp_use [OF nfD [OF nf_shutdown_stream]])
        (auto simp: unwrap_state_def wp_ret p split: sum.split intro!: listener [unfolded unwrap_state_def] stay)
  qed
qed

lemma shutdown_not_listening:
  "pwp (shutdown N sk) (\<lambda>(_, sk') _. port_of sk' = None) s"
proof -
  have listener: "pwp (bnd (update_state STATE_LISTENING STATE_CLOSED (shutdown_listener N) sk') (\<lambda>r. ret (unwrap_state (Okay ()) r)))
      (\<lambda>(_, sk'') _. port_of sk'' = None) t" for sk' t
  proof (rule pwp_bnd, rule pwp_update_state, goal_cases)
    case 1
    then show ?case by (simp add: unwrap_state_def wp_simps port_of_def)
  next
    case 2
    then show ?case
      by (intro pwp_use [OF pwp_shutdown_listener]) (auto simp: unwrap_state_def wp_ret split: sum.split)
  qed
  show ?thesis
    unfolding shutdown_def
  proof (rule pwp_bnd, rule pwp_update_state, goal_cases)
    case 1
    then show ?case using listener by (simp add: unwrap_state_def)
  next
    case 2
    then show ?case
      by (intro pwp_use [OF nfD [OF nf_shutdown_stream]])
        (auto simp: unwrap_state_def wp_ret split: sum.split intro!: listener [unfolded unwrap_state_def])
  qed
qed

lemma nf_transfer: "nf (try_recv N h len sk)" "nf (try_send N h buf sk)"
  unfolding try_recv_def try_send_def Let_def by (intro nf_intros)+

lemma keeps_transfer: "keeps P (try_recv N h len)" "keeps P (try_send N h buf)" "keeps P (try_accept N port)"
  unfolding try_recv_def try_send_def try_accept_def Let_def
  by (rule keeps_same, intro nf_intros)+

lemma keeps_handle: "(\<And>h. keeps P (f h)) \<Longrightarrow> keeps P (\<lambda>sk. bnd (unwrap_opt (hdl sk)) (\<lambda>h. f h sk))"
  unfolding keeps_def by (simp add: wp_simps split: option.split)

lemma keeps_if: "keeps P f \<Longrightarrow> keeps P (\<lambda>sk. if c sk then ret (r, sk) else f sk)"
  unfolding keeps_def by (simp add: wp_simps)

lemma steps_recv: "steps (recv N len)"
  unfolding recv_def by (intro steps_keeps keeps_if keeps_handle keeps_block_on keeps_transfer)

lemma steps_send: "steps (send N buf)"
  unfolding send_def by (intro steps_keeps keeps_if keeps_handle keeps_block_on keeps_transfer)

lemma keeps_accept: "keeps P (accept N)"
proof -
  have "keeps P (\<lambda>sk. block_on N (try_accept N (ep_port (local_addr sk))) sk)"
    unfolding keeps_def using keepsD [OF keeps_block_on [OF keeps_transfer(3)]] by blast
  then show ?thesis
    unfolding accept_def by (rule keeps_if)
qed

section \<open>The invariant\<close>

text \<open>The port on which the socket at an index listens.\<close>

definition port_at :: "tcp_socket option list \<Rightarrow> nat \<Rightarrow> nat option" where
  "port_at v i = (if i < length v then Option.bind (v ! i) port_of else None)"

definition vec_ok :: "tcp_socket option list \<Rightarrow> nat set \<Rightarrow> bool" where
  "vec_ok v ports \<longleftrightarrow> (\<forall>sk. Some sk \<in> set v \<longrightarrow> settled sk) \<and> ran (port_at v) = ports \<and> map_inj (port_at v)"

definition net_inv :: "('k, 'n) net_thread \<Rightarrow> bool" where
  "net_inv s \<longleftrightarrow> \<not> socket_vec_locked s \<and> entries_ok s \<and> vec_ok (socket_vec s) (dom (listen_table s))
     \<and> length (socket_vec s) < 2 ^ 63"

lemma port_at_update: "i < length v \<Longrightarrow> port_at (v[i := x]) = (port_at v)(i := Option.bind x port_of)"
  by (auto simp: port_at_def fun_eq_iff nth_list_update)

lemma port_at_append: "port_at (v @ [None]) = port_at v"
  by (auto simp: port_at_def fun_eq_iff nth_append)

lemma ran_del: "map_inj m \<Longrightarrow> m i = Some p \<Longrightarrow> ran (m(i := None)) = ran m - {p}"
  by (auto simp: ran_def dest: map_injD)

lemma set_update_settled:
  assumes "\<forall>sk. Some sk \<in> set v \<longrightarrow> settled sk" and "\<forall>sk. x = Some sk \<longrightarrow> settled sk"
  shows "\<forall>sk. Some sk \<in> set (v[i := x]) \<longrightarrow> settled sk"
  using assms set_update_subset_insert [of v i x] by auto

lemma vec_ok_update:
  assumes "vec_ok v D" and i: "i < length v" and x: "\<forall>sk. x = Some sk \<longrightarrow> settled sk"
    and "Option.bind x port_of = port_at v i \<and> D' = D
       \<or> port_at v i = None \<and> (\<exists>p. Option.bind x port_of = Some p \<and> p \<notin> D \<and> D' = insert p D)
       \<or> Option.bind x port_of = None \<and> (\<exists>p. port_at v i = Some p \<and> D' = D - {p})"
  shows "vec_ok (v[i := x]) D'"
proof -
  have v: "\<forall>sk. Some sk \<in> set v \<longrightarrow> settled sk" and D: "D = ran (port_at v)" and inj: "map_inj (port_at v)"
    using assms(1) by (auto simp: vec_ok_def)
  have "ran (port_at (v[i := x])) = D' \<and> map_inj (port_at (v[i := x]))"
    using assms(4)
  proof (elim disjE conjE exE)
    assume "Option.bind x port_of = port_at v i" "D' = D"
    then show ?thesis using D inj by (simp add: port_at_update [OF i])
  next
    fix p assume "port_at v i = None" "Option.bind x port_of = Some p" "p \<notin> D" "D' = insert p D"
    then show ?thesis
      using D inj by (simp add: port_at_update [OF i]) (auto intro: map_inj_upd simp: ran_def)
  next
    fix p assume "Option.bind x port_of = None" "port_at v i = Some p" "D' = D - {p}"
    then show ?thesis
      using D inj by (simp add: port_at_update [OF i] ran_del map_inj_del)
  qed
  then show ?thesis
    using set_update_settled [OF v x] by (simp add: vec_ok_def)
qed

section \<open>The requests\<close>

lemma nf_messages [nf_intros]: "nf (net_reply_with N rs)" "nf (net_read_item N n d a c)" "nf (map_buffer N buf len)"
  unfolding net_reply_with_def net_read_item_def map_buffer_def by (intro nf_intros)+

text \<open>\<open>passes m sk\<close>: after the socket operation, the rest of a handler hands the socket on as it is.\<close>

definition passes :: "(('k, 'n) net_thread, 'a \<times> tcp_socket) M \<Rightarrow> tcp_socket \<Rightarrow> bool" where
  "passes m sk \<longleftrightarrow> (\<forall>s. pwp m (\<lambda>(_, sk') t. sk' = sk \<and> net_frame s t) s)"

lemma passes_ret: "passes (ret (x, sk)) sk"
  by (simp add: passes_def wp_simps)

lemma passes_bnd:
  assumes "nf m" and "\<And>x. passes (f x) sk"
  shows "passes (bnd m f) sk"
  unfolding passes_def
proof
  fix s
  have f: "pwp (f x) (\<lambda>(_, sk') u. sk' = sk \<and> net_frame t u) t" for x t using assms(2) by (simp add: passes_def)
  show "pwp (bnd m f) (\<lambda>(_, sk') t. sk' = sk \<and> net_frame s t) s"
    by (rule pwp_bnd, rule pwp_use [OF nfD [OF assms(1)]], rule pwp_use [OF f]) (auto intro: net_frame_trans)
qed

lemma steps_before: 
  assumes "nf m" and "\<And>x. steps (f x)"
  shows "steps (\<lambda>sk. bnd m (\<lambda>x. f x sk))"
proof (rule stepsI)
  fix sk s assume sk: "settled sk"
  show "pwp (bnd m (\<lambda>x. f x sk)) (\<lambda>(_, sk') t. sock_step s sk sk' t) s"
    by (rule pwp_bnd, rule pwp_use [OF nfD [OF assms(1)]], rule pwp_use [OF stepsD [OF assms(2) sk]])
      (auto intro: sock_step_frame_left)
qed

lemma steps_after:
  assumes f: "steps f" and g: "\<And>r sk. passes (g (r, sk)) sk"
  shows "steps (\<lambda>sk. bnd (f sk) g)"
proof (rule stepsI)
  fix sk s assume sk: "settled sk"
  have "pwp (g (r, sk')) (\<lambda>(_, sk'') u. sock_step s sk sk'' u) t" if "sock_step s sk sk' t" for r sk' t
    using g [of r sk'] that unfolding passes_def by (auto intro: pwp_use sock_step_frame_right)
  then show "pwp (bnd (f sk) g) (\<lambda>(_, sk') t. sock_step s sk sk' t) s"
    by (intro pwp_bnd pwp_use [OF stepsD [OF f sk]]) auto
qed

lemma steps_return: "steps (\<lambda>sk. ret (r, set_nonblocking b sk))"
  by (rule stepsI) (simp add: wp_simps set_nonblocking_def sock_step_frame)

lemma passes_case: "passes (k a b) sk \<Longrightarrow> passes (case (a, b) of (x, y) \<Rightarrow> k x y) sk"
  by simp

lemma passes_finish_recv: "passes (finish_recv N (r, sk)) sk"
  unfolding finish_recv_def fst_conv snd_conv by (intro passes_bnd passes_ret nf_intros)

lemmas handler_intros = steps_before steps_after passes_case passes_bnd passes_ret passes_finish_recv nf_intros

lemma inv_on_socket:
  assumes f: "\<And>sk s. settled sk \<Longrightarrow> socket_vec_locked s \<Longrightarrow> pwp (f sk) (\<lambda>(_, sk') t. sock_step s sk sk' t) s"
    and s: "net_inv s"
  shows "pwp (on_socket i f) (\<lambda>_. net_inv) s"
proof -
  let ?s = "s\<lparr>socket_vec_locked := True\<rparr>"
  have open_lock: "\<not> socket_vec_locked s" and es: "entries_ok s" and v: "vec_ok (socket_vec s) (dom (listen_table s))"
    using s by (auto simp: net_inv_def)
  have fin: "net_inv (t\<lparr>socket_vec := (socket_vec t)[unat i := Some sk'], socket_vec_locked := False\<rparr>)"
    if len: "unat i < length (socket_vec s)" and at: "socket_vec s ! unat i = Some sk" and st: "sock_step ?s sk sk' t"
    for sk sk' t
  proof -
    have "port_at (socket_vec s) (unat i) = port_of sk" using len at by (simp add: port_at_def)
    then have "vec_ok ((socket_vec s)[unat i := Some sk']) (dom (listen_table t))"
      using st by (intro vec_ok_update [OF v len]) (auto simp: sock_step_def)
    then show ?thesis
      using st s by (simp add: net_inv_def sock_step_def)
  qed
  have "settled sk" if "unat i < length (socket_vec s)" "socket_vec s ! unat i = Some sk" for sk
    using v that nth_mem [OF that(1)] by (auto simp: vec_ok_def)
  then have "pwp (f sk) (\<lambda>r t. net_inv (t\<lparr>socket_vec := (socket_vec t)[unat i := Some (snd r)], socket_vec_locked := False\<rparr>)) ?s"
    if "unat i < length (socket_vec s)" "socket_vec s ! unat i = Some sk" for sk
    using that by (intro pwp_use [OF f]) (auto intro: fin)
  then show ?thesis
    unfolding on_socket_def lock_sockets_def vec_at_def vec_put_def unlock_sockets_def
    by (simp add: wp_simps open_lock split_def split: option.split)
qed

lemma inv_steps: "steps f \<Longrightarrow> net_inv s \<Longrightarrow> pwp (on_socket i f) (\<lambda>_. net_inv) s"
  by (rule inv_on_socket) (auto dest: stepsD)

lemma net_inv_frame: "net_frame s t \<Longrightarrow> net_inv s \<Longrightarrow> net_inv t"
  by (simp add: net_inv_def dom_frame entries_ok_frame net_frame_sockets)

lemma inv_socket_requests:
  assumes "net_inv s"
  shows "pwp (handle_bind N i a) (\<lambda>_. net_inv) s" "pwp (handle_connect N i a) (\<lambda>_. net_inv) s"
    "pwp (handle_listen N i) (\<lambda>_. net_inv) s" "pwp (handle_shutdown N i) (\<lambda>_. net_inv) s"
    "pwp (handle_send N i buf len) (\<lambda>_. net_inv) s" "pwp (handle_recv N i buf len) (\<lambda>_. net_inv) s"
    "pwp (handle_set_nonblocking N i b) (\<lambda>_. net_inv) s"
proof -
  note socket = steps_bind steps_connect steps_listen steps_shutdown steps_send steps_recv steps_return
  show "pwp (handle_bind N i a) (\<lambda>_. net_inv) s"
    unfolding handle_bind_def by (rule inv_steps [OF _ assms]) (intro handler_intros socket)
  show "pwp (handle_connect N i a) (\<lambda>_. net_inv) s"
    unfolding handle_connect_def by (rule inv_steps [OF _ assms]) (intro handler_intros socket)
  show "pwp (handle_listen N i) (\<lambda>_. net_inv) s"
    unfolding handle_listen_def by (rule inv_steps [OF _ assms]) (intro handler_intros socket)
  show "pwp (handle_shutdown N i) (\<lambda>_. net_inv) s"
    unfolding handle_shutdown_def by (rule inv_steps [OF _ assms]) (intro handler_intros socket)
  show "pwp (handle_send N i buf len) (\<lambda>_. net_inv) s"
    unfolding handle_send_def by (rule inv_steps [OF _ assms]) (intro handler_intros socket)
  show "pwp (handle_recv N i buf len) (\<lambda>_. net_inv) s"
    unfolding handle_recv_def by (rule inv_steps [OF _ assms]) (intro handler_intros socket)
  show "pwp (handle_set_nonblocking N i b) (\<lambda>_. net_inv) s"
    unfolding handle_set_nonblocking_def by (rule inv_steps [OF _ assms]) (intro handler_intros socket)
qed

text \<open>An accepted connection is never stored: the new identifier is asked for while the lock is held.\<close>

lemma finish_accept_locked: "socket_vec_locked s \<Longrightarrow> finish_accept sk s = (Deadlock, s)"
  by (simp add: finish_accept_def alloc_socket_id_def lock_sockets_def run_simps)

lemma inv_handle_accept:
  assumes "net_inv s"
  shows "pwp (handle_accept N i) (\<lambda>_. net_inv) s"
  unfolding handle_accept_def
proof (rule inv_on_socket [OF _ assms])
  fix sk and s :: "('a, 'b) net_thread" assume sk: "settled sk" and held: "socket_vec_locked s"
  let ?P = "\<lambda>sk'. settled sk' \<and> port_of sk' = port_of sk"
  have reply: "pwp (bnd (net_reply_with N ans) (\<lambda>_. ret ((), sk'))) (\<lambda>(_, sk'') u. sock_step s sk sk'' u) t"
    if "?P sk'" "net_frame s t" for ans sk' t
    by (rule pwp_bnd, rule pwp_use [OF nfD [OF nf_messages(1)]])
      (use that in \<open>auto simp: wp_ret intro: sock_step_frame net_frame_trans\<close>)
  have "socket_vec_locked t" if "net_frame s t" for t
    using that held by (simp add: net_frame_sockets)
  then have "pwp (finish_accept new) Q t" if "net_frame s t" for new t and Q :: "u64 list \<Rightarrow> ('a, 'b) net_thread \<Rightarrow> bool"
    using that by (simp add: wp_def finish_accept_locked)
  then show "pwp (bnd (accept N sk) (\<lambda>(r, sk'). bnd (case r of
        Inl e \<Rightarrow> ret [scast (n_ax_code N e), 0, 0, 0, 0] | Inr new_socket \<Rightarrow> finish_accept new_socket)
        (\<lambda>ans. bnd (net_reply_with N ans) (\<lambda>_. ret ((), sk'))))) (\<lambda>(_, sk') t. sock_step s sk sk' t) s"
    by (intro pwp_bnd pwp_use [OF keepsD [OF keeps_accept [of ?P]]])
      (auto simp: sk wp_ret split: sum.split intro!: pwp_bnd reply [unfolded wp_bnd])
qed

lemma find_free_Some: "find_free i v = Some j \<Longrightarrow> i \<le> j \<and> j < i + length v \<and> v ! (j - i) = None"
  by (induction v arbitrary: i) (fastforce split: if_splits simp: nth_Cons')+

lemma inv_add_socket:
  assumes "net_inv s" and "settled sk" and "port_of sk = None"
    and "j < length (socket_vec s)" and "socket_vec s ! j = None"
  shows "net_inv (s\<lparr>socket_vec := (socket_vec s)[j := Some sk]\<rparr>)"
proof -
  have "vec_ok ((socket_vec s)[j := Some sk]) (dom (listen_table s))"
    by (rule vec_ok_update) (use assms in \<open>simp_all add: net_inv_def port_at_def\<close>)
  then show ?thesis using assms(1) by (simp add: net_inv_def)
qed

lemma inv_push_none: "net_inv s \<Longrightarrow> Suc (length (socket_vec s)) < 2 ^ 63 \<Longrightarrow> net_inv (s\<lparr>socket_vec := socket_vec s @ [None]\<rparr>)"
  by (simp add: net_inv_def vec_ok_def port_at_append)

text \<open>\<open>alloc_socket_id\<close> gives the index of an empty place, and makes one when there is none.\<close>

lemma pwp_alloc_socket_id:
  assumes "net_inv s"
  shows "pwp alloc_socket_id (\<lambda>i t. net_inv t \<and> (\<exists>j. i = of_nat j \<and> j < length (socket_vec t)
     \<and> socket_vec t ! j = None)) s"
proof -
  have free: "\<not> socket_vec_locked s" using assms by (simp add: net_inv_def)
  then have s: "s\<lparr>socket_vec_locked := False\<rparr> = s" by simp
  show ?thesis
  proof (cases "find_free 0 (socket_vec s)")
    case None
    have "net_inv (s\<lparr>socket_vec := socket_vec s @ [None], socket_vec_locked := False\<rparr>)"
      if "Suc (length (socket_vec s)) < 2 ^ 63"
      using inv_push_none [OF assms that] free by (simp add: net_inv_def)
    then show ?thesis
      by (auto simp: alloc_socket_id_def lock_sockets_def unlock_sockets_def push_none_def wp_simps free None
          intro!: exI [of _ "length (socket_vec s)"])
  next
    case (Some j)
    then show ?thesis
      using find_free_Some [OF Some] assms
      by (auto simp: alloc_socket_id_def lock_sockets_def unlock_sockets_def wp_simps free s)
  qed
qed

lemma inv_handle_new:
  assumes "net_inv s"
  shows "pwp (handle_new N) (\<lambda>_. net_inv) s"
proof -
  let ?new = "\<lambda>sk. settled sk \<and> port_of sk = None"
  have create: "pwp (tcp_socket_new N) (\<lambda>sk t. ?new sk \<and> net_inv t) s"
    unfolding tcp_socket_new_def
    by (rule pwp_bnd, rule pwp_use [OF nfD [OF nf_set(1)]])
      (use assms in \<open>auto simp: wp_ret settled_def port_of_def state_defs intro: net_inv_frame\<close>)
  have store: "pwp (bnd lock_sockets (\<lambda>_. bnd (vec_at i) (\<lambda>_. bnd (vec_put i (Some sk)) (\<lambda>_.
      bnd unlock_sockets (\<lambda>_. net_reply_with N [i]))))) (\<lambda>_. net_inv) t"
    if "?new sk" and t: "net_inv t" and i: "i = of_nat j" "j < length (socket_vec t)" "socket_vec t ! j = None"
    for sk t i j
  proof -
    have "unat i = j" using t i by (simp add: net_inv_def unat_of_nat_small)
    moreover have "net_inv (t\<lparr>socket_vec := (socket_vec t)[j := Some sk], socket_vec_locked := False\<rparr>)"
      using inv_add_socket [OF t, of sk j] that by (simp add: net_inv_def)
    moreover have "\<not> socket_vec_locked t" using t by (simp add: net_inv_def)
    ultimately show ?thesis
      by (simp add: lock_sockets_def vec_at_def vec_put_def unlock_sockets_def wp_simps)
        (auto intro!: pwp_use [OF nfD [OF nf_messages(1)]] intro: net_inv_frame)
  qed
  show ?thesis
    unfolding handle_new_def
    by (rule pwp_bnd, rule pwp_use [OF create], elim conjE, rule pwp_bnd, rule pwp_use [OF pwp_alloc_socket_id],
        assumption, elim conjE exE) (rule store; simp)
qed

lemma inv_handle_is_nonblocking:
  assumes "net_inv s"
  shows "pwp (handle_is_nonblocking N i) (\<lambda>_. net_inv) s"
proof -
  have free: "\<not> socket_vec_locked s" using assms by (simp add: net_inv_def)
  have "net_inv (t\<lparr>socket_vec_locked := False\<rparr>)" if "net_frame (s\<lparr>socket_vec_locked := True\<rparr>) t" for t
    using that assms entries_ok_frame [OF that] dom_frame [OF that] net_frame_sockets [OF that]
    by (simp add: net_inv_def)
  then have "pwp (net_reply_with N r) (\<lambda>_ t. net_inv (t\<lparr>socket_vec_locked := False\<rparr>)) (s\<lparr>socket_vec_locked := True\<rparr>)" for r
    by (rule pwp_use [OF nfD [OF nf_messages(1)]])
  then show ?thesis
    by (simp add: handle_is_nonblocking_def lock_sockets_def vec_at_def unlock_sockets_def wp_simps free)
qed

text \<open>\<open>Close\<close> empties the place first; the socket it took out stops listening when it is dropped.\<close>

lemma inv_handle_close:
  assumes "net_inv s"
  shows "pwp (handle_close N i) (\<lambda>_. net_inv) s"
proof -
  have free: "\<not> socket_vec_locked s" and v: "vec_ok (socket_vec s) (dom (listen_table s))"
    using assms by (auto simp: net_inv_def)
  let ?i = "unat i" and ?t = "s\<lparr>socket_vec_locked := True, socket_vec := (socket_vec s)[unat i := None]\<rparr>"
  have close_nf: "nf (bnd (close N sk) (\<lambda>_. net_reply_with N []))" for sk
    unfolding close_def by (intro nf_intros)
  have drop_nf: "nf (case hdl sk' of None \<Rightarrow> ret () | Some h \<Rightarrow> remove_socket N h)" for sk'
    by (intro nf_intros)
  have fin: "net_inv (u\<lparr>socket_vec_locked := False\<rparr>)"
    if len: "?i < length (socket_vec s)" and at: "socket_vec s ! ?i = Some sk" and u: "sock_step ?t sk sk' u"
      and closed: "port_of sk' = None" for sk sk' u
  proof -
    have "port_at (socket_vec s) ?i = port_of sk" using len at by (simp add: port_at_def)
    then have "vec_ok ((socket_vec s)[?i := None]) (dom (listen_table u))"
      using u closed by (intro vec_ok_update [OF v len]) (auto simp: sock_step_def)
    then show ?thesis
      using u assms by (simp add: net_inv_def sock_step_def)
  qed
  have drop: "pwp (drop_socket N sk) (\<lambda>_ u. net_inv (u\<lparr>socket_vec_locked := False\<rparr>)) t"
    if len: "?i < length (socket_vec s)" and at: "socket_vec s ! ?i = Some sk" and t: "net_frame ?t t" for sk t
  proof -
    have sk: "settled sk" using v len nth_mem [OF len] at by (auto simp: vec_ok_def)
    have both: "pwp (shutdown N sk) (\<lambda>r u. sock_step t sk (snd r) u \<and> port_of (snd r) = None) t"
      by (rule wp_weaken [OF wp_conj [OF stepsD [OF steps_shutdown sk] shutdown_not_listening]]) auto
    show ?thesis
      unfolding drop_socket_def split_def
      by (rule pwp_bnd, rule pwp_use [OF both], erule conjE, rule pwp_use [OF nfD [OF drop_nf]],
          rule fin [OF len at sock_step_frame_right [OF sock_step_frame_left [OF t]]])
  qed
  have "pwp (bnd (bnd (close N sk) (\<lambda>_. net_reply_with N [])) (\<lambda>_. bnd (drop_socket N sk) (\<lambda>_. unlock_sockets)))
      (\<lambda>_. net_inv) ?t" if "?i < length (socket_vec s)" "socket_vec s ! ?i = Some sk" for sk
    by (rule pwp_bnd, rule pwp_use [OF nfD [OF close_nf]], rule pwp_bnd, rule pwp_use [OF drop [OF that]], assumption)
      (simp add: unlock_sockets_def wp_simps)
  then show ?thesis
    unfolding handle_close_def lock_sockets_def vec_at_def vec_put_def
    by (simp add: wp_simps free split: option.split)
qed

lemma inv_handle_request:
  assumes "net_inv s"
  shows "pwp (handle_request N r) (\<lambda>_. net_inv) s"
proof (cases r)
  case (RecvTimeout i buf len ticks)
  have "pwp (handle_recv_timeout N i buf len ticks) (\<lambda>_. net_inv) s"
    unfolding handle_recv_timeout_def recv_timeout_def
    by (rule inv_on_socket [OF _ assms])
      (auto simp: wp_simps map_buffer_def split: sum.split)
  then show ?thesis by (simp add: handle_request_def RecvTimeout)
qed (simp_all add: handle_request_def inv_socket_requests inv_handle_accept inv_handle_new
    inv_handle_is_nonblocking inv_handle_close assms)

lemma inv_handle_ipc:
  assumes "net_inv s"
  shows "pwp (handle_ipc N ep) (\<lambda>_. net_inv) s"
proof -
  have request: "pwp (case x of Some r \<Rightarrow> handle_request N r | None \<Rightarrow> ret ()) (\<lambda>_. net_inv) t" if "net_inv t" for x t
    using that by (auto intro: inv_handle_request simp: wp_ret split: option.split)
  have del: "pwp (kcall_unwrap f) (\<lambda>_. net_inv) t" if "net_inv t" for f and t :: "('a, 'b) net_thread"
    by (rule pwp_use [OF nfD [OF nf_kernel(2)]]) (rule net_inv_frame [OF _ that])
  show ?thesis
    unfolding handle_ipc_def
    apply (rule pwp_bnd, rule pwp_use [OF nfD [OF nf_kernel(7)]])
    apply (rule pwp_bnd, rule pwp_use [OF nfD [OF nf_kernel(8)]], rule pwp_case_prod, rule pwp_if, rule pwp_stop)
    apply (rule pwp_bnd, rule pwp_use [OF nfD [OF nf_kernel(5)]])
    apply (rule pwp_bnd, rule pwp_use [OF request])
     apply (blast intro: net_inv_frame assms)
    apply (erule del)
    done
qed

section \<open>Reachable states\<close>

text \<open>The state in which \<open>run_ipc\<close> enters its loop, after \<open>init\<close> has made an empty listen table.\<close>

definition net_init :: "('k, 'n) net_thread \<Rightarrow> bool" where
  "net_init s \<longleftrightarrow> socket_vec s = [] \<and> \<not> socket_vec_locked s \<and> listen_table s = listen_table_new"

inductive net_reachable :: "('k, 'n, 's) nenv \<Rightarrow> ('k, 'n) net_thread \<Rightarrow> bool" for N where
  init: "net_init s \<Longrightarrow> net_reachable N s"
| serve: "net_reachable N s \<Longrightarrow> handle_ipc N ep s = (Ret (), t) \<Longrightarrow> net_reachable N t"

lemma net_reachable_inv: "net_reachable N s \<Longrightarrow> net_inv s"
proof (induction rule: net_reachable.induct)
  case (init s)
  then show ?case
    by (simp add: net_init_def net_inv_def entries_ok_def vec_ok_def listen_table_new_def port_at_def [abs_def])
next
  case (serve s ep t)
  then show ?case using pwp_Ret [OF inv_handle_ipc] by blast
qed

end
