(* ===== verification/Ref_Net.thy ===== *)
theory Ref_Net
  imports Net_Ipc Ref_Kernel
begin

text \<open>
  A concrete environment of the network thread: the reference kernel and a network stack without
  packets, whose sockets remember their state and endpoints. It shows that the hypotheses of the
  theorems can hold and runs the requests on concrete inputs.
\<close>

record ref_sock =
  rs_state :: tcp_state
  rs_bound :: ip_listen_endpoint
  rs_local :: "ip_endpoint option"
  rs_remote :: "ip_endpoint option"

definition ref_sock_new :: ref_sock where
  "ref_sock_new = \<lparr>rs_state = Closed, rs_bound = \<lparr>le_addr = None, le_port = 0\<rparr>, rs_local = None, rs_remote = None\<rparr>"

fun ref_ax_code :: "ax_error \<Rightarrow> i32" where
  "ref_ax_code AddrInUse = 2"
| "ref_ax_code InvalidInput = 14"
| "ref_ax_code NotConnected = 20"
| "ref_ax_code WouldBlock = 39"
| "ref_ax_code _ = 1"

type_synonym ref_net_env = "(ref_state, ref_sock option list, ref_sock) nenv"

definition ref_net :: ref_net_env where
  "ref_net = sel4.extend ref_kernel (nenv.fields
     3
     (\<lambda>a. a mod 4096)
     32
     (\<lambda>_. \<lparr>sock_ip = V4 0 0 0 0, sock_port = 6379\<rparr>)
     ref_ax_code
     (\<lambda>x n. (length n, n @ [Some x]))
     (\<lambda>n h. if h < length n then n ! h else None)
     (\<lambda>h x n. n[h := Some x])
     (\<lambda>h n. if h < length n then Some (n[h := None]) else None)
     (\<lambda>n. map Tcp_sock (List.map_filter (\<lambda>x. x) n))
     (\<lambda>_ _. ref_sock_new)
     rs_state
     (\<lambda>e x. (le_port e \<noteq> 0, x\<lparr>rs_state := Listening, rs_bound := e\<rparr>))
     (\<lambda>_ remote bound n x. (Inr (), x\<lparr>rs_state := SynSent, rs_local := Some \<lparr>ep_addr = UNSPECIFIED_IP, ep_port = le_port bound\<rparr>, rs_remote := Some remote\<rparr>))
     (\<lambda>x. x\<lparr>rs_state := Closed\<rparr>)
     rs_local
     rs_remote
     (\<lambda>e x. x\<lparr>rs_bound := e\<rparr>)
     rs_bound
     (\<lambda>_. 0)
     (\<lambda>_ x. (Some [], x))
     (\<lambda>bs x. (Some (of_nat (length bs)), x))
     (\<lambda>x. rs_state x \<noteq> Closed)
     (\<lambda>x. rs_state x = Established)
     (\<lambda>x. rs_state x = Established)
     (\<lambda>_. False)
     (\<lambda>x. rs_state x = Established)
     (\<lambda>_. True)
     (\<lambda>_ x. x)
     (\<lambda>_. None)
     (\<lambda>_. None)
     (\<lambda>_ _ _. Poll_done)
     (\<lambda>_ _ n. n)
     (\<lambda>_ _. None)
     (\<lambda>_ _ n. n)
     (\<lambda>n. (True, n))
     (\<lambda>_. True)
     (\<lambda>n. (None, n))
     (\<lambda>_ n. (True, n))
     (\<lambda>_ n. (True, n))
     (\<lambda>_ n. (True, n)))"

lemma ref_net_kernel [simp]:
  "mi_new ref_net = mi_new ref_kernel"
  "mi_label ref_net = mi_label ref_kernel"
  "mi_length ref_net = mi_length ref_kernel"
  "slot_NULL ref_net = slot_NULL ref_kernel"
  "slot_TCB ref_net = slot_TCB ref_kernel"
  "slot_CNODE ref_net = slot_CNODE ref_kernel"
  "slot_VSPACE ref_net = slot_VSPACE ref_kernel"
  "slot_IRQ_CONTROL ref_net = slot_IRQ_CONTROL ref_kernel"
  "slot_ASID_CONTROL ref_net = slot_ASID_CONTROL ref_kernel"
  "slot_ASID_POOL ref_net = slot_ASID_POOL ref_kernel"
  "NUM_LEVELS ref_net = NUM_LEVELS ref_kernel"
  "GRANULE_SIZE ref_net = GRANULE_SIZE ref_kernel"
  "span_bits ref_net = span_bits ref_kernel"
  "table_from_level ref_net = table_from_level ref_kernel"
  "untyped_retype ref_net = untyped_retype ref_kernel"
  "cnode_copy ref_net = cnode_copy ref_kernel"
  "cnode_mint ref_net = cnode_mint ref_kernel"
  "cnode_mutate ref_net = cnode_mutate ref_kernel"
  "cnode_revoke ref_net = cnode_revoke ref_kernel"
  "cnode_delete ref_net = cnode_delete ref_kernel"
  "asid_pool_assign ref_net = asid_pool_assign ref_kernel"
  "frame_map ref_net = frame_map ref_kernel"
  "frame_unmap ref_net = frame_unmap ref_kernel"
  "frame_get_address ref_net = frame_get_address ref_kernel"
  "pt_map ref_net = pt_map ref_kernel"
  "table_map ref_net = table_map ref_kernel"
  "cnode_cap_data ref_net = cnode_cap_data ref_kernel"
  "tcb_configure ref_net = tcb_configure ref_kernel"
  "tcb_set_sched_params ref_net = tcb_set_sched_params ref_kernel"
  "tcb_write_all_registers ref_net = tcb_write_all_registers ref_kernel"
  "tcb_read_all_registers ref_net = tcb_read_all_registers ref_kernel"
  "tcb_resume ref_net = tcb_resume ref_kernel"
  "tcb_suspend ref_net = tcb_suspend ref_kernel"
  "ep_call ref_net = ep_call ref_kernel"
  "ipc_reply ref_net = ipc_reply ref_kernel"
  "sel4_yield ref_net = sel4_yield ref_kernel"
  "debug_put_char ref_net = debug_put_char ref_kernel"
  "ptr_read ref_net = ptr_read ref_kernel"
  "ptr_write ref_net = ptr_write ref_kernel"
  "WORD_SIZE ref_net = WORD_SIZE ref_kernel"
  "cap_data_skip ref_net = cap_data_skip ref_kernel"
  "cap_data_skip_high_bits ref_net = cap_data_skip_high_bits ref_kernel"
  "tcb_set_space ref_net = tcb_set_space ref_kernel"
  "ep_recv ref_net = ep_recv ref_kernel"
  "irq_control_get ref_net = irq_control_get ref_kernel"
  "irq_handler_set_notification ref_net = irq_handler_set_notification ref_kernel"
  "irq_handler_ack ref_net = irq_handler_ack ref_kernel"
  "ntfn_wait ref_net = ntfn_wait ref_kernel"
  by (simp_all add: ref_net_def sel4.extend_def)

lemma ref_net_fields [simp]:
  "n_fuel ref_net = 3"
  "n_align_offset_4k ref_net = (\<lambda>a. a mod 4096)"
  "n_size_of_SocketAddr ref_net = 32"
  "n_socket_addr_of_bytes ref_net = (\<lambda>_. \<lparr>sock_ip = V4 0 0 0 0, sock_port = 6379\<rparr>)"
  "n_ax_code ref_net = ref_ax_code"
  "set_add ref_net = (\<lambda>x n. (length n, n @ [Some x]))"
  "set_get ref_net = (\<lambda>n h. if h < length n then n ! h else None)"
  "set_put ref_net = (\<lambda>h x n. n[h := Some x])"
  "set_remove ref_net = (\<lambda>h n. if h < length n then Some (n[h := None]) else None)"
  "set_iter ref_net = (\<lambda>n. map Tcp_sock (List.map_filter (\<lambda>x. x) n))"
  "s_new ref_net = (\<lambda>_ _. ref_sock_new)"
  "s_state ref_net = rs_state"
  "s_listen ref_net = (\<lambda>e x. (le_port e \<noteq> 0, x\<lparr>rs_state := Listening, rs_bound := e\<rparr>))"
  "s_connect ref_net = (\<lambda>_ remote bound n x. (Inr (), x\<lparr>rs_state := SynSent, rs_local := Some \<lparr>ep_addr = UNSPECIFIED_IP, ep_port = le_port bound\<rparr>, rs_remote := Some remote\<rparr>))"
  "s_close ref_net = (\<lambda>x. x\<lparr>rs_state := Closed\<rparr>)"
  "s_local_endpoint ref_net = rs_local"
  "s_remote_endpoint ref_net = rs_remote"
  "s_set_bound_endpoint ref_net = (\<lambda>e x. x\<lparr>rs_bound := e\<rparr>)"
  "s_get_bound_endpoint ref_net = rs_bound"
  "s_recv_queue ref_net = (\<lambda>_. 0)"
  "s_recv_slice ref_net = (\<lambda>_ x. (Some [], x))"
  "s_send_slice ref_net = (\<lambda>bs x. (Some (of_nat (length bs)), x))"
  "s_is_active ref_net = (\<lambda>x. rs_state x \<noteq> Closed)"
  "s_may_recv ref_net = (\<lambda>x. rs_state x = Established)"
  "s_may_send ref_net = (\<lambda>x. rs_state x = Established)"
  "s_can_recv ref_net = (\<lambda>_. False)"
  "s_can_send ref_net = (\<lambda>x. rs_state x = Established)"
  "s_nagle_enabled ref_net = (\<lambda>_. True)"
  "s_set_nagle_enabled ref_net = (\<lambda>_ x. x)"
  "ethernet_tcp ref_net = (\<lambda>_. None)"
  "ipv4_tcp ref_net = (\<lambda>_. None)"
  "poll_next ref_net = (\<lambda>_ _ _. Poll_done)"
  "poll_got ref_net = (\<lambda>_ _ n. n)"
  "poll_reply ref_net = (\<lambda>_ _. None)"
  "poll_sent ref_net = (\<lambda>_ _ n. n)"
  "dev_recycle_tx_buffers ref_net = (\<lambda>n. (True, n))"
  "dev_can_transmit ref_net = (\<lambda>_. True)"
  "dev_receive ref_net = (\<lambda>n. (None, n))"
  "dev_recycle_rx_buffer ref_net = (\<lambda>_ n. (True, n))"
  "dev_alloc_tx_buffer ref_net = (\<lambda>_ n. (True, n))"
  "dev_transmit ref_net = (\<lambda>_ n. (True, n))"
  by (simp_all add: ref_net_def sel4.extend_def nenv.fields_def)

definition ref_net_thread ::
  "ref_state \<Rightarrow> ref_sock option list \<Rightarrow> (nat \<Rightarrow> listen_table_entry option) \<Rightarrow> u16 \<Rightarrow> tcp_socket option list \<Rightarrow>
     (ref_state, ref_sock option list) net_thread" where
  "ref_net_thread k n table port v = \<lparr>kern = k,
     ipcbuf = \<lparr>msg_regs = (\<lambda>_. 0), caps_or_badges = (\<lambda>_. 0), recv_slot = None\<rparr>,
     net_stack = n, lb_queue = [], listen_table = table, curr_port = port, time_ticks = 0,
     socket_vec = v, socket_vec_locked = False\<rparr>"

end
