(* ===== verification/Net_Properties.thy ===== *)
theory Net_Properties
  imports Net_Invariant Ref_Net "HOL-Library.Multiset"
begin

text \<open>
  The properties of the network thread: listening sockets and the listen table, the bound on
  half-open connections, the port allocator, accepting connections and the loopback device.
\<close>

section \<open>The port allocator\<close>

definition next_port :: "u16 \<Rightarrow> u16" where
  "next_port port = (if port = PORT_END then PORT_START else port + 1)"

lemma port_loop_step:
  "unat tries \<le> 0xefff \<Longrightarrow> port_loop (Suc n) tries s =
     (if unat (curr_port s) < PORT_NUM then
        if listen_table s (unat (curr_port s)) = None
        then (Ret (Okay (curr_port s)), s\<lparr>curr_port := next_port (curr_port s)\<rparr>)
        else port_loop n (tries + 1) (s\<lparr>curr_port := next_port (curr_port s)\<rparr>)
      else (Panic Index_out_of_bounds, s\<lparr>curr_port := next_port (curr_port s)\<rparr>))"
  by (simp add: run_simps can_listen_def table_at_def next_port_def PORT_START_def PORT_END_def word_le_nat_alt)

lemma port_loop_finds:
  assumes "PORT_NUM - unat (curr_port s) < n" and "unat tries + (PORT_NUM - unat (curr_port s)) \<le> 0xefff"
  shows "port_loop n tries s =
     (case find (\<lambda>q. listen_table s q = None) [unat (curr_port s) ..< PORT_NUM] of
        Some q \<Rightarrow> (Ret (Okay (of_nat q)), s\<lparr>curr_port := of_nat (Suc q)\<rparr>)
      | None \<Rightarrow> (Panic Index_out_of_bounds,
          s\<lparr>curr_port := next_port (if unat (curr_port s) < PORT_NUM then of_nat PORT_NUM else curr_port s)\<rparr>))"
  using assms
proof (induction n arbitrary: s tries)
  case (Suc n)
  let ?p = "curr_port s"
  show ?case
  proof (cases "unat ?p < PORT_NUM")
    case True
    then have nxt: "next_port ?p = of_nat (Suc (unat ?p))"
      by (auto simp: next_port_def PORT_END_def PORT_NUM_def)
    have u: "unat (next_port ?p) = Suc (unat ?p)"
      unfolding nxt unsigned_of_nat using True by (simp add: PORT_NUM_def take_bit_nat_eq_self)
    have "unat (tries + 1) = unat tries + 1"
      using Suc.prems(2) by (simp add: unat_word_ariths)
    then have rest: "port_loop n (tries + 1) (s\<lparr>curr_port := next_port ?p\<rparr>) =
        (case find (\<lambda>q. listen_table s q = None) [Suc (unat ?p) ..< PORT_NUM] of
           Some q \<Rightarrow> (Ret (Okay (of_nat q)), s\<lparr>curr_port := of_nat (Suc q)\<rparr>)
         | None \<Rightarrow> (Panic Index_out_of_bounds,
             s\<lparr>curr_port := next_port (if Suc (unat ?p) < PORT_NUM then of_nat PORT_NUM else next_port ?p)\<rparr>))"
      using Suc.IH [of "s\<lparr>curr_port := next_port ?p\<rparr>" "tries + 1"] Suc.prems True by (simp add: u cong: option.case_cong)
    have "next_port ?p = of_nat PORT_NUM" if "\<not> Suc (unat ?p) < PORT_NUM"
    proof -
      have "PORT_NUM = Suc (unat ?p)" using True that by simp
      then show ?thesis by (simp only: nxt)
    qed
    then show ?thesis
      using Suc.prems True rest by (simp add: port_loop_step upt_conv_Cons nxt del: port_loop.simps split: option.split)
  next
    case False
    then show ?thesis using Suc.prems by (simp add: port_loop_step del: port_loop.simps)
  qed
qed simp

text \<open>C19. The port allocator: from the current position of its counter, the first port below
  \<open>PORT_NUM\<close> without a listener is returned and the counter moves behind it. When there is none,
  the allocator indexes the listen table out of bounds and the thread panics, although ports up to
  \<open>PORT_END\<close> are meant to be tried: it never reports \<open>AddrInUse\<close>.\<close>

theorem ephemeral_port_found:
  assumes "0x1000 \<le> unat (curr_port s)"
  shows "get_ephemeral_port s =
     (case find (\<lambda>q. listen_table s q = None) [unat (curr_port s) ..< PORT_NUM] of
        Some q \<Rightarrow> (Ret (Okay (of_nat q)), s\<lparr>curr_port := of_nat (Suc q)\<rparr>)
      | None \<Rightarrow> (Panic Index_out_of_bounds,
          s\<lparr>curr_port := next_port (if unat (curr_port s) < PORT_NUM then of_nat PORT_NUM else curr_port s)\<rparr>))"
proof -
  have "can_listen 6379 s = (Ret (listen_table s 6379 = None), s)"
    by (simp add: can_listen_def table_at_def PORT_NUM_def run_simps)
  then show ?thesis
    using port_loop_finds [where s = s and n = "0xf001" and tries = 0] assms
    by (simp add: get_ephemeral_port_def run_bnd PORT_NUM_def)
qed

theorem ephemeral_port_found_witness:
  "get_ephemeral_port (ref_net_thread ref_init [] ((\<lambda>_. None)(0x1000 \<mapsto> entry_new \<lparr>le_addr = None, le_port = 0x1000\<rparr>)) 0x1000 [])
     = (Ret (Okay 0x1001), ref_net_thread ref_init [] ((\<lambda>_. None)(0x1000 \<mapsto> entry_new \<lparr>le_addr = None, le_port = 0x1000\<rparr>)) 0x1002 [])
   \<and> fst (get_ephemeral_port (ref_net_thread ref_init [] (\<lambda>_. None) 0x2000 [])) = Panic Index_out_of_bounds"
  using ephemeral_port_found [of "ref_net_thread ref_init [] ((\<lambda>_. None)(0x1000 \<mapsto> entry_new \<lparr>le_addr = None, le_port = 0x1000\<rparr>)) 0x1000 []"]
    ephemeral_port_found [of "ref_net_thread ref_init [] (\<lambda>_. None) 0x2000 []"]
  by (simp add: ref_net_thread_def PORT_NUM_def upt_rec)

section \<open>A run on the reference stack\<close>

text \<open>The kernel thread asks for a socket and lets it listen on a port of the server's choice.\<close>

definition ref_requests :: "((message_info \<times> badge) \<times> regs) list" where
  "ref_requests = [((ref_mi_new 0x400 0 0 0, 0), \<lambda>_. 0), ((ref_mi_new 0x408 0 0 1, 0), \<lambda>_. 0)]"

definition ref_net_start :: "(ref_state, ref_sock option list) net_thread" where
  "ref_net_start = ref_net_thread (ref_init\<lparr>inbox := ref_requests\<rparr>) [] listen_table_new 0x1000 []"

definition ref_listener :: tcp_socket where
  "ref_listener = \<lparr>st = STATE_LISTENING, hdl = Some 0,
     local_addr = \<lparr>ep_addr = UNSPECIFIED_IP, ep_port = 0x1000\<rparr>, peer_addr = UNSPECIFIED_ENDPOINT,
     nonblock = False, reuse_addr = False\<rparr>"

lemmas ref_net_runs = run_simps Let_def lock_sockets_def unlock_sockets_def vec_at_def vec_put_def
  net_reply_with_def table_at_def table_put_def set_add_tcp_def new_tcp_socket_def ref_recv_def ref_reply_def
  ref_net_thread_def recv_cap_def const_defs PORT_NUM_def

definition ref_net_created :: "(ref_state, ref_sock option list) net_thread" where
  "ref_net_created = \<lparr>kern = ref_init\<lparr>inbox := tl ref_requests, replies := [0]\<rparr>,
     ipcbuf = \<lparr>msg_regs = (\<lambda>_. 0), caps_or_badges = (\<lambda>_. 0), recv_slot = Some (Relative 2 29)\<rparr>,
     net_stack = [Some ref_sock_new], lb_queue = [], listen_table = listen_table_new, curr_port = 0x1000,
     time_ticks = 0, socket_vec = [Some (ref_listener\<lparr>st := STATE_CLOSED, local_addr := UNSPECIFIED_ENDPOINT\<rparr>)],
     socket_vec_locked = False\<rparr>"

lemma ref_new_run: "handle_ipc ref_net (DEFAULT_CUSTOM_SLOT + 2) ref_net_start = (Ret (), ref_net_created)"
  by (simp add: handle_ipc_def [THEN fun_cong] handle_request_def handle_new_def tcp_socket_new_def
      alloc_socket_id_def push_none_def ref_net_start_def ref_requests_def ref_label_kept net_try_from_def
      net_decode_def Net_LABEL_START_def ref_net_created_def ref_listener_def fun_upd_idem ref_init_def ref_net_runs)

lemma ref_listen_run:
  "\<exists>t. handle_ipc ref_net (DEFAULT_CUSTOM_SLOT + 2) ref_net_created = (Ret (), t)
     \<and> socket_vec t = [Some ref_listener]
     \<and> listen_table t = listen_table_new(0x1000 \<mapsto> entry_new \<lparr>le_addr = None, le_port = 0x1000\<rparr>)"
proof -
  have port: "get_ephemeral_port s = (Ret (Okay 0x1000), s\<lparr>curr_port := 0x1001\<rparr>)"
    if "curr_port s = 0x1000" "listen_table s = listen_table_new" for s :: "(ref_state, ref_sock option list) net_thread"
    using port_loop_finds [of s "0xf001" 0] that
    by (simp add: get_ephemeral_port_def can_listen_def table_at_def run_simps PORT_NUM_def upt_rec listen_table_new_def)
  show ?thesis
    by (simp add: handle_ipc_def [THEN fun_cong] handle_request_def handle_listen_def on_socket_def listen_def
        update_state_def start_listen_def bound_endpoint_def table_listen_def unwrap_state_def ref_net_created_def
        ref_requests_def ref_label_kept net_try_from_def net_decode_def Net_LABEL_START_def ref_listener_def port
        UNSPECIFIED_ENDPOINT_def UNSPECIFIED_IP_def is_unspecified_def ref_net_runs, simp add: listen_table_new_def)
qed

lemma ref_listening:
  "\<exists>t. net_reachable ref_net t \<and> socket_vec t = [Some ref_listener]
     \<and> listen_table t = listen_table_new(0x1000 \<mapsto> entry_new \<lparr>le_addr = None, le_port = 0x1000\<rparr>)"
proof -
  have "net_reachable ref_net ref_net_start"
    by (rule net_reachable.init) (simp add: net_init_def ref_net_start_def ref_net_thread_def)
  then have "net_reachable ref_net ref_net_created"
    using ref_new_run by (rule net_reachable.serve)
  then show ?thesis
    using ref_listen_run net_reachable.serve by blast
qed

section \<open>Listening\<close>

lemma port_at_Some:
  "port_at v i = Some p \<longleftrightarrow> i < length v \<and> (\<exists>sk. v ! i = Some sk \<and> is_listening sk \<and> unat (ep_port (local_addr sk)) = p)"
  by (auto simp: port_at_def port_of_def is_listening_def split: if_splits option.splits bind_splits)

text \<open>C13. In every state the server reaches, a port has an entry in the listen table exactly when one
  socket of the socket table listens on it, and then it is the only one: no listener is left behind
  by a closed socket, and no two sockets share a port.\<close>

theorem listeners_own_their_ports:
  assumes "net_reachable N s"
  shows "listen_table s p \<noteq> None \<longleftrightarrow>
    (\<exists>!i. i < length (socket_vec s) \<and>
       (\<exists>sk. socket_vec s ! i = Some sk \<and> is_listening sk \<and> unat (ep_port (local_addr sk)) = p))"
proof -
  have "ran (port_at (socket_vec s)) = dom (listen_table s)" and inj: "map_inj (port_at (socket_vec s))"
    using net_reachable_inv [OF assms] by (auto simp: net_inv_def vec_ok_def)
  then have "listen_table s p \<noteq> None \<longleftrightarrow> (\<exists>i. port_at (socket_vec s) i = Some p)"
    by (auto simp: ran_def domIff [symmetric] simp del: not_None_eq)
  then show ?thesis
    unfolding port_at_Some [symmetric] using map_injD [OF inj] by blast
qed

theorem listeners_own_their_ports_witness:
  "\<exists>t. net_reachable ref_net t \<and> listen_table t 0x1000 \<noteq> None \<and>
    (\<exists>!i. i < length (socket_vec t) \<and>
       (\<exists>sk. socket_vec t ! i = Some sk \<and> is_listening sk \<and> unat (ep_port (local_addr sk)) = 0x1000))"
proof -
  obtain t where t: "net_reachable ref_net t" "listen_table t 0x1000 \<noteq> None"
    using ref_listening by auto
  then show ?thesis using listeners_own_their_ports [OF t(1), of "0x1000"] by blast
qed

text \<open>C23. No socket is left in the state \<open>STATE_BUSY\<close> between requests: every socket of the table is
  closed, connecting, connected or listening.\<close>

theorem sockets_settled:
  assumes "net_reachable N s" and "i < length (socket_vec s)" and "socket_vec s ! i = Some sk"
  shows "st sk \<in> {STATE_CLOSED, STATE_CONNECTING, STATE_CONNECTED, STATE_LISTENING} \<and> st sk \<noteq> STATE_BUSY"
proof -
  have "settled sk"
    using net_reachable_inv [OF assms(1)] nth_mem [OF assms(2)] assms(3) by (auto simp: net_inv_def vec_ok_def)
  then show ?thesis by (auto simp: settled_def state_defs)
qed

theorem sockets_settled_witness:
  "\<exists>t. net_reachable ref_net t \<and> socket_vec t ! 0 = Some ref_listener \<and> st ref_listener \<noteq> STATE_BUSY"
proof -
  obtain t where "net_reachable ref_net t" "socket_vec t = [Some ref_listener]"
    using ref_listening by auto
  then show ?thesis using sockets_settled [of ref_net t 0 ref_listener] by auto
qed

text \<open>C22. The queue of half-open connections of a listener never has more than 32 entries, whatever
  packets arrive, and an entry is stored at the port of its own endpoint.\<close>

theorem syn_queue_bounded:
  assumes "net_reachable N s" and "listen_table s p = Some e"
  shows "length (syn_queue e) \<le> LISTEN_QUEUE_SIZE \<and> unat (le_port (listen_endpoint e)) = p"
  using net_reachable_inv [OF assms(1)] assms(2) by (auto simp: net_inv_def entries_ok_def)

theorem syn_queue_bounded_witness:
  "\<exists>t e. net_reachable ref_net t \<and> listen_table t 0x1000 = Some e \<and> length (syn_queue e) \<le> 32"
proof -
  obtain t where "net_reachable ref_net t"
    "listen_table t 0x1000 = Some (entry_new \<lparr>le_addr = None, le_port = 0x1000\<rparr>)"
    using ref_listening by auto
  then show ?thesis
    using syn_queue_bounded [of ref_net t "0x1000"] by (auto simp: LISTEN_QUEUE_SIZE_def)
qed

section \<open>Accepting connections\<close>

text \<open>C15. An \<open>Accept\<close> request that finds a connection is never answered: the handler holds the lock of
  the socket table when it asks for a new identifier, which takes the same lock again, so the
  network thread hangs with the connection already taken out of the queue.\<close>

theorem accept_deadlocks:
  assumes "\<not> socket_vec_locked s" and "unat i < length (socket_vec s)" and "socket_vec s ! unat i = Some sk"
    and "accept N sk (s\<lparr>socket_vec_locked := True\<rparr>) = (Ret (Okay conn, sk'), t)"
  shows "handle_accept N i s = (Deadlock, t)"
proof -
  have "net_frame (s\<lparr>socket_vec_locked := True\<rparr>) t"
    using pwp_Ret [OF keepsD [OF keeps_accept [of "\<lambda>_. True"]] assms(4)] by simp
  then have "socket_vec_locked t" by (simp add: net_frame_sockets)
  then show ?thesis
    using assms by (simp add: handle_accept_def on_socket_def lock_sockets_def vec_at_def run_simps finish_accept_locked)
qed

definition ref_connection :: ref_sock where
  "ref_connection = \<lparr>rs_state = Established, rs_bound = \<lparr>le_addr = None, le_port = 0x1000\<rparr>,
     rs_local = Some \<lparr>ep_addr = Ipv4 [10, 0, 2, 15], ep_port = 0x1000\<rparr>,
     rs_remote = Some \<lparr>ep_addr = Ipv4 [10, 0, 2, 2], ep_port = 50000\<rparr>\<rparr>"

definition ref_accepting :: "(ref_state, ref_sock option list) net_thread" where
  "ref_accepting = ref_net_thread ref_init [Some ref_sock_new, Some ref_connection]
     (listen_table_new(0x1000 \<mapsto> \<lparr>listen_endpoint = \<lparr>le_addr = None, le_port = 0x1000\<rparr>, syn_queue = [1]\<rparr>))
     0x1001 [Some (ref_listener\<lparr>nonblock := True\<rparr>)]"

lemma ref_table_accept:
  "\<exists>t. table_accept ref_net 0x1000 (ref_accepting\<lparr>socket_vec_locked := b\<rparr>)
     = (Ret (Okay (1, \<lparr>ep_addr = Ipv4 [10, 0, 2, 15], ep_port = 0x1000\<rparr>, \<lparr>ep_addr = Ipv4 [10, 0, 2, 2], ep_port = 50000\<rparr>)), t)"
  by (simp add: table_accept_def ref_accepting_def is_connected_sock_def is_closed_sock_def get_addr_tuple_def
      with_socket_def ref_connection_def swap_remove_front_def ref_net_runs)

theorem accept_deadlocks_witness: "\<exists>t. handle_accept ref_net 0 ref_accepting = (Deadlock, t)"
proof -
  have at: "\<not> socket_vec_locked ref_accepting" "unat (0 :: u64) < length (socket_vec ref_accepting)"
      "socket_vec ref_accepting ! unat (0 :: u64) = Some (ref_listener\<lparr>nonblock := True\<rparr>)"
    by (simp_all add: ref_accepting_def ref_net_thread_def)
  obtain t where "accept ref_net (ref_listener\<lparr>nonblock := True\<rparr>) (ref_accepting\<lparr>socket_vec_locked := True\<rparr>) =
      (Ret (Okay (new_connected 1 \<lparr>ep_addr = Ipv4 [10, 0, 2, 15], ep_port = 0x1000\<rparr> \<lparr>ep_addr = Ipv4 [10, 0, 2, 2], ep_port = 50000\<rparr>),
         ref_listener\<lparr>nonblock := True\<rparr>), t)"
    using ref_table_accept [of True]
    by (auto simp: accept_def is_listening_def ref_listener_def block_on_def is_nonblocking_def try_accept_def run_simps)
  from accept_deadlocks [OF at this] show ?thesis by blast
qed

definition connected_in :: "('k, 'n, 's) nenv \<Rightarrow> ('k, 'n) net_thread \<Rightarrow> handle \<Rightarrow> bool" where
  "connected_in N s h = (case set_get N (net_stack s) h of
     None \<Rightarrow> False | Some x \<Rightarrow> \<not> (s_state N x = Listening \<or> s_state N x = SynReceived))"

lemma first_connected_is_first:
  "first_connected N i hs s = (Ret (Some j), t) \<Longrightarrow>
     i \<le> j \<and> j - i < length hs \<and> connected_in N s (hs ! (j - i)) \<and> (\<forall>k < j - i. \<not> connected_in N s (hs ! k))"
proof (induction hs arbitrary: i)
  case (Cons h hs)
  show ?case
  proof (cases "connected_in N s h")
    case True
    then show ?thesis
      using Cons.prems
      by (auto simp: connected_in_def is_connected_sock_def with_socket_def run_simps split: option.splits)
  next
    case False
    then have "first_connected N (Suc i) hs s = (Ret (Some j), t)"
      using Cons.prems
      by (auto simp: connected_in_def is_connected_sock_def with_socket_def run_simps split: option.splits)
    from Cons.IH [OF this] show ?thesis
      using False by (auto simp: nth_Cons' Suc_diff_Suc)
  qed
qed (simp add: run_simps)

lemma mset_swap_remove_front:
  assumes "j < length xs"
  shows "add_mset (xs ! j) (mset (swap_remove_front xs j)) = mset xs"
proof (cases xs)
  case (Cons x ys)
  show ?thesis
  proof (cases j)
    case (Suc k)
    then have "mset (ys[k := x]) = add_mset x (mset ys - {#ys ! k#})" and "ys ! k \<in># mset ys"
      using assms Cons by (auto simp: mset_update)
    then show ?thesis using Cons Suc by (simp add: swap_remove_front_def)
  qed (simp add: swap_remove_front_def Cons)
qed (use assms in simp)

text \<open>C17. What \<open>accept\<close> takes from the listen table: the first connection of the queue that is
  established, with its two endpoints; the others stay in the queue, each as often as before, and
  nothing else of the table changes.\<close>

theorem accept_takes_first_connection:
  assumes "table_accept N port s = (Ret (Okay (h, l, r)), t)"
  shows "\<exists>e e' j. listen_table s (unat port) = Some e \<and> j < length (syn_queue e) \<and> syn_queue e ! j = h
     \<and> connected_in N s h \<and> (\<forall>k < j. \<not> connected_in N s (syn_queue e ! k))
     \<and> listen_table t = (listen_table s)(unat port \<mapsto> e') \<and> listen_endpoint e' = listen_endpoint e
     \<and> add_mset h (mset (syn_queue e')) = mset (syn_queue e)
     \<and> (\<exists>x. set_get N (net_stack s) h = Some x \<and> s_local_endpoint N x = Some l \<and> s_remote_endpoint N x = Some r)"
proof -
  obtain e where e: "listen_table s (unat port) = Some e"
    using assms by (auto simp: table_accept_def table_at_def run_simps split: if_splits option.splits)
  obtain f u where f: "first_connected N 0 (syn_queue e) s = (Ret f, u)"
    using assms e by (auto simp: table_accept_def table_at_def run_simps split: if_splits prod.splits res.splits)
  have "u = s" using pwp_Ret [OF pwp_first_connected f] by simp
  then obtain j where j: "first_connected N 0 (syn_queue e) s = (Ret (Some j), s)"
    using assms e f by (cases f) (auto simp: table_accept_def table_at_def run_simps split: if_splits)
  let ?e = "e\<lparr>syn_queue := swap_remove_front (syn_queue e) j\<rparr>"
  have "h = syn_queue e ! j \<and> listen_table t = (listen_table s)(unat port \<mapsto> ?e)
     \<and> (\<exists>x. set_get N (net_stack s) h = Some x \<and> s_local_endpoint N x = Some l \<and> s_remote_endpoint N x = Some r)"
    using assms e j
    by (auto simp: table_accept_def table_at_def table_put_def is_closed_sock_def get_addr_tuple_def with_socket_def
        run_simps Let_def split: if_splits option.splits)
  then show ?thesis
    using first_connected_is_first [OF j] e
    by (intro exI [of _ e] exI [of _ ?e] exI [of _ j]) (auto simp: mset_swap_remove_front)
qed

theorem accept_takes_first_connection_witness:
  "\<exists>e (e' :: listen_table_entry). listen_table ref_accepting 0x1000 = Some e \<and> add_mset 1 (mset (syn_queue e')) = mset (syn_queue e)"
proof -
  obtain t where t: "table_accept ref_net 0x1000 ref_accepting =
      (Ret (Okay (1, \<lparr>ep_addr = Ipv4 [10, 0, 2, 15], ep_port = 0x1000\<rparr>, \<lparr>ep_addr = Ipv4 [10, 0, 2, 2], ep_port = 50000\<rparr>)), t)"
    using ref_table_accept [of False] by (auto simp: ref_accepting_def ref_net_thread_def)
  show ?thesis using accept_takes_first_connection [OF t] by simp blast
qed

section \<open>The loopback device\<close>

lemma lb_transmit_all: "for_each lb_tx_consume ps s = (Ret (), s\<lparr>lb_queue := lb_queue s @ ps\<rparr>)"
  by (induction ps arbitrary: s) (simp_all add: run_simps lb_tx_consume_def)

lemma lb_receive_all:
  "lb_queue s = qs @ rest \<Longrightarrow> map_each (\<lambda>_. lb_receive) qs s = (Ret (map Some qs), s\<lparr>lb_queue := rest\<rparr>)"
  by (induction qs arbitrary: s) (simp_all add: run_simps lb_receive_def)

text \<open>C21. The loopback device is a queue: packets that are transmitted on it are received in the same
  order and with the same bytes, after those that were already waiting.\<close>

theorem loopback_is_fifo:
  "bnd (for_each lb_tx_consume ps) (\<lambda>_. map_each (\<lambda>_. lb_receive) (lb_queue s @ ps)) s
     = (Ret (map Some (lb_queue s) @ map Some ps), s\<lparr>lb_queue := []\<rparr>)"
  using lb_receive_all [of "s\<lparr>lb_queue := lb_queue s @ ps\<rparr>" "lb_queue s @ ps" "[]"]
  by (simp add: run_bnd lb_transmit_all)

end
