(* ===== verification/Net_Main.thy ===== *)
theory Net_Main
  imports Net_Properties Drivers Sys_Thread
begin

text \<open>
  The start of the network thread: \<open>init\<close> and the interfaces of \<^verbatim>\<open>smoltcp_impl/mod.rs\<close>, the
  constructor and the capabilities of the loopback device (\<^verbatim>\<open>loopback.rs\<close>), the test programs
  of \<^verbatim>\<open>test.rs\<close>, the bandwidth measurements of \<^verbatim>\<open>bench.rs\<close> and \<open>main\<close>.

  The constructors of \<open>smoltcp\<close> and of the driver are the fields of \<open>boot_api\<close>; they work on the
  opaque \<open>net_stack\<close>, and \<open>None\<close> or \<open>False\<close> stands for a panic or an error of theirs. The logger is
  left out. The static variables are initialised once, by the only call of \<open>init\<close>.
\<close>

section \<open>Devices, interfaces and their configuration\<close>

datatype medium = Medium_Ethernet | Medium_Ip

datatype hardware_address = Hw_Ethernet "u8 list" | Hw_Ip

record iface_config =
  hardware_addr :: hardware_address
  random_seed :: u64

record device_capabilities =
  max_transmission_unit :: usize
  max_burst_size :: "usize option"
  cap_medium :: medium

record 'n boot_api =
  ip_parse :: "string \<Rightarrow> unit + ip_address"
  config_new :: "hardware_address \<Rightarrow> iface_config"
  capabilities_default :: device_capabilities
  iface_new :: "net_iface \<Rightarrow> iface_config \<Rightarrow> device_capabilities \<Rightarrow> u64 \<Rightarrow> 'n \<Rightarrow> 'n option"
  iface_push_ip :: "net_iface \<Rightarrow> ip_address \<Rightarrow> u8 \<Rightarrow> 'n \<Rightarrow> 'n option"
  add_default_ipv4_route :: "u8 list \<Rightarrow> 'n \<Rightarrow> 'n option"
  add_default_ipv6_route :: "u8 list \<Rightarrow> 'n \<Rightarrow> 'n option"
  socket_set_new :: "'n \<Rightarrow> 'n"
  net_transport_new :: "usize \<Rightarrow> 'n \<Rightarrow> bool \<times> 'n"
  net_dev_try_new :: "'n \<Rightarrow> bool \<times> 'n"
  elapsed_secs :: "u64 \<Rightarrow> u64 \<Rightarrow> u64"

definition IP :: string where "IP = ''10.0.2.15''"
definition GATEWAY :: string where "GATEWAY = ''10.0.2.2''"
definition IP_PREFIX :: u8 where "IP_PREFIX = 24"
definition RANDOM_SEED :: u64 where "RANDOM_SEED = 0xA2CE05A2CE05A2CE"
definition STANDARD_MTU :: usize where "STANDARD_MTU = 1500"

definition eth_capabilities :: "'n boot_api \<Rightarrow> device_capabilities" where
  "eth_capabilities B =
     (capabilities_default B)\<lparr>max_transmission_unit := 1514, max_burst_size := None, cap_medium := Medium_Ethernet\<rparr>"

record loopback_dev =
  lb_dev_queue :: "u8 list list"
  lb_medium :: medium

definition loopback_dev_new :: "medium \<Rightarrow> loopback_dev" where
  "loopback_dev_new m = \<lparr>lb_dev_queue = [], lb_medium = m\<rparr>"

definition lb_capabilities :: "'n boot_api \<Rightarrow> loopback_dev \<Rightarrow> device_capabilities" where
  "lb_capabilities B d =
     (capabilities_default B)\<lparr>max_transmission_unit := 65535, cap_medium := lb_medium d\<rparr>"

text \<open>An operation of a library whose error is unwrapped, or that panics itself.\<close>

definition stack_try :: "('n \<Rightarrow> 'n option) \<Rightarrow> (('k, 'n) net_thread, unit) M" where
  "stack_try f =
     bnd (gets net_stack) (\<lambda>n.
     case f n of
       None \<Rightarrow> stop Unwrap_err
     | Some n' \<Rightarrow> modify (\<lambda>s. s\<lparr>net_stack := n'\<rparr>))"

record interface_wrapper =
  iw_name :: string
  iw_ether_addr :: "u8 list"

definition interface_wrapper_new ::
  "'n boot_api \<Rightarrow> string \<Rightarrow> u8 list \<Rightarrow> (('k, 'n) net_thread, interface_wrapper) M" where
  "interface_wrapper_new B nm ether =
     (let config = (config_new B (Hw_Ethernet ether))\<lparr>random_seed := RANDOM_SEED\<rparr> in
      bnd current_time (\<lambda>now.
      bnd (stack_try (iface_new B Eth0 config (eth_capabilities B) now)) (\<lambda>_.
      ret \<lparr>iw_name = nm, iw_ether_addr = ether\<rparr>)))"

definition setup_ip_addr :: "'n boot_api \<Rightarrow> ip_address \<Rightarrow> u8 \<Rightarrow> (('k, 'n) net_thread, unit) M" where
  "setup_ip_addr B ip prefix_len = stack_try (iface_push_ip B Eth0 ip prefix_len)"

definition setup_gateway :: "'n boot_api \<Rightarrow> ip_address \<Rightarrow> (('k, 'n) net_thread, unit) M" where
  "setup_gateway B gateway =
     (case gateway of
        Ipv4 v4 \<Rightarrow> stack_try (add_default_ipv4_route B v4)
      | Ipv6 v6 \<Rightarrow> stack_try (add_default_ipv6_route B v6))"

text \<open>\<open>init\<close> returns what it stores in \<open>ETH0\<close>.\<close>

definition net_ether_addr :: "u8 list" where
  "net_ether_addr = [0x52, 0x54, 0x00, 0x12, 0x34, 0x56]"

definition init_loopback :: "'n boot_api \<Rightarrow> (('k, 'n) net_thread, unit) M" where
  "init_loopback B =
     (let loopback_device = loopback_dev_new Medium_Ip; config = config_new B Hw_Ip in
      bnd current_time (\<lambda>now.
      bnd (stack_try (iface_new B Loopback config (lb_capabilities B loopback_device) now)) (\<lambda>_.
      bnd (stack_try (iface_push_ip B Loopback (Ipv4 [127, 0, 0, 1]) 8)) (\<lambda>_.
      modify (\<lambda>s. s\<lparr>lb_queue := lb_dev_queue loopback_device\<rparr>)))))"

definition init_net :: "'n boot_api \<Rightarrow> (('k, 'n) net_thread, interface_wrapper) M" where
  "init_net B =
     bnd (interface_wrapper_new B ''eth0'' net_ether_addr) (\<lambda>eth0.
     bnd (unwrap_res (ip_parse B IP)) (\<lambda>ip.
     bnd (unwrap_res (ip_parse B GATEWAY)) (\<lambda>gateway.
     bnd (setup_ip_addr B ip IP_PREFIX) (\<lambda>_.
     bnd (setup_gateway B gateway) (\<lambda>_.
     bnd (modify (\<lambda>s. s\<lparr>net_stack := socket_set_new B (net_stack s)\<rparr>)) (\<lambda>_.
     bnd (modify (\<lambda>s. s\<lparr>listen_table := listen_table_new\<rparr>)) (\<lambda>_.
     bnd (init_loopback B) (\<lambda>_.
     ret eth0))))))))"

section \<open>UTF-8\<close>

text \<open>\<open>core::str::from_utf8\<close> succeeds exactly on these byte sequences.\<close>

definition utf8_tail :: "u8 \<Rightarrow> bool" where "utf8_tail b \<longleftrightarrow> 0x80 \<le> b \<and> b \<le> 0xBF"

definition utf8_second3 :: "u8 \<Rightarrow> u8 \<Rightarrow> bool" where
  "utf8_second3 a b \<longleftrightarrow>
     (if a = 0xE0 then 0xA0 \<le> b \<and> b \<le> 0xBF else if a = 0xED then 0x80 \<le> b \<and> b \<le> 0x9F else utf8_tail b)"

definition utf8_second4 :: "u8 \<Rightarrow> u8 \<Rightarrow> bool" where
  "utf8_second4 a b \<longleftrightarrow>
     (if a = 0xF0 then 0x90 \<le> b \<and> b \<le> 0xBF else if a = 0xF4 then 0x80 \<le> b \<and> b \<le> 0x8F else utf8_tail b)"

fun utf8_valid :: "u8 list \<Rightarrow> bool" where
  "utf8_valid [] = True"
| "utf8_valid (a # bs) =
     (if a < 0x80 then utf8_valid bs
      else if 0xC2 \<le> a \<and> a \<le> 0xDF then
        (case bs of b # rest \<Rightarrow> utf8_tail b \<and> utf8_valid rest | _ \<Rightarrow> False)
      else if 0xE0 \<le> a \<and> a \<le> 0xEF then
        (case bs of b # c # rest \<Rightarrow> utf8_second3 a b \<and> utf8_tail c \<and> utf8_valid rest | _ \<Rightarrow> False)
      else if 0xF0 \<le> a \<and> a \<le> 0xF4 then
        (case bs of b # c # d # rest \<Rightarrow> utf8_second4 a b \<and> utf8_tail c \<and> utf8_tail d \<and> utf8_valid rest | _ \<Rightarrow> False)
      else False)"

section \<open>Test programs: test.rs\<close>

definition CRLF :: string where "CRLF = [CHR 0x0D, CHR 0x0A]"

definition REQUEST :: string where
  "REQUEST = ''GET / HTTP/1.1'' @ CRLF @ ''Host: ident.me'' @ CRLF @ ''Accept: */*'' @ CRLF @ CRLF"

text \<open>The unwrapped result of an operation on a socket, with the socket after it.\<close>

definition unwrap_sock ::
  "(('k, 'n) net_thread, (ax_error + 'a) \<times> tcp_socket) M \<Rightarrow> (('k, 'n) net_thread, 'a \<times> tcp_socket) M" where
  "unwrap_sock c = bnd c (\<lambda>(r, sk). bnd (unwrap_res r) (\<lambda>x. ret (x, sk)))"

definition test_client :: "('k, 'n, 's) nenv \<Rightarrow> (('k, 'n) net_thread, unit) M" where
  "test_client N =
     bnd (tcp_socket_new N) (\<lambda>sk.
     bnd (unwrap_sock (connect N \<lparr>sock_ip = V4 49 12 234 183, sock_port = 80\<rparr> sk)) (\<lambda>(_, sk).
     bnd (unwrap_sock (send N (str_bytes REQUEST) sk)) (\<lambda>(_, sk).
     bnd (unwrap_sock (recv N 256 sk)) (\<lambda>(response, sk).
     bnd (if utf8_valid response then ret () else stop Unwrap_err) (\<lambda>_.
     drop_socket N sk)))))"

definition CONTENT :: string where
  \<open>CONTENT = concat (map (\<lambda>l. l @ [CHR 0x0A])
     [''<html>'',
      ''    <head>'',
      ''      <title>Hello, ArceOS</title>'',
      ''    </head>'',
      ''    <body>'',
      ''      <center>'',
      ''        <h1>Hello, <a href="https://github.com/rcore-os/arceos">ArceOS</a></h1>'',
      ''      </center>'',
      ''      <hr>'',
      ''      <center>'',
      ''        <i>Powered by <a href="https://github.com/rcore-os/arceos/tree/main/apps/net/httpserver">ArceOS example HTTP server</a> v0.1.0</i>'',
      ''      </center>'',
      ''    </body>'',
      ''    </html>'']) @ ''    ''\<close>

fun decimal :: "nat \<Rightarrow> string" where
  "decimal n = (if n < 10 then [char_of (48 + n)] else decimal (n div 10) @ [char_of (48 + n mod 10)])"

definition http_response :: string where
  "http_response =
     ''HTTP/1.1 200 OK'' @ CRLF @ ''Content-Type: text/html'' @ CRLF @
     ''Content-Length: '' @ decimal (length CONTENT) @ CRLF @ ''Connection: close'' @ CRLF @ CRLF @ CONTENT"

definition http_server :: "('k, 'n, 's) nenv \<Rightarrow> tcp_socket \<Rightarrow> (('k, 'n) net_thread, unit) M" where
  "http_server N stream =
     bnd (unwrap_sock (recv N 256 stream)) (\<lambda>(_, stream).
     bnd (unwrap_sock (send N (str_bytes http_response) stream)) (\<lambda>(_, stream).
     drop_socket N stream))"

primrec http_server_loop :: "('k, 'n, 's) nenv \<Rightarrow> nat \<Rightarrow> tcp_socket \<Rightarrow> (('k, 'n) net_thread, unit) M" where
  "http_server_loop N 0 sk = no_fuel"
| "http_server_loop N (Suc n) sk =
     bnd (accept N sk) (\<lambda>(r, sk).
     bnd (case r of Inl _ \<Rightarrow> ret () | Inr stream \<Rightarrow> http_server N stream) (\<lambda>_.
     http_server_loop N n sk))"

definition run_server :: "('k, 'n, 's) nenv \<Rightarrow> (('k, 'n) net_thread, unit) M" where
  "run_server N =
     bnd (tcp_socket_new N) (\<lambda>sk.
     bnd (unwrap_sock (bind N \<lparr>sock_ip = V4 0 0 0 0, sock_port = 6379\<rparr> sk)) (\<lambda>(_, sk).
     bnd (unwrap_sock (listen sk)) (\<lambda>(_, sk).
     http_server_loop N (n_fuel N) sk)))"

section \<open>Bandwidth: bench.rs\<close>

definition KB :: usize where "KB = 1000"
definition MB :: usize where "MB = 1000 * KB"
definition GB :: usize where "GB = 1000 * MB"
definition MAX_SEND_BYTES :: usize where "MAX_SEND_BYTES = 10 * GB"
definition MAX_RECEIVE_BYTES :: usize where "MAX_RECEIVE_BYTES = 10 * GB"

definition bench_frame :: "u8 list" where
  "bench_frame = replicate 12 1 @ [0x08, 0x00] @ replicate (unat STANDARD_MTU - 14) 1"

text \<open>The report of a second: whole and fractional gigabytes and gigabits.\<close>

definition bench_report :: "usize \<Rightarrow> usize \<Rightarrow> usize \<times> usize \<times> usize \<times> usize" where
  "bench_report bytes past_bytes =
     (let d = bytes - past_bytes in (d div GB, (d mod GB) div MB, (d * 8) div GB, ((d * 8) mod GB) div MB))"

record bench =
  bn_bytes :: usize
  bn_past_bytes :: usize
  bn_past_time :: u64
  bn_reports :: "(usize \<times> usize \<times> usize \<times> usize) list"

definition bench_tick :: "'n boot_api \<Rightarrow> u64 \<Rightarrow> bench \<Rightarrow> bench" where
  "bench_tick B now b =
     (if elapsed_secs B now (bn_past_time b) = 1
      then b\<lparr>bn_reports := bn_reports b @ [bench_report (bn_bytes b) (bn_past_bytes b)],
             bn_past_time := now, bn_past_bytes := bn_bytes b\<rparr>
      else b)"

primrec bench_transmit_loop ::
  "('k, 'n, 's) nenv \<Rightarrow> 'n boot_api \<Rightarrow> nat \<Rightarrow> bench \<Rightarrow> (('k, 'n) net_thread, bench) M" where
  "bench_transmit_loop N B 0 b = (if bn_bytes b < MAX_SEND_BYTES then no_fuel else ret b)"
| "bench_transmit_loop N B (Suc n) b =
     (if bn_bytes b < MAX_SEND_BYTES then
        bnd current_time (\<lambda>_.
        bnd (eth_transmit N) (\<lambda>ok.
        bnd (if ok then bnd (eth_tx_consume N bench_frame) (\<lambda>_. ret (b\<lparr>bn_bytes := bn_bytes b + STANDARD_MTU\<rparr>))
             else ret b) (\<lambda>b.
        bnd current_time (\<lambda>now.
        bench_transmit_loop N B n (bench_tick B now b)))))
      else ret b)"

definition bench_transmit_bandwidth :: "('k, 'n, 's) nenv \<Rightarrow> 'n boot_api \<Rightarrow> nat \<Rightarrow> (('k, 'n) net_thread, bench) M" where
  "bench_transmit_bandwidth N B limit =
     bnd current_time (\<lambda>now.
     bench_transmit_loop N B limit \<lparr>bn_bytes = 0, bn_past_bytes = 0, bn_past_time = now, bn_reports = []\<rparr>)"

text \<open>\<open>AxNetRxToken::consume\<close> with a closure that only counts the bytes: the driver gets its buffer
  back.\<close>

definition bench_rx_consume :: "('k, 'n, 's) nenv \<Rightarrow> u8 list \<Rightarrow> bench \<Rightarrow> (('k, 'n) net_thread, bench) M" where
  "bench_rx_consume N buf b =
     bnd (stack_op (dev_recycle_rx_buffer N buf)) (\<lambda>ok.
     if \<not> ok then stop Unwrap_err else ret (b\<lparr>bn_bytes := bn_bytes b + of_nat (length buf)\<rparr>))"

primrec bench_receive_loop ::
  "('k, 'n, 's) nenv \<Rightarrow> 'n boot_api \<Rightarrow> nat \<Rightarrow> bench \<Rightarrow> (('k, 'n) net_thread, bench) M" where
  "bench_receive_loop N B 0 b = (if bn_bytes b < MAX_RECEIVE_BYTES then no_fuel else ret b)"
| "bench_receive_loop N B (Suc n) b =
     (if bn_bytes b < MAX_RECEIVE_BYTES then
        bnd current_time (\<lambda>_.
        bnd (eth_receive N) (\<lambda>rx.
        bnd (case rx of None \<Rightarrow> ret b | Some buf \<Rightarrow> bench_rx_consume N buf b) (\<lambda>b.
        bnd current_time (\<lambda>now.
        bench_receive_loop N B n (bench_tick B now b)))))
      else ret b)"

definition bench_receive_bandwidth :: "('k, 'n, 's) nenv \<Rightarrow> 'n boot_api \<Rightarrow> nat \<Rightarrow> (('k, 'n) net_thread, bench) M" where
  "bench_receive_bandwidth N B limit =
     bnd current_time (\<lambda>now.
     bench_receive_loop N B limit \<lparr>bn_bytes = 0, bn_past_bytes = 0, bn_past_time = now, bn_reports = []\<rparr>)"

section \<open>main\<close>

definition net_main :: "('k, 'n, 's) nenv \<Rightarrow> 'n boot_api \<Rightarrow> (('k, 'n) net_thread, unit) M" where
  "net_main N B =
     bnd (non_null VIRTIO_MMIO_NET_VIRT_ADDR) (\<lambda>header.
     bnd (stack_op (net_transport_new B header)) (\<lambda>ok.
     bnd (if ok then ret () else stop Unwrap_err) (\<lambda>_.
     bnd (stack_op (net_dev_try_new B)) (\<lambda>ok.
     bnd (if ok then ret () else stop (Message ''failed to create net driver'')) (\<lambda>_.
     bnd (init_net B) (\<lambda>_.
     bnd (test_client N) (\<lambda>_.
     stop (Message ''internal error: entered unreachable code''))))))))"

section \<open>Library behaviour and an instance\<close>





section \<open>The start\<close>

lemma run_current_time [run_simps]:
  "current_time s = (Ret (time_ticks s + 1), s\<lparr>time_ticks := time_ticks s + 1\<rparr>)"
  by (simp add: current_time_def run_simps)







lemma net_main_never_returns: "fst (net_main N B s) \<noteq> Ret x"
  by (cases "net_main N B s") (auto simp: net_main_def bnd_Ret_iff stop_def)

section \<open>The loops of the measurements\<close>

definition device_ready :: "('k, 'n, 's) nenv \<Rightarrow> bool" where
  "device_ready N \<longleftrightarrow>
     (\<forall>n. fst (dev_recycle_tx_buffers N n) \<and> dev_can_transmit N n) \<and>
     (\<forall>len n. fst (dev_alloc_tx_buffer N len n)) \<and> (\<forall>p n. fst (dev_transmit N p n))"

lemma bench_max: "MAX_SEND_BYTES = 10000000000" by (simp add: MAX_SEND_BYTES_def GB_def MB_def KB_def)

lemma bench_tick_bytes [simp]: "bn_bytes (bench_tick B now b) = bn_bytes b"
  by (simp add: bench_tick_def)

lemma bench_transmit_ends:
  assumes "device_ready N" and "10000000000 \<le> unat (bn_bytes b) + 1500 * limit"
  shows "\<exists>b' t. bench_transmit_loop N B limit b s = (Ret b', t) \<and> MAX_SEND_BYTES \<le> bn_bytes b'"
  using assms(2)
proof (induction limit arbitrary: b s)
  case 0
  then show ?case by (simp add: run_simps bench_max word_less_nat_alt word_le_nat_alt)
next
  case (Suc n)
  show ?case
  proof (cases "bn_bytes b < MAX_SEND_BYTES")
    case True
    then have "unat (bn_bytes b + STANDARD_MTU) = unat (bn_bytes b) + 1500"
      by (subst unat_add_lem [THEN iffD1]) (simp_all add: bench_max STANDARD_MTU_def word_less_nat_alt)
    then have *: "10000000000 \<le> unat (bn_bytes (bench_tick B now (b\<lparr>bn_bytes := bn_bytes b + STANDARD_MTU\<rparr>))) + 1500 * n" for now
      using Suc.prems by simp
    show ?thesis using True assms(1) Suc.IH [OF *]
      by (simp add: run_simps device_ready_def eth_transmit_def eth_tx_consume_def stack_op_def)
  qed (simp add: run_simps)
qed

lemma bench_transmit_spins:
  assumes "\<forall>n. \<not> dev_can_transmit N n" and "bn_bytes b < MAX_SEND_BYTES"
  shows "\<exists>t. bench_transmit_loop N B limit b s = (Out_of_fuel, t)"
  using assms(2)
proof (induction limit arbitrary: b s)
  case (Suc n)
  have "bn_bytes (bench_tick B now b) < MAX_SEND_BYTES" for now using Suc.prems by simp
  from Suc.IH [OF this] show ?case using assms(1) Suc.prems
    by (simp add: run_simps eth_transmit_def stack_op_def)
qed (simp add: run_simps)

section \<open>The texts of the tests\<close>

lemma utf8_ascii: "(\<And>b. b \<in> set bs \<Longrightarrow> b < 0x80) \<Longrightarrow> utf8_valid bs"
  by (induction bs) simp_all

declare decimal.simps [simp del]

lemma decimal_value: "foldl (\<lambda>a c. 10 * a + (of_char c - 48)) 0 (decimal n) = (n :: nat)"
proof (induction n rule: decimal.induct)
  case (1 n)
  have "of_char (char_of (48 + d) :: char) = 48 + d" if "d < 10" for d :: nat using that by simp
  then show ?case using 1 by (cases "n < 10") (simp_all add: decimal.simps [of n] del: of_char_of)
qed


end
