(* ===== verification/Runtime.thy ===== *)
theory Runtime
  imports Threads Net_Main
begin

text \<open>
  The entry points of the threads (\<^verbatim>\<open>runtime.rs\<close> of the kernel thread; those of the network and
  the block thread differ in the name they print) and the records of the logger
  (\<^verbatim>\<open>kernel-thread/src/logging.rs\<close>, and the copy of its formatter in \<^verbatim>\<open>net-thread/src/main.rs\<close>).

  The stack, the heap and the code that runs before \<open>inner_entry\<close> come from the
  \<^verbatim>\<open>sel4_runtime_common\<close> crate; its functions are arguments here.
\<close>

section \<open>Entry\<close>

definition get_ipc_buffer :: "('k, 'e) sel4_scheme \<Rightarrow> usize \<Rightarrow> usize" where
  "get_ipc_buffer S image_end = next_multiple_of image_end (GRANULE_SIZE S)"

definition inner_entry ::
  "('k, 'e) sel4_scheme \<Rightarrow> bool \<Rightarrow> usize \<Rightarrow> (usize \<Rightarrow> ('s, unit) M) \<Rightarrow> ('s, unit) M \<Rightarrow> ('s, unit) M \<Rightarrow> ('s, unit) M" where
  "inner_entry S eh_frame_ok image_end set_ipc_buffer run_ctors main =
     bnd (if eh_frame_ok then ret () else stop Unwrap_err) (\<lambda>_.
     bnd (if get_ipc_buffer S image_end = 0 then stop Unwrap_none else set_ipc_buffer (get_ipc_buffer S image_end)) (\<lambda>_.
     bnd run_ctors (\<lambda>_.
     bnd (catch_unwind main) (\<lambda>_.
     stop (Message ''[KernelThread] main() panicked'')))))"

text \<open>A thread never leaves its entry point: a panic of \<open>main\<close> ends in an abort that keeps the state
  of the panic, and a deadlock or an endless loop of \<open>main\<close> is one of the thread.\<close>

lemma inner_entry_never_returns: "inner_entry S ok image_end set_buf ctors main s \<noteq> (Ret x, t)"
  by (simp add: inner_entry_def bnd_Ret_iff run_stop)

lemma inner_entry_aborts:
  assumes "get_ipc_buffer S image_end \<noteq> 0" and "set_buf (get_ipc_buffer S image_end) s = (Ret (), t)"
    and "ctors t = (Ret (), u)" and "main u = (Panic p, v)"
  shows "inner_entry S True image_end set_buf ctors main s = (Panic (Message ''[KernelThread] main() panicked''), v)"
  using assms by (simp add: inner_entry_def catch_unwind_def run_simps)

section \<open>Log records\<close>

datatype log_level = Error_level | Warn_level | Info_level | Debug_level | Trace_level

record log_record =
  rec_level :: log_level
  rec_target :: string
  rec_module_path :: "string option"
  rec_args :: string

text \<open>The filter chosen by the environment variable \<open>LOG\<close> of the build.\<close>

definition level_filter_of :: "string option \<Rightarrow> log_level" where
  "level_filter_of env =
     (if env = Some ''error'' then Error_level
      else if env = Some ''warn'' then Warn_level
      else if env = Some ''info'' then Info_level
      else if env = Some ''debug'' then Debug_level
      else if env = Some ''trace'' then Trace_level
      else Debug_level)"

fun color_code :: "log_level \<Rightarrow> u8" where
  "color_code Error_level = 31"
| "color_code Warn_level = 93"
| "color_code Info_level = 34"
| "color_code Debug_level = 32"
| "color_code Trace_level = 90"

definition record_target :: "log_record \<Rightarrow> string" where
  "record_target r =
     (if rec_target r = [] then (case rec_module_path r of None \<Rightarrow> [] | Some m \<Rightarrow> m) else rec_target r)"

definition fmt_with_module :: "(log_level \<Rightarrow> string) \<Rightarrow> log_record \<Rightarrow> string" where
  "fmt_with_module level_name r =
     [CHR 0x1B] @ ''['' @ decimal (unat (color_code (rec_level r))) @ ''m'' @
     ''['' @ level_name (rec_level r) @ ''] ['' @ record_target r @ ''] '' @ rec_args r @
     [CHR 0x1B] @ ''[0m''"

text \<open>The colour tells the levels apart.\<close>

lemma color_code_inj: "color_code a = color_code b \<longleftrightarrow> a = b"
  by (cases a; cases b) simp_all

lemma decimal_inj: "decimal m = decimal n \<Longrightarrow> m = n"
  by (metis decimal_value)

end
