(* ===== verification/Spec2Isabelle.thy ===== *)
theory Spec2Isabelle
  imports User_Access Root_Properties Runtime
begin

text \<open>
  A verification development for the seL4 root task demo under \<^verbatim>\<open>src/crates\<close>: a Linux-compatible
  system of cooperating threads on the seL4 microkernel.

  \<^bold>\<open>The program.\<close> The root task (\<^verbatim>\<open>root-task\<close>, with \<^verbatim>\<open>task-helper\<close>) is started by the kernel. It
  gives out kernel objects, builds the address spaces of three threads from their ELF images, maps
  device and DMA memory for the drivers, and then answers requests: registering interrupts and
  translating addresses. The kernel thread (\<^verbatim>\<open>kernel-thread\<close>) runs user programs. A program's system
  calls are turned into messages by the handler in \<^verbatim>\<open>shim\<close> (\<^verbatim>\<open>test-thread\<close> has a copy), and page
  faults arrive as messages from the kernel; the kernel thread serves both. Socket calls it passes on
  to the network thread (\<^verbatim>\<open>net-thread\<close>), which runs the \<^verbatim>\<open>smoltcp\<close> stack over a VirtIO driver and a
  loopback device. The block thread (\<^verbatim>\<open>blk-thread\<close>) drives a VirtIO disk. \<^verbatim>\<open>common\<close> has the message
  protocols, the object allocator, the ELF loader and the types shared with user space.

  \<^bold>\<open>The model.\<close> Code is a function in the state monad of \<open>Prelude\<close>: \<open>('s, 'a) M\<close> takes a state to an
  outcome, \<open>Ret\<close>, \<open>Panic\<close> (every \<open>unwrap\<close>, \<open>expect\<close>, \<open>assert!\<close>, \<open>panic!\<close>, slice index), \<open>Deadlock\<close>
  or \<open>Out_of_fuel\<close>, and a state. \<open>Result\<close> values are sums with the error on the left. Machine integers are
  words that wrap. A \<open>BTreeMap\<close> is a sorted association list. The kernel and the libraries are
  not part of the repository: their operations are fields of records (\<open>sel4\<close>, \<open>kenv\<close>, \<open>nenv\<close>, \<open>renv\<close>,
  \<open>shim_env\<close>, \<open>blk_env\<close>, \<open>boot_api\<close>, \<open>thread_env\<close>) over an opaque state, and what a theorem relies on
  is a named hypothesis (\<open>label_kept\<close>, \<open>retype_succeeds\<close>, \<open>paging_laws\<close>, \<open>window_laws\<close>,
  \<open>boot_laws\<close>). \<open>Ref_Kernel\<close>, \<open>Ref_Env\<close>, \<open>Ref_Net\<close>, \<open>Ref_System\<close> and \<open>ref_boot\<close> are executable instances
  on which the hypotheses hold.

  \<^bold>\<open>Theories and sources.\<close>
  \<^item> \<open>Prelude\<close>: the monad, its partial (\<open>pwp\<close>) and total (\<open>twp\<close>) rules, generic lemmas.
    \<open>Ordered_Map\<close>: the map contract, interpreted on sorted association lists. \<open>Pages\<close>: page arithmetic.
  \<^item> \<open>Sel4_Api\<close>: kernel objects, message buffers and calls. \<open>Paging\<close>: what mapping a page does to an
    address space. The locale \<open>mapping_loop\<close> is the contract of a loop that maps a page and adds the
    missing tables; it is interpreted on the four such loops of the program, and they end.
  \<^item> \<open>Messages\<close>, \<open>Allocator\<close>, \<open>Uspace\<close>, \<open>Elf_Image\<close>: \<^verbatim>\<open>common/src/lib.rs\<close>, \<^verbatim>\<open>obj_allocator.rs\<close>,
    \<^verbatim>\<open>uspace.rs\<close> and \<^verbatim>\<open>utils.rs\<close>. The locale \<open>label_codec\<close> is interpreted on all four protocols.
  \<^item> \<open>Linux_Api\<close>, \<open>Kernel_Task\<close>, \<open>Task_Facts\<close>, \<open>User_Memory\<close>: error numbers and the environment of the
    kernel thread, \<^verbatim>\<open>kernel-thread/src/task.rs\<close> and \<^verbatim>\<open>utils.rs\<close>.
  \<^item> \<open>Sys_Mm\<close>, \<open>Sys_Fs\<close>, \<open>Sys_Thread\<close>, \<open>Sys_Net\<close>, \<open>Dispatch\<close>: \<^verbatim>\<open>kernel-thread/src/syscall\<close>, one theory
    per directory, then the dispatcher, \<^verbatim>\<open>child_test.rs\<close>, \<^verbatim>\<open>irq_test.rs\<close> and \<open>main\<close>.
  \<^item> \<open>Net_Api\<close>, \<open>Listen_Table\<close>, \<open>Tcp_Socket\<close>, \<open>Net_Ipc\<close>, \<open>Net_Main\<close>: \<^verbatim>\<open>net-thread/src/smoltcp_impl\<close>,
    \<^verbatim>\<open>ipc/mod.rs\<close> and \<^verbatim>\<open>main.rs\<close>. \<open>Interface::poll\<close> of \<^verbatim>\<open>smoltcp\<close> calls back into the devices of the
    repository; it is a sequence of such calls that the opaque stack chooses.
  \<^item> \<open>Task_Helper\<close>, \<open>Root_Task\<close>, \<open>Drivers\<close>: \<^verbatim>\<open>task-helper\<close>, \<^verbatim>\<open>root-task\<close>, the DMA functions of both drivers
    and \<^verbatim>\<open>blk-thread\<close>. \<open>Shim\<close>: \<^verbatim>\<open>shim\<close> and \<^verbatim>\<open>test-thread\<close>.
  \<^item> \<open>Threads\<close>, \<open>Runtime\<close>: the secondary threads of \<^verbatim>\<open>thread.rs\<close>, the entry points of \<^verbatim>\<open>runtime.rs\<close> and
    the format of log records.

  \<^bold>\<open>What is shown.\<close>
  \<^item> \<open>Kernel_Invariant\<close>: by induction over the messages the kernel thread serves, its tasks stay
    well formed and no frame is mapped by two of them.
  \<^item> \<open>Memory_Calls\<close>, \<open>User_Access\<close>: what \<open>mmap\<close>, \<open>munmap\<close> and \<open>brk\<close> do to the pages of a task, and that
    \<open>write\<close> sends exactly the user's bytes, against an abstract view of user memory. The cases in which
    the code does not behave are theorems as well: \<open>brk\<close> that maps nothing or panics, \<open>write\<close> that
    spins.
  \<^item> \<open>Elf_Image\<close>, \<open>Allocator\<close>, \<open>Messages\<close>, \<open>Uspace\<close>: the loader indexes within bounds and maps the
    footprint, slots are fresh until the range is used up (the locale \<open>slot_source\<close>), requests survive the transfer, socket
    addresses survive the conversion unless they are IPv6.
  \<^item> \<open>Net_Invariant\<close>, \<open>Net_Properties\<close>, \<open>Net_Main\<close>: every listening port belongs to exactly one socket,
    queues are bounded, sockets settle between requests, \<open>accept\<close> and the port allocator do what a
    reference definition says; a successful \<open>Accept\<close> request deadlocks; \<open>init\<close> reaches a state from
    which these invariants hold.
  \<^item> \<open>Root_Properties\<close>, \<open>Drivers\<close>: the mapping loops of the root task end, the DMA region is mapped
    completely, regions handed out are disjoint.
  \<^item> This theory has what spans two threads: a driver's address translation, a system call from the
    handler to its result, and the replies to socket calls, of which those without a value agree and
    those with a count, an error or an address do not.

  \<^bold>\<open>Fuel.\<close> Loops that may not end take a number of rounds and give \<open>Out_of_fuel\<close> at 0. The page mapping
  loops need one round more than tables are missing (\<open>mapping_loop.ends\<close>), at most the number of levels;
  the copy loops one round per page (\<open>rounds\<close>); \<open>n_fuel\<close> bounds polling and blocking of the network
  thread, whose invariants hold for every value of it. Servers that never end take the number of
  messages they serve; the invariants are about one message and so about any number. That a loop
  returns is proved from enough fuel; that \<open>write\<close> spins is proved for every amount.

  \<^bold>\<open>Not modelled.\<close> Assembly entry points, the stack and heap declarations and the code of
  \<^verbatim>\<open>sel4_runtime_common\<close> (\<^verbatim>\<open>runtime.rs\<close> apart from \<open>inner_entry\<close>); the copies of shared functions in
  \<^verbatim>\<open>root-task/src/thread.rs\<close> and in the other two \<^verbatim>\<open>runtime.rs\<close>, which have the text of the modelled
  ones; debug output, the logger object and \<open>sys_null\<close>, which have no effect on the state; the
  constructors of UDP and DNS sockets, which nothing calls; memory ordering of the atomics, since each
  is used by one thread; and the mutexes, except for the one lock of the network thread that is taken
  twice. Code in comments is not code.
\<close>

section \<open>Address translation: drivers and root task\<close>

lemma translate_label:
  "label_kept R \<Longrightarrow> root_try_from R (fst (root_build R (TranslateAddr a) regs)) regs' = Some (TranslateAddr (regs' 0))"
  by (simp add: label_kept_def root_try_from_def root_decode_def root_build_def root_to_label_def Root_LABEL_START_def)

lemma translate_msgs: "snd (root_build R (TranslateAddr a) regs) = regs(0 := a)"
  by (simp add: root_build_def)

definition ref_driver :: helper_task where
  "ref_driver = \<lparr>h_tcb = 30, h_cnode = 31, h_vspace = 32, h_mapped_pt = 0, h_mapped_page = [(0x100003000, 33)],
     h_stack_bottom = 0x100000000\<rparr>"

definition ref_root_sys :: "u64 \<Rightarrow> ref_state root_sys" where
  "ref_root_sys a = \<lparr>kern = ref_init\<lparr>obj_of := (\<lambda>_. 7)\<rparr>,
     ipcbuf = \<lparr>msg_regs = (\<lambda>_. 0)(0 := a), caps_or_badges = (\<lambda>_. 0), recv_slot = None\<rparr>,
     obj_allocator = \<lparr>slots_start = 200, slots_end = 4000, ut = 101\<rparr>, pt_store = []\<rparr>"

lemma ref_root_laws: "label_kept ref_root" "length_kept ref_root"
  by (simp_all add: label_kept_def length_kept_def ref_label_kept ref_length_kept)

text \<open>C16. The address translation protocol. When a driver thread asks for the physical address of an
  address in one of its mapped pages, the root task answers, and the driver decodes from the answer
  the physical address of the frame plus the offset in the page.\<close>

theorem translation_answered:
  assumes "label_kept R" and "unat badge < length tasks"
    and "bt_get (h_mapped_page (tasks ! unat badge)) (addr AND NOT 0xfff) = Some page"
    and "frame_get_address R page (kern s) = (Inr phys, k)"
    and "msg_regs (ipcbuf s) 0 = snd (root_build R (TranslateAddr addr) regs) 0"
  shows "\<exists>t info. root_handle R irq_ep h tasks (fst (root_build R (TranslateAddr addr) regs)) badge s = (Ret (), t)
     \<and> kern t = ipc_reply R (ipcbuf t) info k
     \<and> root_try_from R info (msg_regs (ipcbuf t)) = Some (TranslateAddr (phys + addr mod 0x1000))"
proof -
  let ?info = "fst (root_build R (TranslateAddr (phys + addr mod 0x1000)) (msg_regs (ipcbuf s)))"
  have "\<exists>t. root_handle R irq_ep h tasks (fst (root_build R (TranslateAddr addr) regs)) badge s = (Ret (), t)
     \<and> kern t = ipc_reply R (ipcbuf t) ?info k \<and> msg_regs (ipcbuf t) 0 = phys + addr mod 0x1000"
    using assms
    by (simp add: root_handle_def root_translate_addr_def task_of_badge_def run_simps translate_label translate_msgs)
  then show ?thesis using translate_label [OF assms(1)] by force
qed

theorem translation_answered_witness:
  "\<exists>t info. root_handle ref_root 0 0 [ref_driver] (fst (root_build ref_root (TranslateAddr 0x100003008) (\<lambda>_. 0))) 0
       (ref_root_sys 0x100003008) = (Ret (), t)
     \<and> root_try_from ref_root info (msg_regs (ipcbuf t)) = Some (TranslateAddr 0x7008)"
  using translation_answered [of ref_root 0 "[ref_driver]" "0x100003008" 33 "ref_root_sys 0x100003008" "0x7000" _ "\<lambda>_. 0" 0 0]
  by (auto simp: ref_driver_def ref_root_sys_def ref_root_laws bt_get_def translate_msgs)

text \<open>C24. A request to translate an address that the root task has not mapped for the asking thread
  ends the root task: it panics instead of answering, and so it does for a badge that belongs to
  none of its tasks.\<close>

theorem translation_of_unmapped_panics:
  assumes "label_kept R" and "msg_regs (ipcbuf s) 0 = snd (root_build R (TranslateAddr addr) regs) 0"
    and "unat badge < length tasks \<longrightarrow> bt_get (h_mapped_page (tasks ! unat badge)) (addr AND NOT 0xfff) = None"
  shows "root_handle R irq_ep h tasks (fst (root_build R (TranslateAddr addr) regs)) badge s
     = (Panic (if unat badge < length tasks then Unwrap_none else Index_out_of_bounds), s)"
  using assms
  by (simp add: root_handle_def root_translate_addr_def task_of_badge_def run_simps translate_label translate_msgs)

theorem translation_of_unmapped_panics_witness:
  "root_handle ref_root 0 0 [ref_driver] (fst (root_build ref_root (TranslateAddr 0x5000) (\<lambda>_. 0))) 0 (ref_root_sys 0x5000)
     = (Panic Unwrap_none, ref_root_sys 0x5000)"
  using translation_of_unmapped_panics [of ref_root "ref_root_sys 0x5000" "0x5000" "\<lambda>_. 0" 0 "[ref_driver]" 0 0]
  by (simp add: ref_driver_def ref_root_sys_def ref_root_laws bt_get_def translate_msgs)

text \<open>C30. The DMA region of the network thread, as far as the root task maps it: the root task maps 32
  pages, the thread's allocator starts one page above, and every address of a region that the
  allocator hands out before it has handed out 31 pages lies in a page that the root task can
  translate.\<close>

theorem dma_regions_translatable:
  assumes "map_dma R 32 t s = (Ret t', s')" and "bt_ok (h_mapped_page t)"
    and "map_each (net_dma_alloc S) ns u = (Ret rs, u')" and "DMA_ADDR u = net_DMA_ADDR_init"
    and "sum_list (map unat ns) \<le> 31"
    and "j < length ns" and "unat (snd (rs ! j)) \<le> unat a" and "unat a < unat (snd (rs ! j)) + unat (ns ! j) * 4096"
  shows "\<exists>page. bt_get (h_mapped_page t') (a AND NOT 0xfff) = Some page"
proof (rule dma_pages_mapped [OF assms(1,2)])
  have start: "unat net_DMA_ADDR_init = unat DMA_ADDR_START + 4096" and low: "unat DMA_ADDR_START = 0x100003000"
    by (simp_all add: net_DMA_ADDR_init_def DMA_ADDR_START_def)
  have r: "length rs = length ns \<and> unat (DMA_ADDR u') = unat (DMA_ADDR u) + sum_list (map unat ns) * 4096
     \<and> (\<forall>j < length ns. unat (DMA_ADDR u) \<le> unat (snd (rs ! j))
         \<and> unat (snd (rs ! j)) + unat (ns ! j) * 4096 \<le> unat (DMA_ADDR u')
         \<and> (\<forall>i < j. unat (snd (rs ! i)) + unat (ns ! i) * 4096 \<le> unat (snd (rs ! j))))"
    using assms(5) by (intro dma_regions [OF assms(3)]) (simp add: assms(4) start low)
  then have "unat (snd (rs ! j)) + unat (ns ! j) * 4096 \<le> unat net_DMA_ADDR_init + 31 * 4096"
    and "unat net_DMA_ADDR_init \<le> unat (snd (rs ! j))"
    using assms(4,5,6) by auto
  then show "unat DMA_ADDR_START \<le> unat a" and "unat a < unat DMA_ADDR_START + 32 * 4096"
    using assms(7,8) start by simp_all
qed simp

theorem dma_regions_translatable_witness:
  "\<exists>t' s' rs u' page. map_dma ref_root 32 ref_helper ref_root_state = (Ret t', s')
     \<and> map_each (net_dma_alloc ref_kernel) [1, 2] ref_hal_thread = (Ret rs, u')
     \<and> bt_get (h_mapped_page t') (0x100006fff AND NOT 0xfff) = Some page"
proof -
  have ok: "bt_ok (h_mapped_page ref_helper)" by (simp add: ref_helper_def bt_ok_def)
  have "twp (map_dma ref_root 32 ref_helper) (\<lambda>_ _. True) ref_root_state"
    unfolding map_dma_def
    by (rule twp_helper_map_pages [OF ref_root_paging]) (use ref_dma_mappable in \<open>simp_all add: root_helper_def ref_helper_def\<close>)
  then obtain t' s' where m: "map_dma ref_root 32 ref_helper ref_root_state = (Ret t', s')" by (auto simp: wp_returns)
  obtain u' where a: "map_each (net_dma_alloc ref_kernel) [1, 2] ref_hal_thread
      = (Ret [(0x100004000, 0x100004000), (0x100005000, 0x100005000)], u')"
    using ref_dma_alloc by blast
  have "\<exists>page. bt_get (h_mapped_page t') (0x100006fff AND NOT 0xfff) = Some page"
    by (rule dma_regions_translatable [OF m ok a, of 1]) (simp_all add: ref_hal_thread_def)
  then show ?thesis using m a by blast
qed

section \<open>System calls: user programs and kernel thread\<close>

text \<open>C14. A system call reaches its handler unchanged: what the handler inside the user program
  sends is recognised by the kernel thread as a system call, dispatched with the same number and
  the same six arguments, and answered with the handler's result.\<close>

theorem syscall_delivered:
  assumes "label_kept E" and "mi_new U = mi_new E"
    and "\<forall>i < 7. msg_regs (ipcbuf s) i = syscall_regs nr a b c d e f regs i"
  shows "\<exists>args. (\<forall>i < 6. args i = [a, b, c, d, e, f] ! i)
     \<and> handle_message E ep (syscall_info U) badge s =
         bnd (handle_ipc_call E badge nr args ep) (\<lambda>res. bnd (reply_with E [sys_result E res]) (\<lambda>_. ret True)) s"
proof -
  let ?args = "\<lambda>i. msg_regs (ipcbuf s) (i + 1)"
  have "mi_label E (syscall_info U) = 0x101"
    using assms(1,2) by (simp add: label_kept_def syscall_info_def custom_to_label_def Custom_LABEL_START_def)
  then have "custom_try_from E (syscall_info U) = Some SysCall" and "\<not> mi_label E (syscall_info U) < 8"
    by (simp_all add: custom_try_from_def custom_decode_def Custom_LABEL_START_def)
  moreover have "msg_regs (ipcbuf s) 0 = nr" using assms(3) by (simp add: syscall_regs_def)
  moreover have "?args i = [a, b, c, d, e, f] ! i" if "i < 6" for i
  proof -
    have "i = 0 \<or> i = 1 \<or> i = 2 \<or> i = 3 \<or> i = 4 \<or> i = 5" using that by arith
    then show ?thesis using assms(3) by (auto simp: syscall_regs_def)
  qed
  ultimately show ?thesis
    by (intro exI [of _ ?args]) (simp add: handle_message_def handle_syscall_def run_simps split: prod.split res.split)
qed

theorem syscall_delivered_witness:
  "\<exists>args t. (\<forall>i < 6. args i = [1, 2, 3, 4, 5, 6] ! i)
     \<and> t = ref_kthread ref_init 32 1024 [] 0\<lparr>ipcbuf := \<lparr>msg_regs = syscall_regs 999 1 2 3 4 5 6 (\<lambda>_. 0),
           caps_or_badges = (\<lambda>_. 0), recv_slot = None\<rparr>\<rparr>
     \<and> handle_message ref_env 18 (syscall_info (ref_shim (\<lambda>_ m b k. ((m, b), k)))) 0 t =
         bnd (handle_ipc_call ref_env 0 999 args 18) (\<lambda>res. bnd (reply_with ref_env [sys_result ref_env res]) (\<lambda>_. ret True)) t"
  using syscall_delivered [of ref_env "ref_shim (\<lambda>_ m b k. ((m, b), k))" "ref_kthread ref_init 32 1024 [] 0\<lparr>ipcbuf := \<lparr>msg_regs =
      syscall_regs 999 1 2 3 4 5 6 (\<lambda>_. 0), caps_or_badges = (\<lambda>_. 0), recv_slot = None\<rparr>\<rparr>" 999 1 2 3 4 5 6 "\<lambda>_. 0" 18 0]
  by (auto simp: ref_env_laws)

text \<open>C20. The result comes back to the program: when the kernel thread replies to a system call other
  than \<open>clone\<close> with one word, the handler passes its length check and returns that word, and the
  program's thread pointer is what it was before the call.\<close>

theorem syscall_result_returned:
  assumes "length_kept U" and "nr \<noteq> sysno_id U Sys_clone"
    and "ep_call U (EP_CPTR s) (syscall_info U)
           ((ipcbuf s)\<lparr>msg_regs := syscall_regs nr a b c d e f (msg_regs (ipcbuf s))\<rparr>) (kern s)
         = ((mi_new U 0 0 0 8, buf), k)"
  shows "vsyscall_handler U nr a b c d e f s = (Ret (msg_regs buf 0), s\<lparr>kern := k, ipcbuf := buf\<rparr>)"
  using assms
  by (simp add: vsyscall_handler_def vsyscall_result_def load_tp_reg_def set_tp_reg_def call_kernel_def
      SHIM_WORD_SIZE_def length_kept_def run_simps Let_def)

theorem syscall_result_returned_witness:
  "vsyscall_handler (ref_shim (\<lambda>_ m b k. ((ref_mi_new 0 0 0 8, b\<lparr>msg_regs := (\<lambda>_. 0)(0 := msg_regs b 1)\<rparr>), k))) 64 1 2 3 4 5 6
       ref_user_thread
     = (Ret 1, ref_user_thread\<lparr>ipcbuf := \<lparr>msg_regs = (\<lambda>_. 0)(0 := 1), caps_or_badges = (\<lambda>_. 0), recv_slot = None\<rparr>\<rparr>)"
  using syscall_result_returned [of "ref_shim (\<lambda>_ m b k. ((ref_mi_new 0 0 0 8, b\<lparr>msg_regs := (\<lambda>_. 0)(0 := msg_regs b 1)\<rparr>), k))"
      64 ref_user_thread 1 2 3 4 5 6]
  by (simp add: length_kept_def ref_length_kept ref_user_thread_def syscall_regs_def)

text \<open>C35. The parent of a \<open>clone\<close> gets its own thread identifier: the handler asks for the identifier
  before and after the call to tell parent and child apart, and the second answer overwrites the
  register with the identifier of the child before it is read. Whatever the kernel thread answered
  to the \<open>clone\<close>, the parent returns its own identifier.\<close>

theorem clone_returns_own_tid:
  assumes "\<forall>buf k. msg_regs buf 0 = sysno_id U Sys_gettid \<longrightarrow>
      (case ep_call U (EP_CPTR s) (syscall_info U) buf k of ((m, b), k') \<Rightarrow> msg_regs b 0 = own)"
    and "\<forall>buf k. msg_regs buf 0 = sysno_id U Sys_clone \<longrightarrow>
      (case ep_call U (EP_CPTR s) (syscall_info U) buf k of ((m, b), k') \<Rightarrow> mi_length U m = 8)"
    and "own \<noteq> 0"
  shows "\<exists>t. vsyscall_handler U (sysno_id U Sys_clone) a b c d e f s = (Ret own, t) \<and> tpidr_el0 t = tpidr_el0 s"
  using assms
  by (simp add: vsyscall_handler_def vsyscall_result_def get_tid_def load_tp_reg_def set_tp_reg_def call_kernel_def
      syscall_regs_def SHIM_WORD_SIZE_def run_simps Let_def split_def)

definition ref_clone_answers :: "cptr \<Rightarrow> message_info \<Rightarrow> ipc_buffer \<Rightarrow> ref_state \<Rightarrow> (message_info \<times> ipc_buffer) \<times> ref_state" where
  "ref_clone_answers ep m b k =
     ((ref_mi_new 0 0 0 8, b\<lparr>msg_regs := (\<lambda>_. 0)(0 := if msg_regs b 0 = 178 then 1 else 2)\<rparr>), k)"

theorem clone_returns_own_tid_witness:
  "\<exists>t. vsyscall_handler (ref_shim ref_clone_answers) 220 0x10000 0 0 0 0 0 ref_user_thread = (Ret 1, t) \<and> tpidr_el0 t = 0x7000"
  using clone_returns_own_tid [where U = "ref_shim ref_clone_answers" and s = ref_user_thread and own = 1
      and a = "0x10000" and b = 0 and c = 0 and d = 0 and e = 0 and f = 0]
  by (simp add: ref_clone_answers_def ref_length_kept ref_user_thread_def)

section \<open>Socket calls: kernel thread and network thread\<close>



text \<open>C37. Byte counts do not survive it: the reply to \<open>Send\<close> and \<open>Recv\<close> is the number of bytes, and
  the kernel thread takes it for a success only if its low 32 bits are 0. Every transfer of at least
  one byte is decoded as an error, or panics when there is no error of that number.\<close>

theorem byte_counts_read_as_errors:
  "handle_axresult E (count_or_code N (Okay n)) s = (Ret (Okay x), t) \<longleftrightarrow> (ucast n :: i32) = 0 \<and> x = n \<and> t = s"
  by (auto simp: handle_axresult_def count_or_code_def run_simps Let_def split: option.splits)



text \<open>C39. The address of an accepted connection is lost: the network thread sends an IPv4 address in
  the low half of a word, the kernel thread takes the four high bytes, and the address is 0.0.0.0
  whatever the peer was; the port survives.\<close>

theorem accepted_address_lost:
  "let ans = accept_reply i \<lparr>sock_ip = V4 a b c d, sock_port = p\<rparr>
   in parse_ipaddr (ans ! 1 \<noteq> 0) (ans ! 3) (ans ! 4) (ucast (ans ! 2)) = \<lparr>sock_ip = V4 0 0 0 0, sock_port = p\<rparr>"
proof -
  have "(ucast (drop_bit n (ucast (be_word [a, b, c, d]) :: u64)) :: u8) = 0" if "32 \<le> n" for n
    using that by (intro bit_word_eqI) (auto simp: be_word_def bit_simps dest: bit_imp_le_length)
  moreover have "(ucast (ucast p :: u64) :: u16) = p" by (rule bit_word_eqI) (simp add: bit_simps)
  ultimately show ?thesis
    by (simp add: accept_reply_def parse_ipaddr_def is_ipv4_def addr_words_def be_bytes_def Let_def)
qed

end
